(* ===== verification/Tracker_Prelude.thy ===== *)
theory Tracker_Prelude
  imports Main "HOL-Library.Word" "HOL-Library.List_Lexorder"
begin

text \<open>
  Shared vocabulary of the development: the machine integer types of the Rust sources, the
  standard library's \<open>Duration\<close> and \<open>BTreeMap\<close>, and the generic lemmas the component theories
  build on.

  \<^item> Unsigned and signed machine integers are words of their width; arithmetic wraps, which is
    what the release profile of the repository's \<open>Cargo.toml\<close> does (it sets no
    \<open>overflow-checks\<close>). Signed values are read with \<^const>\<open>sint\<close>.
  \<^item> A \<open>usize\<close> that counts elements of a collection in memory is a \<^typ>\<open>nat\<close>.
  \<^item> \<open>Result<T, E>\<close> is the sum type with the error on the left.
  \<^item> \<open>Duration\<close> is its number of nanoseconds, at most \<open>u64::MAX\<close> seconds and
    999999999 nanoseconds.
  \<^item> \<open>BTreeMap\<close> is the list of its entries in key order, which is what iteration yields.
\<close>

section \<open>Named collections of rewrite rules\<close>

named_theorems tracker_simps \<open>unfolding rules of the operations of a component\<close>
named_theorems tracker_inv \<open>an operation keeps an invariant\<close>

section \<open>Machine integers and results\<close>

type_synonym u8 = "8 word"
type_synonym u16 = "16 word"
type_synonym u32 = "32 word"
type_synonym u64 = "64 word"
type_synonym u128 = "128 word"
type_synonym i32 = "32 word"
type_synonym i64 = "64 word"
type_synonym usize = nat

type_synonym ('e, 'a) result = "'e + 'a"

text \<open>\<open>char as u8\<close> of an ASCII literal, and \<open>str::as_bytes\<close> of an ASCII string.\<close>

definition byte_of :: "char \<Rightarrow> u8" where
  "byte_of c = of_char c"

definition as_bytes :: "string \<Rightarrow> u8 list" where
  "as_bytes s = map byte_of s"

section \<open>Decimal numbers\<close>

text \<open>\<open>ToString\<close> of an unsigned number, and the number a text of digits denotes.\<close>

definition digit_char :: "nat \<Rightarrow> char" where
  "digit_char d = char_of (48 + d)"

definition is_digit :: "char \<Rightarrow> bool" where
  "is_digit c = (48 \<le> (of_char c :: nat) \<and> (of_char c :: nat) \<le> 57)"

definition digit_value :: "char \<Rightarrow> nat" where
  "digit_value c = of_char c - 48"

fun nat_to_string :: "nat \<Rightarrow> string" where
  "nat_to_string n =
     (if n < 10 then [digit_char n] else nat_to_string (n div 10) @ [digit_char (n mod 10)])"

declare nat_to_string.simps [simp del]

definition digits_value :: "string \<Rightarrow> nat" where
  "digits_value s = foldl (\<lambda>n c. 10 * n + digit_value c) 0 s"

lemma digit_char_digit [simp]: "d < 10 \<Longrightarrow> is_digit (digit_char d)" "d < 10 \<Longrightarrow> digit_value (digit_char d) = d"
  by (simp_all add: is_digit_def digit_value_def digit_char_def)

lemma nat_to_string_digits: "list_all is_digit (nat_to_string n)"
  by (induction n rule: nat_to_string.induct) (subst nat_to_string.simps, simp)

lemma nat_to_string_not_Nil [simp]: "nat_to_string n \<noteq> []"
  by (subst nat_to_string.simps) simp

lemma digits_value_nat_to_string [simp]: "digits_value (nat_to_string n) = n"
  unfolding digits_value_def
  by (induction n rule: nat_to_string.induct) (subst nat_to_string.simps, simp)

lemma nat_to_string_inject [simp]: "nat_to_string m = nat_to_string n \<longleftrightarrow> m = n"
  by (metis digits_value_nat_to_string)

section \<open>Duration\<close>

type_synonym Duration = nat

definition NANOS_PER_SEC :: nat where
  "NANOS_PER_SEC = 1000000000"

definition DURATION_MAX :: Duration where
  "DURATION_MAX = 18446744073709551615 * NANOS_PER_SEC + 999999999"

definition duration_new :: "u64 \<Rightarrow> u32 \<Rightarrow> Duration" where
  "duration_new secs nanos = unat secs * NANOS_PER_SEC + unat nanos"

definition from_secs :: "u64 \<Rightarrow> Duration" where
  "from_secs s = unat s * NANOS_PER_SEC"

definition as_secs :: "Duration \<Rightarrow> u64" where
  "as_secs d = of_nat (d div NANOS_PER_SEC)"

definition subsec_nanos :: "Duration \<Rightarrow> u32" where
  "subsec_nanos d = of_nat (d mod NANOS_PER_SEC)"

definition duration_checked_add :: "Duration \<Rightarrow> Duration \<Rightarrow> Duration option" where
  "duration_checked_add a b = (if a + b \<le> DURATION_MAX then Some (a + b) else None)"

definition duration_checked_sub :: "Duration \<Rightarrow> Duration \<Rightarrow> Duration option" where
  "duration_checked_sub a b = (if b \<le> a then Some (a - b) else None)"

lemma duration_max_secs: "d \<le> DURATION_MAX \<Longrightarrow> d div NANOS_PER_SEC < 2 ^ 64"
  by (simp add: DURATION_MAX_def NANOS_PER_SEC_def)

lemma from_secs_le_max [simp]: "from_secs s \<le> DURATION_MAX"
proof -
  have "unat s < 2 ^ LENGTH(64)"
    by (rule unsigned_less)
  then have "unat s \<le> 18446744073709551615"
    by simp
  then show ?thesis
    by (simp add: from_secs_def DURATION_MAX_def NANOS_PER_SEC_def)
qed

lemma as_secs_from_secs [simp]: "as_secs (from_secs s) = s"
  by (simp add: as_secs_def from_secs_def NANOS_PER_SEC_def)

lemma from_secs_as_secs:
  "d \<le> DURATION_MAX \<Longrightarrow> from_secs (as_secs d) = d - d mod NANOS_PER_SEC"
  using duration_max_secs [of d]
  by (simp add: from_secs_def as_secs_def unat_of_nat minus_mod_eq_div_mult)

lemma unat_as_secs: "d \<le> DURATION_MAX \<Longrightarrow> unat (as_secs d) = d div NANOS_PER_SEC"
  using duration_max_secs [of d] by (simp add: as_secs_def unat_of_nat)

section \<open>Network addresses\<close>

text \<open>
  \<open>std::net\<close>: an address is its number in network order; \<open>SocketAddr::new\<close> leaves the IPv6 flow
  information and scope identifier at zero, so a socket address is an address and a port.
\<close>

datatype IpAddr = V4 u32 | V6 u128

datatype SocketAddr = SocketAddr (sa_ip: IpAddr) (sa_port: u16)

definition ipv4 :: "u8 \<Rightarrow> u8 \<Rightarrow> u8 \<Rightarrow> u8 \<Rightarrow> IpAddr" where
  "ipv4 a b c d = V4 (word_rcat [a, b, c, d])"

fun is_loopback :: "IpAddr \<Rightarrow> bool" where
  "is_loopback (V4 a) = (drop_bit 24 a = 127)"
| "is_loopback (V6 a) = (a = 1)"

fun is_ipv4 :: "IpAddr \<Rightarrow> bool" where
  "is_ipv4 (V4 a) = True"
| "is_ipv4 (V6 a) = False"

text \<open>A match on the version of an address.\<close>

definition per_version :: "IpAddr \<Rightarrow> 'a \<Rightarrow> 'a \<Rightarrow> 'a" where
  "per_version ip v4 v6 = (case ip of V4 _ \<Rightarrow> v4 | V6 _ \<Rightarrow> v6)"

section \<open>BTreeMap\<close>

type_synonym ('k, 'v) btree_map = "('k \<times> 'v) list"

definition bt_inv :: "('k::linorder, 'v) btree_map \<Rightarrow> bool" where
  "bt_inv m = sorted_wrt (<) (map fst m)"

definition bt_empty :: "('k, 'v) btree_map" where
  "bt_empty = []"

definition bt_get :: "('k, 'v) btree_map \<Rightarrow> 'k \<Rightarrow> 'v option" where
  "bt_get m k = map_of m k"

definition bt_contains_key :: "('k, 'v) btree_map \<Rightarrow> 'k \<Rightarrow> bool" where
  "bt_contains_key m k = (bt_get m k \<noteq> None)"

fun bt_put :: "'k::linorder \<Rightarrow> 'v \<Rightarrow> ('k, 'v) btree_map \<Rightarrow> ('k, 'v) btree_map" where
  "bt_put k v [] = [(k, v)]"
| "bt_put k v (e # m) =
     (if fst e < k then e # bt_put k v m
      else (k, v) # (if fst e = k then m else e # m))"

text \<open>\<open>BTreeMap::insert\<close> returns the value it replaces, \<open>BTreeMap::remove\<close> the one it removes.\<close>

definition bt_insert ::
  "'k::linorder \<Rightarrow> 'v \<Rightarrow> ('k, 'v) btree_map \<Rightarrow> 'v option \<times> ('k, 'v) btree_map" where
  "bt_insert k v m = (bt_get m k, bt_put k v m)"

text \<open>\<open>entry(k).or_insert(v)\<close>: the value now stored under the key.\<close>

definition bt_entry_or_insert ::
  "'k::linorder \<Rightarrow> 'v \<Rightarrow> ('k, 'v) btree_map \<Rightarrow> 'v \<times> ('k, 'v) btree_map" where
  "bt_entry_or_insert k v m =
     (case bt_get m k of Some x \<Rightarrow> (x, m) | None \<Rightarrow> (v, bt_put k v m))"

definition bt_retain :: "('k \<Rightarrow> 'v \<Rightarrow> bool) \<Rightarrow> ('k, 'v) btree_map \<Rightarrow> ('k, 'v) btree_map" where
  "bt_retain P m = filter (\<lambda>(k, v). P k v) m"

definition bt_del :: "'k \<Rightarrow> ('k, 'v) btree_map \<Rightarrow> ('k, 'v) btree_map" where
  "bt_del k m = filter (\<lambda>e. fst e \<noteq> k) m"

definition bt_remove :: "'k \<Rightarrow> ('k, 'v) btree_map \<Rightarrow> 'v option \<times> ('k, 'v) btree_map" where
  "bt_remove k m = (bt_get m k, bt_del k m)"

definition bt_map_values :: "('v \<Rightarrow> 'w) \<Rightarrow> ('k, 'v) btree_map \<Rightarrow> ('k, 'w) btree_map" where
  "bt_map_values f m = map (\<lambda>(k, v). (k, f v)) m"

definition bt_values :: "('k, 'v) btree_map \<Rightarrow> 'v list" where
  "bt_values m = map snd m"

definition bt_keys :: "('k, 'v) btree_map \<Rightarrow> 'k list" where
  "bt_keys m = map fst m"

subsection \<open>Laws of the model\<close>

lemma bt_inv_empty [simp]: "bt_inv bt_empty"
  by (simp add: bt_inv_def bt_empty_def)

lemma bt_inv_Nil [simp]: "bt_inv []"
  by (simp add: bt_inv_def)

lemma bt_inv_Cons:
  "bt_inv (e # m) \<longleftrightarrow> bt_inv m \<and> (\<forall>x \<in> fst ` set m. fst e < x)"
  by (auto simp: bt_inv_def)

lemma bt_inv_distinct: "bt_inv m \<Longrightarrow> distinct (map fst m)"
  by (simp add: bt_inv_def strict_sorted_iff)

lemma bt_get_empty [simp]: "bt_get bt_empty = (\<lambda>k. None)"
  by (simp add: bt_get_def bt_empty_def fun_eq_iff)

lemma set_bt_put_keys: "fst ` set (bt_put k v m) = insert k (fst ` set m)"
  by (induction m) auto

lemma bt_inv_put [tracker_inv]: "bt_inv m \<Longrightarrow> bt_inv (bt_put k v m)"
  by (induction m) (auto simp: bt_inv_Cons set_bt_put_keys)

lemma bt_get_put: "bt_inv m \<Longrightarrow> bt_get (bt_put k v m) = (bt_get m)(k \<mapsto> v)"
  by (induction m) (auto simp: bt_get_def bt_inv_Cons fun_eq_iff)

lemma bt_inv_filter: "bt_inv m \<Longrightarrow> bt_inv (filter P m)"
  by (induction m) (auto simp: bt_inv_Cons)

lemma bt_inv_del [tracker_inv]: "bt_inv m \<Longrightarrow> bt_inv (bt_del k m)"
  by (simp add: bt_del_def bt_inv_filter)

lemma bt_inv_retain [tracker_inv]: "bt_inv m \<Longrightarrow> bt_inv (bt_retain P m)"
  by (simp add: bt_retain_def bt_inv_filter)

lemma bt_get_del [simp]: "bt_get (bt_del k m) = (bt_get m)(k := None)"
  by (induction m) (auto simp: bt_get_def bt_del_def fun_eq_iff)

lemma bt_get_retain:
  "bt_inv m \<Longrightarrow>
   bt_get (bt_retain P m) k = (case bt_get m k of None \<Rightarrow> None | Some v \<Rightarrow> if P k v then Some v else None)"
  by (induction m)
     (auto simp: bt_get_def bt_retain_def bt_inv_Cons map_of_eq_None_iff split: option.splits)

lemma bt_inv_map_values [simp, tracker_inv]: "bt_inv (bt_map_values f m) = bt_inv m"
  by (simp add: bt_inv_def bt_map_values_def comp_def case_prod_unfold)

lemma bt_get_map_values [simp]: "bt_get (bt_map_values f m) k = map_option f (bt_get m k)"
  by (induction m) (auto simp: bt_get_def bt_map_values_def)

lemma bt_get_mem: "bt_inv m \<Longrightarrow> bt_get m k = Some v \<longleftrightarrow> (k, v) \<in> set m"
  by (simp add: bt_get_def bt_inv_distinct map_of_eq_Some_iff)

lemma bt_values_mem: "bt_inv m \<Longrightarrow> v \<in> set (bt_values m) \<longleftrightarrow> (\<exists>k. bt_get m k = Some v)"
  by (force simp: bt_values_def bt_get_mem)

lemma dom_bt_get: "dom (bt_get m) = fst ` set m"
  unfolding bt_get_def by (simp add: dom_map_of_conv_image_fst)

lemma finite_dom_bt_get [simp]: "finite (dom (bt_get m))"
  by (simp add: dom_bt_get)

text \<open>Collecting a list of entries: the last one of a key stays.\<close>

lemma bt_fold_put_rev:
  "bt_inv m \<Longrightarrow>
   bt_inv (fold (\<lambda>(k, v). bt_put k v) xs m) \<and>
   bt_get (fold (\<lambda>(k, v). bt_put k v) xs m) = bt_get m ++ map_of (rev xs)"
  by (induction xs arbitrary: m) (auto simp: bt_get_put bt_inv_put)

lemma map_of_rev_distinct: "distinct (map fst xs) \<Longrightarrow> map_of (rev xs) = map_of xs"
  by (simp add: map_of_inject_set rev_map [symmetric])

lemma bt_fold_put:
  "bt_inv m \<Longrightarrow> distinct (map fst xs) \<Longrightarrow>
   bt_inv (fold (\<lambda>(k, v). bt_put k v) xs m) \<and>
   bt_get (fold (\<lambda>(k, v). bt_put k v) xs m) = bt_get m ++ map_of xs"
  by (simp add: bt_fold_put_rev map_of_rev_distinct)

text \<open>An ordered map is determined by what its lookups return.\<close>

lemma bt_keys_sorted_list: "bt_inv m \<Longrightarrow> bt_keys m = sorted_list_of_set (dom (bt_get m))"
  using sorted_list_of_set.idem_if_sorted_distinct [of "map fst m"]
  by (simp add: bt_inv_def strict_sorted_iff bt_keys_def dom_bt_get)

lemma bt_entries_from_keys: "bt_inv m \<Longrightarrow> m = map (\<lambda>k. (k, the (bt_get m k))) (bt_keys m)"
proof (rule nth_equalityI)
  fix i assume inv: "bt_inv m" and i: "i < length m"
  then have "bt_get m (fst (m ! i)) = Some (snd (m ! i))"
    by (simp add: bt_get_mem)
  with i show "m ! i = map (\<lambda>k. (k, the (bt_get m k))) (bt_keys m) ! i"
    by (simp add: bt_keys_def prod_eq_iff)
qed (simp add: bt_keys_def)

lemma bt_ext: "bt_inv m \<Longrightarrow> bt_inv m' \<Longrightarrow> bt_get m = bt_get m' \<Longrightarrow> m = m'"
  by (metis bt_entries_from_keys bt_keys_sorted_list)

end
