(* ===== verification/Bencode.thy ===== *)
theory Bencode
  imports Tracker_Prelude "HOL-Library.Multiset"
begin

text \<open>
  The bencode library (\<open>contrib/bencode/src\<close>): encoding of values, and decoding with a limit on the
  nesting. The decoder works on positions in the input, as the code does; a panic of an index or of
  \<open>split_at\<close> is the outcome \<open>Panicked\<close>. Its loops take fuel, and running out of fuel is \<^const>\<open>None\<close>:
  the fuel that \<open>BencodeRef_decode\<close> gives always suffices.
\<close>

section \<open>Constants and errors (lib.rs, error.rs)\<close>

definition BEN_END :: u8 where
  "BEN_END = byte_of (CHR ''e'')"

definition DICT_START :: u8 where
  "DICT_START = byte_of (CHR ''d'')"

definition LIST_START :: u8 where
  "LIST_START = byte_of (CHR ''l'')"

definition INT_START :: u8 where
  "INT_START = byte_of (CHR ''i'')"

definition BYTE_LEN_LOW :: u8 where
  "BYTE_LEN_LOW = byte_of (CHR ''0'')"

definition BYTE_LEN_HIGH :: u8 where
  "BYTE_LEN_HIGH = byte_of (CHR ''9'')"

definition BYTE_LEN_END :: u8 where
  "BYTE_LEN_END = byte_of (CHR '':'')"

datatype BencodeParseError =
    BytesEmpty usize
  | InvalidByte usize
  | InvalidIntNoDelimiter usize
  | InvalidIntNegativeZero usize
  | InvalidIntZeroPadding usize
  | InvalidIntParseError usize
  | InvalidKeyOrdering usize "u8 list"
  | InvalidKeyDuplicates usize "u8 list"
  | InvalidLengthNegative usize
  | InvalidLengthOverflow usize
  | InvalidRecursionExceeded usize usize

datatype 'a outcome = Decoded 'a | Failed BencodeParseError | Panicked

section \<open>Values (bencode\_mut.rs, bencode\_ref.rs)\<close>

text \<open>The dictionaries are ordered maps; a decoded value also carries the bytes it was read from.\<close>

datatype BencodeMut =
    MutInt i64
  | MutBytes "u8 list"
  | MutList "BencodeMut list"
  | MutDict "(u8 list \<times> BencodeMut) list"

datatype BencodeRef =
    RefInt i64 "u8 list"
  | RefBytes "u8 list" "u8 list"
  | RefList "BencodeRef list" "u8 list"
  | RefDict "(u8 list \<times> BencodeRef) list" "u8 list"

fun ref_buffer :: "BencodeRef \<Rightarrow> u8 list" where
  "ref_buffer (RefInt _ buffer) = buffer"
| "ref_buffer (RefBytes _ buffer) = buffer"
| "ref_buffer (RefList _ buffer) = buffer"
| "ref_buffer (RefDict _ buffer) = buffer"

section \<open>Encoding (encode.rs)\<close>

definition i64_to_string :: "i64 \<Rightarrow> string" where
  "i64_to_string n = (if sint n < 0 then CHR ''-'' # nat_to_string (nat (- sint n)) else nat_to_string (nat (sint n)))"

definition encode_int :: "i64 \<Rightarrow> u8 list \<Rightarrow> u8 list" where
  "encode_int val bytes = bytes @ [INT_START] @ as_bytes (i64_to_string val) @ [BEN_END]"

definition encode_bytes :: "u8 list \<Rightarrow> u8 list \<Rightarrow> u8 list" where
  "encode_bytes xs bytes = bytes @ as_bytes (nat_to_string (length xs)) @ [BYTE_LEN_END] @ xs"

lemma size_list_sort_key: "size_list f (sort_key k xs) = size_list f xs"
proof -
  have "size_list f ys = sum_list (map f ys) + length ys" for ys
    by (induction ys) simp_all
  then show ?thesis
    by (simp flip: sum_mset_sum_list)
qed

function (sequential) encode :: "BencodeMut \<Rightarrow> u8 list \<Rightarrow> u8 list"
  and encode_items :: "BencodeMut list \<Rightarrow> u8 list \<Rightarrow> u8 list"
  and encode_entries :: "(u8 list \<times> BencodeMut) list \<Rightarrow> u8 list \<Rightarrow> u8 list" where
  "encode (MutInt n) bytes = encode_int n bytes"
| "encode (MutBytes xs) bytes = encode_bytes xs bytes"
| "encode (MutList xs) bytes = encode_items xs (bytes @ [LIST_START]) @ [BEN_END]"
| "encode (MutDict dict) bytes = encode_entries (sort_key fst dict) (bytes @ [DICT_START]) @ [BEN_END]"
| "encode_items [] bytes = bytes"
| "encode_items (x # xs) bytes = encode_items xs (encode x bytes)"
| "encode_entries [] bytes = bytes"
| "encode_entries ((key, val) # entries) bytes = encode_entries entries (encode val (encode_bytes key bytes))"
  by pat_completeness auto
termination
  by (relation "measure (\<lambda>x. case x of
        Inl (v, _) \<Rightarrow> size v
      | Inr (Inl (xs, _)) \<Rightarrow> size_list size xs
      | Inr (Inr (es, _)) \<Rightarrow> size_list (size_prod (\<lambda>_. 0) size) es)")
     (auto simp: size_list_sort_key)

definition BencodeMut_encode :: "BencodeMut \<Rightarrow> u8 list" where
  "BencodeMut_encode v = encode v []"

section \<open>Decoding options (decode\_opt.rs)\<close>

record BDecodeOpt =
  max_recursion :: usize
  check_key_sort :: bool
  enforce_full_decode :: bool

definition BDecodeOpt_default :: BDecodeOpt where
  "BDecodeOpt_default = \<lparr>max_recursion = 50, check_key_sort = False, enforce_full_decode = True\<rparr>"

section \<open>Decoding (decode.rs)\<close>

text \<open>
  \<open>str::parse::<i64>\<close> on the bytes of a text: an optional sign and at least one digit, in range. A
  byte that is not part of an ASCII text is no digit, so that the check for UTF-8 before it, which
  fails with the same error, needs no model.
\<close>

definition is_digit_byte :: "u8 \<Rightarrow> bool" where
  "is_digit_byte b = (BYTE_LEN_LOW \<le> b \<and> b \<le> BYTE_LEN_HIGH)"

definition parse_digits :: "u8 list \<Rightarrow> nat option" where
  "parse_digits ds =
     (if ds = [] \<or> \<not> list_all is_digit_byte ds then None
      else Some (foldl (\<lambda>n b. 10 * n + (unat b - 48)) 0 ds))"

definition parse_i64 :: "u8 list \<Rightarrow> i64 option" where
  "parse_i64 bs =
     (let up_to = (\<lambda>limit r. case r of Some n \<Rightarrow> if n \<le> limit then Some n else None | None \<Rightarrow> None)
      in if bs \<noteq> [] \<and> hd bs = byte_of (CHR ''-'')
         then map_option (\<lambda>n. - of_nat n) (up_to (2 ^ 63) (parse_digits (tl bs)))
         else if bs \<noteq> [] \<and> hd bs = byte_of (CHR ''+'')
         then map_option of_nat (up_to (2 ^ 63 - 1) (parse_digits (tl bs)))
         else map_option of_nat (up_to (2 ^ 63 - 1) (parse_digits bs)))"

definition peek_byte :: "u8 list \<Rightarrow> usize \<Rightarrow> (BencodeParseError, u8) result" where
  "peek_byte bytes pos = (if pos < length bytes then Inr (bytes ! pos) else Inl (BytesEmpty pos))"

definition decode_int :: "u8 list \<Rightarrow> usize \<Rightarrow> u8 \<Rightarrow> (i64 \<times> usize) outcome" where
  "decode_int bytes pos delim =
     (if length bytes < pos then Panicked
      else
        (let begin_decode = drop pos bytes;
             int_byte_slice = takeWhile (\<lambda>n. n \<noteq> delim) begin_decode
         in if delim \<notin> set begin_decode then Failed (InvalidIntNoDelimiter pos)
            else if 1 < length int_byte_slice \<and> int_byte_slice ! 0 = byte_of (CHR ''-'') \<and>
                    int_byte_slice ! 1 = byte_of (CHR ''0'')
              then Failed (InvalidIntNegativeZero pos)
            else if 1 < length int_byte_slice \<and> int_byte_slice ! 0 = byte_of (CHR ''0'')
              then Failed (InvalidIntZeroPadding pos)
            else
              (case parse_i64 int_byte_slice of
                 Some n \<Rightarrow> Decoded (n, pos + length int_byte_slice + 1)
               | None \<Rightarrow> Failed (InvalidIntParseError pos))))"

definition decode_bytes :: "u8 list \<Rightarrow> usize \<Rightarrow> (u8 list \<times> usize) outcome" where
  "decode_bytes bytes pos =
     (case decode_int bytes pos BYTE_LEN_END of
        Panicked \<Rightarrow> Panicked
      | Failed e \<Rightarrow> Failed e
      | Decoded (n, start_pos) \<Rightarrow>
          if sint n < 0 then Failed (InvalidLengthNegative pos)
          else if length bytes < start_pos then Panicked
          else
            (let num_bytes = nat (sint n)
             in if length (drop start_pos bytes) < num_bytes then Failed (InvalidLengthOverflow pos)
                else Decoded (take num_bytes (drop start_pos bytes), start_pos + num_bytes)))"

definition slice :: "u8 list \<Rightarrow> usize \<Rightarrow> usize \<Rightarrow> u8 list" where
  "slice bytes from to = take (to - from) (drop from bytes)"

text \<open>\<open>keys().last()\<close> of an ordered map.\<close>

definition last_key :: "(u8 list \<times> 'v) list \<Rightarrow> u8 list option" where
  "last_key m = (if m = [] then None else Some (fst (last m)))"

text \<open>The \<open>?\<close> operator: an error, a panic or missing fuel ends the caller as well.\<close>

fun and_then :: "'a outcome option \<Rightarrow> ('a \<Rightarrow> 'b outcome option) \<Rightarrow> 'b outcome option" where
  "and_then None f = None"
| "and_then (Some (Decoded x)) f = f x"
| "and_then (Some (Failed e)) f = Some (Failed e)"
| "and_then (Some Panicked) f = Some Panicked"

definition checked_peek :: "u8 list \<Rightarrow> usize \<Rightarrow> u8 outcome option" where
  "checked_peek bytes pos = Some (case peek_byte bytes pos of Inr b \<Rightarrow> Decoded b | Inl e \<Rightarrow> Failed e)"

fun decode ::
  "nat \<Rightarrow> u8 list \<Rightarrow> usize \<Rightarrow> BDecodeOpt \<Rightarrow> usize \<Rightarrow> (BencodeRef \<times> usize) outcome option"
  and decode_list_loop ::
  "nat \<Rightarrow> u8 list \<Rightarrow> BDecodeOpt \<Rightarrow> usize \<Rightarrow> BencodeRef list \<Rightarrow> usize \<Rightarrow> (BencodeRef list \<times> usize) outcome option"
  and decode_dict_loop ::
  "nat \<Rightarrow> u8 list \<Rightarrow> BDecodeOpt \<Rightarrow> usize \<Rightarrow> (u8 list \<times> BencodeRef) list \<Rightarrow> usize \<Rightarrow>
   ((u8 list \<times> BencodeRef) list \<times> usize) outcome option" where
  "decode 0 bytes pos opts depth = None"
| "decode (Suc fuel) bytes pos opts depth =
     (if max_recursion opts \<le> depth then Some (Failed (InvalidRecursionExceeded pos depth))
      else and_then (checked_peek bytes pos) (\<lambda>curr_byte.
        if curr_byte = INT_START
        then and_then (Some (decode_int bytes (pos + 1) BEN_END))
               (\<lambda>(n, next_pos). Some (Decoded (RefInt n (slice bytes pos next_pos), next_pos)))
        else if curr_byte = LIST_START
        then and_then (decode_list_loop fuel bytes opts depth [] (pos + 1))
               (\<lambda>(xs, next_pos). Some (Decoded (RefList xs (slice bytes pos next_pos), next_pos)))
        else if curr_byte = DICT_START
        then and_then (decode_dict_loop fuel bytes opts depth [] (pos + 1))
               (\<lambda>(es, next_pos). Some (Decoded (RefDict es (slice bytes pos next_pos), next_pos)))
        else if is_digit_byte curr_byte
        then and_then (Some (decode_bytes bytes pos))
               (\<lambda>(xs, next_pos). Some (Decoded (RefBytes xs (slice bytes pos next_pos), next_pos)))
        else Some (Failed (InvalidByte pos))))"
| "decode_list_loop 0 bytes opts depth bencode_list curr_pos = None"
| "decode_list_loop (Suc fuel) bytes opts depth bencode_list curr_pos =
     and_then (checked_peek bytes curr_pos) (\<lambda>curr_byte.
       if curr_byte = BEN_END then Some (Decoded (bencode_list, curr_pos + 1))
       else and_then (decode fuel bytes curr_pos opts (depth + 1)) (\<lambda>(bencode, next_pos).
         decode_list_loop fuel bytes opts depth (bencode_list @ [bencode]) next_pos))"
| "decode_dict_loop 0 bytes opts depth bencode_dict curr_pos = None"
| "decode_dict_loop (Suc fuel) bytes opts depth bencode_dict curr_pos =
     and_then (checked_peek bytes curr_pos) (\<lambda>curr_byte.
       if curr_byte = BEN_END then Some (Decoded (bencode_dict, curr_pos + 1))
       else and_then (Some (decode_bytes bytes curr_pos)) (\<lambda>(key_bytes, val_pos).
         if (case last_key bencode_dict of Some k \<Rightarrow> check_key_sort opts \<and> key_bytes < k | None \<Rightarrow> False)
         then Some (Failed (InvalidKeyOrdering curr_pos key_bytes))
         else and_then (decode fuel bytes val_pos opts (depth + 1)) (\<lambda>(val, next_pos).
           if bt_contains_key bencode_dict key_bytes
           then Some (Failed (InvalidKeyDuplicates val_pos key_bytes))
           else decode_dict_loop fuel bytes opts depth (bt_put key_bytes val bencode_dict) next_pos)))"

definition BencodeRef_decode :: "u8 list \<Rightarrow> BDecodeOpt \<Rightarrow> BencodeRef outcome option" where
  "BencodeRef_decode bytes opts =
     and_then (decode (2 * length bytes + 1) bytes 0 opts 0) (\<lambda>(bencode, end_pos).
       if end_pos \<noteq> length bytes \<and> enforce_full_decode opts then Some (Failed (BytesEmpty end_pos))
       else Some (Decoded bencode))"

end
