(* ===== verification/Bencode_Properties.thy ===== *)
theory Bencode_Properties
  imports Bencode
begin

text \<open>
  Decoding always returns and never panics.
\<close>

section \<open>The decoder returns\<close>

text \<open>An outcome that is no panic, and that moves forward within the input when it is a value.\<close>

definition advances :: "u8 list \<Rightarrow> usize \<Rightarrow> ('a \<times> usize) outcome \<Rightarrow> bool" where
  "advances bytes pos out =
     (case out of Decoded (_, next_pos) \<Rightarrow> pos < next_pos \<and> next_pos \<le> length bytes | Failed _ \<Rightarrow> True | Panicked \<Rightarrow> False)"

lemma advances_simps [simp]:
  "advances bytes pos (Decoded (x, n)) \<longleftrightarrow> pos < n \<and> n \<le> length bytes"
  "advances bytes pos (Failed e)" "\<not> advances bytes pos Panicked"
  by (simp_all add: advances_def)

lemma length_takeWhile_less: "x \<in> set xs \<Longrightarrow> \<not> P x \<Longrightarrow> length (takeWhile P xs) < length xs"
  by (induction xs) auto

lemma decode_int_advances: "pos \<le> length bytes \<Longrightarrow> advances bytes pos (decode_int bytes pos delim)"
proof -
  assume pos: "pos \<le> length bytes"
  define w where "w = takeWhile (\<lambda>n. n \<noteq> delim) (drop pos bytes)"
  have "length w < length bytes - pos" if "delim \<in> set (drop pos bytes)"
    unfolding w_def using length_takeWhile_less [OF that, of "\<lambda>n. n \<noteq> delim"] by simp
  then show ?thesis
    unfolding decode_int_def Let_def w_def [symmetric] using pos by (cases "parse_i64 w") auto
qed

lemma decode_bytes_advances: "pos \<le> length bytes \<Longrightarrow> advances bytes pos (decode_bytes bytes pos)"
  using decode_int_advances [of pos bytes BYTE_LEN_END]
  by (cases "decode_int bytes pos BYTE_LEN_END") (auto simp: decode_bytes_def Let_def)

text \<open>A computation that returns, without a panic and forward.\<close>

definition proceeds :: "u8 list \<Rightarrow> usize \<Rightarrow> ('a \<times> usize) outcome option \<Rightarrow> bool" where
  "proceeds bytes pos r = (\<exists>out. r = Some out \<and> advances bytes pos out)"

lemma proceeds_Some [simp]: "proceeds bytes pos (Some out) = advances bytes pos out"
  by (simp add: proceeds_def)

lemma proceeds_and_then:
  assumes "proceeds bytes pos' r" and "pos \<le> pos'"
    and "\<And>x n. r = Some (Decoded (x, n)) \<Longrightarrow> pos' < n \<Longrightarrow> n \<le> length bytes \<Longrightarrow> proceeds bytes pos (f (x, n))"
  shows "proceeds bytes pos (and_then r f)"
proof -
  obtain out where out: "r = Some out" "advances bytes pos' out"
    using assms(1) by (auto simp: proceeds_def)
  then show ?thesis
    using assms(2,3) by (cases out) auto
qed

lemma proceeds_weaken: "proceeds bytes pos' r \<Longrightarrow> pos \<le> pos' \<Longrightarrow> proceeds bytes pos r"
proof -
  assume "proceeds bytes pos' r" and le: "pos \<le> pos'"
  then obtain out where "r = Some out" "advances bytes pos' out"
    by (auto simp: proceeds_def)
  then show ?thesis
    using le by (cases out) auto
qed

lemma proceeds_value:
  "proceeds bytes pos' r \<Longrightarrow> pos \<le> pos' \<Longrightarrow>
   proceeds bytes pos (and_then r (\<lambda>(x, n). Some (Decoded (g x n, n))))"
  by (rule proceeds_and_then) simp_all

lemma proceeds_if:
  "(c \<Longrightarrow> proceeds bytes pos r) \<Longrightarrow> (\<not> c \<Longrightarrow> proceeds bytes pos r') \<Longrightarrow> proceeds bytes pos (if c then r else r')"
  by simp

lemma proceeds_peek:
  assumes "\<And>b. pos < length bytes \<Longrightarrow> b = bytes ! pos \<Longrightarrow> proceeds bytes pos (f b)"
  shows "proceeds bytes pos (and_then (checked_peek bytes pos) f)"
  using assms by (simp add: checked_peek_def peek_byte_def)

lemma decode_proceeds:
  "(\<forall>pos depth. pos \<le> length bytes \<longrightarrow> 2 * (length bytes - pos) + 1 \<le> fuel \<longrightarrow>
     proceeds bytes pos (decode fuel bytes pos opts depth)) \<and>
   (\<forall>pos depth acc. pos \<le> length bytes \<longrightarrow> 2 * (length bytes - pos) + 2 \<le> fuel \<longrightarrow>
     proceeds bytes pos (decode_list_loop fuel bytes opts depth acc pos)) \<and>
   (\<forall>pos depth acc. pos \<le> length bytes \<longrightarrow> 2 * (length bytes - pos) + 2 \<le> fuel \<longrightarrow>
     proceeds bytes pos (decode_dict_loop fuel bytes opts depth acc pos))"
  (is "?D fuel \<and> ?L fuel \<and> ?M fuel")
proof (induction fuel)
  case (Suc fuel)
  then have D: "?D fuel" and L: "?L fuel" and M: "?M fuel"
    by auto
  have "?D (Suc fuel)"
  proof (intro allI impI)
    fix pos depth
    assume pos: "pos \<le> length bytes" and fuel: "2 * (length bytes - pos) + 1 \<le> Suc fuel"
    have sub: "proceeds bytes (pos + 1) (Some (decode_int bytes (pos + 1) BEN_END))"
      "proceeds bytes (pos + 1) (decode_list_loop fuel bytes opts depth [] (pos + 1))"
      "proceeds bytes (pos + 1) (decode_dict_loop fuel bytes opts depth [] (pos + 1))"
      "proceeds bytes pos (Some (decode_bytes bytes pos))" if "pos < length bytes"
      using that fuel L M by (simp_all add: decode_int_advances decode_bytes_advances)
    have failed: "proceeds bytes pos (Some (Failed e))" for e :: BencodeParseError
      by simp
    show "proceeds bytes pos (decode (Suc fuel) bytes pos opts depth)"
      unfolding decode.simps
      by (intro proceeds_if proceeds_peek failed sub [THEN proceeds_value]) simp_all
  qed
  moreover have "?L (Suc fuel)"
  proof (intro allI impI)
    fix pos depth acc
    assume pos: "pos \<le> length bytes" and fuel: "2 * (length bytes - pos) + 2 \<le> Suc fuel"
    have sub: "proceeds bytes pos (decode fuel bytes pos opts (depth + 1))"
      using pos fuel D by simp
    have again: "proceeds bytes pos (decode_list_loop fuel bytes opts depth acc' n)"
      if "pos < n" "n \<le> length bytes" for n acc'
      using that fuel L by (auto intro: proceeds_weaken [of _ n])
    show "proceeds bytes pos (decode_list_loop (Suc fuel) bytes opts depth acc pos)"
      unfolding decode_list_loop.simps
    proof (intro proceeds_peek proceeds_if proceeds_and_then [OF sub])
      show "proceeds bytes pos (case (x, n) of (bencode, next_pos) \<Rightarrow>
          decode_list_loop fuel bytes opts depth (acc @ [bencode]) next_pos)"
        if "pos < n" "n \<le> length bytes" for x n
        using again that by simp
    qed simp_all
  qed
  moreover have "?M (Suc fuel)"
  proof (intro allI impI)
    fix pos depth acc
    assume pos: "pos \<le> length bytes" and fuel: "2 * (length bytes - pos) + 2 \<le> Suc fuel"
    have key: "proceeds bytes pos (Some (decode_bytes bytes pos))"
      using pos by (simp add: decode_bytes_advances)
    have sub: "proceeds bytes n (decode fuel bytes n opts (depth + 1))" if "pos < n" "n \<le> length bytes" for n
      using that fuel D by simp
    have again: "proceeds bytes pos (decode_dict_loop fuel bytes opts depth acc' n)"
      if "pos < n" "n \<le> length bytes" for n acc'
      using that fuel M by (auto intro: proceeds_weaken [of _ n])
    show "proceeds bytes pos (decode_dict_loop (Suc fuel) bytes opts depth acc pos)"
      unfolding decode_dict_loop.simps case_prod_unfold
    proof (intro proceeds_peek proceeds_if proceeds_and_then [OF key])
      fix k n
      assume n: "pos < n" "n \<le> length bytes"
      show "proceeds bytes pos (and_then (decode fuel bytes (snd (k, n)) opts (depth + 1)) (\<lambda>p.
          if bt_contains_key acc (fst (k, n)) then Some (Failed (InvalidKeyDuplicates (snd (k, n)) (fst (k, n))))
          else decode_dict_loop fuel bytes opts depth (bt_put (fst (k, n)) (fst p) acc) (snd p)))"
        using n by (intro proceeds_and_then [of _ n] proceeds_if) (use sub again in auto)
    qed simp_all
  qed
  ultimately show ?case by blast
qed simp


end
