(* ===== verification/Http_Query.thy ===== *)
theory Http_Query
  imports Tracker_Prelude "HOL-Library.AList"
begin

text \<open>
  The query component of a URL (\<open>packages/http-protocol/src/v1/query.rs\<close>). A Rust \<open>str\<close> is the list
  of its UTF-8 bytes as characters. The \<open>multimap\<close> crate is a parameter; the locale \<open>multimap\<close> says
  what its operations do.
\<close>

section \<open>Texts (std)\<close>

text \<open>
  The characters that \<open>char::is_whitespace\<close> accepts, encoded: the ASCII ones, and those of two and of
  three bytes.
\<close>

definition white_space :: "string list" where
  "white_space = map (map char_of)
     ([[9], [10], [11], [12], [13], [32], [194, 133], [194, 160], [225, 154, 128], [226, 128, 168], [226, 128, 169],
       [226, 128, 175], [226, 129, 159], [227, 128, 128]] @ map (\<lambda>n. [226, 128, n]) [128..<139 :: nat])"

lemma white_space_not_Nil: "w \<in> set white_space \<Longrightarrow> w \<noteq> []"
  by (auto simp: white_space_def)

function trim_start :: "string \<Rightarrow> string" where
  "trim_start s =
     (case find (\<lambda>w. take (length w) s = w) white_space of
        Some w \<Rightarrow> trim_start (drop (length w) s)
      | None \<Rightarrow> s)"
  by pat_completeness auto
termination
proof (relation "measure length")
  fix s w
  assume "find (\<lambda>w. take (length w) s = w) white_space = Some w"
  then have "w \<in> set white_space" and w: "take (length w) s = w"
    by (auto simp: find_Some_iff)
  then have "w \<noteq> []"
    using white_space_not_Nil by blast
  with w show "(drop (length w) s, s) \<in> measure length"
    by (cases s) auto
qed simp

declare trim_start.simps [simp del]

text \<open>From the other end the encodings are read backwards.\<close>

function trim_end :: "string \<Rightarrow> string" where
  "trim_end s =
     (case find (\<lambda>w. take (length w) (rev s) = rev w) white_space of
        Some w \<Rightarrow> trim_end (rev (drop (length w) (rev s)))
      | None \<Rightarrow> s)"
  by pat_completeness auto
termination
proof (relation "measure length")
  fix s w
  assume "find (\<lambda>w. take (length w) (rev s) = rev w) white_space = Some w"
  then have "w \<in> set white_space" and w: "take (length w) (rev s) = rev w"
    by (auto simp: find_Some_iff)
  then have "w \<noteq> []"
    using white_space_not_Nil by blast
  moreover have "length w \<le> length s"
    using arg_cong [OF w, of length] by auto
  ultimately show "(rev (drop (length w) (rev s)), s) \<in> measure length"
    by (cases w) auto
qed simp

declare trim_end.simps [simp del]

definition trim :: "string \<Rightarrow> string" where
  "trim s = trim_end (trim_start s)"

definition trim_start_matches :: "char \<Rightarrow> string \<Rightarrow> string" where
  "trim_start_matches c s = dropWhile (\<lambda>x. x = c) s"

fun split_on :: "char \<Rightarrow> string \<Rightarrow> string list" where
  "split_on c [] = [[]]"
| "split_on c (x # xs) =
     (if x = c then [] # split_on c xs else (x # hd (split_on c xs)) # tl (split_on c xs))"

fun join :: "string \<Rightarrow> string list \<Rightarrow> string" where
  "join sep [] = []"
| "join sep [s] = s"
| "join sep (s # s' # ss) = s @ sep @ join sep (s' # ss)"

section \<open>Parameters\<close>

record NameValuePair =
  nv_name :: string
  nv_value :: string

datatype ParseQueryError = InvalidQueryParam string

definition NameValuePair_new :: "string \<Rightarrow> string \<Rightarrow> NameValuePair" where
  "NameValuePair_new n v = \<lparr>nv_name = n, nv_value = v\<rparr>"

definition NameValuePair_from_str :: "string \<Rightarrow> (ParseQueryError, NameValuePair) result" where
  "NameValuePair_from_str raw_param =
     (let pair = split_on (CHR ''='') raw_param
      in if length pair \<noteq> 2 then Inl (InvalidQueryParam raw_param)
         else Inr \<lparr>nv_name = pair ! 0, nv_value = pair ! 1\<rparr>)"

definition NameValuePair_fmt :: "NameValuePair \<Rightarrow> string" where
  "NameValuePair_fmt p = nv_name p @ ''='' @ nv_value p"

definition FieldValuePairSet_fmt :: "NameValuePair list \<Rightarrow> string" where
  "FieldValuePairSet_fmt pairs = join ''&'' (map NameValuePair_fmt pairs)"

section \<open>The multimap of the parameters\<close>

record 'm multimap_api =
  mm_new :: 'm
  mm_insert :: "string \<Rightarrow> NameValuePair \<Rightarrow> 'm \<Rightarrow> 'm"
  mm_get :: "string \<Rightarrow> 'm \<Rightarrow> NameValuePair option"
  mm_get_vec :: "string \<Rightarrow> 'm \<Rightarrow> NameValuePair list option"
  mm_iter_all :: "'m \<Rightarrow> (string \<times> NameValuePair list) list"

text \<open>
  The documented behaviour: the values of a key are a vector in the order of the insertions, \<open>get\<close>
  returns the first one, and \<open>iter_all\<close> visits every key once, in an order of its own.
\<close>

locale multimap =
  fixes M :: "'m multimap_api" and contents :: "'m \<Rightarrow> string \<rightharpoonup> NameValuePair list"
  assumes new: "contents (mm_new M) = (\<lambda>_. None)"
    and insert: "contents (mm_insert M k v m) =
      (contents m)(k \<mapsto> (case contents m k of Some vs \<Rightarrow> vs @ [v] | None \<Rightarrow> [v]))"
    and get: "mm_get M k m = (case contents m k of Some (v # _) \<Rightarrow> Some v | _ \<Rightarrow> None)"
    and get_vec: "mm_get_vec M k m = contents m k"
    and iter_all: "distinct (map fst (mm_iter_all M m))" "map_of (mm_iter_all M m) = contents m"

section \<open>Queries\<close>

record 'm Query =
  query_params :: 'm

definition get_param :: "'m multimap_api \<Rightarrow> 'm Query \<Rightarrow> string \<Rightarrow> string option" where
  "get_param M q name = map_option nv_value (mm_get M name (query_params q))"

definition get_param_vec :: "'m multimap_api \<Rightarrow> 'm Query \<Rightarrow> string \<Rightarrow> string list option" where
  "get_param_vec M q name = map_option (map nv_value) (mm_get_vec M name (query_params q))"

fun insert_params :: "'m multimap_api \<Rightarrow> string list \<Rightarrow> 'm \<Rightarrow> (ParseQueryError, 'm) result" where
  "insert_params M [] m = Inr m"
| "insert_params M (raw_param # raw_params) m =
     (case NameValuePair_from_str raw_param of
        Inl e \<Rightarrow> Inl e
      | Inr pair \<Rightarrow> insert_params M raw_params (mm_insert M (nv_name pair) pair m))"

definition query_pieces :: "string \<Rightarrow> string list" where
  "query_pieces raw_query = split_on (CHR ''&'') (trim_start_matches (CHR ''?'') (trim raw_query))"

definition Query_from_str :: "'m multimap_api \<Rightarrow> string \<Rightarrow> (ParseQueryError, 'm Query) result" where
  "Query_from_str M raw_query =
     (case insert_params M (query_pieces raw_query) (mm_new M) of
        Inl e \<Rightarrow> Inl e
      | Inr m \<Rightarrow> Inr \<lparr>query_params = m\<rparr>)"

definition Query_from_vec :: "'m multimap_api \<Rightarrow> (string \<times> string) list \<Rightarrow> 'm Query" where
  "Query_from_vec M pairs =
     \<lparr>query_params = fold (\<lambda>p. mm_insert M (fst p) (NameValuePair_new (fst p) (snd p))) pairs (mm_new M)\<rparr>"

definition Query_fmt :: "'m multimap_api \<Rightarrow> 'm Query \<Rightarrow> string" where
  "Query_fmt M q = join ''&'' (map (\<lambda>param. FieldValuePairSet_fmt (snd param)) (mm_iter_all M (query_params q)))"

section \<open>Lemmas\<close>

lemma split_on_not_Nil [simp]: "split_on c s \<noteq> []"
  by (cases s) auto

lemma split_on_free: "p \<in> set (split_on c s) \<Longrightarrow> c \<notin> set p"
proof (induction s arbitrary: p)
  case (Cons x s)
  then show ?case
    using hd_in_set [OF split_on_not_Nil, of c s] list.set_sel(2) [OF split_on_not_Nil, of _ c s]
    by (auto split: if_splits)
qed simp

lemma split_on_single: "c \<notin> set s \<Longrightarrow> split_on c s = [s]"
  by (induction s) auto

lemma split_on_append: "c \<notin> set p \<Longrightarrow> split_on c (p @ c # s) = p # split_on c s"
  by (induction p) auto

lemma split_on_join:
  "ps \<noteq> [] \<Longrightarrow> \<forall>p \<in> set ps. c \<notin> set p \<Longrightarrow> split_on c (join [c] ps) = ps"
  by (induction "[c]" ps rule: join.induct) (simp_all add: split_on_single split_on_append)

lemma join_split_on: "join [c] (split_on c s) = s"
proof (induction s)
  case (Cons x s)
  obtain p ps where "split_on c s = p # ps"
    by (cases "split_on c s") auto
  with Cons show ?case
    by (cases ps) auto
qed simp

lemma join_append: "xs \<noteq> [] \<Longrightarrow> ys \<noteq> [] \<Longrightarrow> join sep (xs @ ys) = join sep xs @ sep @ join sep ys"
  by (induction sep xs rule: join.induct) (auto simp: neq_Nil_conv)

lemma join_concat: "\<forall>xs \<in> set xss. xs \<noteq> [] \<Longrightarrow> join sep (map (join sep) xss) = join sep (concat xss)"
proof (induction xss)
  case (Cons xs xss)
  then show ?case
    by (cases xss) (auto simp: join_append)
qed simp

lemma join_chars: "(\<And>s. s \<in> set ss \<Longrightarrow> set s \<subseteq> A) \<Longrightarrow> set sep \<subseteq> A \<Longrightarrow> set (join sep ss) \<subseteq> A"
  by (induction sep ss rule: join.induct) auto

lemma pair_from_str:
  "NameValuePair_from_str s = Inr p \<longleftrightarrow>
   s = NameValuePair_fmt p \<and> CHR ''='' \<notin> set (nv_name p) \<and> CHR ''='' \<notin> set (nv_value p)"
proof
  assume ok: "NameValuePair_from_str s = Inr p"
  then have "length (split_on (CHR ''='') s) = 2"
    by (auto simp: NameValuePair_from_str_def Let_def split: if_splits)
  then obtain a b where ab: "split_on (CHR ''='') s = [a, b]"
    by (auto simp: numeral_2_eq_2 length_Suc_conv)
  moreover have "s = a @ ''='' @ b"
    using join_split_on [of "CHR ''=''" s] ab by simp
  ultimately show "s = NameValuePair_fmt p \<and> CHR ''='' \<notin> set (nv_name p) \<and> CHR ''='' \<notin> set (nv_value p)"
    using ok split_on_free [of a "CHR ''=''" s] split_on_free [of b "CHR ''=''" s]
    by (auto simp: NameValuePair_from_str_def NameValuePair_fmt_def)
next
  assume "s = NameValuePair_fmt p \<and> CHR ''='' \<notin> set (nv_name p) \<and> CHR ''='' \<notin> set (nv_value p)"
  then show "NameValuePair_from_str s = Inr p"
    by (simp add: NameValuePair_from_str_def NameValuePair_fmt_def split_on_append split_on_single)
qed

text \<open>The visible characters of ASCII but the question mark: nothing is trimmed from a text of them.\<close>

definition visible :: "char \<Rightarrow> bool" where
  "visible c \<longleftrightarrow> 33 \<le> (of_char c :: nat) \<and> (of_char c :: nat) \<le> 126 \<and> c \<noteq> CHR ''?''"

lemma white_space_not_visible: "w \<in> set white_space \<Longrightarrow> list_all visible w \<Longrightarrow> False"
  by (auto simp: white_space_def visible_def)

lemma trim_visible: "list_all visible s \<Longrightarrow> trim_start_matches (CHR ''?'') (trim s) = s"
proof -
  assume v: "list_all visible s"
  have "take (length w) s \<noteq> w" "take (length w) (rev s) \<noteq> rev w" if "w \<in> set white_space" for w
    using white_space_not_visible [OF that] v
    by (metis in_set_takeD list_all_iff set_rev)+
  then have "find (\<lambda>w. take (length w) s = w) white_space = None"
    "find (\<lambda>w. take (length w) (rev s) = rev w) white_space = None"
    by (auto simp: find_None_iff)
  then have "trim s = s"
    by (simp add: trim_def trim_start.simps [of s] trim_end.simps [of s])
  then show ?thesis
    using v by (cases s) (auto simp: trim_start_matches_def visible_def)
qed

text \<open>The entries of a multimap that holds a list of pairs under their names.\<close>

definition grouped :: "NameValuePair list \<Rightarrow> string \<rightharpoonup> NameValuePair list" where
  "grouped ps k = (case filter (\<lambda>p. nv_name p = k) ps of [] \<Rightarrow> None | vs \<Rightarrow> Some vs)"

lemma grouped_Nil [simp]: "grouped [] = (\<lambda>_. None)"
  by (simp add: grouped_def fun_eq_iff)

lemma grouped_snoc:
  "grouped (ps @ [p]) =
     (grouped ps)(nv_name p \<mapsto> (case grouped ps (nv_name p) of Some vs \<Rightarrow> vs @ [p] | None \<Rightarrow> [p]))"
  by (auto simp: grouped_def fun_eq_iff split: list.split)

lemma grouped_Some: "grouped ps k = Some vs \<longleftrightarrow> vs = filter (\<lambda>p. nv_name p = k) ps \<and> vs \<noteq> []"
  by (auto simp: grouped_def split: list.split)

text \<open>Visiting the groups in any order yields the same groups.\<close>

lemma grouped_concat:
  assumes "distinct (map fst es)" and "map_of es = grouped ps"
  shows "grouped (concat (map snd es)) = grouped ps"
proof
  fix k
  have group: "vs = filter (\<lambda>p. nv_name p = n) ps" if "(n, vs) \<in> set es" for n vs
    using that assms by (metis grouped_Some map_of_is_SomeI)
  have filter: "filter (\<lambda>p. nv_name p = k) vs = (if n = k then vs else [])" if "(n, vs) \<in> set es" for n vs
    unfolding group [OF that] by (auto simp: filter_empty_conv)
  have "filter (\<lambda>p. nv_name p = k) (concat (map snd es)) = (case map_of es k of Some vs \<Rightarrow> vs | None \<Rightarrow> [])"
    using assms(1) filter
  proof (induction es)
    case (Cons e es)
    obtain n vs where e: "e = (n, vs)"
      by fastforce
    have "filter (\<lambda>p. nv_name p = k) vs = (if n = k then vs else [])"
      by (rule Cons.prems(2)) (simp add: e)
    moreover have "n = k \<Longrightarrow> map_of es k = None"
      using Cons.prems(1) by (simp add: e map_of_eq_None_iff image_image)
    moreover have "filter (\<lambda>p. nv_name p = k) (concat (map snd es)) = (case map_of es k of Some vs \<Rightarrow> vs | None \<Rightarrow> [])"
      using Cons.prems by (intro Cons.IH) auto
    ultimately show ?case
      by (cases "n = k") (simp_all add: e)
  qed simp
  then show "grouped (concat (map snd es)) k = grouped ps k"
    using grouped_Some [of ps k] by (auto simp: assms(2) grouped_def split: list.splits option.splits)
qed

lemma set_split_on: "p \<in> set (split_on c s) \<Longrightarrow> set p \<subseteq> set s"
proof -
  have "p \<in> set ps \<Longrightarrow> set p \<subseteq> set (join sep ps)" for sep ps
    by (induction sep ps rule: join.induct) auto
  then show "p \<in> set (split_on c s) \<Longrightarrow> set p \<subseteq> set s"
    by (metis join_split_on)
qed

text \<open>Pairs that a query can carry as they are.\<close>

definition plain :: "string \<Rightarrow> bool" where
  "plain s = list_all (\<lambda>c. visible c \<and> c \<noteq> CHR ''&'' \<and> c \<noteq> CHR ''='') s"

definition plain_pair :: "NameValuePair \<Rightarrow> bool" where
  "plain_pair p = (plain (nv_name p) \<and> plain (nv_value p))"

lemma plain_fmt:
  assumes "plain_pair p"
  shows "CHR ''&'' \<notin> set (NameValuePair_fmt p)" "set (NameValuePair_fmt p) \<subseteq> Collect visible"
    "NameValuePair_from_str (NameValuePair_fmt p) = Inr p"
proof -
  have "visible CHR ''=''"
    by (simp add: visible_def)
  then show "CHR ''&'' \<notin> set (NameValuePair_fmt p)" "set (NameValuePair_fmt p) \<subseteq> Collect visible"
    using assms by (auto simp: plain_pair_def plain_def NameValuePair_fmt_def list_all_iff)
  show "NameValuePair_from_str (NameValuePair_fmt p) = Inr p"
    unfolding pair_from_str using assms by (auto simp: plain_pair_def plain_def list_all_iff)
qed

lemma plain_pieces:
  assumes "ps \<noteq> []" and "list_all plain_pair ps"
  shows "query_pieces (join ''&'' (map NameValuePair_fmt ps)) = map NameValuePair_fmt ps"
proof -
  have "visible CHR ''&''"
    by (simp add: visible_def)
  then have "set (join ''&'' (map NameValuePair_fmt ps)) \<subseteq> Collect visible"
    using assms(2) plain_fmt(2) by (intro join_chars) (auto simp: list_all_iff)
  then have "list_all visible (join ''&'' (map NameValuePair_fmt ps))"
    by (auto simp: list_all_iff)
  then show ?thesis
    using assms plain_fmt(1) by (simp add: query_pieces_def trim_visible split_on_join list_all_iff)
qed

lemma parsed_plain:
  assumes "list_all visible raw" and "map NameValuePair_from_str (query_pieces raw) = map Inr ps"
  shows "list_all plain_pair ps"
  unfolding list_all_iff
proof
  fix p
  assume "p \<in> set ps"
  then have "Inr p \<in> NameValuePair_from_str ` set (query_pieces raw)"
    using assms(2) by (metis image_eqI set_map)
  then obtain r where r: "r \<in> set (split_on (CHR ''&'') raw)" "NameValuePair_from_str r = Inr p"
    by (auto simp: query_pieces_def trim_visible [OF assms(1)])
  then have "set r \<subseteq> Collect visible" "CHR ''&'' \<notin> set r"
    using set_split_on split_on_free assms(1) by (fastforce simp: list_all_iff)+
  then show "plain_pair p"
    using r(2) by (auto simp: pair_from_str NameValuePair_fmt_def plain_pair_def plain_def list_all_iff)
qed

context multimap
begin

lemma insert_params_grouped:
  "contents m = grouped ps0 \<Longrightarrow> map NameValuePair_from_str raws = map Inr ps \<Longrightarrow>
   \<exists>m'. insert_params M raws m = Inr m' \<and> contents m' = grouped (ps0 @ ps)"
proof (induction raws arbitrary: m ps ps0)
  case (Cons raw raws)
  then obtain p ps' where ps: "ps = p # ps'" "NameValuePair_from_str raw = Inr p"
    "map NameValuePair_from_str raws = map Inr ps'"
    by (cases ps) auto
  have "contents (mm_insert M (nv_name p) p m) = grouped (ps0 @ [p])"
    by (simp add: insert Cons.prems(1) grouped_snoc)
  from Cons.IH [OF this ps(3)] show ?case
    by (simp add: ps)
qed auto

lemma insert_params_Inr: "insert_params M raws m = Inr m' \<Longrightarrow> \<exists>ps. map NameValuePair_from_str raws = map Inr ps"
proof (induction raws arbitrary: m)
  case (Cons raw raws)
  then obtain p where p: "NameValuePair_from_str raw = Inr p" "insert_params M raws (mm_insert M (nv_name p) p m) = Inr m'"
    by (auto split: sum.splits)
  then obtain ps where "map NameValuePair_from_str raws = map Inr ps"
    using Cons.IH by blast
  then have "map NameValuePair_from_str (raw # raws) = map Inr (p # ps)"
    using p(1) by simp
  then show ?case ..
qed auto

lemma from_str_grouped:
  "Query_from_str M raw = Inr q \<longleftrightarrow>
   (\<exists>ps. map NameValuePair_from_str (query_pieces raw) = map Inr ps \<and>
      (\<exists>m. insert_params M (query_pieces raw) (mm_new M) = Inr m \<and> contents m = grouped ps \<and> q = \<lparr>query_params = m\<rparr>))"
  using insert_params_grouped [of "mm_new M" "[]" "query_pieces raw"] insert_params_Inr [of "query_pieces raw" "mm_new M"]
  by (auto simp: Query_from_str_def new split: sum.splits)

lemma from_str_params:
  assumes "Query_from_str M raw = Inr q"
  obtains ps where "map NameValuePair_from_str (query_pieces raw) = map Inr ps" "ps \<noteq> []"
    "contents (query_params q) = grouped ps"
proof -
  obtain ps where "map NameValuePair_from_str (query_pieces raw) = map Inr ps" "contents (query_params q) = grouped ps"
    using assms by (auto simp: from_str_grouped)
  moreover from this(1) have "ps \<noteq> []"
    by (auto simp: query_pieces_def)
  ultimately show thesis
    using that by blast
qed

lemma param_reads:
  "contents (query_params q) = grouped ps \<Longrightarrow>
   get_param_vec M q name = (case map nv_value (filter (\<lambda>p. nv_name p = name) ps) of [] \<Rightarrow> None | vs \<Rightarrow> Some vs) \<and>
   get_param M q name = map_option nv_value (find (\<lambda>p. nv_name p = name) ps)"
proof -
  have "find P ps = (case filter P ps of [] \<Rightarrow> None | v # _ \<Rightarrow> Some v)" for P and ps :: "NameValuePair list"
    by (induction ps) auto
  then show "contents (query_params q) = grouped ps \<Longrightarrow> ?thesis"
    by (auto simp: get_param_def get_param_vec_def get get_vec grouped_def split: list.split)
qed

text \<open>Printing a parsed query and parsing it again.\<close>

lemma fmt_pieces:
  assumes "contents (query_params q) = grouped ps"
  shows "Query_fmt M q = join ''&'' (map NameValuePair_fmt (concat (map snd (mm_iter_all M (query_params q)))))"
    and "set (concat (map snd (mm_iter_all M (query_params q)))) = set ps"
proof -
  let ?es = "mm_iter_all M (query_params q)"
  have group: "snd e = filter (\<lambda>p. nv_name p = fst e) ps \<and> snd e \<noteq> []" if "e \<in> set ?es" for e
  proof -
    have "map_of ?es (fst e) = Some (snd e)"
      using that iter_all(1) by (simp add: map_of_is_SomeI)
    then show ?thesis
      by (auto simp: iter_all(2) assms grouped_Some)
  qed
  then have "Query_fmt M q = join ''&'' (map (join ''&'') (map (\<lambda>e. map NameValuePair_fmt (snd e)) ?es))"
    by (simp add: Query_fmt_def FieldValuePairSet_fmt_def comp_def)
  also have "\<dots> = join ''&'' (concat (map (\<lambda>e. map NameValuePair_fmt (snd e)) ?es))"
    by (rule join_concat) (use group in auto)
  finally show "Query_fmt M q = join ''&'' (map NameValuePair_fmt (concat (map snd ?es)))"
    by (simp add: map_concat comp_def)
  have "p \<in> set (concat (map snd ?es))" if "p \<in> set ps" for p
  proof -
    have "map_of ?es (nv_name p) = Some (filter (\<lambda>p'. nv_name p' = nv_name p) ps)"
      using that by (auto simp: iter_all(2) assms grouped_Some filter_empty_conv)
    then show ?thesis
      using that by (force dest!: map_of_SomeD)
  qed
  then show "set (concat (map snd ?es)) = set ps"
    using group by fastforce
qed

lemma from_str_plain:
  assumes "ps \<noteq> []" and "list_all plain_pair ps"
  shows "\<exists>q. Query_from_str M (join ''&'' (map NameValuePair_fmt ps)) = Inr q \<and> contents (query_params q) = grouped ps"
proof -
  have "map NameValuePair_from_str (query_pieces (join ''&'' (map NameValuePair_fmt ps))) = map Inr ps"
    using assms(2) plain_fmt(3) by (simp add: plain_pieces [OF assms] list_all_iff)
  from insert_params_grouped [OF _ this, of "mm_new M" "[]"] show ?thesis
    by (auto simp: Query_from_str_def new)
qed

lemma parse_printed:
  assumes "Query_from_str M raw = Inr q" and "list_all visible raw"
  shows "\<exists>q'. Query_from_str M (Query_fmt M q) = Inr q' \<and> contents (query_params q') = contents (query_params q)"
proof -
  obtain ps where ps: "map NameValuePair_from_str (query_pieces raw) = map Inr ps" "ps \<noteq> []"
    "contents (query_params q) = grouped ps"
    using assms(1) by (rule from_str_params)
  let ?out = "concat (map snd (mm_iter_all M (query_params q)))"
  note fmt = fmt_pieces [OF ps(3)]
  have "?out \<noteq> []"
    using fmt(2) ps(2) by (metis set_empty)
  moreover have "list_all plain_pair ?out"
    using parsed_plain [OF assms(2) ps(1)] fmt(2) by (simp only: list_all_iff)
  moreover have "grouped ?out = grouped ps"
    by (rule grouped_concat) (simp_all add: iter_all ps(3))
  ultimately show ?thesis
    using from_str_plain [of ?out] by (simp add: fmt(1) ps(3))
qed

end

text \<open>An association list whose iteration skips what later entries shadow.\<close>

definition alist_multimap :: "(string \<times> NameValuePair list) list multimap_api" where
  "alist_multimap =
     \<lparr>mm_new = [],
      mm_insert = (\<lambda>k v m. AList.update k (case map_of m k of Some vs \<Rightarrow> vs @ [v] | None \<Rightarrow> [v]) m),
      mm_get = (\<lambda>k m. case map_of m k of Some (v # _) \<Rightarrow> Some v | _ \<Rightarrow> None),
      mm_get_vec = (\<lambda>k m. map_of m k),
      mm_iter_all = AList.clearjunk\<rparr>"

interpretation alist: multimap alist_multimap map_of
  by unfold_locales
     (simp_all add: alist_multimap_def update_conv' distinct_clearjunk map_of_clearjunk split: option.split)

text \<open>
  A query that parses from a text of visible ASCII characters other than the question mark can be
  printed and parsed again, in whatever order the multimap visits its keys: every parameter keeps its
  values, in their order.
\<close>
theorem query_roundtrip:
  assumes "multimap M contents" and "Query_from_str M raw = Inr q" and "list_all visible raw"
  shows "\<exists>q'. Query_from_str M (Query_fmt M q) = Inr q' \<and>
     (\<forall>name. get_param_vec M q' name = get_param_vec M q name \<and> get_param M q' name = get_param M q name)"
proof -
  obtain q' where "Query_from_str M (Query_fmt M q) = Inr q'" "contents (query_params q') = contents (query_params q)"
    using multimap.parse_printed [OF assms] by blast
  then show ?thesis
    by (auto simp: get_param_def get_param_vec_def multimap.get [OF assms(1)] multimap.get_vec [OF assms(1)])
qed

theorem query_roundtrip_witness:
  "\<exists>q. Query_from_str alist_multimap ''a=1&b=2&a=3'' = Inr q \<and> get_param_vec alist_multimap q ''a'' = Some [''1'', ''3''] \<and>
     (\<exists>q'. Query_from_str alist_multimap (Query_fmt alist_multimap q) = Inr q' \<and>
        get_param_vec alist_multimap q' ''a'' = Some [''1'', ''3''])"
proof -
  have vis: "list_all visible ''a=1&b=2&a=3''"
    by (simp add: visible_def)
  then obtain q where q: "Query_from_str alist_multimap ''a=1&b=2&a=3'' = Inr q"
    "get_param_vec alist_multimap q ''a'' = Some [''1'', ''3'']"
    by (simp add: Query_from_str_def query_pieces_def trim_visible NameValuePair_from_str_def alist_multimap_def
        get_param_vec_def)
  from query_roundtrip [OF alist.multimap_axioms q(1) vis] q show ?thesis
    by metis
qed

end
