(* ===== verification/Configuration.thy ===== *)
theory Configuration
  imports Tracker_Prelude
begin

text \<open>
  The configuration package (\<open>packages/configuration/src\<close>): the policies and sections of
  \<open>tracker.toml\<close>, their default values, the semantic validation, how a configuration is loaded
  and how its secrets are masked. The \<open>figment\<close> and \<open>url\<close> crates are parameters.
\<close>

section \<open>Policies (lib.rs)\<close>

definition TORRENT_PEERS_LIMIT :: usize where
  "TORRENT_PEERS_LIMIT = 74"

definition LATEST_VERSION :: string where
  "LATEST_VERSION = ''2.0.0''"

datatype App = TorrustTracker

datatype Purpose = PurposeConfiguration

record Version =
  schema_version :: string

definition Version_new :: "string \<Rightarrow> Version" where
  "Version_new semver = \<lparr>schema_version = semver\<rparr>"

definition Version_latest :: Version where
  "Version_latest = \<lparr>schema_version = LATEST_VERSION\<rparr>"

record Metadata =
  app :: App
  purpose :: Purpose
  metadata_schema_version :: Version

definition Metadata_default :: Metadata where
  "Metadata_default =
     \<lparr>app = TorrustTracker, purpose = PurposeConfiguration, metadata_schema_version = Version_latest\<rparr>"

record TrackerPolicy =
  max_peer_timeout :: u32
  persistent_torrent_completed_stat :: bool
  remove_peerless_torrents :: bool

definition TrackerPolicy_default :: TrackerPolicy where
  "TrackerPolicy_default =
     \<lparr>max_peer_timeout = 900, persistent_torrent_completed_stat = False,
      remove_peerless_torrents = True\<rparr>"

record AnnouncePolicy =
  interval :: u32
  interval_min :: u32

definition AnnouncePolicy_default :: AnnouncePolicy where
  "AnnouncePolicy_default = \<lparr>interval = 120, interval_min = 120\<rparr>"

record TslConfig =
  ssl_cert_path :: string
  ssl_key_path :: string

text \<open>
  \<open>Info::new\<close>: the environment is the function from variable names to their values. The result
  is always \<open>Ok\<close>.
\<close>

record ConfigInfo =
  config_toml :: "string option"
  config_toml_path :: string

definition Info_new :: "(string \<Rightarrow> string option) \<Rightarrow> string \<Rightarrow> ConfigInfo" where
  "Info_new env_var default_config_toml_path =
     \<lparr>config_toml = env_var ''TORRUST_TRACKER_CONFIG_TOML'',
      config_toml_path =
        (case env_var ''TORRUST_TRACKER_CONFIG_TOML_PATH'' of
           Some pth \<Rightarrow> pth
         | None \<Rightarrow> default_config_toml_path)\<rparr>"

text \<open>The errors of loading; the source location of an error is not kept.\<close>

datatype 'e ConfigurationError =
    UnableToLoadFromEnvironmentVariable 'e
  | UnableToLoadFromConfigFile 'e
  | ConfigError 'e
  | Infallible
  | UnsupportedVersion Version
  | MissingMandatoryOption string

section \<open>Sections of the configuration (v2\_0\_0)\<close>

datatype Driver = Sqlite3 | MySQL

record Database =
  db_driver :: Driver
  db_path :: string

definition Database_default :: Database where
  "Database_default =
     \<lparr>db_driver = Sqlite3, db_path = ''./storage/tracker/lib/database/sqlite3.db''\<rparr>"

text \<open>
  \<open>Database::mask_secrets\<close>. The parameter parses a URL, sets its password and prints it again;
  it is \<^const>\<open>None\<close> where one of the two \<open>expect\<close> calls panics.
\<close>

definition Database_mask_secrets :: "(string \<Rightarrow> string \<Rightarrow> string option) \<Rightarrow> Database \<Rightarrow> Database option" where
  "Database_mask_secrets url_set_password d =
     (case db_driver d of
        Sqlite3 \<Rightarrow> Some d
      | MySQL \<Rightarrow> map_option (\<lambda>p. d\<lparr>db_path := p\<rparr>) (url_set_password (db_path d) ''***''))"

record Network =
  external_ip :: "IpAddr option"
  on_reverse_proxy :: bool

definition Network_default :: Network where
  "Network_default = \<lparr>external_ip = Some (ipv4 0 0 0 0), on_reverse_proxy = False\<rparr>"

record PrivateMode =
  check_keys_expiration :: bool

definition PrivateMode_default :: PrivateMode where
  "PrivateMode_default = \<lparr>check_keys_expiration = True\<rparr>"

record Core =
  announce_policy :: AnnouncePolicy
  database :: Database
  inactive_peer_cleanup_interval :: u64
  listed :: bool
  net :: Network
  core_private :: bool
  private_mode :: "PrivateMode option"
  tracker_policy :: TrackerPolicy
  tracker_usage_statistics :: bool

definition Core_default_private :: bool where
  "Core_default_private = False"

definition Core_default_private_mode :: "PrivateMode option" where
  "Core_default_private_mode = (if Core_default_private then Some PrivateMode_default else None)"

definition Core_default :: Core where
  "Core_default =
     \<lparr>announce_policy = AnnouncePolicy_default, database = Database_default,
      inactive_peer_cleanup_interval = 600, listed = False, net = Network_default,
      core_private = Core_default_private, private_mode = Core_default_private_mode,
      tracker_policy = TrackerPolicy_default, tracker_usage_statistics = True\<rparr>"

datatype SemanticValidationError = UselessPrivateModeSection

definition Core_validate :: "Core \<Rightarrow> (SemanticValidationError, unit) result" where
  "Core_validate c =
     (if private_mode c \<noteq> None \<and> \<not> core_private c then Inl UselessPrivateModeSection
      else Inr ())"

type_synonym AccessTokens = "string \<rightharpoonup> string"

record HttpApi =
  api_bind_address :: SocketAddr
  api_tsl_config :: "TslConfig option"
  access_tokens :: AccessTokens

definition HttpApi_default :: HttpApi where
  "HttpApi_default =
     \<lparr>api_bind_address = SocketAddr (ipv4 127 0 0 1) 1212, api_tsl_config = None,
      access_tokens = (\<lambda>_. None)\<rparr>"

definition HttpApi_add_token :: "string \<Rightarrow> string \<Rightarrow> HttpApi \<Rightarrow> HttpApi" where
  "HttpApi_add_token key token api = api\<lparr>access_tokens := (access_tokens api)(key \<mapsto> token)\<rparr>"

definition HttpApi_mask_secrets :: "HttpApi \<Rightarrow> HttpApi" where
  "HttpApi_mask_secrets api =
     api\<lparr>access_tokens := (\<lambda>k. map_option (\<lambda>_. ''***'') (access_tokens api k))\<rparr>"

record HttpTracker =
  http_bind_address :: SocketAddr
  http_tsl_config :: "TslConfig option"

definition HttpTracker_default :: HttpTracker where
  "HttpTracker_default =
     \<lparr>http_bind_address = SocketAddr (ipv4 0 0 0 0) 7070, http_tsl_config = None\<rparr>"

record UdpTracker =
  udp_bind_address :: SocketAddr
  cookie_lifetime :: Duration

definition UdpTracker_default :: UdpTracker where
  "UdpTracker_default =
     \<lparr>udp_bind_address = SocketAddr (ipv4 0 0 0 0) 6969, cookie_lifetime = from_secs 120\<rparr>"

record HealthCheckApi =
  health_bind_address :: SocketAddr

definition HealthCheckApi_default :: HealthCheckApi where
  "HealthCheckApi_default = \<lparr>health_bind_address = SocketAddr (ipv4 127 0 0 1) 1313\<rparr>"

datatype Threshold =
    ThresholdOff | ThresholdError | ThresholdWarn | ThresholdInfo | ThresholdDebug | ThresholdTrace

record Logging =
  threshold :: Threshold

definition Logging_default :: Logging where
  "Logging_default = \<lparr>threshold = ThresholdInfo\<rparr>"

record Configuration =
  metadata :: Metadata
  logging :: Logging
  core :: Core
  udp_trackers :: "UdpTracker list option"
  http_trackers :: "HttpTracker list option"
  http_api :: "HttpApi option"
  health_check_api :: HealthCheckApi

definition Configuration_default :: Configuration where
  "Configuration_default =
     \<lparr>metadata = Metadata_default, logging = Logging_default, core = Core_default,
      udp_trackers = None, http_trackers = None, http_api = None,
      health_check_api = HealthCheckApi_default\<rparr>"

definition get_ext_ip :: "Configuration \<Rightarrow> IpAddr option" where
  "get_ext_ip c = external_ip (net (core c))"

definition Configuration_validate :: "Configuration \<Rightarrow> (SemanticValidationError, unit) result" where
  "Configuration_validate c = Core_validate (core c)"

definition Configuration_mask_secrets ::
  "(string \<Rightarrow> string \<Rightarrow> string option) \<Rightarrow> Configuration \<Rightarrow> Configuration option" where
  "Configuration_mask_secrets url_set_password c =
     map_option
       (\<lambda>d. c\<lparr>core := (core c)\<lparr>database := d\<rparr>,
              http_api := map_option HttpApi_mask_secrets (http_api c)\<rparr>)
       (Database_mask_secrets url_set_password (database (core c)))"

section \<open>Loading (v2\_0\_0/mod.rs)\<close>

text \<open>
  The operations of the \<open>figment\<close> crate that loading uses: a source from a TOML text or file,
  merging the environment under a prefix and separator, asking for a key, joining defaults,
  and extracting the typed configuration.
\<close>

record ('f, 'e) figment_api =
  toml_string :: "string \<Rightarrow> 'f"
  toml_file :: "string \<Rightarrow> 'f"
  merge_env :: "string \<Rightarrow> string \<Rightarrow> 'f \<Rightarrow> 'f"
  figment_find_value :: "'f \<Rightarrow> string \<Rightarrow> bool"
  join_defaults :: "Configuration \<Rightarrow> 'f \<Rightarrow> 'f"
  figment_extract :: "'f \<Rightarrow> ('e, Configuration) result"

definition mandatory_options :: "string list" where
  "mandatory_options = [''metadata.schema_version'', ''logging.threshold'', ''core.private'', ''core.listed'']"

fun check_options :: "('f, 'e) figment_api \<Rightarrow> 'f \<Rightarrow> string list \<Rightarrow> ('e ConfigurationError, unit) result" where
  "check_options F fig [] = Inr ()"
| "check_options F fig (opt # opts) =
     (if figment_find_value F fig opt then check_options F fig opts else Inl (MissingMandatoryOption opt))"

definition check_mandatory_options ::
  "('f, 'e) figment_api \<Rightarrow> 'f \<Rightarrow> ('e ConfigurationError, unit) result" where
  "check_mandatory_options F fig = check_options F fig mandatory_options"

definition user_figment :: "('f, 'e) figment_api \<Rightarrow> ConfigInfo \<Rightarrow> 'f" where
  "user_figment F info =
     merge_env F ''TORRUST_TRACKER_CONFIG_OVERRIDE_'' ''__''
       (case config_toml info of
          Some toml \<Rightarrow> toml_string F toml
        | None \<Rightarrow> toml_file F (config_toml_path info))"

definition Configuration_load ::
  "('f, 'e) figment_api \<Rightarrow> ConfigInfo \<Rightarrow> ('e ConfigurationError, Configuration) result" where
  "Configuration_load F info =
     (let fig = user_figment F info in
      case check_mandatory_options F fig of
        Inl e \<Rightarrow> Inl e
      | Inr _ \<Rightarrow>
          (case figment_extract F (join_defaults F Configuration_default fig) of
             Inl e \<Rightarrow> Inl (ConfigError e)
           | Inr config \<Rightarrow>
               if metadata_schema_version (metadata config) \<noteq> Version_new ''2.0.0''
               then Inl (UnsupportedVersion (metadata_schema_version (metadata config)))
               else Inr config))"

section \<open>Properties of loading\<close>

lemma check_options_ok: "check_options F fig opts = Inr u \<longleftrightarrow> (\<forall>opt \<in> set opts. figment_find_value F fig opt)"
  by (induction opts) auto

lemma check_options_missing:
  "check_options F fig opts = Inl e \<Longrightarrow>
   \<exists>opt \<in> set opts. e = MissingMandatoryOption opt \<and> \<not> figment_find_value F fig opt"
  by (induction opts) (auto split: if_splits)

end
