(* ===== verification/Primitives.thy ===== *)
theory Primitives
  imports Configuration
begin

text \<open>
  The primitives package (\<open>packages/primitives/src\<close>): peers, swarm statistics, torrent metrics,
  pages and the data of the announce and scrape responses. \<open>PeerId\<close> and \<open>InfoHash\<close> are the
  byte-array newtypes the sources key their ordered maps with; their order is the lexicographic
  order of the bytes.
\<close>

type_synonym DurationSinceUnixEpoch = Duration

section \<open>Identifiers\<close>

datatype PeerId = PeerId (peer_id_bytes: "u8 list")

datatype InfoHash = InfoHash (info_hash_bytes: "u8 list")

instantiation PeerId :: linorder
begin

definition less_eq_PeerId :: "PeerId \<Rightarrow> PeerId \<Rightarrow> bool" where
  "less_eq_PeerId a b = (peer_id_bytes a \<le> peer_id_bytes b)"

definition less_PeerId :: "PeerId \<Rightarrow> PeerId \<Rightarrow> bool" where
  "less_PeerId a b = (peer_id_bytes a < peer_id_bytes b)"

instance
  by standard (auto simp: less_eq_PeerId_def less_PeerId_def PeerId.expand)

end

instantiation InfoHash :: linorder
begin

definition less_eq_InfoHash :: "InfoHash \<Rightarrow> InfoHash \<Rightarrow> bool" where
  "less_eq_InfoHash a b = (info_hash_bytes a \<le> info_hash_bytes b)"

definition less_InfoHash :: "InfoHash \<Rightarrow> InfoHash \<Rightarrow> bool" where
  "less_InfoHash a b = (info_hash_bytes a < info_hash_bytes b)"

instance
  by standard (auto simp: less_eq_InfoHash_def less_InfoHash_def InfoHash.expand)

end

section \<open>Peers (peer.rs)\<close>

datatype AnnounceEvent = EventStarted | EventStopped | EventCompleted | EventNone

record Peer =
  peer_id :: PeerId
  peer_addr :: SocketAddr
  updated :: DurationSinceUnixEpoch
  uploaded :: i64
  downloaded :: i64
  left :: i64
  event :: AnnounceEvent

definition is_seeder :: "Peer \<Rightarrow> bool" where
  "is_seeder p = (sint (left p) \<le> 0 \<and> event p \<noteq> EventStopped)"

definition get_event :: "Peer \<Rightarrow> AnnounceEvent" where
  "get_event p = event p"

definition get_id :: "Peer \<Rightarrow> PeerId" where
  "get_id p = peer_id p"

definition get_updated :: "Peer \<Rightarrow> DurationSinceUnixEpoch" where
  "get_updated p = updated p"

definition get_address :: "Peer \<Rightarrow> SocketAddr" where
  "get_address p = peer_addr p"

definition peer_ip :: "Peer \<Rightarrow> IpAddr" where
  "peer_ip p = sa_ip (peer_addr p)"

definition change_ip :: "IpAddr \<Rightarrow> Peer \<Rightarrow> Peer" where
  "change_ip new_ip p = p\<lparr>peer_addr := SocketAddr new_ip (sa_port (peer_addr p))\<rparr>"

lemmas peer_read_info [simp] =
  get_event_def get_id_def get_updated_def get_address_def peer_ip_def

subsection \<open>Fixtures (peer.rs, module fixture)\<close>

definition Peer_default :: Peer where
  "Peer_default =
     \<lparr>peer_id = PeerId (as_bytes ''-qB00000000000000000''),
      peer_addr = SocketAddr (ipv4 127 0 0 1) 8080,
      updated = duration_new 1669397478934 0, uploaded = 0, downloaded = 0, left = 0,
      event = EventStarted\<rparr>"

record PeerBuilder =
  builder_peer :: Peer

definition PeerBuilder_default :: PeerBuilder where
  "PeerBuilder_default = \<lparr>builder_peer = Peer_default\<rparr>"

definition PeerBuilder_seeder :: PeerBuilder where
  "PeerBuilder_seeder =
     \<lparr>builder_peer =
        \<lparr>peer_id = PeerId (as_bytes ''-qB00000000000000001''),
         peer_addr = SocketAddr (ipv4 127 0 0 1) 8080,
         updated = duration_new 1669397478934 0, uploaded = 0, downloaded = 0, left = 0,
         event = EventCompleted\<rparr>\<rparr>"

definition PeerBuilder_leecher :: PeerBuilder where
  "PeerBuilder_leecher =
     \<lparr>builder_peer =
        \<lparr>peer_id = PeerId (as_bytes ''-qB00000000000000002''),
         peer_addr = SocketAddr (ipv4 127 0 0 2) 8080,
         updated = duration_new 1669397478934 0, uploaded = 0, downloaded = 0, left = 10,
         event = EventStarted\<rparr>\<rparr>"

definition PeerBuilder_with_peer_id :: "PeerId \<Rightarrow> PeerBuilder \<Rightarrow> PeerBuilder" where
  "PeerBuilder_with_peer_id pid b = b\<lparr>builder_peer := (builder_peer b)\<lparr>peer_id := pid\<rparr>\<rparr>"

definition PeerBuilder_with_peer_addr :: "SocketAddr \<Rightarrow> PeerBuilder \<Rightarrow> PeerBuilder" where
  "PeerBuilder_with_peer_addr addr b = b\<lparr>builder_peer := (builder_peer b)\<lparr>peer_addr := addr\<rparr>\<rparr>"

definition PeerBuilder_with_bytes_pending_to_download :: "i64 \<Rightarrow> PeerBuilder \<Rightarrow> PeerBuilder" where
  "PeerBuilder_with_bytes_pending_to_download n b = b\<lparr>builder_peer := (builder_peer b)\<lparr>left := n\<rparr>\<rparr>"

definition PeerBuilder_with_no_bytes_pending_to_download :: "PeerBuilder \<Rightarrow> PeerBuilder" where
  "PeerBuilder_with_no_bytes_pending_to_download b = b\<lparr>builder_peer := (builder_peer b)\<lparr>left := 0\<rparr>\<rparr>"

definition PeerBuilder_last_updated_on :: "DurationSinceUnixEpoch \<Rightarrow> PeerBuilder \<Rightarrow> PeerBuilder" where
  "PeerBuilder_last_updated_on d b = b\<lparr>builder_peer := (builder_peer b)\<lparr>updated := d\<rparr>\<rparr>"

definition PeerBuilder_build :: "PeerBuilder \<Rightarrow> Peer" where
  "PeerBuilder_build b = builder_peer b"

lemmas fixture_defs =
  Peer_default_def PeerBuilder_default_def PeerBuilder_seeder_def PeerBuilder_leecher_def
  PeerBuilder_build_def

section \<open>Statistics and pages\<close>

record SwarmMetadata =
  sm_downloaded :: u32
  sm_complete :: u32
  sm_incomplete :: u32

definition SwarmMetadata_zeroed :: SwarmMetadata where
  "SwarmMetadata_zeroed = \<lparr>sm_downloaded = 0, sm_complete = 0, sm_incomplete = 0\<rparr>"

record TorrentsMetrics =
  tm_complete :: u64
  tm_downloaded :: u64
  tm_incomplete :: u64
  tm_torrents :: u64

definition TorrentsMetrics_default :: TorrentsMetrics where
  "TorrentsMetrics_default = \<lparr>tm_complete = 0, tm_downloaded = 0, tm_incomplete = 0, tm_torrents = 0\<rparr>"

definition TorrentsMetrics_add_assign :: "TorrentsMetrics \<Rightarrow> TorrentsMetrics \<Rightarrow> TorrentsMetrics" where
  "TorrentsMetrics_add_assign a rhs =
     \<lparr>tm_complete = tm_complete a + tm_complete rhs,
      tm_downloaded = tm_downloaded a + tm_downloaded rhs,
      tm_incomplete = tm_incomplete a + tm_incomplete rhs,
      tm_torrents = tm_torrents a + tm_torrents rhs\<rparr>"

record Pagination =
  offset :: u32
  limit :: u32

definition default_offset :: u32 where
  "default_offset = 0"

definition default_limit :: u32 where
  "default_limit = 4000"

definition Pagination_new_with_options :: "u32 option \<Rightarrow> u32 option \<Rightarrow> Pagination" where
  "Pagination_new_with_options offset_option limit_option =
     \<lparr>offset = (case offset_option of Some off \<Rightarrow> off | None \<Rightarrow> default_offset),
      limit = (case limit_option of Some lim \<Rightarrow> lim | None \<Rightarrow> default_limit)\<rparr>"

definition Pagination_default :: Pagination where
  "Pagination_default = \<lparr>offset = default_offset, limit = default_limit\<rparr>"

type_synonym PersistentTorrents = "(InfoHash, u32) btree_map"

section \<open>Response data (core.rs)\<close>

record AnnounceData =
  peers :: "Peer list"
  stats :: SwarmMetadata
  policy :: AnnouncePolicy

text \<open>\<open>ScrapeData::files\<close> is a \<open>HashMap\<close>: a finite map with no order.\<close>

record ScrapeData =
  files :: "InfoHash \<rightharpoonup> SwarmMetadata"

definition ScrapeData_empty :: ScrapeData where
  "ScrapeData_empty = \<lparr>files = (\<lambda>_. None)\<rparr>"

definition add_file :: "InfoHash \<Rightarrow> SwarmMetadata \<Rightarrow> ScrapeData \<Rightarrow> ScrapeData" where
  "add_file info_hash swarm_metadata sd = sd\<lparr>files := (files sd)(info_hash \<mapsto> swarm_metadata)\<rparr>"

definition add_file_with_zeroed_metadata :: "InfoHash \<Rightarrow> ScrapeData \<Rightarrow> ScrapeData" where
  "add_file_with_zeroed_metadata info_hash sd =
     sd\<lparr>files := (files sd)(info_hash \<mapsto> SwarmMetadata_zeroed)\<rparr>"

definition ScrapeData_zeroed :: "InfoHash list \<Rightarrow> ScrapeData" where
  "ScrapeData_zeroed info_hashes =
     fold (\<lambda>info_hash. add_file info_hash SwarmMetadata_zeroed) info_hashes ScrapeData_empty"

lemma files_fold_add_file:
  "files (fold (\<lambda>ih. add_file ih (f ih)) ihs sd) ih =
     (if ih \<in> set ihs then Some (f ih) else files sd ih)"
  by (induction ihs arbitrary: sd) (auto simp: add_file_def)

lemma files_zeroed:
  "files (ScrapeData_zeroed ihs) ih = (if ih \<in> set ihs then Some SwarmMetadata_zeroed else None)"
  by (simp add: ScrapeData_zeroed_def files_fold_add_file ScrapeData_empty_def)

end
