(* ===== verification/Http_Requests.thy ===== *)
theory Http_Requests
  imports Http_Query Primitives
begin

text \<open>
  The requests of the HTTP tracker (\<open>packages/http-protocol/src/v1/requests\<close>,
  \<open>percent_encoding.rs\<close>, \<open>v1/services/peer_ip_resolver.rs\<close>): the announce and scrape requests are
  read from the parameters of a query, and the address of the peer from the connection or from the
  proxy. Percent decoding and the conversion of bytes to info-hashes belong to other crates and are
  parameters; the source of such an error is kept as its text.
\<close>

section \<open>Conversions\<close>

record url_api =
  percent_decode_str :: "string \<Rightarrow> u8 list"
  info_hash_try_from :: "u8 list \<Rightarrow> (string, InfoHash) result"

text \<open>The \<open>?\<close> operator.\<close>

fun try_bind :: "('e, 'a) result \<Rightarrow> ('a \<Rightarrow> ('e, 'b) result) \<Rightarrow> ('e, 'b) result" where
  "try_bind (Inl e) f = Inl e"
| "try_bind (Inr x) f = f x"

fun map_err :: "('e \<Rightarrow> 'f) \<Rightarrow> ('e, 'a) result \<Rightarrow> ('f, 'a) result" where
  "map_err f (Inl e) = Inl (f e)"
| "map_err f (Inr x) = Inr x"

text \<open>\<open>FromStr\<close> of an unsigned integer: an optional plus sign and at least one digit, in range.\<close>

definition parse_unsigned :: "nat \<Rightarrow> string \<Rightarrow> nat option" where
  "parse_unsigned bound s =
     (let ds = (if s \<noteq> [] \<and> hd s = CHR ''+'' then tl s else s)
      in if ds = [] \<or> \<not> list_all is_digit ds \<or> bound \<le> digits_value ds then None else Some (digits_value ds))"

definition u16_from_str :: "string \<Rightarrow> u16 option" where
  "u16_from_str s = map_option of_nat (parse_unsigned (2 ^ 16) s)"

definition u32_from_str :: "string \<Rightarrow> u32 option" where
  "u32_from_str s = map_option of_nat (parse_unsigned (2 ^ 32) s)"

definition u64_from_str :: "string \<Rightarrow> u64 option" where
  "u64_from_str s = map_option of_nat (parse_unsigned (2 ^ 64) s)"

text \<open>\<open>i64::try_from\<close> of an unsigned number.\<close>

definition i64_try_from :: "u64 \<Rightarrow> i64 option" where
  "i64_try_from n = (if unat n < 2 ^ 63 then Some n else None)"

section \<open>Peer ids (packages/primitives/src/peer.rs)\<close>

definition PEER_ID_BYTES_LEN :: usize where
  "PEER_ID_BYTES_LEN = 20"

datatype IdConversionError = NotEnoughBytes string | TooManyBytes string

definition id_length_message :: "u8 list \<Rightarrow> string" where
  "id_length_message bytes =
     ''got '' @ nat_to_string (length bytes) @ '' bytes, expected '' @ nat_to_string PEER_ID_BYTES_LEN"

definition Id_try_from :: "u8 list \<Rightarrow> (IdConversionError, PeerId) result" where
  "Id_try_from bytes =
     (if length bytes < PEER_ID_BYTES_LEN then Inl (NotEnoughBytes (id_length_message bytes))
      else if PEER_ID_BYTES_LEN < length bytes then Inl (TooManyBytes (id_length_message bytes))
      else Inr (PeerId bytes))"

section \<open>Percent encoding (percent\_encoding.rs)\<close>

definition percent_decode_info_hash :: "url_api \<Rightarrow> string \<Rightarrow> (string, InfoHash) result" where
  "percent_decode_info_hash U raw_info_hash = info_hash_try_from U (percent_decode_str U raw_info_hash)"

definition percent_decode_peer_id :: "url_api \<Rightarrow> string \<Rightarrow> (IdConversionError, PeerId) result" where
  "percent_decode_peer_id U raw_peer_id = Id_try_from (percent_decode_str U raw_peer_id)"

section \<open>Announce requests (requests/announce.rs)\<close>

datatype Event = Started | Stopped | Completed

datatype Compact = Accepted | NotAccepted

record AnnounceQuery =
  aq_info_hash :: InfoHash
  aq_peer_id :: PeerId
  aq_port :: u16
  aq_downloaded :: "i64 option"
  aq_uploaded :: "i64 option"
  aq_left :: "i64 option"
  aq_event :: "Event option"
  aq_compact :: "Compact option"
  aq_numwant :: "u32 option"

datatype ParseAnnounceQueryError =
    MissingParams
  | MissingParam string
  | InvalidParam string string
  | NumberOfBytesOverflow string string
  | InvalidInfoHashParam string string string
  | InvalidPeerIdParam string string IdConversionError

definition Event_from_str :: "string \<Rightarrow> (ParseAnnounceQueryError, Event) result" where
  "Event_from_str raw_param =
     (if raw_param = ''started'' then Inr Started
      else if raw_param = ''stopped'' then Inr Stopped
      else if raw_param = ''completed'' then Inr Completed
      else Inl (InvalidParam ''event'' raw_param))"

fun Event_fmt :: "Event \<Rightarrow> string" where
  "Event_fmt Started = ''started''"
| "Event_fmt Stopped = ''stopped''"
| "Event_fmt Completed = ''completed''"

definition Compact_from_str :: "string \<Rightarrow> (ParseAnnounceQueryError, Compact) result" where
  "Compact_from_str raw_param =
     (if raw_param = ''1'' then Inr Accepted
      else if raw_param = ''0'' then Inr NotAccepted
      else Inl (InvalidParam ''compact'' raw_param))"

fun Compact_fmt :: "Compact \<Rightarrow> string" where
  "Compact_fmt Accepted = ''1''"
| "Compact_fmt NotAccepted = ''0''"

text \<open>The mandatory parameters.\<close>

definition extract_info_hash ::
  "'m multimap_api \<Rightarrow> url_api \<Rightarrow> 'm Query \<Rightarrow> (ParseAnnounceQueryError, InfoHash) result" where
  "extract_info_hash M U query =
     (case get_param M query ''info_hash'' of
        Some raw_param \<Rightarrow> map_err (InvalidInfoHashParam ''info_hash'' raw_param) (percent_decode_info_hash U raw_param)
      | None \<Rightarrow> Inl (MissingParam ''info_hash''))"

definition extract_peer_id ::
  "'m multimap_api \<Rightarrow> url_api \<Rightarrow> 'm Query \<Rightarrow> (ParseAnnounceQueryError, PeerId) result" where
  "extract_peer_id M U query =
     (case get_param M query ''peer_id'' of
        Some raw_param \<Rightarrow> map_err (InvalidPeerIdParam ''peer_id'' raw_param) (percent_decode_peer_id U raw_param)
      | None \<Rightarrow> Inl (MissingParam ''peer_id''))"

definition extract_port :: "'m multimap_api \<Rightarrow> 'm Query \<Rightarrow> (ParseAnnounceQueryError, u16) result" where
  "extract_port M query =
     (case get_param M query ''port'' of
        Some raw_param \<Rightarrow>
          (case u16_from_str raw_param of
             Some port \<Rightarrow> Inr port
           | None \<Rightarrow> Inl (InvalidParam ''port'' raw_param))
      | None \<Rightarrow> Inl (MissingParam ''port''))"

text \<open>The optional parameters.\<close>

definition extract_number_of_bytes_from_param ::
  "'m multimap_api \<Rightarrow> string \<Rightarrow> 'm Query \<Rightarrow> (ParseAnnounceQueryError, i64 option) result" where
  "extract_number_of_bytes_from_param M param_name query =
     (case get_param M query param_name of
        Some raw_param \<Rightarrow>
          (case u64_from_str raw_param of
             None \<Rightarrow> Inl (InvalidParam param_name raw_param)
           | Some number_of_bytes \<Rightarrow>
               (case i64_try_from number_of_bytes of
                  None \<Rightarrow> Inl (NumberOfBytesOverflow param_name raw_param)
                | Some n \<Rightarrow> Inr (Some n)))
      | None \<Rightarrow> Inr None)"

definition extract_event :: "'m multimap_api \<Rightarrow> 'm Query \<Rightarrow> (ParseAnnounceQueryError, Event option) result" where
  "extract_event M query =
     (case get_param M query ''event'' of
        Some raw_param \<Rightarrow> try_bind (Event_from_str raw_param) (\<lambda>e. Inr (Some e))
      | None \<Rightarrow> Inr None)"

definition extract_compact :: "'m multimap_api \<Rightarrow> 'm Query \<Rightarrow> (ParseAnnounceQueryError, Compact option) result" where
  "extract_compact M query =
     (case get_param M query ''compact'' of
        Some raw_param \<Rightarrow> try_bind (Compact_from_str raw_param) (\<lambda>c. Inr (Some c))
      | None \<Rightarrow> Inr None)"

definition extract_numwant :: "'m multimap_api \<Rightarrow> 'm Query \<Rightarrow> (ParseAnnounceQueryError, u32 option) result" where
  "extract_numwant M query =
     (case get_param M query ''numwant'' of
        Some raw_param \<Rightarrow>
          (case u32_from_str raw_param of
             Some numwant \<Rightarrow> Inr (Some numwant)
           | None \<Rightarrow> Inl (InvalidParam ''numwant'' raw_param))
      | None \<Rightarrow> Inr None)"

definition Announce_try_from ::
  "'m multimap_api \<Rightarrow> url_api \<Rightarrow> 'm Query \<Rightarrow> (ParseAnnounceQueryError, AnnounceQuery) result" where
  "Announce_try_from M U query =
     try_bind (extract_info_hash M U query) (\<lambda>info_hash.
     try_bind (extract_peer_id M U query) (\<lambda>peer_id.
     try_bind (extract_port M query) (\<lambda>port.
     try_bind (extract_number_of_bytes_from_param M ''downloaded'' query) (\<lambda>downloaded.
     try_bind (extract_number_of_bytes_from_param M ''uploaded'' query) (\<lambda>uploaded.
     try_bind (extract_number_of_bytes_from_param M ''left'' query) (\<lambda>left.
     try_bind (extract_event M query) (\<lambda>event.
     try_bind (extract_compact M query) (\<lambda>compact.
     try_bind (extract_numwant M query) (\<lambda>numwant.
       Inr \<lparr>aq_info_hash = info_hash, aq_peer_id = peer_id, aq_port = port, aq_downloaded = downloaded,
            aq_uploaded = uploaded, aq_left = left, aq_event = event, aq_compact = compact,
            aq_numwant = numwant\<rparr>)))))))))"

section \<open>Scrape requests (requests/scrape.rs)\<close>

record ScrapeQuery =
  sq_info_hashes :: "InfoHash list"

datatype ParseScrapeQueryError =
    ScrapeMissingParams
  | ScrapeMissingParam string
  | ScrapeInvalidInfoHashParam string string string

fun decode_info_hashes ::
  "url_api \<Rightarrow> string list \<Rightarrow> InfoHash list \<Rightarrow> (ParseScrapeQueryError, InfoHash list) result" where
  "decode_info_hashes U [] info_hashes = Inr info_hashes"
| "decode_info_hashes U (raw_param # raw_params) info_hashes =
     try_bind (map_err (ScrapeInvalidInfoHashParam ''info_hash'' raw_param) (percent_decode_info_hash U raw_param))
       (\<lambda>info_hash. decode_info_hashes U raw_params (info_hashes @ [info_hash]))"

definition extract_info_hashes ::
  "'m multimap_api \<Rightarrow> url_api \<Rightarrow> 'm Query \<Rightarrow> (ParseScrapeQueryError, InfoHash list) result" where
  "extract_info_hashes M U query =
     (case get_param_vec M query ''info_hash'' of
        Some raw_params \<Rightarrow> decode_info_hashes U raw_params []
      | None \<Rightarrow> Inl (ScrapeMissingParam ''info_hash''))"

definition Scrape_try_from ::
  "'m multimap_api \<Rightarrow> url_api \<Rightarrow> 'm Query \<Rightarrow> (ParseScrapeQueryError, ScrapeQuery) result" where
  "Scrape_try_from M U query =
     try_bind (extract_info_hashes M U query) (\<lambda>info_hashes. Inr \<lparr>sq_info_hashes = info_hashes\<rparr>)"

section \<open>The address of the peer (services/peer\_ip\_resolver.rs)\<close>

record ClientIpSources =
  right_most_x_forwarded_for :: "IpAddr option"
  connection_info_ip :: "IpAddr option"

datatype PeerIpResolutionError = MissingRightMostXForwardedForIp | MissingClientIp

definition resolve_peer_ip_without_reverse_proxy :: "ClientIpSources \<Rightarrow> (PeerIpResolutionError, IpAddr) result" where
  "resolve_peer_ip_without_reverse_proxy remote_client_ip =
     (case connection_info_ip remote_client_ip of Some ip \<Rightarrow> Inr ip | None \<Rightarrow> Inl MissingClientIp)"

definition resolve_peer_ip_on_reverse_proxy :: "ClientIpSources \<Rightarrow> (PeerIpResolutionError, IpAddr) result" where
  "resolve_peer_ip_on_reverse_proxy remote_client_ip =
     (case right_most_x_forwarded_for remote_client_ip of
        Some ip \<Rightarrow> Inr ip
      | None \<Rightarrow> Inl MissingRightMostXForwardedForIp)"

definition peer_ip_resolver_invoke :: "bool \<Rightarrow> ClientIpSources \<Rightarrow> (PeerIpResolutionError, IpAddr) result" where
  "peer_ip_resolver_invoke behind_proxy client_ip_sources =
     (if behind_proxy then resolve_peer_ip_on_reverse_proxy client_ip_sources
      else resolve_peer_ip_without_reverse_proxy client_ip_sources)"

end
