(* ===== verification/Bencode_Roundtrip.thy ===== *)
theory Bencode_Roundtrip
  imports Bencode
begin

text \<open>
  Decoding inverts encoding.
\<close>

section \<open>Numbers are read back\<close>

definition digit_byte :: "nat \<Rightarrow> u8" where
  "digit_byte d = of_nat (48 + d)"

lemma byte_of_digit: "d < 10 \<Longrightarrow> byte_of (digit_char d) = digit_byte d"
  unfolding byte_of_def digit_char_def digit_byte_def
  by (subst of_nat_of_char [symmetric]) (simp only: of_char_of, simp)

lemma unat_digit_byte: "d < 10 \<Longrightarrow> unat (digit_byte d) = 48 + d"
  unfolding digit_byte_def by (subst unat_of_nat) simp

lemma is_digit_byte_digit: "d < 10 \<Longrightarrow> is_digit_byte (digit_byte d)"
  by (simp add: is_digit_byte_def BYTE_LEN_LOW_def BYTE_LEN_HIGH_def byte_of_def word_le_nat_alt unat_digit_byte)

lemma digits_as_bytes:
  "list_all is_digit_byte (as_bytes (nat_to_string n)) \<and>
   foldl (\<lambda>n b. 10 * n + (unat b - 48)) 0 (as_bytes (nat_to_string n)) = n"
proof (induction n rule: nat_to_string.induct)
  case (1 n)
  show ?case
  proof (cases "n < 10")
    case True
    then have "nat_to_string n = [digit_char n]"
      by (simp add: nat_to_string.simps)
    then show ?thesis
      using True by (simp add: as_bytes_def byte_of_digit is_digit_byte_digit unat_digit_byte)
  next
    case False
    then have "nat_to_string n = nat_to_string (n div 10) @ [digit_char (n mod 10)]"
      by (subst nat_to_string.simps) simp
    then show ?thesis
      using 1 [OF False] by (simp add: as_bytes_def byte_of_digit is_digit_byte_digit unat_digit_byte)
  qed
qed

lemma as_bytes_Nil_iff [simp]: "as_bytes s = [] \<longleftrightarrow> s = []"
  by (simp add: as_bytes_def)

lemma parse_digits_nat [simp]: "parse_digits (as_bytes (nat_to_string n)) = Some n"
  by (simp add: parse_digits_def digits_as_bytes)

lemma nat_to_string_head:
  obtains d ds where "as_bytes (nat_to_string n) = digit_byte d # ds" "d < 10" "d = 0 \<longrightarrow> ds = []"
proof -
  have "\<exists>d ds. as_bytes (nat_to_string n) = digit_byte d # ds \<and> d < 10 \<and> (n = 0 \<longrightarrow> ds = []) \<and> (d = 0 \<longrightarrow> n = 0)"
  proof (induction n rule: nat_to_string.induct)
    case (1 n)
    show ?case
    proof (cases "n < 10")
      case True
      then show ?thesis
        by (auto simp: nat_to_string.simps as_bytes_def byte_of_digit intro!: exI [of _ n])
    next
      case False
      then have "nat_to_string n = nat_to_string (n div 10) @ [digit_char (n mod 10)]" "n div 10 \<noteq> 0"
        by (subst nat_to_string.simps; simp) (use False in \<open>simp add: div_eq_0_iff\<close>)
      then show ?thesis
        using 1 [OF False] False by (auto simp: as_bytes_def)
    qed
  qed
  then show ?thesis
    using that by blast
qed

lemma symbol_bytes:
  "byte_of (CHR ''-'') = 45" "byte_of (CHR ''+'') = 43" "byte_of (CHR ''0'') = digit_byte 0"
  "BEN_END = 101" "BYTE_LEN_END = 58"
  by (simp_all add: byte_of_def digit_byte_def BEN_END_def BYTE_LEN_END_def)

lemma digit_byte_neq: "d < 10 \<Longrightarrow> digit_byte d \<notin> {43, 45, 58, 101}"
  using unat_digit_byte [of d] by auto

lemma digit_byte_eq: "d < 10 \<Longrightarrow> d' < 10 \<Longrightarrow> digit_byte d = digit_byte d' \<longleftrightarrow> d = d'"
  by (metis unat_digit_byte add_left_cancel)

lemma is_digit_byte_neq: "is_digit_byte b \<Longrightarrow> b \<notin> {43, 45, 58, 101}"
  by (auto simp: is_digit_byte_def BYTE_LEN_LOW_def BYTE_LEN_HIGH_def byte_of_def)

lemma digits_no_delimiter: "b \<in> {43, 45, 58, 101} \<Longrightarrow> b \<notin> set (as_bytes (nat_to_string n))"
  using digits_as_bytes [of n] is_digit_byte_neq by (auto simp: list_all_iff)

text \<open>A number between the position and the delimiter is read when its text has the canonical form.\<close>

definition canonical_int :: "u8 list \<Rightarrow> i64 \<Rightarrow> bool" where
  "canonical_int ds n \<longleftrightarrow>
     parse_i64 ds = Some n \<and>
     \<not> (1 < length ds \<and> ds ! 0 = byte_of (CHR ''-'') \<and> ds ! 1 = byte_of (CHR ''0'')) \<and>
     \<not> (1 < length ds \<and> ds ! 0 = byte_of (CHR ''0''))"

lemma decode_int_canonical:
  assumes "drop pos bytes = ds @ delim # rest" and "delim \<notin> set ds" and "canonical_int ds n"
  shows "decode_int bytes pos delim = Decoded (n, pos + length ds + 1)"
proof -
  have "pos \<le> length bytes"
    using assms(1) by (cases "pos \<le> length bytes") simp_all
  moreover have "takeWhile (\<lambda>n. n \<noteq> delim) (drop pos bytes) = ds"
    unfolding assms(1) using assms(2) by (subst takeWhile_append2) auto
  ultimately show ?thesis
    using assms(3) unfolding decode_int_def Let_def canonical_int_def by (auto simp: assms(1))
qed

lemma canonical_nat: "n < 2 ^ 63 \<Longrightarrow> canonical_int (as_bytes (nat_to_string n)) (of_nat n)"
proof -
  assume n: "n < 2 ^ 63"
  obtain d ds where d: "as_bytes (nat_to_string n) = digit_byte d # ds" "d < 10" "d = 0 \<longrightarrow> ds = []"
    by (rule nat_to_string_head [of n])
  have "digit_byte d \<noteq> 45" "digit_byte d \<noteq> 43"
    using digit_byte_neq [OF d(2)] by auto
  moreover have "ds \<noteq> [] \<Longrightarrow> digit_byte d \<noteq> digit_byte 0"
    using d(2,3) digit_byte_eq [of d 0] by auto
  ultimately show ?thesis
    using n parse_digits_nat [of n] unfolding d(1) canonical_int_def symbol_bytes
    by (auto simp: parse_i64_def symbol_bytes)
qed

lemma canonical_i64: "canonical_int (as_bytes (i64_to_string n)) n"
proof (cases "sint n < 0")
  case True
  let ?m = "nat (- sint n)"
  obtain d ds where d: "as_bytes (nat_to_string ?m) = digit_byte d # ds" "d < 10" "d = 0 \<longrightarrow> ds = []"
    by (rule nat_to_string_head [of ?m])
  have "d \<noteq> 0"
  proof
    assume "d = 0"
    then have "parse_digits [digit_byte 0] = Some ?m"
      using d parse_digits_nat [of ?m] by simp
    then show False
      using True by (simp add: parse_digits_def unat_digit_byte split: if_splits)
  qed
  then have "digit_byte d \<noteq> digit_byte 0"
    using d(2) digit_byte_eq [of d 0] by simp
  moreover have "?m \<le> 2 ^ 63"
    using sint_ge [of n] by simp
  moreover have "- of_nat ?m = n"
    using True by simp
  moreover have "as_bytes (i64_to_string n) = 45 # as_bytes (nat_to_string ?m)"
    using True by (simp add: i64_to_string_def as_bytes_def byte_of_def)
  ultimately show ?thesis
    using parse_digits_nat [of ?m] by (simp add: canonical_int_def symbol_bytes parse_i64_def d(1) digit_byte_def)
next
  case False
  have "sint n < 2 ^ 63"
    using sint_less [of n] by simp
  then have "canonical_int (as_bytes (nat_to_string (nat (sint n)))) (of_nat (nat (sint n)))"
    using False by (intro canonical_nat) simp
  moreover have "of_nat (nat (sint n)) = n"
    using False by simp
  ultimately show ?thesis
    using False by (simp add: i64_to_string_def)
qed

section \<open>Values\<close>

text \<open>The value without the bytes it was read from.\<close>

fun strip_buffers :: "BencodeRef \<Rightarrow> BencodeMut" where
  "strip_buffers (RefInt n _) = MutInt n"
| "strip_buffers (RefBytes xs _) = MutBytes xs"
| "strip_buffers (RefList xs _) = MutList (map strip_buffers xs)"
| "strip_buffers (RefDict es _) = MutDict (map (\<lambda>(k, v). (k, strip_buffers v)) es)"

text \<open>
  The values of nesting at most \<open>d\<close>: the dictionaries are ordered maps, and the lengths fit into
  a signed 64-bit integer.
\<close>

fun encodable :: "nat \<Rightarrow> BencodeMut \<Rightarrow> bool" where
  "encodable 0 v = False"
| "encodable (Suc d) (MutInt n) = True"
| "encodable (Suc d) (MutBytes xs) = (length xs < 2 ^ 63)"
| "encodable (Suc d) (MutList xs) = list_all (encodable d) xs"
| "encodable (Suc d) (MutDict es) = (bt_inv es \<and> list_all (\<lambda>(k, v). length k < 2 ^ 63 \<and> encodable d v) es)"

lemma encode_append:
  "encode v (ys @ bytes) = ys @ encode v bytes"
  "encode_items xs (ys @ bytes) = ys @ encode_items xs bytes"
  "encode_entries es (ys @ bytes) = ys @ encode_entries es bytes"
  by (induction v bytes and xs bytes and es bytes rule: encode_encode_items_encode_entries.induct)
     (simp_all add: encode_int_def encode_bytes_def)

lemma encode_simps:
  "encode (MutInt n) [] = INT_START # as_bytes (i64_to_string n) @ [BEN_END]"
  "encode (MutBytes bs) [] = as_bytes (nat_to_string (length bs)) @ BYTE_LEN_END # bs"
  "encode (MutList xs) [] = LIST_START # encode_items xs [] @ [BEN_END]"
  "encode (MutDict es) [] = DICT_START # encode_entries (sort_key fst es) [] @ [BEN_END]"
  "encode_items (x # xs) [] = encode x [] @ encode_items xs []"
  "encode_entries ((k, v) # es) [] =
     as_bytes (nat_to_string (length k)) @ BYTE_LEN_END # k @ encode v [] @ encode_entries es []"
proof -
  show "encode_items (x # xs) [] = encode x [] @ encode_items xs []"
    using encode_append(2) [of xs "encode x []" "[]"] by simp
  show "encode_entries ((k, v) # es) [] =
     as_bytes (nat_to_string (length k)) @ BYTE_LEN_END # k @ encode v [] @ encode_entries es []"
    using encode_append(3) [of es "encode v (encode_bytes k [])" "[]"] encode_append(1) [of v "encode_bytes k []" "[]"]
    by (simp add: encode_bytes_def)
qed (use encode_append(2) [of xs "[LIST_START]" "[]"] encode_append(3) [of "sort_key fst es" "[DICT_START]" "[]"]
     in \<open>simp_all add: encode_int_def encode_bytes_def\<close>)

declare encode.simps [simp del] encode_items.simps(2) [simp del] encode_entries.simps(2) [simp del]

lemma sort_key_bt_inv: "bt_inv es \<Longrightarrow> sort_key fst es = es"
  by (simp add: bt_inv_def sort_key_id_if_sorted strict_sorted_imp_sorted)

lemma start_bytes:
  "INT_START \<noteq> LIST_START" "INT_START \<noteq> DICT_START" "LIST_START \<noteq> DICT_START" "\<not> is_digit_byte INT_START"
  "\<not> is_digit_byte LIST_START" "\<not> is_digit_byte DICT_START" "\<not> is_digit_byte BEN_END"
  "INT_START \<noteq> BEN_END" "LIST_START \<noteq> BEN_END" "DICT_START \<noteq> BEN_END"
  by (simp_all add: INT_START_def LIST_START_def DICT_START_def BEN_END_def byte_of_def is_digit_byte_def
      BYTE_LEN_LOW_def BYTE_LEN_HIGH_def)

lemma digits_head: "\<exists>b bs. as_bytes (nat_to_string n) = b # bs \<and> is_digit_byte b"
  using digits_as_bytes [of n] by (cases "as_bytes (nat_to_string n)") auto

lemma encode_head: "\<exists>b bs. encode v [] = b # bs \<and> b \<noteq> BEN_END"
proof (cases v)
  case (MutBytes bs)
  obtain b ds where "as_bytes (nat_to_string (length bs)) = b # ds" "is_digit_byte b"
    using digits_head by blast
  then show ?thesis
    using start_bytes(7) by (auto simp: MutBytes encode_simps)
qed (simp_all add: encode_simps start_bytes)

section \<open>Decoding what was encoded\<close>

lemma peek_drop: "drop pos bytes = b # bs \<Longrightarrow> checked_peek bytes pos = Some (Decoded b)"
proof -
  assume d: "drop pos bytes = b # bs"
  then have "pos < length bytes"
    by (cases "pos < length bytes") simp_all
  then show ?thesis
    using d nth_via_drop [OF d] by (simp add: checked_peek_def peek_byte_def)
qed

lemma drop_shift: "drop pos bytes = xs @ rest \<Longrightarrow> drop (pos + length xs) bytes = rest"
  by (metis add.commute append_eq_conv_conj drop_drop)

lemma drop_length: "drop pos bytes = xs @ rest \<Longrightarrow> xs \<noteq> [] \<Longrightarrow> pos + length xs + length rest = length bytes"
  using length_drop [of pos bytes] by (cases "pos \<le> length bytes") auto

lemma slice_drop: "drop pos bytes = xs @ rest \<Longrightarrow> slice bytes pos (pos + length xs) = xs"
  by (simp add: slice_def)

lemma sint_of_length: "n < 2 ^ 63 \<Longrightarrow> sint (of_nat n :: i64) = int n"
  by (simp add: signed_of_nat signed_take_bit_int_eq_self)

lemma decode_bytes_encoded:
  assumes "drop pos bytes = as_bytes (nat_to_string (length k)) @ BYTE_LEN_END # k @ rest" and "length k < 2 ^ 63"
  shows "decode_bytes bytes pos = Decoded (k, pos + length (as_bytes (nat_to_string (length k))) + 1 + length k)"
proof -
  let ?ds = "as_bytes (nat_to_string (length k))"
  have "BYTE_LEN_END \<notin> set ?ds"
    by (rule digits_no_delimiter) (simp add: symbol_bytes)
  then have int: "decode_int bytes pos BYTE_LEN_END = Decoded (of_nat (length k), pos + length ?ds + 1)"
    using decode_int_canonical [OF assms(1) _ canonical_nat [OF assms(2)]] by simp
  have rest: "drop (pos + length ?ds + 1) bytes = k @ rest"
    using drop_shift [of pos bytes "?ds @ [BYTE_LEN_END]" "k @ rest"] assms(1) by (simp add: add.assoc)
  have "pos + length ?ds + 1 \<le> length bytes"
    using drop_length [of pos bytes "?ds @ [BYTE_LEN_END]" "k @ rest"] assms(1) by simp
  then show ?thesis
    using rest unfolding decode_bytes_def int by (simp add: Let_def sint_of_length [OF assms(2)])
qed

text \<open>Reading back one value, for every value of the given nesting.\<close>

definition reads_back :: "u8 list \<Rightarrow> BDecodeOpt \<Rightarrow> nat \<Rightarrow> bool" where
  "reads_back bytes opts d \<longleftrightarrow>
     (\<forall>v pos rest depth fuel. encodable d v \<longrightarrow> drop pos bytes = encode v [] @ rest \<longrightarrow>
        depth + d \<le> max_recursion opts \<longrightarrow> 2 * (length bytes - pos) + 1 \<le> fuel \<longrightarrow>
        (\<exists>r. decode fuel bytes pos opts depth = Some (Decoded (r, pos + length (encode v []))) \<and>
             strip_buffers r = v \<and> ref_buffer r = encode v []))"

lemma reads_backD:
  assumes "reads_back bytes opts d" "encodable d v" "drop pos bytes = encode v [] @ rest"
    "depth + d \<le> max_recursion opts" "2 * (length bytes - pos) + 1 \<le> fuel"
  obtains r where "decode fuel bytes pos opts depth = Some (Decoded (r, pos + length (encode v [])))"
    "strip_buffers r = v" "ref_buffer r = encode v []"
  using assms unfolding reads_back_def by blast

lemma list_loop_reads_back:
  assumes "reads_back bytes opts d" and "depth + 1 + d \<le> max_recursion opts"
  shows "list_all (encodable d) xs \<Longrightarrow> drop pos bytes = encode_items xs [] @ BEN_END # rest \<Longrightarrow>
    2 * (length bytes - pos) + 2 \<le> fuel \<Longrightarrow>
    \<exists>rs. decode_list_loop fuel bytes opts depth acc pos = Some (Decoded (acc @ rs, pos + length (encode_items xs []) + 1)) \<and>
         map strip_buffers rs = xs"
proof (induction xs arbitrary: fuel acc pos)
  case Nil
  then show ?case
    by (cases fuel) (simp_all add: peek_drop)
next
  case (Cons x xs)
  obtain fuel' where fuel: "fuel = Suc fuel'"
    using Cons.prems(3) by (cases fuel) simp_all
  let ?e = "encode x []"
  have split: "drop pos bytes = ?e @ encode_items xs [] @ BEN_END # rest"
    using Cons.prems(2) by (simp add: encode_simps)
  obtain b bs where head: "?e = b # bs" "b \<noteq> BEN_END"
    using encode_head by blast
  then have more: "pos + length ?e + length (encode_items xs [] @ BEN_END # rest) = length bytes" "0 < length ?e"
    using drop_length [OF split] by simp_all
  have peek: "checked_peek bytes pos = Some (Decoded b)"
    using split head(1) by (simp add: peek_drop)
  obtain r where r: "decode fuel' bytes pos opts (depth + 1) = Some (Decoded (r, pos + length ?e))" "strip_buffers r = x"
  proof (rule reads_backD [OF assms(1) _ split assms(2)])
    show "encodable d x" "2 * (length bytes - pos) + 1 \<le> fuel'"
      using Cons.prems(1,3) fuel by simp_all
  qed
  have sub: "list_all (encodable d) xs"
    using Cons.prems(1) by simp
  have "2 * (length bytes - (pos + length ?e)) + 2 \<le> fuel'"
    using Cons.prems(3) more unfolding fuel by linarith
  from Cons.IH [OF sub drop_shift [OF split] this, of "acc @ [r]"] obtain rs where
    rs: "decode_list_loop fuel' bytes opts depth (acc @ [r]) (pos + length ?e) =
      Some (Decoded ((acc @ [r]) @ rs, pos + length ?e + length (encode_items xs []) + 1))" "map strip_buffers rs = xs"
    by blast
  have "decode_list_loop fuel bytes opts depth acc pos =
      Some (Decoded (acc @ r # rs, pos + length (encode_items (x # xs) []) + 1))"
    unfolding fuel decode_list_loop.simps peek and_then.simps r(1) if_not_P [OF head(2)] prod.case rs(1)
    by (simp add: encode_simps)
  then show ?case
    using r(2) rs(2) by force
qed

lemma bt_put_last: "\<forall>x \<in> fst ` set m. x < k \<Longrightarrow> bt_put k v m = m @ [(k, v)]"
  by (induction m) auto

lemma dict_loop_reads_back:
  assumes "reads_back bytes opts d" and "depth + 1 + d \<le> max_recursion opts"
  shows "list_all (\<lambda>(k, v). length k < 2 ^ 63 \<and> encodable d v) es \<Longrightarrow> sorted_wrt (<) (map fst acc @ map fst es) \<Longrightarrow>
    drop pos bytes = encode_entries es [] @ BEN_END # rest \<Longrightarrow> 2 * (length bytes - pos) + 2 \<le> fuel \<Longrightarrow>
    \<exists>rs. decode_dict_loop fuel bytes opts depth acc pos = Some (Decoded (acc @ rs, pos + length (encode_entries es []) + 1)) \<and>
         map (\<lambda>(k, v). (k, strip_buffers v)) rs = es"
proof (induction es arbitrary: fuel acc pos)
  case Nil
  then show ?case
    by (cases fuel) (simp_all add: peek_drop)
next
  case (Cons kv es)
  obtain k x where kv: "kv = (k, x)"
    by (cases kv)
  obtain fuel' where fuel: "fuel = Suc fuel'"
    using Cons.prems(4) by (cases fuel) simp_all
  let ?e = "encode x []" and ?ds = "as_bytes (nat_to_string (length k))"
  define val_pos where "val_pos = pos + length ?ds + 1 + length k"
  have key: "drop pos bytes = ?ds @ BYTE_LEN_END # k @ ?e @ encode_entries es [] @ BEN_END # rest"
    using Cons.prems(3) by (simp add: kv encode_simps)
  have small: "length k < 2 ^ 63" "encodable d x"
    using Cons.prems(1) by (simp_all add: kv)
  note decoded_key = decode_bytes_encoded [OF key small(1), folded val_pos_def]
  have split: "drop val_pos bytes = ?e @ encode_entries es [] @ BEN_END # rest"
    using drop_shift [of pos bytes "?ds @ BYTE_LEN_END # k"] key by (simp add: val_pos_def add.assoc)
  have more: "val_pos + length ?e + length (encode_entries es [] @ BEN_END # rest) = length bytes" "pos < val_pos"
    using drop_length [of pos bytes "?ds @ BYTE_LEN_END # k @ ?e"] key by (simp_all add: val_pos_def)
  obtain b ds where head: "?ds = b # ds" "is_digit_byte b"
    using digits_head by blast
  have peek: "checked_peek bytes pos = Some (Decoded b)" "b \<noteq> BEN_END"
    using key head start_bytes(7) by (auto simp: peek_drop)
  obtain r where r: "decode fuel' bytes val_pos opts (depth + 1) = Some (Decoded (r, val_pos + length ?e))" "strip_buffers r = x"
  proof (rule reads_backD [OF assms(1) small(2) split assms(2)])
    show "2 * (length bytes - val_pos) + 1 \<le> fuel'"
      using Cons.prems(4) fuel more(2) by simp
  qed
  have above: "\<forall>y \<in> fst ` set acc. y < k"
    using Cons.prems(2) by (auto simp: kv sorted_wrt_append)
  moreover have "acc \<noteq> [] \<Longrightarrow> \<not> k < fst (last acc)"
    using above last_in_set [of acc] less_asym by blast
  ultimately have order: "\<not> (case last_key acc of None \<Rightarrow> False | Some y \<Rightarrow> check_key_sort opts \<and> k < y)" "\<not> bt_contains_key acc k"
    by (auto simp: last_key_def bt_contains_key_def bt_get_def map_of_eq_None_iff)
  have sub: "list_all (\<lambda>(k, v). length k < 2 ^ 63 \<and> encodable d v) es"
    "sorted_wrt (<) (map fst (acc @ [(k, r)]) @ map fst es)"
    using Cons.prems(1,2) by (simp_all add: kv)
  have "2 * (length bytes - (val_pos + length ?e)) + 2 \<le> fuel'"
    using Cons.prems(4) more unfolding fuel by linarith
  from Cons.IH [OF sub drop_shift [OF split] this] obtain rs where
    rs: "decode_dict_loop fuel' bytes opts depth (acc @ [(k, r)]) (val_pos + length ?e) =
      Some (Decoded ((acc @ [(k, r)]) @ rs, val_pos + length ?e + length (encode_entries es []) + 1))"
      "map (\<lambda>(k, v). (k, strip_buffers v)) rs = es"
    by blast
  have "decode_dict_loop fuel bytes opts depth acc pos =
      Some (Decoded (acc @ (k, r) # rs, pos + length (encode_entries (kv # es) []) + 1))"
    unfolding fuel decode_dict_loop.simps peek(1) and_then.simps if_not_P [OF peek(2)] decoded_key prod.case
      if_not_P [OF order(1)] r(1) if_not_P [OF order(2)] bt_put_last [OF above] rs(1)
    by (simp add: kv encode_simps val_pos_def)
  then show ?case
    using r(2) rs(2) by (force simp: kv)
qed

lemma decode_step:
  assumes "drop pos bytes = e @ rest" and "e = b # bs" and "\<not> max_recursion opts \<le> depth"
  shows "b = INT_START \<Longrightarrow> decode_int bytes (pos + 1) BEN_END = Decoded (n, pos + length e) \<Longrightarrow>
      decode (Suc fuel) bytes pos opts depth = Some (Decoded (RefInt n e, pos + length e))"
    and "is_digit_byte b \<Longrightarrow> decode_bytes bytes pos = Decoded (xs, pos + length e) \<Longrightarrow>
      decode (Suc fuel) bytes pos opts depth = Some (Decoded (RefBytes xs e, pos + length e))"
    and "b = LIST_START \<Longrightarrow> decode_list_loop fuel bytes opts depth [] (pos + 1) = Some (Decoded (rs, pos + length e)) \<Longrightarrow>
      decode (Suc fuel) bytes pos opts depth = Some (Decoded (RefList rs e, pos + length e))"
    and "b = DICT_START \<Longrightarrow> decode_dict_loop fuel bytes opts depth [] (pos + 1) = Some (Decoded (es, pos + length e)) \<Longrightarrow>
      decode (Suc fuel) bytes pos opts depth = Some (Decoded (RefDict es e, pos + length e))"
proof -
  have peek: "checked_peek bytes pos = Some (Decoded b)"
    using assms(1,2) by (simp add: peek_drop)
  note slice = slice_drop [OF assms(1)]
  note neq = start_bytes(1,2,3) start_bytes(1,2,3) [symmetric]
  show "b = INT_START \<Longrightarrow> decode_int bytes (pos + 1) BEN_END = Decoded (n, pos + length e) \<Longrightarrow>
      decode (Suc fuel) bytes pos opts depth = Some (Decoded (RefInt n e, pos + length e))"
    using assms(3) by (simp add: peek slice del: One_nat_def add_Suc_right)
  show "is_digit_byte b \<Longrightarrow> decode_bytes bytes pos = Decoded (xs, pos + length e) \<Longrightarrow>
      decode (Suc fuel) bytes pos opts depth = Some (Decoded (RefBytes xs e, pos + length e))"
    using assms(3) start_bytes(4-6) by (auto simp: peek slice)
  show "b = LIST_START \<Longrightarrow> decode_list_loop fuel bytes opts depth [] (pos + 1) = Some (Decoded (rs, pos + length e)) \<Longrightarrow>
      decode (Suc fuel) bytes pos opts depth = Some (Decoded (RefList rs e, pos + length e))"
    using assms(3) neq by (simp add: peek slice del: One_nat_def add_Suc_right)
  show "b = DICT_START \<Longrightarrow> decode_dict_loop fuel bytes opts depth [] (pos + 1) = Some (Decoded (es, pos + length e)) \<Longrightarrow>
      decode (Suc fuel) bytes pos opts depth = Some (Decoded (RefDict es e, pos + length e))"
    using assms(3) neq by (simp add: peek slice del: One_nat_def add_Suc_right)
qed

lemma int_reads_back:
  assumes "drop pos bytes = encode (MutInt n) [] @ rest"
  shows "decode_int bytes (pos + 1) BEN_END = Decoded (n, pos + length (encode (MutInt n) []))"
proof -
  let ?ds = "as_bytes (i64_to_string n)"
  have "drop (pos + 1) bytes = ?ds @ BEN_END # rest"
    using drop_shift [of pos bytes "[INT_START]" "?ds @ BEN_END # rest"] assms by (simp add: encode_simps)
  moreover have "BEN_END \<notin> set ?ds"
    using digits_no_delimiter [of BEN_END] by (auto simp: i64_to_string_def as_bytes_def symbol_bytes byte_of_def)
  ultimately show ?thesis
    using decode_int_canonical [OF _ _ canonical_i64] by (simp add: encode_simps)
qed

lemma all_read_back: "reads_back bytes opts d"
proof (induction d)
  case 0
  show ?case
    by (simp add: reads_back_def)
next
  case (Suc d)
  show ?case
    unfolding reads_back_def
  proof (intro allI impI)
    fix v pos rest depth fuel
    assume v: "encodable (Suc d) v" and at: "drop pos bytes = encode v [] @ rest"
      and depth: "depth + Suc d \<le> max_recursion opts" and enough: "2 * (length bytes - pos) + 1 \<le> fuel"
    obtain fuel' where fuel: "fuel = Suc fuel'"
      using enough by (cases fuel) simp_all
    obtain b bs where head: "encode v [] = b # bs"
      using encode_head by blast
    have below: "\<not> max_recursion opts \<le> depth" "depth + 1 + d \<le> max_recursion opts"
      using depth by simp_all
    have len: "pos + length (encode v []) + length rest = length bytes"
      using drop_length [OF at] head by simp
    have next_pos: "drop (pos + 1) bytes = bs @ rest"
      using drop_shift [of pos bytes "[b]" "bs @ rest"] at head by simp
    have enough': "2 * (length bytes - (pos + 1)) + 2 \<le> fuel'"
      using enough len head unfolding fuel by simp
    note step = decode_step [OF at head below(1)]
    show "\<exists>r. decode fuel bytes pos opts depth = Some (Decoded (r, pos + length (encode v []))) \<and>
              strip_buffers r = v \<and> ref_buffer r = encode v []"
    proof (cases v)
      case (MutInt n)
      have "b = INT_START"
        using head by (simp add: MutInt encode_simps)
      from step(1) [OF this] int_reads_back at show ?thesis
        by (simp add: fuel MutInt)
    next
      case (MutBytes xs)
      have "is_digit_byte b"
        using head digits_head [of "length xs"] by (auto simp: MutBytes encode_simps)
      from step(2) [OF this, of xs fuel'] at v show ?thesis
        using decode_bytes_encoded [of pos bytes xs rest] by (simp add: fuel MutBytes encode_simps add.assoc)
    next
      case (MutList xs)
      have b: "b = LIST_START" "bs = encode_items xs [] @ [BEN_END]"
        using head by (simp_all add: MutList encode_simps)
      obtain rs where rs: "decode_list_loop fuel' bytes opts depth [] (pos + 1) = Some (Decoded (rs, pos + length (encode v [])))"
        "map strip_buffers rs = xs"
        using list_loop_reads_back [OF Suc below(2), of xs "pos + 1" rest fuel' "[]"] v next_pos enough'
        by (auto simp: MutList encode_simps b)
      from step(3) [OF b(1) rs(1)] rs(2) show ?thesis
        by (simp add: fuel MutList)
    next
      case (MutDict es)
      have sorted: "bt_inv es" "sort_key fst es = es" and es: "list_all (\<lambda>(k, v). length k < 2 ^ 63 \<and> encodable d v) es"
        using v by (simp_all add: MutDict sort_key_bt_inv)
      have b: "b = DICT_START" "bs = encode_entries es [] @ [BEN_END]"
        using head sorted(2) by (simp_all add: MutDict encode_simps)
      obtain rs where rs: "decode_dict_loop fuel' bytes opts depth [] (pos + 1) = Some (Decoded (rs, pos + length (encode v [])))"
        "map (\<lambda>(k, v). (k, strip_buffers v)) rs = es"
        using dict_loop_reads_back [OF Suc below(2) es, of "[]" "pos + 1" rest fuel'] next_pos enough' sorted
        by (auto simp: MutDict encode_simps b bt_inv_def)
      from step(4) [OF b(1) rs(1)] rs(2) show ?thesis
        by (simp add: fuel MutDict)
    qed
  qed
qed

lemma decode_encode:
  assumes "encodable (max_recursion opts) v"
  shows "\<exists>r. BencodeRef_decode (BencodeMut_encode v) opts = Some (Decoded r) \<and>
             strip_buffers r = v \<and> ref_buffer r = BencodeMut_encode v"
proof -
  let ?bytes = "encode v []"
  obtain r where "decode (2 * length ?bytes + 1) ?bytes 0 opts 0 = Some (Decoded (r, 0 + length ?bytes))"
    "strip_buffers r = v" "ref_buffer r = ?bytes"
    using reads_backD [OF all_read_back assms, of 0 ?bytes "[]" 0 opts "2 * length ?bytes + 1"] by auto
  then show ?thesis
    by (simp add: BencodeRef_decode_def BencodeMut_encode_def)
qed

text \<open>
  C17: A value whose dictionaries are ordered maps, whose lengths fit a signed 64-bit integer and whose
  nesting is within the decoder's limit survives encoding and decoding: the decoder accepts the
  encoded bytes under any options, returns the same value, and the buffer of the value is the whole
  input.
\<close>
theorem bencode_roundtrip:
  assumes "encodable (max_recursion opts) v"
  shows "\<exists>r. BencodeRef_decode (BencodeMut_encode v) opts = Some (Decoded r) \<and>
             strip_buffers r = v \<and> ref_buffer r = BencodeMut_encode v"
  by (rule decode_encode [OF assms])

definition sample_bencode :: BencodeMut where
  "sample_bencode = MutDict [(as_bytes ''files'', MutList [MutInt (-12), MutBytes [0, 255]]), (as_bytes ''peers'', MutDict [])]"

theorem bencode_roundtrip_witness:
  "\<exists>r. BencodeRef_decode (BencodeMut_encode sample_bencode) BDecodeOpt_default = Some (Decoded r) \<and>
       strip_buffers r = sample_bencode \<and> ref_buffer r = BencodeMut_encode sample_bencode"
proof (rule bencode_roundtrip)
  have "encodable (Suc (Suc (Suc 47))) sample_bencode"
    unfolding sample_bencode_def encodable.simps list.pred_inject case_prod_conv
    by (simp add: bt_inv_def as_bytes_def byte_of_def)
  then show "encodable (max_recursion BDecodeOpt_default) sample_bencode"
    by (simp add: BDecodeOpt_default_def)
qed

section \<open>What the decoder accepts\<close>

text \<open>The value of a computation, if it has one, satisfies the predicate.\<close>

definition yields :: "('a \<Rightarrow> bool) \<Rightarrow> ('a \<times> usize) outcome option \<Rightarrow> bool" where
  "yields P r = (\<forall>x n. r = Some (Decoded (x, n)) \<longrightarrow> P x)"

lemma yields_simps [simp]:
  "yields P None" "yields P (Some (Failed e))" "yields P (Some Panicked)" "yields P (Some (Decoded (x, n))) = P x"
  by (simp_all add: yields_def)

lemma yields_and_then:
  assumes "yields P r" and "\<And>x n. P x \<Longrightarrow> yields Q (f (x, n))"
  shows "yields Q (and_then r f)"
  using assms(1) by (cases "(r, f)" rule: and_then.cases) (auto intro: assms(2))

lemma yields_if: "(c \<Longrightarrow> yields P r) \<Longrightarrow> (\<not> c \<Longrightarrow> yields P r') \<Longrightarrow> yields P (if c then r else r')"
  by simp

lemma yields_peek: "(\<And>b. yields P (f b)) \<Longrightarrow> yields P (and_then (checked_peek bytes pos) f)"
  by (simp add: checked_peek_def peek_byte_def)

lemma decode_bytes_yields: "yields (\<lambda>xs. length xs \<le> length bytes) (Some (decode_bytes bytes pos))"
  by (cases "decode_int bytes pos BYTE_LEN_END") (auto simp: yields_def decode_bytes_def Let_def split: if_splits)

abbreviation typed_value :: "nat \<Rightarrow> BencodeRef \<Rightarrow> bool" where
  "typed_value d r \<equiv> encodable d (strip_buffers r)"

definition typed_entries :: "nat \<Rightarrow> (u8 list \<times> BencodeRef) list \<Rightarrow> bool" where
  "typed_entries d es \<longleftrightarrow> bt_inv es \<and> list_all (\<lambda>(k, v). length k < 2 ^ 63 \<and> typed_value d v) es"

lemma typed_entries_put:
  "typed_entries d es \<Longrightarrow> length k < 2 ^ 63 \<Longrightarrow> typed_value d v \<Longrightarrow> typed_entries d (bt_put k v es)"
  unfolding typed_entries_def by (induction es) (auto simp: bt_inv_put bt_inv_Cons set_bt_put_keys)

lemma decode_yields:
  assumes "length bytes < 2 ^ 63"
  shows "(\<forall>pos depth. yields (typed_value (max_recursion opts - depth)) (decode fuel bytes pos opts depth)) \<and>
    (\<forall>pos depth acc. list_all (typed_value (max_recursion opts - Suc depth)) acc \<longrightarrow>
      yields (list_all (typed_value (max_recursion opts - Suc depth))) (decode_list_loop fuel bytes opts depth acc pos)) \<and>
    (\<forall>pos depth acc. typed_entries (max_recursion opts - Suc depth) acc \<longrightarrow>
      yields (typed_entries (max_recursion opts - Suc depth)) (decode_dict_loop fuel bytes opts depth acc pos))"
  (is "?D fuel \<and> ?L fuel \<and> ?M fuel")
proof (induction fuel)
  case (Suc fuel)
  then have D: "?D fuel" and L: "?L fuel" and M: "?M fuel"
    by auto
  have text_yields: "yields (\<lambda>xs. length xs < 2 ^ 63) (Some (decode_bytes bytes pos))" for pos
    using decode_bytes_yields [of bytes pos] assms unfolding yields_def by fastforce
  have any: "yields (\<lambda>_. True) r" for r :: "(i64 \<times> usize) outcome option"
    by (simp add: yields_def)
  have "?D (Suc fuel)"
  proof (intro allI)
    fix pos depth
    obtain d where d: "max_recursion opts - depth = Suc d" "max_recursion opts - Suc depth = d" if "\<not> max_recursion opts \<le> depth"
      using that by (metis Suc_diff_Suc not_le)
    show "yields (typed_value (max_recursion opts - depth)) (decode (Suc fuel) bytes pos opts depth)"
      unfolding decode.simps
      by (intro yields_if yields_peek yields_and_then [OF any] yields_and_then [OF text_yields]
          yields_and_then [OF L [rule_format]] yields_and_then [OF M [rule_format]])
         (use d in \<open>simp_all add: typed_entries_def bt_inv_def list_all_iff case_prod_unfold comp_def\<close>)
  qed
  moreover have "?L (Suc fuel)"
    unfolding decode_list_loop.simps
    by (intro allI impI yields_peek yields_if yields_and_then [OF D [rule_format]]) (use L in auto)
  moreover have "?M (Suc fuel)"
    unfolding decode_dict_loop.simps case_prod_unfold
    by (intro allI impI yields_peek yields_if yields_and_then [OF text_yields] yields_and_then [OF D [rule_format]])
       (use M typed_entries_put in simp_all)
  ultimately show ?case by blast
qed simp

text \<open>
  C30: Every value the decoder returns is well-typed: its nesting is within the limit of the options,
  its dictionaries have strictly increasing keys, and its lengths fit a signed 64-bit integer, whatever
  the bytes were.
\<close>
theorem decode_typed:
  assumes "BencodeRef_decode bytes opts = Some (Decoded r)" and "length bytes < 2 ^ 63"
  shows "encodable (max_recursion opts) (strip_buffers r)"
proof -
  have "yields (typed_value (max_recursion opts - 0)) (decode (2 * length bytes + 1) bytes 0 opts 0)"
    using decode_yields [OF assms(2)] by blast
  then show ?thesis
    using assms(1) unfolding BencodeRef_decode_def
    by (cases "decode (2 * length bytes + 1) bytes 0 opts 0" rule: option.exhaust)
       (auto simp: yields_def elim!: and_then.elims split: if_splits)
qed

lemma decode_sample:
  "BencodeRef_decode (as_bytes ''li+5ee'') BDecodeOpt_default =
     Some (Decoded (RefList [RefInt 5 (as_bytes ''i+5e'')] (as_bytes ''li+5ee'')))"
proof -
  note unroll = decode.simps(2) [of "pred_numeral k" for k, folded numeral_eq_Suc]
    decode_list_loop.simps(2) [of "pred_numeral k" for k, folded numeral_eq_Suc]
  show ?thesis
    by (simp add: BencodeRef_decode_def as_bytes_def byte_of_def unroll BDecodeOpt_default_def checked_peek_def
        peek_byte_def INT_START_def LIST_START_def DICT_START_def BEN_END_def decode_int_def parse_i64_def
        parse_digits_def is_digit_byte_def BYTE_LEN_LOW_def BYTE_LEN_HIGH_def slice_def Let_def)
qed

theorem decode_typed_witness:
  "encodable (max_recursion BDecodeOpt_default)
     (strip_buffers (RefList [RefInt 5 (as_bytes ''i+5e'')] (as_bytes ''li+5ee'')))"
  by (rule decode_typed [OF decode_sample]) (simp add: as_bytes_def)

end
