(* ===== verification/Utf8.thy ===== *)
theory Utf8
  imports Tracker_Prelude
begin

text \<open>
  \<open>str::from_utf8\<close> of the standard library: sequences of one to four bytes, without overlong forms,
  surrogates and code points above \<open>10FFFF\<close>.
\<close>

definition continues :: "u8 \<Rightarrow> bool" where
  "continues b = (0x80 \<le> b \<and> b \<le> 0xBF)"

definition second_byte :: "u8 \<Rightarrow> u8 \<Rightarrow> bool" where
  "second_byte a b =
     (if a = 0xE0 then 0xA0 \<le> b \<and> b \<le> 0xBF
      else if a = 0xED then 0x80 \<le> b \<and> b \<le> 0x9F
      else if a = 0xF0 then 0x90 \<le> b \<and> b \<le> 0xBF
      else if a = 0xF4 then 0x80 \<le> b \<and> b \<le> 0x8F
      else continues b)"

fun valid_utf8 :: "u8 list \<Rightarrow> bool" where
  "valid_utf8 [] = True"
| "valid_utf8 [a] = (a < 0x80)"
| "valid_utf8 [a, b] =
     (if a < 0x80 then valid_utf8 [b] else 0xC2 \<le> a \<and> a \<le> 0xDF \<and> continues b)"
| "valid_utf8 [a, b, c] =
     (if a < 0x80 then valid_utf8 [b, c]
      else if a \<le> 0xDF then 0xC2 \<le> a \<and> continues b \<and> valid_utf8 [c]
      else a \<le> 0xEF \<and> second_byte a b \<and> continues c)"
| "valid_utf8 (a # b # c # d # bytes) =
     (if a < 0x80 then valid_utf8 (b # c # d # bytes)
      else if a \<le> 0xDF then 0xC2 \<le> a \<and> continues b \<and> valid_utf8 (c # d # bytes)
      else if a \<le> 0xEF then second_byte a b \<and> continues c \<and> valid_utf8 (d # bytes)
      else a \<le> 0xF4 \<and> second_byte a b \<and> continues c \<and> continues d \<and> valid_utf8 bytes)"

definition from_utf8 :: "u8 list \<Rightarrow> string option" where
  "from_utf8 bytes = (if valid_utf8 bytes then Some (map (\<lambda>b. char_of (unat b)) bytes) else None)"

end
