(* ===== verification/Bencode_Access.thy ===== *)
theory Bencode_Access
  imports Bencode_Roundtrip Utf8
begin

text \<open>
  Typed access to bencoded values (\<open>contrib/bencode/src/access\<close>). The trait \<open>BRefAccess\<close> is the
  record of its operations, implemented by the values that are built and by the values that are
  decoded. The locale \<open>bencode_access\<close> holds what the operations promise together, and the conversions
  with their errors are studied there once. The locale \<open>access_simulation\<close> relates two implementations.
\<close>

section \<open>Lists and dictionaries (access/list.rs, access/dict.rs)\<close>

text \<open>Positions out of range: \<open>get\<close> and \<open>remove\<close> give nothing, \<open>insert\<close> and the index operator panic.\<close>

definition list_get :: "usize \<Rightarrow> 'v list \<Rightarrow> 'v option" where
  "list_get index xs = (if index < length xs then Some (xs ! index) else None)"

definition list_remove :: "usize \<Rightarrow> 'v list \<Rightarrow> 'v option \<times> 'v list" where
  "list_remove index xs =
     (if length xs \<le> index then (None, xs) else (Some (xs ! index), take index xs @ drop (Suc index) xs))"

definition list_insert :: "usize \<Rightarrow> 'v \<Rightarrow> 'v list \<Rightarrow> 'v list option" where
  "list_insert index item xs =
     (if length xs < index then None else Some (take index xs @ item # drop index xs))"

definition list_push :: "'v \<Rightarrow> 'v list \<Rightarrow> 'v list" where
  "list_push item xs = xs @ [item]"

text \<open>A mutable borrow of an element or of an entry: what is left when the borrower has changed it.\<close>

definition list_get_mut :: "usize \<Rightarrow> ('v \<Rightarrow> 'v) \<Rightarrow> 'v list \<Rightarrow> 'v list option" where
  "list_get_mut index f xs = (if index < length xs then Some (xs[index := f (xs ! index)]) else None)"

record 'v BListIter =
  iter_index :: usize
  iter_access :: "'v list"

definition BListIter_next :: "'v BListIter \<Rightarrow> 'v option \<times> 'v BListIter" where
  "BListIter_next it =
     (let opt_next = list_get (iter_index it) (iter_access it)
      in (opt_next, if opt_next \<noteq> None then it\<lparr>iter_index := iter_index it + 1\<rparr> else it))"

definition list_into_iter :: "'v list \<Rightarrow> 'v BListIter" where
  "list_into_iter xs = \<lparr>iter_index = 0, iter_access = xs\<rparr>"

definition access_lookup :: "u8 list \<Rightarrow> (u8 list \<times> 'v) list \<Rightarrow> 'v option" where
  "access_lookup key dict = bt_get dict key"

definition access_insert :: "u8 list \<Rightarrow> 'v \<Rightarrow> (u8 list \<times> 'v) list \<Rightarrow> 'v option \<times> (u8 list \<times> 'v) list" where
  "access_insert key val dict = bt_insert key val dict"

definition access_remove :: "u8 list \<Rightarrow> (u8 list \<times> 'v) list \<Rightarrow> 'v option \<times> (u8 list \<times> 'v) list" where
  "access_remove key dict = bt_remove key dict"

definition access_lookup_mut :: "u8 list \<Rightarrow> ('v \<Rightarrow> 'v) \<Rightarrow> (u8 list \<times> 'v) list \<Rightarrow> (u8 list \<times> 'v) list option" where
  "access_lookup_mut key f dict = map_option (\<lambda>v. bt_put key (f v) dict) (bt_get dict key)"

section \<open>The trait and its implementations (access/bencode.rs, bencode\_mut.rs, bencode\_ref.rs)\<close>

datatype 'v RefKind = KindInt i64 | KindBytes "u8 list" | KindList "'v list" | KindDict "(u8 list \<times> 'v) list"

record 'b BRefAccess =
  access_kind :: "'b \<Rightarrow> 'b RefKind"
  access_str :: "'b \<Rightarrow> string option"
  access_int :: "'b \<Rightarrow> i64 option"
  access_bytes :: "'b \<Rightarrow> u8 list option"
  access_list :: "'b \<Rightarrow> 'b list option"
  access_dict :: "'b \<Rightarrow> (u8 list \<times> 'b) list option"

fun BencodeMut_kind :: "BencodeMut \<Rightarrow> BencodeMut RefKind" where
  "BencodeMut_kind (MutInt n) = KindInt n"
| "BencodeMut_kind (MutBytes n) = KindBytes n"
| "BencodeMut_kind (MutList n) = KindList n"
| "BencodeMut_kind (MutDict n) = KindDict n"

definition BencodeMut_int :: "BencodeMut \<Rightarrow> i64 option" where
  "BencodeMut_int v = (case v of MutInt n \<Rightarrow> Some n | _ \<Rightarrow> None)"

definition BencodeMut_bytes :: "BencodeMut \<Rightarrow> u8 list option" where
  "BencodeMut_bytes v = (case v of MutBytes n \<Rightarrow> Some n | _ \<Rightarrow> None)"

definition BencodeMut_str :: "BencodeMut \<Rightarrow> string option" where
  "BencodeMut_str v = Option.bind (BencodeMut_bytes v) from_utf8"

definition BencodeMut_list :: "BencodeMut \<Rightarrow> BencodeMut list option" where
  "BencodeMut_list v = (case v of MutList n \<Rightarrow> Some n | _ \<Rightarrow> None)"

definition BencodeMut_dict :: "BencodeMut \<Rightarrow> (u8 list \<times> BencodeMut) list option" where
  "BencodeMut_dict v = (case v of MutDict n \<Rightarrow> Some n | _ \<Rightarrow> None)"

definition BencodeMut_access :: "BencodeMut BRefAccess" where
  "BencodeMut_access =
     \<lparr>access_kind = BencodeMut_kind, access_str = BencodeMut_str, access_int = BencodeMut_int,
      access_bytes = BencodeMut_bytes, access_list = BencodeMut_list, access_dict = BencodeMut_dict\<rparr>"

text \<open>A mutable borrow of the list or the dictionary: the value after the borrower is done with it.\<close>

definition list_mut :: "(BencodeMut list \<Rightarrow> 'r \<times> BencodeMut list) \<Rightarrow> BencodeMut \<Rightarrow> ('r \<times> BencodeMut) option" where
  "list_mut f v =
     (case v of MutList n \<Rightarrow> (let (r, n') = f n in Some (r, MutList n')) | _ \<Rightarrow> None)"

definition dict_mut ::
  "((u8 list \<times> BencodeMut) list \<Rightarrow> 'r \<times> (u8 list \<times> BencodeMut) list) \<Rightarrow> BencodeMut \<Rightarrow> ('r \<times> BencodeMut) option" where
  "dict_mut f v =
     (case v of MutDict n \<Rightarrow> (let (r, n') = f n in Some (r, MutDict n')) | _ \<Rightarrow> None)"

fun BencodeRef_kind :: "BencodeRef \<Rightarrow> BencodeRef RefKind" where
  "BencodeRef_kind (RefInt n _) = KindInt n"
| "BencodeRef_kind (RefBytes n _) = KindBytes n"
| "BencodeRef_kind (RefList n _) = KindList n"
| "BencodeRef_kind (RefDict n _) = KindDict n"

definition BencodeRef_int :: "BencodeRef \<Rightarrow> i64 option" where
  "BencodeRef_int v = (case v of RefInt n _ \<Rightarrow> Some n | _ \<Rightarrow> None)"

definition bytes_ext :: "BencodeRef \<Rightarrow> u8 list option" where
  "bytes_ext v = (case v of RefBytes n _ \<Rightarrow> Some (drop 0 n) | _ \<Rightarrow> None)"

definition str_ext :: "BencodeRef \<Rightarrow> string option" where
  "str_ext v = Option.bind (bytes_ext v) from_utf8"

definition BencodeRef_list :: "BencodeRef \<Rightarrow> BencodeRef list option" where
  "BencodeRef_list v = (case v of RefList n _ \<Rightarrow> Some n | _ \<Rightarrow> None)"

definition BencodeRef_dict :: "BencodeRef \<Rightarrow> (u8 list \<times> BencodeRef) list option" where
  "BencodeRef_dict v = (case v of RefDict n _ \<Rightarrow> Some n | _ \<Rightarrow> None)"

definition BencodeRef_access :: "BencodeRef BRefAccess" where
  "BencodeRef_access =
     \<lparr>access_kind = BencodeRef_kind, access_str = str_ext, access_int = BencodeRef_int,
      access_bytes = bytes_ext, access_list = BencodeRef_list, access_dict = BencodeRef_dict\<rparr>"

section \<open>Conversions (access/convert.rs, error.rs)\<close>

datatype BencodeConvertError = MissingKey "u8 list" | WrongType "u8 list" string

definition ok_or :: "'a option \<Rightarrow> 'e \<Rightarrow> ('e, 'a) result" where
  "ok_or opt e = (case opt of Some x \<Rightarrow> Inr x | None \<Rightarrow> Inl e)"

text \<open>The trait \<open>BConvert\<close> leaves the error type to its implementation, which is the first argument.\<close>

definition convert_int :: "(BencodeConvertError \<Rightarrow> 'e) \<Rightarrow> 'b BRefAccess \<Rightarrow> 'b \<Rightarrow> u8 list \<Rightarrow> ('e, i64) result" where
  "convert_int handle_error A bencode error_key =
     ok_or (access_int A bencode) (handle_error (WrongType error_key ''Integer''))"

definition convert_bytes :: "(BencodeConvertError \<Rightarrow> 'e) \<Rightarrow> 'b BRefAccess \<Rightarrow> 'b \<Rightarrow> u8 list \<Rightarrow> ('e, u8 list) result" where
  "convert_bytes handle_error A bencode error_key =
     ok_or (access_bytes A bencode) (handle_error (WrongType error_key ''Bytes''))"

definition convert_str :: "(BencodeConvertError \<Rightarrow> 'e) \<Rightarrow> 'b BRefAccess \<Rightarrow> 'b \<Rightarrow> u8 list \<Rightarrow> ('e, string) result" where
  "convert_str handle_error A bencode error_key =
     ok_or (access_str A bencode) (handle_error (WrongType error_key ''UTF-8 Bytes''))"

definition convert_list :: "(BencodeConvertError \<Rightarrow> 'e) \<Rightarrow> 'b BRefAccess \<Rightarrow> 'b \<Rightarrow> u8 list \<Rightarrow> ('e, 'b list) result" where
  "convert_list handle_error A bencode error_key =
     ok_or (access_list A bencode) (handle_error (WrongType error_key ''List''))"

definition convert_dict ::
  "(BencodeConvertError \<Rightarrow> 'e) \<Rightarrow> 'b BRefAccess \<Rightarrow> 'b \<Rightarrow> u8 list \<Rightarrow> ('e, (u8 list \<times> 'b) list) result" where
  "convert_dict handle_error A bencode error_key =
     ok_or (access_dict A bencode) (handle_error (WrongType error_key ''Dictionary''))"

definition convert_lookup ::
  "(BencodeConvertError \<Rightarrow> 'e) \<Rightarrow> (u8 list \<times> 'b) list \<Rightarrow> u8 list \<Rightarrow> ('e, 'b) result" where
  "convert_lookup handle_error dictionary key =
     (case access_lookup key dictionary of
        Some n \<Rightarrow> Inr n
      | None \<Rightarrow> Inl (handle_error (MissingKey key)))"

definition lookup_and_convert ::
  "(BencodeConvertError \<Rightarrow> 'e) \<Rightarrow> ('b \<Rightarrow> u8 list \<Rightarrow> ('e, 'r) result) \<Rightarrow> (u8 list \<times> 'b) list \<Rightarrow> u8 list \<Rightarrow> ('e, 'r) result" where
  "lookup_and_convert handle_error convert dictionary key =
     (case convert_lookup handle_error dictionary key of
        Inl e \<Rightarrow> Inl e
      | Inr n \<Rightarrow> convert n key)"

definition lookup_and_convert_int ::
  "(BencodeConvertError \<Rightarrow> 'e) \<Rightarrow> 'b BRefAccess \<Rightarrow> (u8 list \<times> 'b) list \<Rightarrow> u8 list \<Rightarrow> ('e, i64) result" where
  "lookup_and_convert_int handle_error A dictionary key =
     lookup_and_convert handle_error (convert_int handle_error A) dictionary key"

definition lookup_and_convert_bytes ::
  "(BencodeConvertError \<Rightarrow> 'e) \<Rightarrow> 'b BRefAccess \<Rightarrow> (u8 list \<times> 'b) list \<Rightarrow> u8 list \<Rightarrow> ('e, u8 list) result" where
  "lookup_and_convert_bytes handle_error A dictionary key =
     lookup_and_convert handle_error (convert_bytes handle_error A) dictionary key"

definition lookup_and_convert_str ::
  "(BencodeConvertError \<Rightarrow> 'e) \<Rightarrow> 'b BRefAccess \<Rightarrow> (u8 list \<times> 'b) list \<Rightarrow> u8 list \<Rightarrow> ('e, string) result" where
  "lookup_and_convert_str handle_error A dictionary key =
     lookup_and_convert handle_error (convert_str handle_error A) dictionary key"

definition lookup_and_convert_list ::
  "(BencodeConvertError \<Rightarrow> 'e) \<Rightarrow> 'b BRefAccess \<Rightarrow> (u8 list \<times> 'b) list \<Rightarrow> u8 list \<Rightarrow> ('e, 'b list) result" where
  "lookup_and_convert_list handle_error A dictionary key =
     lookup_and_convert handle_error (convert_list handle_error A) dictionary key"

definition lookup_and_convert_dict ::
  "(BencodeConvertError \<Rightarrow> 'e) \<Rightarrow> 'b BRefAccess \<Rightarrow> (u8 list \<times> 'b) list \<Rightarrow> u8 list \<Rightarrow> ('e, (u8 list \<times> 'b) list) result" where
  "lookup_and_convert_dict handle_error A dictionary key =
     lookup_and_convert handle_error (convert_dict handle_error A) dictionary key"

text \<open>The trait \<open>BConvertExt\<close>: the same conversions on decoded values, which outlive the reader.\<close>

definition convert_bytes_ext :: "(BencodeConvertError \<Rightarrow> 'e) \<Rightarrow> BencodeRef \<Rightarrow> u8 list \<Rightarrow> ('e, u8 list) result" where
  "convert_bytes_ext handle_error bencode error_key =
     ok_or (bytes_ext bencode) (handle_error (WrongType error_key ''Bytes''))"

definition convert_str_ext :: "(BencodeConvertError \<Rightarrow> 'e) \<Rightarrow> BencodeRef \<Rightarrow> u8 list \<Rightarrow> ('e, string) result" where
  "convert_str_ext handle_error bencode error_key =
     ok_or (str_ext bencode) (handle_error (WrongType error_key ''UTF-8 Bytes''))"

definition lookup_and_convert_bytes_ext ::
  "(BencodeConvertError \<Rightarrow> 'e) \<Rightarrow> (u8 list \<times> BencodeRef) list \<Rightarrow> u8 list \<Rightarrow> ('e, u8 list) result" where
  "lookup_and_convert_bytes_ext handle_error dictionary key =
     lookup_and_convert handle_error (convert_bytes_ext handle_error) dictionary key"

definition lookup_and_convert_str_ext ::
  "(BencodeConvertError \<Rightarrow> 'e) \<Rightarrow> (u8 list \<times> BencodeRef) list \<Rightarrow> u8 list \<Rightarrow> ('e, string) result" where
  "lookup_and_convert_str_ext handle_error dictionary key =
     lookup_and_convert handle_error (convert_str_ext handle_error) dictionary key"

section \<open>Editing and iterating\<close>

lemma list_get_edited:
  "list_get i (list_push x xs) = (if i = length xs then Some x else list_get i xs)"
  "list_insert j x xs = Some ys \<Longrightarrow>
     list_get i ys = (if i < j then list_get i xs else if i = j then Some x else list_get (i - 1) xs)"
  "j < length xs \<Longrightarrow> list_get i (snd (list_remove j xs)) = (if i < j then list_get i xs else list_get (Suc i) xs)"
  "list_get_mut j f xs = Some ys \<Longrightarrow> list_get i ys = (if i = j then map_option f (list_get i xs) else list_get i xs)"
  by (auto simp: list_get_mut_def list_get_def list_push_def list_insert_def list_remove_def nth_append nth_Cons' min_def split: if_splits)

lemma access_lookup_edited:
  "bt_inv dict \<Longrightarrow> access_lookup k (snd (access_insert key val dict)) = (if k = key then Some val else access_lookup k dict)"
  "access_lookup k (snd (access_remove key dict)) = (if k = key then None else access_lookup k dict)"
  "bt_inv dict \<Longrightarrow> access_lookup_mut key f dict = Some dict' \<Longrightarrow>
     access_lookup k dict' = (if k = key then map_option f (access_lookup k dict) else access_lookup k dict)"
  by (auto simp: access_lookup_mut_def access_lookup_def access_insert_def access_remove_def bt_insert_def bt_remove_def bt_get_put)

text \<open>The iterator visits the elements in order and ends after the last.\<close>

fun BListIter_collect :: "nat \<Rightarrow> 'v BListIter \<Rightarrow> 'v list" where
  "BListIter_collect 0 it = []"
| "BListIter_collect (Suc n) it =
     (case BListIter_next it of (None, _) \<Rightarrow> [] | (Some x, it') \<Rightarrow> x # BListIter_collect n it')"

lemma collect_from: "length xs - i \<le> n \<Longrightarrow> BListIter_collect n \<lparr>iter_index = i, iter_access = xs\<rparr> = drop i xs"
  by (induction n arbitrary: i) (auto simp: BListIter_next_def list_get_def Cons_nth_drop_Suc)

lemma iterate_list: "length xs \<le> n \<Longrightarrow> BListIter_collect n (list_into_iter xs) = xs"
  by (simp add: list_into_iter_def collect_from)

section \<open>The contract of the trait\<close>

locale bencode_access =
  fixes A :: "'b BRefAccess"
  assumes int_kind: "access_int A b = (case access_kind A b of KindInt n \<Rightarrow> Some n | _ \<Rightarrow> None)"
    and bytes_kind: "access_bytes A b = (case access_kind A b of KindBytes n \<Rightarrow> Some n | _ \<Rightarrow> None)"
    and list_kind: "access_list A b = (case access_kind A b of KindList n \<Rightarrow> Some n | _ \<Rightarrow> None)"
    and dict_kind: "access_dict A b = (case access_kind A b of KindDict n \<Rightarrow> Some n | _ \<Rightarrow> None)"
    and str_bytes: "access_str A b = Option.bind (access_bytes A b) from_utf8"
begin

lemmas accessors = int_kind bytes_kind list_kind dict_kind str_bytes

text \<open>Each key has one reading: it is missing, of another type, or there.\<close>

lemma lookup_and_convert_int_exact:
  "lookup_and_convert_int h A dict key =
     (case bt_get dict key of
        None \<Rightarrow> Inl (h (MissingKey key))
      | Some b \<Rightarrow> (case access_kind A b of KindInt n \<Rightarrow> Inr n | _ \<Rightarrow> Inl (h (WrongType key ''Integer''))))"
  by (simp add: lookup_and_convert_int_def lookup_and_convert_def convert_lookup_def access_lookup_def convert_int_def
      ok_or_def int_kind split: option.split RefKind.split)

end

lemmas mut_access_defs =
  BencodeMut_access_def BencodeMut_int_def BencodeMut_bytes_def BencodeMut_list_def BencodeMut_dict_def BencodeMut_str_def

lemmas ref_access_defs =
  BencodeRef_access_def BencodeRef_int_def bytes_ext_def BencodeRef_list_def BencodeRef_dict_def str_ext_def

interpretation mut: bencode_access BencodeMut_access
  by unfold_locales (simp_all add: mut_access_defs split: BencodeMut.split)

interpretation ref: bencode_access BencodeRef_access
  by unfold_locales (simp_all add: ref_access_defs split: BencodeRef.split)

section \<open>Two implementations of the trait\<close>

text \<open>A chain of lookups through nested dictionaries, as the readers of responses and torrent files make it.\<close>

fun value_at :: "(BencodeConvertError \<Rightarrow> 'e) \<Rightarrow> 'b BRefAccess \<Rightarrow> u8 list list \<Rightarrow> 'b \<Rightarrow> ('e, 'b) result" where
  "value_at h A [] b = Inr b"
| "value_at h A (key # path) b =
     (case convert_dict h A b key of
        Inl e \<Rightarrow> Inl e
      | Inr dict \<Rightarrow> (case convert_lookup h dict key of Inl e \<Rightarrow> Inl e | Inr b' \<Rightarrow> value_at h A path b'))"

locale access_simulation = conc: bencode_access A + abst: bencode_access B
  for A :: "'b BRefAccess" and B :: "'c BRefAccess" +
  fixes abs :: "'b \<Rightarrow> 'c"
  assumes kind_abs: "access_kind B (abs b) = map_RefKind abs (access_kind A b)"
begin

lemma convert_abs:
  "convert_int h B (abs b) key = convert_int h A b key"
  "convert_bytes h B (abs b) key = convert_bytes h A b key"
  "convert_str h B (abs b) key = convert_str h A b key"
  "convert_list h B (abs b) key = map_sum id (map abs) (convert_list h A b key)"
  "convert_dict h B (abs b) key = map_sum id (map (map_prod id abs)) (convert_dict h A b key)"
  by (simp_all add: convert_int_def convert_bytes_def convert_str_def convert_list_def convert_dict_def ok_or_def
      conc.accessors abst.accessors kind_abs split: RefKind.split)

lemma lookup_abs: "convert_lookup h (map (map_prod id abs) dict) key = map_sum id abs (convert_lookup h dict key)"
proof -
  have "bt_get (map (map_prod id abs) dict) key = map_option abs (bt_get dict key)"
    by (induction dict) (auto simp: bt_get_def)
  then show ?thesis
    by (simp add: convert_lookup_def access_lookup_def split: option.split)
qed

lemma value_at_abs: "value_at h B path (abs b) = map_sum id abs (value_at h A path b)"
  by (induction path arbitrary: b) (simp_all add: convert_abs lookup_abs split: sum.split)

end

interpretation strip: access_simulation BencodeRef_access BencodeMut_access strip_buffers
proof
  show "access_kind BencodeMut_access (strip_buffers b) = map_RefKind strip_buffers (access_kind BencodeRef_access b)" for b
    by (cases b) (simp_all add: BencodeMut_access_def BencodeRef_access_def case_prod_unfold map_prod_def)
qed

text \<open>
  C19: A value that was built, encoded and decoded can be read like the value itself: every chain of
  lookups ends in the same value or in the same error, and there the conversions to integers, bytes,
  text, lists and dictionaries give the same results and the same errors.
\<close>
theorem decoded_reads_agree:
  fixes h :: "BencodeConvertError \<Rightarrow> 'e"
  assumes "encodable (max_recursion opts) v"
  shows "\<exists>r. BencodeRef_decode (BencodeMut_encode v) opts = Some (Decoded r) \<and>
    (\<forall>path. value_at h BencodeMut_access path v = map_sum id strip_buffers (value_at h BencodeRef_access path r) \<and>
       (\<forall>key b. value_at h BencodeRef_access path r = Inr b \<longrightarrow>
          convert_int h BencodeMut_access (strip_buffers b) key = convert_int h BencodeRef_access b key \<and>
          convert_bytes h BencodeMut_access (strip_buffers b) key = convert_bytes_ext h b key \<and>
          convert_str h BencodeMut_access (strip_buffers b) key = convert_str_ext h b key \<and>
          convert_list h BencodeMut_access (strip_buffers b) key =
            map_sum id (map strip_buffers) (convert_list h BencodeRef_access b key) \<and>
          convert_dict h BencodeMut_access (strip_buffers b) key =
            map_sum id (map (map_prod id strip_buffers)) (convert_dict h BencodeRef_access b key)))"
proof -
  obtain r where r: "BencodeRef_decode (BencodeMut_encode v) opts = Some (Decoded r)" "strip_buffers r = v"
    using decode_encode [OF assms] by blast
  have "convert_bytes h BencodeRef_access b key = convert_bytes_ext h b key"
    "convert_str h BencodeRef_access b key = convert_str_ext h b key" for b key
    by (simp_all add: convert_bytes_def convert_str_def convert_bytes_ext_def convert_str_ext_def BencodeRef_access_def)
  then show ?thesis
    using r strip.value_at_abs [of h _ r] by (intro exI [of _ r]) (simp add: strip.convert_abs)
qed

text \<open>A response with a failure reason, as a client reads it.\<close>

definition sample_response :: BencodeMut where
  "sample_response = MutDict [(as_bytes ''info'', MutDict [(as_bytes ''name'', MutBytes (as_bytes ''x''))])]"

theorem decoded_reads_agree_witness:
  "\<exists>r. BencodeRef_decode (BencodeMut_encode sample_response) BDecodeOpt_default = Some (Decoded r) \<and>
       map_sum id strip_buffers (value_at (\<lambda>e. e) BencodeRef_access [as_bytes ''info'', as_bytes ''name''] r) =
         Inr (MutBytes (as_bytes ''x'')) \<and>
       map_sum id strip_buffers (value_at (\<lambda>e. e) BencodeRef_access [as_bytes ''info'', as_bytes ''size''] r) =
         Inl (MissingKey (as_bytes ''size''))"
proof -
  have "encodable (Suc (Suc (Suc 47))) sample_response"
    unfolding sample_response_def encodable.simps list.pred_inject case_prod_conv
    by (simp add: bt_inv_def as_bytes_def byte_of_def)
  then have "encodable (max_recursion BDecodeOpt_default) sample_response"
    by (simp add: BDecodeOpt_default_def)
  moreover have "value_at (\<lambda>e. e) BencodeMut_access [as_bytes ''info'', as_bytes ''name''] sample_response =
      Inr (MutBytes (as_bytes ''x''))"
    "value_at (\<lambda>e. e) BencodeMut_access [as_bytes ''info'', as_bytes ''size''] sample_response = Inl (MissingKey (as_bytes ''size''))"
    by code_simp+
  ultimately show ?thesis
    using decoded_reads_agree [of BDecodeOpt_default sample_response "\<lambda>e. e"] by metis
qed

end
