(* ===== verification/Ip_Text.thy ===== *)
theory Ip_Text
  imports Http_Query
begin

text \<open>
  The text of an IP address, as \<open>std::net\<close> displays it: four decimal numbers for IPv4; for IPv6 the
  segments in hexadecimal, with the first of the longest runs of at least two zero segments left out,
  and the decimal form for a mapped IPv4 address.
\<close>

text \<open>\<open>to_be_bytes\<close>, \<open>octets\<close> and \<open>segments\<close>: the parts of a number, the most significant first.\<close>

definition be_parts :: "nat \<Rightarrow> 'a::len word \<Rightarrow> 'b::len word list" where
  "be_parts n a = map (\<lambda>i. ucast (drop_bit (LENGTH('b) * (n - 1 - i)) a)) [0..<n]"

definition hex_digit :: "nat \<Rightarrow> char" where
  "hex_digit d = char_of (if d < 10 then 48 + d else 87 + d)"

fun nat_to_hex :: "nat \<Rightarrow> string" where
  "nat_to_hex n = (if n < 16 then [hex_digit n] else nat_to_hex (n div 16) @ [hex_digit (n mod 16)])"

declare nat_to_hex.simps [simp del]

definition ipv4_to_string :: "u32 \<Rightarrow> string" where
  "ipv4_to_string a = join ''.'' (map (\<lambda>octet. nat_to_string (unat octet)) (be_parts 4 a :: u8 list))"

text \<open>The start and the length of the first longest run of zero segments.\<close>

record Span =
  span_start :: nat
  span_len :: nat

definition zeroes :: "u16 list \<Rightarrow> Span" where
  "zeroes segments =
     snd (fold (\<lambda>(i, segment) (current, longest).
         if segment = 0
         then (let current' = \<lparr>span_start = if span_len current = 0 then i else span_start current,
                               span_len = span_len current + 1\<rparr>
               in (current', if span_len longest < span_len current' then current' else longest))
         else (\<lparr>span_start = 0, span_len = 0\<rparr>, longest))
       (enumerate 0 segments) (\<lparr>span_start = 0, span_len = 0\<rparr>, \<lparr>span_start = 0, span_len = 0\<rparr>))"

definition fmt_subslice :: "u16 list \<Rightarrow> string" where
  "fmt_subslice segments = join '':'' (map (\<lambda>segment. nat_to_hex (unat segment)) segments)"

definition ipv6_to_string :: "u128 \<Rightarrow> string" where
  "ipv6_to_string a =
     (let segments = be_parts 8 a :: u16 list;
          zs = zeroes segments
      in if take 6 segments = [0, 0, 0, 0, 0, 0xFFFF] then ''::ffff:'' @ ipv4_to_string (ucast a)
         else if 1 < span_len zs
         then fmt_subslice (take (span_start zs) segments) @ ''::'' @
              fmt_subslice (drop (span_start zs + span_len zs) segments)
         else fmt_subslice segments)"

fun ip_to_string :: "IpAddr \<Rightarrow> string" where
  "ip_to_string (V4 a) = ipv4_to_string a"
| "ip_to_string (V6 a) = ipv6_to_string a"

section \<open>Lemmas\<close>

lemma length_be_parts [simp]: "length (be_parts n a) = n"
  by (simp add: be_parts_def)

lemma word_rcat_be_parts:
  fixes a :: "'a::len word"
  assumes "n * LENGTH('b::len) = LENGTH('a)"
  shows "word_rcat (be_parts n a :: 'b word list) = a"
proof (rule bit_word_eqI)
  fix i
  assume i: "i < LENGTH('a)"
  then have div: "i div LENGTH('b) < n"
    using assms by (simp add: less_mult_imp_div_less)
  then have "n - 1 - (n - 1 - i div LENGTH('b)) = i div LENGTH('b)"
    by simp
  then show "bit (word_rcat (be_parts n a :: 'b word list) :: 'a word) i = bit a i"
    using i div by (simp add: word_rcat_def bit_horner_sum_uint_exp_iff rev_nth be_parts_def bit_simps)
qed

definition ip_chars :: "char set" where
  "ip_chars = {CHR ''.'', CHR '':''} \<union> hex_digit ` {..<16}"

lemma nat_to_hex_chars: "set (nat_to_hex n) \<subseteq> hex_digit ` {..<16}"
  by (induction n rule: nat_to_hex.induct) (subst nat_to_hex.simps, auto)

lemma nat_to_string_chars: "set (nat_to_string n) \<subseteq> hex_digit ` {..<16}"
proof -
  have "digit_char d = hex_digit d" if "d < 10" for d
    using that by (simp add: digit_char_def hex_digit_def)
  then show ?thesis
    by (induction n rule: nat_to_string.induct) (subst nat_to_string.simps, auto)
qed

lemma ipv4_chars: "set (ipv4_to_string a) \<subseteq> ip_chars"
  unfolding ipv4_to_string_def
  by (rule join_chars) (use nat_to_string_chars in \<open>auto simp: ip_chars_def\<close>)

lemma fmt_subslice_chars: "set (fmt_subslice segments) \<subseteq> ip_chars"
  unfolding fmt_subslice_def
  by (rule join_chars) (use nat_to_hex_chars in \<open>auto simp: ip_chars_def\<close>)

lemma ip_to_string_chars: "set (ip_to_string ip) \<subseteq> ip_chars"
proof (cases ip)
  case (V6 a)
  have "of_char (hex_digit 15) = (of_char CHR ''f'' :: nat)"
    by (simp add: hex_digit_def)
  then have "hex_digit 15 = CHR ''f''"
    by (simp only: of_char_eq_iff)
  then have "set ''::ffff:'' \<subseteq> ip_chars" "set ''::'' \<subseteq> ip_chars"
    using imageI [of 15 "{..<16}" hex_digit] by (simp_all add: ip_chars_def)
  then show ?thesis
    using ipv4_chars [of "ucast a"] fmt_subslice_chars by (auto simp: V6 ipv6_to_string_def Let_def subset_iff)
qed (simp add: ipv4_chars)

lemma ip_chars_visible: "c \<in> ip_chars \<Longrightarrow> visible c \<and> c \<noteq> CHR ''&'' \<and> c \<noteq> CHR ''=''"
proof -
  have "visible (hex_digit d) \<and> hex_digit d \<noteq> CHR ''&'' \<and> hex_digit d \<noteq> CHR ''=''" if "d < 16" for d
  proof -
    have "of_char (hex_digit d) = (if d < 10 then 48 + d else 87 + d)"
      using that by (simp add: hex_digit_def)
    moreover have "hex_digit d \<noteq> c" if "of_char c \<noteq> (of_char (hex_digit d) :: nat)" for c
      using that by auto
    ultimately show ?thesis
      using that by (auto simp: visible_def)
  qed
  then show "c \<in> ip_chars \<Longrightarrow> ?thesis"
    by (auto simp: ip_chars_def visible_def)
qed

end
