(* ===== verification/Http_Responses.thy ===== *)
theory Http_Responses
  imports Bencode_Access Ip_Text Primitives
begin

text \<open>
  The responses of the HTTP tracker (\<open>packages/http-protocol/src/v1/responses\<close>) and the macros of
  the bencode library that build them. A hash map is read in an order of its own, which is a
  parameter.
\<close>

section \<open>Values (contrib/bencode/src/lib.rs)\<close>

text \<open>\<open>ben_map\<close> inserts the entries one after the other into an ordered map.\<close>

definition ben_map :: "(string \<times> BencodeMut) list \<Rightarrow> BencodeMut" where
  "ben_map entries = MutDict (fold (\<lambda>(key, val). bt_put (as_bytes key) val) entries [])"

section \<open>Announce responses (responses/announce.rs)\<close>

record NormalPeer =
  np_peer_id :: "u8 list"
  np_ip :: IpAddr
  np_port :: u16

definition NormalPeer_from :: "Peer \<Rightarrow> NormalPeer" where
  "NormalPeer_from peer =
     \<lparr>np_peer_id = peer_id_bytes (peer_id peer), np_ip = sa_ip (peer_addr peer), np_port = sa_port (peer_addr peer)\<rparr>"

definition NormalPeer_bencode :: "NormalPeer \<Rightarrow> BencodeMut" where
  "NormalPeer_bencode value =
     ben_map [(''peer id'', MutBytes (np_peer_id value)), (''ip'', MutBytes (as_bytes (ip_to_string (np_ip value)))),
              (''port'', MutInt (ucast (np_port value)))]"

record NormalAnnounce =
  na_complete :: i64
  na_incomplete :: i64
  na_interval :: i64
  na_min_interval :: i64
  na_peers :: "NormalPeer list"

definition Normal_from :: "AnnounceData \<Rightarrow> NormalAnnounce" where
  "Normal_from data =
     \<lparr>na_complete = ucast (sm_complete (stats data)), na_incomplete = ucast (sm_incomplete (stats data)),
      na_interval = ucast (interval (policy data)), na_min_interval = ucast (interval_min (policy data)),
      na_peers = map NormalPeer_from (peers data)\<rparr>"

definition Normal_into :: "NormalAnnounce \<Rightarrow> u8 list" where
  "Normal_into r =
     BencodeMut_encode (ben_map
       [(''complete'', MutInt (na_complete r)), (''incomplete'', MutInt (na_incomplete r)),
        (''interval'', MutInt (na_interval r)), (''min interval'', MutInt (na_min_interval r)),
        (''peers'', MutList (map NormalPeer_bencode (na_peers r)))])"

datatype CompactPeer = CompactV4 u32 u16 | CompactV6 u128 u16

definition CompactPeer_from :: "Peer \<Rightarrow> CompactPeer" where
  "CompactPeer_from peer =
     (case (sa_ip (peer_addr peer), sa_port (peer_addr peer)) of
        (V4 ip, port) \<Rightarrow> CompactV4 ip port
      | (V6 ip, port) \<Rightarrow> CompactV6 ip port)"

fun partition_peers ::
  "CompactPeer list \<Rightarrow> (u32 \<times> u16) list \<times> (u128 \<times> u16) list \<Rightarrow> (u32 \<times> u16) list \<times> (u128 \<times> u16) list" where
  "partition_peers [] (peers_v4, peers_v6) = (peers_v4, peers_v6)"
| "partition_peers (CompactV4 ip port # ps) (peers_v4, peers_v6) = partition_peers ps (peers_v4 @ [(ip, port)], peers_v6)"
| "partition_peers (CompactV6 ip port # ps) (peers_v4, peers_v6) = partition_peers ps (peers_v4, peers_v6 @ [(ip, port)])"

definition encode_peers_v4 :: "(u32 \<times> u16) list \<Rightarrow> u8 list" where
  "encode_peers_v4 ps = fold (\<lambda>(ip, port) bytes. bytes @ be_parts 4 ip @ be_parts 2 port) ps []"

definition encode_peers_v6 :: "(u128 \<times> u16) list \<Rightarrow> u8 list" where
  "encode_peers_v6 ps = fold (\<lambda>(ip, port) bytes. bytes @ be_parts 16 ip @ be_parts 2 port) ps []"

record CompactAnnounce =
  cp_complete :: i64
  cp_incomplete :: i64
  cp_interval :: i64
  cp_min_interval :: i64
  cp_peers :: "u8 list"
  cp_peers6 :: "u8 list"

definition Compact_from :: "AnnounceData \<Rightarrow> CompactAnnounce" where
  "Compact_from data =
     (let compact_peers = map CompactPeer_from (peers data);
          (peers_v4, peers_v6) = partition_peers compact_peers ([], [])
      in \<lparr>cp_complete = ucast (sm_complete (stats data)), cp_incomplete = ucast (sm_incomplete (stats data)),
          cp_interval = ucast (interval (policy data)), cp_min_interval = ucast (interval_min (policy data)),
          cp_peers = encode_peers_v4 peers_v4, cp_peers6 = encode_peers_v6 peers_v6\<rparr>)"

definition Compact_into :: "CompactAnnounce \<Rightarrow> u8 list" where
  "Compact_into r =
     BencodeMut_encode (ben_map
       [(''complete'', MutInt (cp_complete r)), (''incomplete'', MutInt (cp_incomplete r)),
        (''interval'', MutInt (cp_interval r)), (''min interval'', MutInt (cp_min_interval r)),
        (''peers'', MutBytes (cp_peers r)), (''peers6'', MutBytes (cp_peers6 r))])"

section \<open>Scrape responses (responses/scrape.rs)\<close>

definition scrape_file :: "SwarmMetadata \<Rightarrow> BencodeMut" where
  "scrape_file value =
     ben_map [(''complete'', MutInt (ucast (sm_complete value))), (''downloaded'', MutInt (ucast (sm_downloaded value))),
              (''incomplete'', MutInt (ucast (sm_incomplete value)))]"

definition Bencoded_body ::
  "((InfoHash \<rightharpoonup> SwarmMetadata) \<Rightarrow> (InfoHash \<times> SwarmMetadata) list) \<Rightarrow> ScrapeData \<Rightarrow> u8 list" where
  "Bencoded_body order scrape_data =
     (let scrape_list = fold (\<lambda>(info_hash, value). bt_put (info_hash_bytes info_hash) (scrape_file value))
            (order (files scrape_data)) []
      in BencodeMut_encode (ben_map [(''files'', MutDict scrape_list)]))"

section \<open>Reading a response\<close>

text \<open>The value of a field of a dictionary.\<close>

definition field :: "BencodeMut \<Rightarrow> string \<Rightarrow> BencodeMut option" where
  "field v name = Option.bind (BencodeMut_dict v) (access_lookup (as_bytes name))"

section \<open>Lemmas\<close>

lemma byte_of_inject: "byte_of c = byte_of c' \<longleftrightarrow> c = c'"
proof
  assume "byte_of c = byte_of c'"
  then have "unat (of_nat (of_char c) :: u8) = unat (of_nat (of_char c') :: u8)"
    by (simp add: byte_of_def of_nat_of_char)
  moreover have "(of_char x :: nat) < 256" for x
  proof -
    have "(of_char x :: nat) = of_char x mod 256"
      using of_char_of [of "of_char x :: nat"] by simp
    then show ?thesis
      by (metis mod_less_divisor zero_less_numeral)
  qed
  ultimately have "(of_char c :: nat) = of_char c'"
    by (simp add: unat_of_nat take_bit_eq_mod)
  then show "c = c'"
    by simp
qed simp

lemma as_bytes_inject: "as_bytes s = as_bytes s' \<longleftrightarrow> s = s'"
  unfolding as_bytes_def by (rule inj_map_eq_map) (simp add: inj_def byte_of_inject)

lemma ben_map_entries:
  "ben_map entries = MutDict (fold (\<lambda>(k, v). bt_put k v) (map (\<lambda>(k, v). (as_bytes k, v)) entries) [])"
  by (simp add: ben_map_def fold_map comp_def case_prod_unfold)

lemma set_bt_put: "set (bt_put k v m) \<subseteq> insert (k, v) (set m)"
  by (induction m) auto

lemma set_fold_bt_put: "set (fold (\<lambda>(k, v). bt_put k v) es m) \<subseteq> set es \<union> set m"
proof (induction es arbitrary: m)
  case (Cons e es)
  then show ?case
    using set_bt_put [of "fst e" "snd e" m] by (fastforce simp: case_prod_unfold)
qed simp

lemma dict_encodable:
  assumes "list_all (\<lambda>(k, v). length k < 2 ^ 63 \<and> encodable d v) es"
  shows "encodable (Suc d) (MutDict (fold (\<lambda>(k, v). bt_put k v) es []))"
proof -
  have "bt_inv (fold (\<lambda>(k, v). bt_put k v) es [])"
    by (simp add: bt_fold_put_rev)
  then show ?thesis
    using assms set_fold_bt_put [of es "[]"] by (auto simp: list_all_iff)
qed

lemma ben_map_encodable:
  assumes "list_all (\<lambda>(k, v). length k < 2 ^ 63 \<and> encodable d v) entries"
  shows "encodable (Suc d) (ben_map entries)"
  unfolding ben_map_entries
  by (rule dict_encodable) (use assms in \<open>auto simp: list_all_iff as_bytes_def\<close>)

lemma field_ben_map: "field (ben_map entries) name = map_of (rev entries) name"
proof -
  have "map_of (map (\<lambda>(k, v). (as_bytes k, v)) es) (as_bytes name) = map_of es name" for es :: "(string \<times> BencodeMut) list"
    by (induction es) (auto simp: as_bytes_inject)
  then show ?thesis
    by (simp add: field_def BencodeMut_dict_def access_lookup_def ben_map_entries bt_fold_put_rev rev_map bt_get_def [of "[]"] map_add_def split: option.split)
qed

end
