(* ===== verification/Clock.thy ===== *)
theory Clock
  imports Primitives
begin

text \<open>
  The clock package (\<open>packages/clock/src\<close>). The working clock reads the system time, which is the
  argument \<open>now\<close> of the operations that use it; the stopped clock is the fixed time it holds.
  \<open>chrono\<close> dates are a parameter.
\<close>

section \<open>The clock trait (clock/mod.rs)\<close>

definition now_add :: "DurationSinceUnixEpoch \<Rightarrow> Duration \<Rightarrow> DurationSinceUnixEpoch option" where
  "now_add now add_time = duration_checked_add now add_time"

definition now_sub :: "DurationSinceUnixEpoch \<Rightarrow> Duration \<Rightarrow> DurationSinceUnixEpoch option" where
  "now_sub now sub_time = duration_checked_sub now sub_time"

section \<open>The stopped clock (clock/stopped/mod.rs)\<close>

datatype IntErrorKind = PosOverflow | NegOverflow

record StoppedClock =
  FIXED_TIME :: DurationSinceUnixEpoch

definition stopped_now :: "StoppedClock \<Rightarrow> DurationSinceUnixEpoch" where
  "stopped_now c = FIXED_TIME c"

definition local_set :: "DurationSinceUnixEpoch \<Rightarrow> StoppedClock \<Rightarrow> StoppedClock" where
  "local_set unix_time c = c\<lparr>FIXED_TIME := unix_time\<rparr>"

definition local_set_to_unix_epoch :: "StoppedClock \<Rightarrow> StoppedClock" where
  "local_set_to_unix_epoch c = local_set 0 c"

definition local_set_to_app_start_time :: "DurationSinceUnixEpoch \<Rightarrow> StoppedClock \<Rightarrow> StoppedClock" where
  "local_set_to_app_start_time app_start c = local_set app_start c"

definition local_set_to_system_time_now :: "DurationSinceUnixEpoch \<Rightarrow> StoppedClock \<Rightarrow> StoppedClock" where
  "local_set_to_system_time_now app_start c = local_set app_start c"

definition local_add :: "Duration \<Rightarrow> StoppedClock \<Rightarrow> (IntErrorKind, unit) result \<times> StoppedClock" where
  "local_add d c =
     (case duration_checked_add (FIXED_TIME c) d of
        Some t \<Rightarrow> (Inr (), c\<lparr>FIXED_TIME := t\<rparr>)
      | None \<Rightarrow> (Inl PosOverflow, c))"

definition local_sub :: "Duration \<Rightarrow> StoppedClock \<Rightarrow> (IntErrorKind, unit) result \<times> StoppedClock" where
  "local_sub d c =
     (case duration_checked_sub (FIXED_TIME c) d of
        Some t \<Rightarrow> (Inr (), c\<lparr>FIXED_TIME := t\<rparr>)
      | None \<Rightarrow> (Inl NegOverflow, c))"

definition local_reset :: "DurationSinceUnixEpoch \<Rightarrow> StoppedClock \<Rightarrow> StoppedClock" where
  "local_reset app_start c = local_set app_start c"

section \<open>Conversions (conv/mod.rs)\<close>

text \<open>A panic of \<open>expect\<close> or \<open>unwrap\<close> is \<^const>\<open>None\<close>.\<close>

definition u64_try_from_i64 :: "i64 \<Rightarrow> u64 option" where
  "u64_try_from_i64 x = (if 0 \<le> sint x then Some x else None)"

definition i64_try_from_u64 :: "u64 \<Rightarrow> i64 option" where
  "i64_try_from_u64 x = (if uint x < 2 ^ 63 then Some x else None)"

definition convert_from_datetime_utc_to_timestamp ::
  "('dt \<Rightarrow> i64) \<Rightarrow> 'dt \<Rightarrow> DurationSinceUnixEpoch option" where
  "convert_from_datetime_utc_to_timestamp timestamp datetime_utc =
     map_option from_secs (u64_try_from_i64 (timestamp datetime_utc))"

definition convert_from_iso_8601_to_timestamp ::
  "('dt \<Rightarrow> i64) \<Rightarrow> (string \<Rightarrow> 'dt option) \<Rightarrow> string \<Rightarrow> DurationSinceUnixEpoch option" where
  "convert_from_iso_8601_to_timestamp timestamp parse_utc iso_8601 =
     Option.bind (parse_utc iso_8601) (convert_from_datetime_utc_to_timestamp timestamp)"

definition convert_from_timestamp_to_datetime_utc ::
  "(i64 \<Rightarrow> u32 \<Rightarrow> 'dt option) \<Rightarrow> DurationSinceUnixEpoch \<Rightarrow> 'dt option" where
  "convert_from_timestamp_to_datetime_utc from_timestamp d =
     Option.bind (i64_try_from_u64 (as_secs d)) (\<lambda>secs. from_timestamp secs (subsec_nanos d))"

lemma local_add_sub_roundtrip:
  "fst (local_add d c) = Inr () \<Longrightarrow> local_sub d (snd (local_add d c)) = (Inr (), c)"
  by (auto simp: local_add_def local_sub_def duration_checked_add_def duration_checked_sub_def
      split: if_splits)

end
