(* ===== verification/Float64.thy ===== *)
theory Float64
  imports Clock
begin

text \<open>
  The type \<open>f64\<close> of Rust: IEEE 754 binary64 numbers as their 64 bits, with the comparisons,
  the classification and the arithmetic (rounding to nearest, ties to even) that the cookies of the
  UDP server use. A magnitude is the number formed by the exponent and the mantissa bits; every
  finite number is a multiple of \<open>2 ^ -1074\<close>, so that its exact value is kept as an integer.
\<close>

section \<open>Bits and values\<close>

type_synonym f64 = "64 word"

definition f64_mag :: "f64 \<Rightarrow> nat" where
  "f64_mag b = unat b mod 2 ^ 63"

definition f64_neg :: "f64 \<Rightarrow> bool" where
  "f64_neg b = (2 ^ 63 \<le> unat b)"

definition f64_bits :: "bool \<Rightarrow> nat \<Rightarrow> f64" where
  "f64_bits neg n = of_nat (if neg then 2 ^ 63 + n else n)"

definition INF_MAG :: nat where
  "INF_MAG = 2047 * 2 ^ 52"

definition f64_is_nan :: "f64 \<Rightarrow> bool" where
  "f64_is_nan b = (INF_MAG < f64_mag b)"

definition f64_is_finite :: "f64 \<Rightarrow> bool" where
  "f64_is_finite b = (f64_mag b < INF_MAG)"

definition f64_is_normal :: "f64 \<Rightarrow> bool" where
  "f64_is_normal b = (2 ^ 52 \<le> f64_mag b \<and> f64_mag b < INF_MAG)"

text \<open>The value of a magnitude in units of \<open>2 ^ -1074\<close>.\<close>

definition mag_scale :: "nat \<Rightarrow> nat" where
  "mag_scale n =
     (let e = n div 2 ^ 52; m = n mod 2 ^ 52 in if e = 0 then m else (2 ^ 52 + m) * 2 ^ (e - 1))"

definition f64_scaled :: "f64 \<Rightarrow> int" where
  "f64_scaled b = (if f64_neg b then - int (mag_scale (f64_mag b)) else int (mag_scale (f64_mag b)))"

definition f64_rank :: "f64 \<Rightarrow> int" where
  "f64_rank b = (if f64_neg b then - int (f64_mag b) else int (f64_mag b))"

definition f64_lt :: "f64 \<Rightarrow> f64 \<Rightarrow> bool" where
  "f64_lt a b = (\<not> f64_is_nan a \<and> \<not> f64_is_nan b \<and> f64_rank a < f64_rank b)"

definition f64_le :: "f64 \<Rightarrow> f64 \<Rightarrow> bool" where
  "f64_le a b = (\<not> f64_is_nan a \<and> \<not> f64_is_nan b \<and> f64_rank a \<le> f64_rank b)"

section \<open>Rounding\<close>

fun bit_length :: "nat \<Rightarrow> nat" where
  "bit_length n = (if n = 0 then 0 else Suc (bit_length (n div 2)))"

declare bit_length.simps [simp del]

definition round_half_even :: "nat \<Rightarrow> nat \<Rightarrow> nat" where
  "round_half_even p d =
     (let t = p div d; r = p mod d in if 2 * r < d \<or> 2 * r = d \<and> even t then t else t + 1)"

text \<open>The magnitude nearest to \<open>p / q\<close> units; too large a value gives the infinity.\<close>

definition round_mag :: "nat \<Rightarrow> nat \<Rightarrow> nat" where
  "round_mag p q =
     (let s = bit_length (p div q) - 53 in min (s * 2 ^ 52 + round_half_even p (q * 2 ^ s)) INF_MAG)"

definition f64_round :: "bool \<Rightarrow> nat \<Rightarrow> nat \<Rightarrow> f64" where
  "f64_round neg p q = f64_bits neg (round_mag p q)"

section \<open>Arithmetic\<close>

definition F64_NAN :: f64 where
  "F64_NAN = f64_bits False (INF_MAG + 2 ^ 51)"

definition f64_negate :: "f64 \<Rightarrow> f64" where
  "f64_negate b = f64_bits (\<not> f64_neg b) (f64_mag b)"

definition f64_add :: "f64 \<Rightarrow> f64 \<Rightarrow> f64" where
  "f64_add a b =
     (if f64_is_nan a \<or> f64_is_nan b then F64_NAN
      else if \<not> f64_is_finite a \<and> \<not> f64_is_finite b \<and> f64_neg a \<noteq> f64_neg b then F64_NAN
      else if \<not> f64_is_finite a then a
      else if \<not> f64_is_finite b then b
      else
        (let s = f64_scaled a + f64_scaled b
         in f64_round (s < 0 \<or> s = 0 \<and> f64_neg a \<and> f64_neg b) (nat \<bar>s\<bar>) 1))"

definition f64_sub :: "f64 \<Rightarrow> f64 \<Rightarrow> f64" where
  "f64_sub a b = f64_add a (f64_negate b)"

definition f64_div :: "f64 \<Rightarrow> f64 \<Rightarrow> f64" where
  "f64_div a b =
     (let neg = (f64_neg a \<noteq> f64_neg b)
      in if f64_is_nan a \<or> f64_is_nan b then F64_NAN
         else if \<not> f64_is_finite a then (if \<not> f64_is_finite b then F64_NAN else f64_bits neg INF_MAG)
         else if \<not> f64_is_finite b then f64_bits neg 0
         else if f64_mag b = 0 then (if f64_mag a = 0 then F64_NAN else f64_bits neg INF_MAG)
         else f64_round neg (mag_scale (f64_mag a) * 2 ^ 1074) (mag_scale (f64_mag b)))"

definition f64_of_nat :: "nat \<Rightarrow> f64" where
  "f64_of_nat n = f64_round False (n * 2 ^ 1074) 1"

definition as_secs_f64 :: "Duration \<Rightarrow> f64" where
  "as_secs_f64 d =
     f64_add (f64_of_nat (unat (as_secs d)))
       (f64_div (f64_of_nat (unat (subsec_nanos d))) (f64_of_nat NANOS_PER_SEC))"

definition f64_ceil :: "f64 \<Rightarrow> f64" where
  "f64_ceil x =
     (if \<not> f64_is_finite x then x
      else f64_round (f64_neg x) (nat \<bar>- ((- f64_scaled x) div 2 ^ 1074)\<bar> * 2 ^ 1074) 1)"

definition f64_to_u64 :: "f64 \<Rightarrow> u64" where
  "f64_to_u64 x =
     (if f64_is_nan x \<or> f64_scaled x < 0 then 0
      else if \<not> f64_is_finite x then of_nat (2 ^ 64 - 1)
      else of_nat (min (nat (f64_scaled x div 2 ^ 1074)) (2 ^ 64 - 1)))"

section \<open>Bits\<close>

lemma f64_mag_less: "f64_mag b < 2 ^ 63"
  by (simp add: f64_mag_def)

lemma f64_bits_mag:
  assumes "n < 2 ^ 63"
  shows "f64_mag (f64_bits neg n) = n" and "f64_neg (f64_bits neg n) = neg"
proof -
  have "unat (f64_bits neg n) = (if neg then 2 ^ 63 + n else n)"
    using assms by (simp add: f64_bits_def unat_of_nat)
  then show "f64_mag (f64_bits neg n) = n" and "f64_neg (f64_bits neg n) = neg"
    using assms by (simp_all add: f64_mag_def f64_neg_def)
qed

lemma f64_bits_eq: "f64_bits (f64_neg b) (f64_mag b) = b"
proof -
  have "unat b < 2 ^ LENGTH(64)"
    by (rule unsigned_less)
  then have "(if f64_neg b then 2 ^ 63 + f64_mag b else f64_mag b) = unat b"
    by (simp add: f64_neg_def f64_mag_def mod_if [of "unat b"])
  then show ?thesis
    by (simp add: f64_bits_def)
qed

section \<open>The value of a magnitude\<close>

lemma mag_scale_less_Suc: "mag_scale n < mag_scale (Suc n)"
proof (cases "Suc (n mod 2 ^ 52) = 2 ^ 52")
  case True
  then have "Suc n div 2 ^ 52 = Suc (n div 2 ^ 52)" "Suc n mod 2 ^ 52 = 0"
    by (simp_all add: div_Suc mod_Suc)
  with True show ?thesis
    by (cases "n div 2 ^ 52") (simp_all add: mag_scale_def Let_def)
next
  case False
  then have "Suc n div 2 ^ 52 = n div 2 ^ 52" "Suc n mod 2 ^ 52 = Suc (n mod 2 ^ 52)"
    by (simp_all add: div_Suc mod_Suc)
  then show ?thesis
    by (simp add: mag_scale_def Let_def)
qed

lemma mag_scale_strict_mono: "strict_mono mag_scale"
  by (simp add: strict_mono_Suc_iff mag_scale_less_Suc)

lemma mag_scale_less_iff [simp]: "mag_scale m < mag_scale n \<longleftrightarrow> m < n"
  by (simp add: strict_mono_less mag_scale_strict_mono)

lemma mag_scale_le_iff [simp]: "mag_scale m \<le> mag_scale n \<longleftrightarrow> m \<le> n"
  by (simp add: strict_mono_less_eq mag_scale_strict_mono)

lemma mag_scale_0 [simp]: "mag_scale 0 = 0"
  by (simp add: mag_scale_def)

lemma mag_scale_eq_0 [simp]: "mag_scale n = 0 \<longleftrightarrow> n = 0"
  using mag_scale_le_iff [of n 0] by simp

text \<open>Comparing bits compares values.\<close>

lemma f64_rank_le_iff: "f64_rank a \<le> f64_rank b \<longleftrightarrow> f64_scaled a \<le> f64_scaled b"
proof -
  have "int x \<le> - int y \<longleftrightarrow> x = 0 \<and> y = 0" "- int x \<le> int y" for x y
    by auto
  then show ?thesis
    by (simp add: f64_rank_def f64_scaled_def)
qed

section \<open>Rounding is monotone and exact on representable values\<close>

lemma bit_length_bounds: "n < 2 ^ bit_length n" "0 < n \<Longrightarrow> 2 ^ (bit_length n - 1) \<le> n"
proof (induction n rule: bit_length.induct)
  case (1 n)
  {
    case 1
    show ?case
      using "1.IH"(1) by (cases "n = 0") (simp_all add: bit_length.simps [of n])
  next
    case 2
    show ?case
    proof (cases "n div 2 = 0")
      case True
      with 2 show ?thesis
        by (simp add: bit_length.simps [of n] bit_length.simps [of 0])
    next
      case False
      then have "0 < bit_length (n div 2)"
        by (simp add: bit_length.simps [of "n div 2"])
      then have "(2::nat) ^ bit_length (n div 2) = 2 * 2 ^ (bit_length (n div 2) - 1)"
        by (simp add: power_eq_if)
      moreover have "2 ^ (bit_length (n div 2) - 1) \<le> n div 2"
        using "1.IH"(2) False 2 by simp
      ultimately show ?thesis
        using 2 by (simp add: bit_length.simps [of n])
    qed
  }
qed

lemma bit_length_mono: "m \<le> n \<Longrightarrow> bit_length m \<le> bit_length n"
proof (rule ccontr)
  assume "m \<le> n" and "\<not> bit_length m \<le> bit_length n"
  then have "bit_length n \<le> bit_length m - 1" and "0 < m"
    by (auto intro: gr0I simp: bit_length.simps [of 0])
  then have "(2::nat) ^ bit_length n \<le> 2 ^ (bit_length m - 1)"
    by (intro power_increasing) auto
  with bit_length_bounds(1) [of n] bit_length_bounds(2) [OF \<open>0 < m\<close>] \<open>m \<le> n\<close> show False
    by linarith
qed

lemma bit_length_eqI: "2 ^ k \<le> n \<Longrightarrow> n < 2 ^ Suc k \<Longrightarrow> bit_length n = Suc k"
proof -
  assume n: "2 ^ k \<le> n" "n < 2 ^ Suc k"
  have "(2::nat) ^ k < 2 ^ bit_length n"
    using n(1) bit_length_bounds(1) [of n] by linarith
  then have "k < bit_length n"
    by simp
  have "0 < n"
    using n(1) by (rule less_le_trans [rotated]) simp
  then have "(2::nat) ^ (bit_length n - 1) < 2 ^ Suc k"
    using n(2) bit_length_bounds(2) [of n] by linarith
  then have "bit_length n - 1 < Suc k"
    by (simp only: power_strict_increasing_iff) 
  with \<open>k < bit_length n\<close> show ?thesis
    by simp
qed

lemma round_half_even_bounds:
  "p div d \<le> round_half_even p d" "round_half_even p d \<le> Suc (p div d)"
  by (simp_all add: round_half_even_def Let_def)

lemma round_half_even_mono:
  assumes "0 < d" and "p \<le> p'"
  shows "round_half_even p d \<le> round_half_even p' d"
proof (cases "p div d = p' div d")
  case True
  then have "p mod d \<le> p' mod d"
    using assms(2) by (metis add_le_cancel_left div_mult_mod_eq)
  with True show ?thesis
    by (auto simp: round_half_even_def Let_def)
next
  case False
  then have "Suc (p div d) \<le> p' div d"
    using div_le_mono [OF assms(2), of d] by linarith
  then show ?thesis
    using round_half_even_bounds [of p d] round_half_even_bounds [of p' d] by linarith
qed

lemma round_half_even_exact: "0 < d \<Longrightarrow> round_half_even (k * d) d = k"
  by (simp add: round_half_even_def)

lemma round_half_even_le: "0 < d \<Longrightarrow> p \<le> k * d \<Longrightarrow> round_half_even p d \<le> k"
  using round_half_even_mono [of d p "k * d"] by (simp add: round_half_even_exact)

lemma round_half_even_ge: "0 < d \<Longrightarrow> k * d \<le> p \<Longrightarrow> k \<le> round_half_even p d"
  using round_half_even_mono [of d "k * d" p] by (simp add: round_half_even_exact)

text \<open>The magnitude before it is cut at the infinity.\<close>

definition raw_mag :: "nat \<Rightarrow> nat \<Rightarrow> nat" where
  "raw_mag p q = (let s = bit_length (p div q) - 53 in s * 2 ^ 52 + round_half_even p (q * 2 ^ s))"

lemma round_mag_raw: "round_mag p q = min (raw_mag p q) INF_MAG"
  by (simp add: round_mag_def raw_mag_def Let_def)

lemma raw_mag_bounds:
  fixes p q
  assumes "0 < q"
  defines "k \<equiv> bit_length (p div q)"
  shows "k \<le> 53 \<Longrightarrow> raw_mag p q \<le> 2 ^ k"
    and "53 < k \<Longrightarrow> raw_mag p q \<le> (k - 53) * 2 ^ 52 + 2 ^ 53"
    and "0 < k \<Longrightarrow> k \<le> 53 \<Longrightarrow> 2 ^ (k - 1) \<le> raw_mag p q"
    and "53 < k \<Longrightarrow> (k - 53) * 2 ^ 52 + 2 ^ 52 \<le> raw_mag p q"
proof -
  have up: "p \<le> 2 ^ k * q"
  proof -
    have "p div q < 2 ^ k"
      unfolding k_def by (rule bit_length_bounds)
    then have "p < 2 ^ k * q"
      using assms(1) by (simp add: div_less_iff_less_mult)
    then show ?thesis by simp
  qed
  have low: "2 ^ (k - 1) * q \<le> p" if "0 < k"
  proof -
    have "p div q \<noteq> 0"
      using that unfolding k_def by (metis bit_length.simps less_irrefl)
    then have "2 ^ (k - 1) \<le> p div q"
      unfolding k_def by (intro bit_length_bounds) simp
    then show ?thesis
      using assms(1) by (simp add: less_eq_div_iff_mult_less_eq)
  qed
  show "raw_mag p q \<le> 2 ^ k" if "k \<le> 53"
    using round_half_even_le [OF assms(1) up] that by (simp add: raw_mag_def k_def [symmetric])
  show "2 ^ (k - 1) \<le> raw_mag p q" if "0 < k" "k \<le> 53"
    using round_half_even_ge [OF assms(1) low] that by (simp add: raw_mag_def k_def [symmetric])
  have pos: "0 < q * 2 ^ (k - 53)"
    using assms(1) by simp
  show "raw_mag p q \<le> (k - 53) * 2 ^ 52 + 2 ^ 53" if "53 < k"
  proof -
    have "k = 53 + (k - 53)"
      using that by simp
    then have "(2::nat) ^ k = 2 ^ 53 * 2 ^ (k - 53)"
      by (metis power_add)
    then have "p \<le> 2 ^ 53 * (q * 2 ^ (k - 53))"
      using up by (simp add: mult.commute mult.left_commute)
    from round_half_even_le [OF pos this] show ?thesis
      by (simp add: raw_mag_def Let_def k_def [symmetric])
  qed
  show "(k - 53) * 2 ^ 52 + 2 ^ 52 \<le> raw_mag p q" if "53 < k"
  proof -
    have "k - 1 = 52 + (k - 53)"
      using that by simp
    then have "(2::nat) ^ (k - 1) = 2 ^ 52 * 2 ^ (k - 53)"
      by (simp only: power_add)
    then have "2 ^ 52 * (q * 2 ^ (k - 53)) \<le> p"
      using low that by (simp add: mult.commute mult.left_commute)
    from round_half_even_ge [OF pos this] show ?thesis
      by (simp add: raw_mag_def Let_def k_def [symmetric])
  qed
qed

lemma raw_mag_mono:
  assumes "0 < q" and "p \<le> p'"
  shows "raw_mag p q \<le> raw_mag p' q"
proof -
  let ?k = "bit_length (p div q)" and ?k' = "bit_length (p' div q)"
  have "?k \<le> ?k'"
    by (intro bit_length_mono div_le_mono assms(2))
  then consider "?k = ?k'" | "?k < ?k'" "?k' \<le> 53" | "?k \<le> 53" "53 < ?k'" | "53 < ?k" "?k < ?k'"
    by linarith
  then show ?thesis
  proof cases
    case 1
    then show ?thesis
      using assms by (simp add: raw_mag_def Let_def round_half_even_mono)
  next
    case 2
    have "raw_mag p q \<le> 2 ^ ?k"
      using 2 raw_mag_bounds(1) [OF assms(1), of p] by simp
    also have "\<dots> \<le> 2 ^ (?k' - 1)"
      using 2 by (intro power_increasing) auto
    also have "\<dots> \<le> raw_mag p' q"
      using 2 raw_mag_bounds(3) [OF assms(1), of p'] by simp
    finally show ?thesis .
  next
    case 3
    have "raw_mag p q \<le> 2 ^ ?k"
      using 3 raw_mag_bounds(1) [OF assms(1), of p] by simp
    also have "\<dots> \<le> 2 ^ 53"
      using 3 by (intro power_increasing) auto
    also have "\<dots> \<le> (?k' - 53) * 2 ^ 52 + 2 ^ 52"
      using 3 by simp
    also have "\<dots> \<le> raw_mag p' q"
      using 3 raw_mag_bounds(4) [OF assms(1), of p'] by simp
    finally show ?thesis .
  next
    case 4
    have "raw_mag p q \<le> (?k - 53) * 2 ^ 52 + 2 ^ 53"
      using 4 raw_mag_bounds(2) [OF assms(1), of p] by simp
    also have "\<dots> \<le> (?k' - 53) * 2 ^ 52 + 2 ^ 52"
      using 4 by simp
    also have "\<dots> \<le> raw_mag p' q"
      using 4 raw_mag_bounds(4) [OF assms(1), of p'] by simp
    finally show ?thesis .
  qed
qed

lemma raw_mag_exact: "raw_mag (mag_scale n) 1 = n"
proof -
  define e m where "e = n div 2 ^ 52" and "m = n mod 2 ^ 52"
  have n: "n = e * 2 ^ 52 + m" and m: "m < 2 ^ 52"
    by (simp_all add: e_def m_def)
  show ?thesis
  proof (cases "e \<le> 1")
    case True
    then have p: "mag_scale n = n"
      unfolding n by (cases e) (use m in \<open>simp_all add: mag_scale_def Let_def\<close>)
    have "n < 2 ^ 53"
      using n m True by (cases e) simp_all
    then have "bit_length n \<le> bit_length (2 ^ 53 - 1)"
      by (intro bit_length_mono) simp
    also have "bit_length (2 ^ 53 - 1) = Suc 52"
      by (rule bit_length_eqI) simp_all
    finally show ?thesis
      using round_half_even_exact [of 1 n] by (simp add: raw_mag_def p)
  next
    case False
    then have p: "mag_scale n = (2 ^ 52 + m) * 2 ^ (e - 1)"
      using m by (simp add: mag_scale_def n Let_def)
    have "2 ^ (51 + e) \<le> mag_scale n"
    proof -
      have "51 + e = 52 + (e - 1)"
        using False by simp
      then have "(2::nat) ^ (51 + e) = 2 ^ 52 * 2 ^ (e - 1)"
        by (simp only: power_add)
      then show ?thesis
        unfolding p by simp
    qed
    moreover have "mag_scale n < 2 ^ Suc (51 + e)"
    proof -
      have "Suc (51 + e) = 53 + (e - 1)"
        using False by simp
      then have "(2::nat) ^ Suc (51 + e) = 2 ^ 53 * 2 ^ (e - 1)"
        by (simp only: power_add)
      then show ?thesis
        unfolding p using m by simp
    qed
    ultimately have "bit_length (mag_scale n) = Suc (51 + e)"
      by (rule bit_length_eqI)
    then have "bit_length (mag_scale n) - 53 = e - 1"
      by simp
    then have "raw_mag (mag_scale n) 1 = (e - 1) * 2 ^ 52 + (2 ^ 52 + m)"
      using round_half_even_exact [of "2 ^ (e - 1)" "2 ^ 52 + m"] by (simp add: raw_mag_def p)
    also have "\<dots> = n"
      unfolding n using False by (cases e) simp_all
    finally show ?thesis .
  qed
qed

section \<open>Sums against representable bounds\<close>

text \<open>The rank of the number nearest to a signed value.\<close>

definition rank_of :: "int \<Rightarrow> int" where
  "rank_of s = (if s < 0 then - int (round_mag (nat (- s)) 1) else int (round_mag (nat s) 1))"

lemma rank_of_mono: "s \<le> s' \<Longrightarrow> rank_of s \<le> rank_of s'"
proof -
  have "round_mag p 1 \<le> round_mag p' 1" if "p \<le> p'" for p p'
    using raw_mag_mono [OF _ that, of 1] by (auto simp: round_mag_raw)
  then show "s \<le> s' \<Longrightarrow> rank_of s \<le> rank_of s'"
    by (simp add: rank_of_def nat_le_eq_zle)
qed

lemma rank_of_scaled: "f64_is_finite c \<Longrightarrow> rank_of (f64_scaled c) = f64_rank c"
proof -
  assume "f64_is_finite c"
  then have "round_mag (mag_scale (f64_mag c)) 1 = f64_mag c"
    by (simp add: round_mag_raw raw_mag_exact [simplified] f64_is_finite_def)
  then show ?thesis
    by (auto simp: rank_of_def f64_scaled_def f64_rank_def)
qed

lemma f64_add_rank:
  assumes "f64_is_finite a" and "f64_is_finite b"
  shows "f64_rank (f64_add a b) = rank_of (f64_scaled a + f64_scaled b)" and "\<not> f64_is_nan (f64_add a b)"
proof -
  let ?s = "f64_scaled a + f64_scaled b"
  let ?neg = "?s < 0 \<or> ?s = 0 \<and> f64_neg a \<and> f64_neg b"
  have add: "f64_add a b = f64_bits ?neg (round_mag (nat \<bar>?s\<bar>) 1)"
    using assms by (simp add: f64_add_def f64_is_finite_def f64_is_nan_def f64_round_def Let_def)
  have bound: "round_mag (nat \<bar>?s\<bar>) 1 \<le> INF_MAG"
    by (simp add: round_mag_raw)
  then have lt: "round_mag (nat \<bar>?s\<bar>) 1 < 2 ^ 63"
    by (simp add: INF_MAG_def)
  have "?s = 0 \<Longrightarrow> round_mag (nat \<bar>?s\<bar>) 1 = 0"
    using raw_mag_exact [of 0] by (simp add: round_mag_raw)
  then show "f64_rank (f64_add a b) = rank_of ?s"
    unfolding f64_rank_def add f64_bits_mag [OF lt] rank_of_def by auto
  show "\<not> f64_is_nan (f64_add a b)"
    unfolding f64_is_nan_def add f64_bits_mag [OF lt] using bound by simp
qed

lemma finite_not_nan: "f64_is_finite c \<Longrightarrow> \<not> f64_is_nan c"
  by (simp add: f64_is_finite_def f64_is_nan_def)

lemma f64_le_add:
  assumes "f64_is_finite a" "f64_is_finite b" "f64_is_finite c"
  shows "f64_scaled c \<le> f64_scaled a + f64_scaled b \<Longrightarrow> f64_le c (f64_add a b)"
    and "f64_scaled a + f64_scaled b \<le> f64_scaled c \<Longrightarrow> f64_le (f64_add a b) c"
  using rank_of_mono [of "f64_scaled c" "f64_scaled a + f64_scaled b"]
    rank_of_mono [of "f64_scaled a + f64_scaled b" "f64_scaled c"]
  by (simp_all add: f64_le_def f64_add_rank [OF assms(1,2)] rank_of_scaled [OF assms(3)] finite_not_nan assms(3))

lemma f64_negate_simps:
  "f64_scaled (f64_negate b) = - f64_scaled b"
  "f64_is_finite (f64_negate b) \<longleftrightarrow> f64_is_finite b"
  by (simp_all add: f64_negate_def f64_scaled_def f64_is_finite_def f64_bits_mag [OF f64_mag_less])

definition F64_ONE :: f64 where
  "F64_ONE = f64_bits False (1023 * 2 ^ 52)"

lemma F64_ONE_simps: "f64_is_finite F64_ONE" "f64_scaled F64_ONE = 2 ^ 1074"
proof -
  have lt: "1023 * 2 ^ 52 < (2::nat) ^ 63"
    by simp
  show "f64_is_finite F64_ONE"
    unfolding F64_ONE_def f64_is_finite_def f64_bits_mag [OF lt] by (simp add: INF_MAG_def)
  have "mag_scale (1023 * 2 ^ 52) = 2 ^ 1074"
    by (simp add: mag_scale_def)
  then show "f64_scaled F64_ONE = 2 ^ 1074"
    unfolding F64_ONE_def f64_scaled_def f64_bits_mag [OF lt] by simp
qed

lemma F64_ONE_bits: "f64_mag F64_ONE = 1023 * 2 ^ 52" "f64_neg F64_ONE = False"
  using f64_bits_mag [of "1023 * 2 ^ 52" False] by (simp_all add: F64_ONE_def)

lemma F64_ONE_range: "f64_is_normal F64_ONE" "f64_le 0 F64_ONE" "f64_le F64_ONE F64_ONE"
  by (simp_all add: f64_is_normal_def f64_le_def f64_rank_def f64_is_nan_def F64_ONE_bits INF_MAG_def)
     (simp_all add: f64_mag_def f64_neg_def)

lemma f64_lt_le: "f64_is_nan a \<or> f64_is_nan b \<or> f64_lt a b \<longleftrightarrow> \<not> f64_le b a"
  by (auto simp: f64_lt_def f64_le_def)

lemma f64_le_trans: "f64_le a b \<Longrightarrow> f64_le b c \<Longrightarrow> f64_le a c"
  by (auto simp: f64_le_def)

lemma f64_normal_finite: "f64_is_normal a \<Longrightarrow> f64_is_finite a"
  by (simp add: f64_is_normal_def f64_is_finite_def)

section \<open>Whole seconds are exact\<close>

lemma div_mod_split:
  fixes a d r :: nat
  assumes "r < d"
  shows "(a * d + r) div d = a" and "(a * d + r) mod d = r"
  using assms by simp_all

lemma representable:
  assumes "0 < n" and "n < 2 ^ 53"
  obtains m where "mag_scale m = n * 2 ^ 1074" and "m < INF_MAG"
proof -
  let ?k = "bit_length n"
  have k: "0 < ?k" "?k \<le> 53"
  proof -
    show "0 < ?k"
      using assms(1) by (simp add: bit_length.simps [of n])
    have "(2::nat) ^ (?k - 1) < 2 ^ 53"
      using bit_length_bounds(2) [OF assms(1)] assms(2) by linarith
    then have "?k - 1 < 53"
      by (simp only: power_strict_increasing_iff)
    then show "?k \<le> 53" by simp
  qed
  let ?f = "n * 2 ^ (53 - ?k)"
  have "2 ^ (?k - 1) * 2 ^ (53 - ?k) \<le> ?f"
    by (rule mult_le_mono1) (rule bit_length_bounds(2) [OF assms(1)])
  moreover have "(2::nat) ^ (?k - 1) * 2 ^ (53 - ?k) = 2 ^ 52"
    using k by (simp flip: power_add)
  ultimately have low: "2 ^ 52 \<le> ?f"
    by linarith
  have "?f < 2 ^ ?k * 2 ^ (53 - ?k)"
    using bit_length_bounds(1) [of n] by (intro mult_strict_right_mono) simp_all
  moreover have "(2::nat) ^ ?k * 2 ^ (53 - ?k) = 2 ^ 53"
    using k by (simp flip: power_add)
  ultimately have high: "?f < 2 ^ 53"
    by linarith
  let ?m = "(1022 + ?k) * 2 ^ 52 + (?f - 2 ^ 52)"
  have "?f - 2 ^ 52 < 2 ^ 52"
    using high by simp
  then have "?m div 2 ^ 52 = 1022 + ?k" "?m mod 2 ^ 52 = ?f - 2 ^ 52"
    by (rule div_mod_split)+
  then have "mag_scale ?m = ?f * 2 ^ (1021 + ?k)"
    using low by (simp add: mag_scale_def Let_def)
  also have "\<dots> = n * 2 ^ ((53 - ?k) + (1021 + ?k))"
    by (simp only: power_add mult.assoc)
  also have "(53 - ?k) + (1021 + ?k) = 1074"
    using k by simp
  finally have "mag_scale ?m = n * 2 ^ 1074" .
  moreover have "?m < INF_MAG"
    using k high by (simp add: INF_MAG_def)
  ultimately show ?thesis
    by (rule that)
qed

lemma f64_round_exact:
  assumes "n < 2 ^ 53"
  shows "f64_is_finite (f64_round neg (n * 2 ^ 1074) 1)"
    and "f64_scaled (f64_round neg (n * 2 ^ 1074) 1) = (if neg then - int n else int n) * 2 ^ 1074"
proof -
  obtain m where m: "mag_scale m = n * 2 ^ 1074" "m < INF_MAG"
  proof (cases "n = 0")
    case True
    then show ?thesis
      using that [of 0] by (simp add: INF_MAG_def)
  next
    case False
    then show ?thesis
      using representable [OF _ assms] that by blast
  qed
  then have "round_mag (n * 2 ^ 1074) 1 = m"
    using raw_mag_exact [of m] by (simp add: round_mag_raw)
  then have b: "f64_round neg (n * 2 ^ 1074) 1 = f64_bits neg m"
    unfolding f64_round_def by simp
  have lt: "m < 2 ^ 63"
    using m(2) by (simp add: INF_MAG_def)
  show "f64_is_finite (f64_round neg (n * 2 ^ 1074) 1)"
    unfolding f64_is_finite_def b f64_bits_mag [OF lt] by (rule m(2))
  show "f64_scaled (f64_round neg (n * 2 ^ 1074) 1) = (if neg then - int n else int n) * 2 ^ 1074"
    unfolding f64_scaled_def b f64_bits_mag [OF lt] m(1) by simp
qed

lemma f64_of_nat_exact:
  assumes "n < 2 ^ 53"
  shows "f64_is_finite (f64_of_nat n)" and "f64_scaled (f64_of_nat n) = int n * 2 ^ 1074"
  using f64_round_exact [OF assms, of False] by (simp_all add: f64_of_nat_def)

lemma as_secs_f64_whole:
  assumes "unat n < 2 ^ 53"
  shows "f64_is_finite (as_secs_f64 (from_secs n))" and "f64_scaled (as_secs_f64 (from_secs n)) = uint n * 2 ^ 1074"
proof -
  have parts: "as_secs (from_secs n) = n" "subsec_nanos (from_secs n) = 0"
  proof -
    show "as_secs (from_secs n) = n"
      by simp
    show "subsec_nanos (from_secs n) = 0"
      by (simp add: subsec_nanos_def from_secs_def)
  qed
  let ?c = "f64_of_nat (unat n)" and ?z = "f64_div (f64_of_nat 0) (f64_of_nat NANOS_PER_SEC)"
  have c: "f64_is_finite ?c" "f64_scaled ?c = uint n * 2 ^ 1074"
    using f64_of_nat_exact [OF assms] by simp_all
  have "NANOS_PER_SEC < 2 ^ 53"
    by (simp add: NANOS_PER_SEC_def)
  note q = f64_of_nat_exact [OF this]
  have "f64_of_nat 0 = f64_bits False 0"
    using raw_mag_exact [of 0] by (simp add: f64_of_nat_def f64_round_def round_mag_raw)
  then have zero: "f64_mag (f64_of_nat 0) = 0" "f64_neg (f64_of_nat 0) = False"
    using f64_bits_mag [of 0 False] by simp_all
  have "f64_mag (f64_of_nat NANOS_PER_SEC) \<noteq> 0"
  proof
    assume "f64_mag (f64_of_nat NANOS_PER_SEC) = 0"
    then have "f64_scaled (f64_of_nat NANOS_PER_SEC) = 0"
      by (simp add: f64_scaled_def)
    with q(2) show False
      by (simp add: NANOS_PER_SEC_def)
  qed
  moreover have "raw_mag 0 d = 0" for d
    by (auto simp: raw_mag_def bit_length.simps [of 0] round_half_even_def)
  ultimately have "\<exists>neg. ?z = f64_bits neg 0"
    using q(1) by (auto simp: f64_div_def zero f64_is_finite_def f64_is_nan_def INF_MAG_def f64_round_def round_mag_raw)
  then have z: "f64_is_finite ?z" "f64_scaled ?z = 0"
    using f64_bits_mag [of 0] by (auto simp: f64_is_finite_def f64_scaled_def INF_MAG_def)
  have sum: "as_secs_f64 (from_secs n) = f64_add ?c ?z"
    by (simp add: as_secs_f64_def parts)
  have "f64_rank (as_secs_f64 (from_secs n)) = f64_rank ?c"
    using f64_add_rank(1) [OF c(1) z(1)] rank_of_scaled [OF c(1)] by (simp add: sum z(2))
  then have "f64_scaled (as_secs_f64 (from_secs n)) = f64_scaled ?c"
    using f64_rank_le_iff by (metis order_antisym order_refl)
  then show "f64_scaled (as_secs_f64 (from_secs n)) = uint n * 2 ^ 1074"
    by (simp add: c(2))
  have "f64_mag (as_secs_f64 (from_secs n)) = f64_mag ?c"
    using \<open>f64_rank (as_secs_f64 (from_secs n)) = f64_rank ?c\<close> by (auto simp: f64_rank_def split: if_splits)
  then show "f64_is_finite (as_secs_f64 (from_secs n))"
    using c(1) by (simp add: f64_is_finite_def)
qed

lemma as_secs_f64_normal:
  assumes "0 < unat n" and "unat n < 2 ^ 53"
  shows "f64_is_normal (as_secs_f64 (from_secs n))"
proof -
  let ?t = "as_secs_f64 (from_secs n)"
  have "int 1 \<le> int (unat n)"
    using assms(1) by (simp only: of_nat_le_iff)
  then have "1 * 2 ^ 1074 \<le> uint n * 2 ^ 1074"
    by (intro mult_right_mono) simp_all
  then have "2 ^ 1074 \<le> f64_scaled ?t"
    by (simp only: as_secs_f64_whole(2) [OF assms(2)])
  then have "2 ^ 1074 \<le> int (mag_scale (f64_mag ?t))"
    by (auto simp: f64_scaled_def split: if_splits)
  moreover have "int (mag_scale (2 ^ 52)) \<le> 2 ^ 1074"
    by (simp add: mag_scale_def)
  ultimately have "mag_scale (2 ^ 52) \<le> mag_scale (f64_mag ?t)"
    by linarith
  then have "2 ^ 52 \<le> f64_mag ?t"
    by (simp only: mag_scale_le_iff)
  then show ?thesis
    using as_secs_f64_whole(1) [OF assms(2)] by (simp add: f64_is_normal_def f64_is_finite_def)
qed

section \<open>Exact sums and quotients\<close>

lemma f64_scaled_eq_iff: "f64_scaled a = f64_scaled b \<longleftrightarrow> f64_rank a = f64_rank b"
  using f64_rank_le_iff [of a b] f64_rank_le_iff [of b a] by auto

lemma f64_le_finite:
  assumes "f64_le c x" "f64_le x d" "f64_is_finite c" "f64_is_finite d"
  shows "f64_is_finite x"
  using assms by (auto simp: f64_le_def f64_rank_def f64_is_finite_def split: if_splits)

lemma f64_add_exact:
  assumes "f64_is_finite a" "f64_is_finite b" "f64_is_finite c" "f64_scaled c = f64_scaled a + f64_scaled b"
  shows "f64_is_finite (f64_add a b)" and "f64_scaled (f64_add a b) = f64_scaled c"
proof -
  have "f64_le c (f64_add a b)" "f64_le (f64_add a b) c"
    using f64_le_add [OF assms(1-3)] assms(4) by simp_all
  then show "f64_is_finite (f64_add a b)" and "f64_scaled (f64_add a b) = f64_scaled c"
    using f64_le_finite [OF _ _ assms(3) assms(3)] by (auto simp: f64_scaled_eq_iff f64_le_def)
qed

lemma f64_sub_of_nat:
  assumes "m < 2 ^ 53" and "n < 2 ^ 53"
  shows "f64_is_finite (f64_sub (f64_of_nat m) (f64_of_nat n))"
    and "f64_scaled (f64_sub (f64_of_nat m) (f64_of_nat n)) = (int m - int n) * 2 ^ 1074"
proof -
  let ?c = "if n \<le> m then f64_of_nat (m - n) else f64_negate (f64_of_nat (n - m))"
  have "m - n < 2 ^ 53" "n - m < 2 ^ 53"
    using assms by simp_all
  from this [THEN f64_of_nat_exact(1)] this [THEN f64_of_nat_exact(2)]
  have c: "f64_is_finite ?c" "f64_scaled ?c = (int m - int n) * 2 ^ 1074"
    by (simp_all add: f64_negate_simps of_nat_diff left_diff_distrib)
  have fin: "f64_is_finite (f64_of_nat m)" "f64_is_finite (f64_negate (f64_of_nat n))"
    using assms by (simp_all add: f64_negate_simps f64_of_nat_exact)
  have sum: "f64_scaled ?c = f64_scaled (f64_of_nat m) + f64_scaled (f64_negate (f64_of_nat n))"
    unfolding c(2) by (simp only: f64_negate_simps f64_of_nat_exact(2) [OF assms(1)]
        f64_of_nat_exact(2) [OF assms(2)]) (simp only: left_diff_distrib diff_conv_add_uminus distrib_right mult_minus_left)
  show "f64_is_finite (f64_sub (f64_of_nat m) (f64_of_nat n))"
    and "f64_scaled (f64_sub (f64_of_nat m) (f64_of_nat n)) = (int m - int n) * 2 ^ 1074"
    unfolding f64_sub_def using f64_add_exact [OF fin c(1) sum] c(2) by simp_all
qed

lemma round_half_even_cancel: "0 < q \<Longrightarrow> round_half_even (q * p) (q * d) = round_half_even p d"
proof -
  assume q: "0 < q"
  have less: "2 * (q * r) < q * d \<longleftrightarrow> 2 * r < d" and eq: "2 * (q * r) = q * d \<longleftrightarrow> 2 * r = d" for r
    unfolding mult.left_commute [of 2 q r] using q by simp_all
  have div: "q * p div (q * d) = p div d"
    using q by simp
  have mod: "q * p mod (q * d) = q * (p mod d)"
    by (rule mult_mod_right [symmetric])
  show ?thesis
    unfolding round_half_even_def Let_def div mod less eq ..
qed

lemma raw_mag_cancel:
  assumes "0 < q"
  shows "raw_mag (q * p) q = raw_mag p 1"
proof -
  have div: "q * p div q = p div 1"
    using assms by simp
  show ?thesis
    unfolding raw_mag_def Let_def div round_half_even_cancel [OF assms] by simp
qed

text \<open>Dividing by a number that is at least one shrinks towards zero.\<close>

lemma f64_div_shrinks:
  assumes "f64_is_finite a" "f64_is_finite b" "2 ^ 1074 \<le> f64_scaled b"
  shows "f64_is_finite (f64_div a b)"
    and "0 \<le> f64_scaled a \<Longrightarrow> 0 \<le> f64_scaled (f64_div a b) \<and> f64_scaled (f64_div a b) \<le> f64_scaled a"
    and "f64_scaled a \<le> 0 \<Longrightarrow> f64_scaled a \<le> f64_scaled (f64_div a b) \<and> f64_scaled (f64_div a b) \<le> 0"
proof -
  let ?p = "mag_scale (f64_mag a)" and ?q = "mag_scale (f64_mag b)"
  have b: "\<not> f64_neg b" "2 ^ 1074 \<le> ?q"
  proof -
    have "0 < f64_scaled b"
      using assms(3) by (rule less_le_trans [rotated]) simp
    then show "\<not> f64_neg b"
      by (auto simp: f64_scaled_def)
    then have "int (2 ^ 1074) \<le> int ?q"
      using assms(3) by (simp add: f64_scaled_def)
    then show "2 ^ 1074 \<le> ?q"
      by (simp only: of_nat_le_iff)
  qed
  have q: "0 < ?q"
    using b(2) by (rule less_le_trans [rotated]) simp
  then have "f64_mag b \<noteq> 0"
    by (metis mag_scale_0 less_irrefl)
  obtain m where div: "f64_div a b = f64_bits (f64_neg a) m" and m: "m \<le> f64_mag a"
  proof
    show "f64_div a b = f64_bits (f64_neg a) (round_mag (?p * 2 ^ 1074) ?q)"
      using assms(1,2) b(1) \<open>f64_mag b \<noteq> 0\<close>
      by (simp add: f64_div_def Let_def f64_round_def finite_not_nan)
    have "raw_mag (?p * 2 ^ 1074) ?q \<le> raw_mag (?q * ?p) ?q"
      unfolding mult.commute [of ?q ?p] by (rule raw_mag_mono [OF q]) (rule mult_le_mono2 [OF b(2)])
    also have "\<dots> = f64_mag a"
      by (simp only: raw_mag_cancel [OF q] raw_mag_exact)
    finally show "round_mag (?p * 2 ^ 1074) ?q \<le> f64_mag a"
      unfolding round_mag_raw by (rule min.coboundedI1)
  qed
  have lt: "m < 2 ^ 63"
    using m f64_mag_less [of a] by (rule le_less_trans)
  show "f64_is_finite (f64_div a b)"
    using m assms(1) by (simp add: f64_is_finite_def div f64_bits_mag [OF lt])
  have "f64_scaled (f64_div a b) = (if f64_neg a then - int (mag_scale m) else int (mag_scale m))"
    by (simp add: f64_scaled_def div f64_bits_mag [OF lt])
  moreover have "mag_scale m \<le> mag_scale (f64_mag a)"
    using m by (simp only: mag_scale_le_iff)
  ultimately show "0 \<le> f64_scaled a \<Longrightarrow> 0 \<le> f64_scaled (f64_div a b) \<and> f64_scaled (f64_div a b) \<le> f64_scaled a"
    and "f64_scaled a \<le> 0 \<Longrightarrow> f64_scaled a \<le> f64_scaled (f64_div a b) \<and> f64_scaled (f64_div a b) \<le> 0"
    by (auto simp: f64_scaled_def [of a] split: if_splits)
qed

section \<open>Rounding up to an integer\<close>

lemma f64_ceil_exact:
  fixes lo hi x
  assumes x: "f64_is_finite x" "int lo * 2 ^ 1074 \<le> f64_scaled x" "f64_scaled x \<le> int hi * 2 ^ 1074"
    and hi: "hi < 2 ^ 53"
  obtains c where "lo \<le> c" "c \<le> hi" "f64_is_finite (f64_ceil x)" "f64_scaled (f64_ceil x) = int c * 2 ^ 1074"
proof -
  define u :: int where "u = 2 ^ 1074"
  have u: "0 < u"
    by (simp add: u_def)
  define c where "c = nat (- ((- f64_scaled x) div u))"
  have range: "int lo \<le> - ((- f64_scaled x) div u)" "- ((- f64_scaled x) div u) \<le> int hi"
  proof -
    have cancel: "(- int k * u) div u = - int k" for k
      using u by (intro nonzero_mult_div_cancel_right) simp
    have "(- f64_scaled x) div u \<le> (- int lo * u) div u"
      using x(2) u by (intro zdiv_mono1) (simp_all add: u_def)
    then show "int lo \<le> - ((- f64_scaled x) div u)"
      unfolding cancel by simp
    have "(- int hi * u) div u \<le> (- f64_scaled x) div u"
      using x(3) u by (intro zdiv_mono1) (simp_all add: u_def)
    then show "- ((- f64_scaled x) div u) \<le> int hi"
      unfolding cancel by simp
  qed
  then have c: "int c = - ((- f64_scaled x) div u)" "lo \<le> c" "c \<le> hi"
    unfolding c_def by simp_all
  then have lt: "c < 2 ^ 53"
    using hi by simp
  have ceil: "f64_ceil x = f64_round (f64_neg x) (c * 2 ^ 1074) 1"
    unfolding f64_ceil_def u_def [symmetric] c(1) [symmetric] using x(1) by simp
  have "f64_neg x \<Longrightarrow> c = 0"
  proof -
    assume "f64_neg x"
    then have "0 \<le> (- f64_scaled x) div u"
      using u by (simp add: f64_scaled_def pos_imp_zdiv_nonneg_iff)
    then show "c = 0"
      by (simp add: c_def)
  qed
  then have "f64_scaled (f64_ceil x) = int c * 2 ^ 1074"
    unfolding ceil f64_round_exact(2) [OF lt] by simp
  moreover have "f64_is_finite (f64_ceil x)"
    unfolding ceil by (rule f64_round_exact(1) [OF lt])
  ultimately show ?thesis
    using that c(2,3) by blast
qed

lemma f64_to_u64_exact:
  assumes "f64_is_finite x" "f64_scaled x = int c * 2 ^ 1074" "c < 2 ^ 64"
  shows "unat (f64_to_u64 x) = c"
proof -
  have "f64_scaled x div 2 ^ 1074 = int c"
    unfolding assms(2) by (rule nonzero_mult_div_cancel_right) simp
  moreover have "\<not> f64_scaled x < 0"
    unfolding assms(2) by simp
  ultimately show ?thesis
    using assms(1,3) by (simp add: f64_to_u64_def finite_not_nan unat_of_nat)
qed

end
