(* ===== verification/Udp_Banning.thy ===== *)
theory Udp_Banning
  imports Clock
begin

text \<open>
  The ban service of the UDP server (\<open>src/servers/udp/server/banning.rs\<close>): addresses that send too
  many wrong connection ids are ignored until the next reset. The counting Bloom filter is a
  parameter; it counts addresses, which the code passes to it as text.
\<close>

section \<open>The counting Bloom filter (parameter)\<close>

record 'b bloom_api =
  bl_with_rate :: 'b
  bl_insert :: "IpAddr \<Rightarrow> 'b \<Rightarrow> 'b"
  bl_estimate_count :: "IpAddr \<Rightarrow> 'b \<Rightarrow> u32"
  bl_clear :: "'b \<Rightarrow> 'b"

text \<open>
  With four bits for each counter the filter never estimates less than the true count up to 15.
\<close>

locale counting_filter =
  fixes F :: "'b bloom_api" and inserted :: "'b \<Rightarrow> IpAddr \<Rightarrow> nat"
  assumes with_rate: "inserted (bl_with_rate F) = (\<lambda>_. 0)"
    and insert: "inserted (bl_insert F ip b) = (inserted b)(ip := inserted b ip + 1)"
    and clear: "inserted (bl_clear F b) = (\<lambda>_. 0)"
    and estimate: "min (inserted b ip) 15 \<le> unat (bl_estimate_count F ip b)"

section \<open>BanService\<close>

record 'b BanService =
  max_connection_id_errors_per_ip :: u32
  fuzzy_error_counter :: 'b
  accurate_error_counter :: "IpAddr \<rightharpoonup> u32"
  last_connection_id_errors_reset :: Duration

definition BanService_new :: "'b bloom_api \<Rightarrow> u32 \<Rightarrow> Duration \<Rightarrow> 'b BanService" where
  "BanService_new F max_errors now =
     \<lparr>max_connection_id_errors_per_ip = max_errors, fuzzy_error_counter = bl_with_rate F,
      accurate_error_counter = Map.empty, last_connection_id_errors_reset = now\<rparr>"

definition increase_counter :: "'b bloom_api \<Rightarrow> IpAddr \<Rightarrow> 'b BanService \<Rightarrow> 'b BanService" where
  "increase_counter F ip s =
     s\<lparr>fuzzy_error_counter := bl_insert F ip (fuzzy_error_counter s),
       accurate_error_counter :=
         (let count = (case accurate_error_counter s ip of Some n \<Rightarrow> n | None \<Rightarrow> 0)
          in (accurate_error_counter s)(ip \<mapsto> count + 1))\<rparr>"

definition get_count :: "IpAddr \<Rightarrow> 'b BanService \<Rightarrow> u32 option" where
  "get_count ip s = accurate_error_counter s ip"

definition get_banned_ips_total :: "'b BanService \<Rightarrow> usize" where
  "get_banned_ips_total s = card (dom (accurate_error_counter s))"

definition get_estimate_count :: "'b bloom_api \<Rightarrow> IpAddr \<Rightarrow> 'b BanService \<Rightarrow> u32" where
  "get_estimate_count F ip s = bl_estimate_count F ip (fuzzy_error_counter s)"

definition is_banned :: "'b bloom_api \<Rightarrow> IpAddr \<Rightarrow> 'b BanService \<Rightarrow> bool" where
  "is_banned F ip s =
     (if bl_estimate_count F ip (fuzzy_error_counter s) \<le> max_connection_id_errors_per_ip s then False
      else case get_count ip s of
             Some count \<Rightarrow> max_connection_id_errors_per_ip s < count
           | None \<Rightarrow> False)"

definition reset_bans :: "'b bloom_api \<Rightarrow> Duration \<Rightarrow> 'b BanService \<Rightarrow> 'b BanService" where
  "reset_bans F now s =
     s\<lparr>fuzzy_error_counter := bl_clear F (fuzzy_error_counter s), accurate_error_counter := Map.empty,
       last_connection_id_errors_reset := now\<rparr>"

definition MAX_CONNECTION_ID_ERRORS_PER_IP :: u32 where
  "MAX_CONNECTION_ID_ERRORS_PER_IP = 10"

section \<open>Histories\<close>

datatype ban_op = CookieError IpAddr | ResetBans Duration

fun ban_step :: "'b bloom_api \<Rightarrow> ban_op \<Rightarrow> 'b BanService \<Rightarrow> 'b BanService" where
  "ban_step F (CookieError ip) s = increase_counter F ip s"
| "ban_step F (ResetBans now) s = reset_bans F now s"

definition run_bans :: "'b bloom_api \<Rightarrow> ban_op list \<Rightarrow> 'b BanService \<Rightarrow> 'b BanService" where
  "run_bans F ops s = fold (ban_step F) ops s"

text \<open>The errors of an address since the last reset.\<close>

definition errors_since_reset :: "ban_op list \<Rightarrow> IpAddr \<Rightarrow> nat" where
  "errors_since_reset ops ip =
     fold (\<lambda>op n. case op of CookieError ip' \<Rightarrow> if ip' = ip then n + 1 else n | ResetBans _ \<Rightarrow> 0) ops 0"

lemma errors_since_reset_snoc:
  "errors_since_reset (ops @ [CookieError ip']) ip = errors_since_reset ops ip + (if ip' = ip then 1 else 0)"
  "errors_since_reset (ops @ [ResetBans t]) ip = 0"
  by (simp_all add: errors_since_reset_def)

lemma errors_since_reset_Nil: "errors_since_reset [] ip = 0"
  by (simp add: errors_since_reset_def)

lemma errors_since_reset_replicate: "errors_since_reset (replicate n (CookieError ip)) ip = n"
proof -
  have "fold (\<lambda>op n. case op of CookieError ip' \<Rightarrow> if ip' = ip then n + 1 else n | ResetBans _ \<Rightarrow> 0)
      (replicate n (CookieError ip)) k = k + n" for k
    by (induction n arbitrary: k) simp_all
  then show ?thesis
    by (simp add: errors_since_reset_def)
qed

definition counts_errors :: "('b \<Rightarrow> IpAddr \<Rightarrow> nat) \<Rightarrow> ban_op list \<Rightarrow> 'b BanService \<Rightarrow> bool" where
  "counts_errors inserted ops s =
     (inserted (fuzzy_error_counter s) = errors_since_reset ops \<and>
      (\<forall>ip. accurate_error_counter s ip =
         (if errors_since_reset ops ip = 0 then None else Some (of_nat (errors_since_reset ops ip)))))"

context counting_filter
begin

lemma run_counts_errors:
  fixes ops max_errors now
  defines "s \<equiv> run_bans F ops (BanService_new F max_errors now)"
  shows "counts_errors inserted ops s \<and> max_connection_id_errors_per_ip s = max_errors"
  unfolding s_def
proof (induction ops rule: rev_induct)
  case Nil
  then show ?case
    by (simp add: run_bans_def BanService_new_def counts_errors_def errors_since_reset_Nil with_rate fun_eq_iff)
next
  case (snoc op ops)
  let ?s = "run_bans F ops (BanService_new F max_errors now)"
  have run: "run_bans F (ops @ [op']) (BanService_new F max_errors now) = ban_step F op' ?s" for op'
    by (simp add: run_bans_def)
  show ?case
  proof (cases op)
    case (CookieError ip)
    show ?thesis
      unfolding run CookieError using snoc
      by (auto simp: counts_errors_def increase_counter_def Let_def insert errors_since_reset_snoc fun_eq_iff
          add.commute)
  next
    case (ResetBans t)
    show ?thesis
      unfolding run ResetBans using snoc by (simp add: counts_errors_def reset_bans_def clear errors_since_reset_snoc fun_eq_iff)
  qed
qed

lemma is_banned_iff:
  assumes "counts_errors inserted ops s" and "unat (max_connection_id_errors_per_ip s) < 15"
    and "errors_since_reset ops ip < 2 ^ 32"
  shows "is_banned F ip s \<longleftrightarrow> unat (max_connection_id_errors_per_ip s) < errors_since_reset ops ip"
proof -
  let ?n = "errors_since_reset ops ip" and ?max = "max_connection_id_errors_per_ip s"
  have est: "min ?n 15 \<le> unat (bl_estimate_count F ip (fuzzy_error_counter s))"
    using estimate [of "fuzzy_error_counter s" ip] assms(1) by (simp add: counts_errors_def)
  have n: "unat (of_nat ?n :: u32) = ?n"
    using assms(3) by (simp add: unat_of_nat)
  have count: "get_count ip s = (if ?n = 0 then None else Some (of_nat ?n))"
    using assms(1) by (simp add: counts_errors_def get_count_def)
  show ?thesis
    using est assms(2) n by (auto simp: is_banned_def count word_le_nat_alt word_less_nat_alt)
qed

end

section \<open>An exact filter\<close>

definition exact_filter :: "(IpAddr \<Rightarrow> nat) bloom_api" where
  "exact_filter =
     \<lparr>bl_with_rate = (\<lambda>_. 0), bl_insert = (\<lambda>ip b. b(ip := b ip + 1)),
      bl_estimate_count = (\<lambda>ip b. of_nat (min (b ip) 15)), bl_clear = (\<lambda>_ _. 0)\<rparr>"

interpretation exact: counting_filter exact_filter "\<lambda>b. b"
  by unfold_locales (simp_all add: exact_filter_def unat_of_nat)

section \<open>Properties\<close>

text \<open>
  Whatever the false positives of the filter, an address is banned exactly when it has sent more
  wrong connection ids since the last reset than allowed, for every limit below the saturation of
  the filter's counters.
\<close>
theorem banned_exact:
  assumes "counting_filter F inserted"
    and "unat max_errors < 15" and "errors_since_reset ops ip < 2 ^ 32"
  shows "is_banned F ip (run_bans F ops (BanService_new F max_errors now)) \<longleftrightarrow>
         unat max_errors < errors_since_reset ops ip"
  using counting_filter.is_banned_iff [OF assms(1)] counting_filter.run_counts_errors [OF assms(1)] assms(2,3)
  by metis

theorem banned_exact_witness:
  "is_banned exact_filter (V4 7)
     (run_bans exact_filter (replicate 11 (CookieError (V4 7))) (BanService_new exact_filter MAX_CONNECTION_ID_ERRORS_PER_IP 0))"
  using banned_exact [OF exact.counting_filter_axioms, of MAX_CONNECTION_ID_ERRORS_PER_IP
      "replicate 11 (CookieError (V4 7))" "V4 7" 0]
  by (simp add: MAX_CONNECTION_ID_ERRORS_PER_IP_def errors_since_reset_replicate)

text \<open>
  C39: The number reported as banned addresses is the number of addresses with at least one wrong
  connection id since the last reset, banned or not.
\<close>
theorem banned_total_counts_errors:
  assumes "counting_filter F inserted"
  shows "get_banned_ips_total (run_bans F ops (BanService_new F max_errors now)) =
         card {ip. 0 < errors_since_reset ops ip}"
proof -
  have "dom (accurate_error_counter (run_bans F ops (BanService_new F max_errors now))) =
      {ip. 0 < errors_since_reset ops ip}"
    using counting_filter.run_counts_errors [OF assms, of ops max_errors now]
    by (auto simp: counts_errors_def split: if_splits)
  then show ?thesis
    by (simp add: get_banned_ips_total_def)
qed

theorem banned_total_counts_errors_witness:
  "get_banned_ips_total (run_bans exact_filter [CookieError (V4 7)] (BanService_new exact_filter 10 0)) = 1"
proof -
  have "{ip. 0 < errors_since_reset [CookieError (V4 7)] ip} = {V4 7}"
    by (auto simp: errors_since_reset_def split: if_splits)
  then show ?thesis
    using banned_total_counts_errors [OF exact.counting_filter_axioms, of "[CookieError (V4 7)]" 10 0]
    by simp
qed

end
