(* ===== verification/Torrent_Entry.thy ===== *)
theory Torrent_Entry
  imports Clock
begin

text \<open>
  One torrent of the tracker (\<open>packages/torrent-repository/src/entry\<close>): the peer list of a swarm
  (\<open>peer_list.rs\<close>), the torrent entry with its counter of completed downloads (\<open>mod.rs\<close>,
  \<open>single.rs\<close>), its well-formedness invariant and its abstract specification. The specification
  keeps what is known of each peer identifier and how many downloads completed; the entry
  implements it.
\<close>

section \<open>Peer list (peer\_list.rs)\<close>

record PeerList =
  pl_peers :: "(PeerId, Peer) btree_map"

definition PeerList_default :: PeerList where
  "PeerList_default = \<lparr>pl_peers = bt_empty\<rparr>"

definition PeerList_len :: "PeerList \<Rightarrow> usize" where
  "PeerList_len pl = length (pl_peers pl)"

definition PeerList_is_empty :: "PeerList \<Rightarrow> bool" where
  "PeerList_is_empty pl = (pl_peers pl = [])"

definition PeerList_upsert :: "Peer \<Rightarrow> PeerList \<Rightarrow> Peer option \<times> PeerList" where
  "PeerList_upsert v pl =
     (let (previous, m) = bt_insert (peer_id v) v (pl_peers pl) in (previous, pl\<lparr>pl_peers := m\<rparr>))"

definition PeerList_remove :: "PeerId \<Rightarrow> PeerList \<Rightarrow> Peer option \<times> PeerList" where
  "PeerList_remove key pl =
     (let (previous, m) = bt_remove key (pl_peers pl) in (previous, pl\<lparr>pl_peers := m\<rparr>))"

definition PeerList_remove_inactive_peers :: "DurationSinceUnixEpoch \<Rightarrow> PeerList \<Rightarrow> PeerList" where
  "PeerList_remove_inactive_peers current_cutoff pl =
     pl\<lparr>pl_peers := bt_retain (\<lambda>_ p. current_cutoff < get_updated p) (pl_peers pl)\<rparr>"

definition PeerList_get :: "PeerId \<Rightarrow> PeerList \<Rightarrow> Peer option" where
  "PeerList_get pid pl = bt_get (pl_peers pl) pid"

definition PeerList_get_all :: "usize option \<Rightarrow> PeerList \<Rightarrow> Peer list" where
  "PeerList_get_all lim pl =
     (case lim of
        Some n \<Rightarrow> take n (bt_values (pl_peers pl))
      | None \<Rightarrow> bt_values (pl_peers pl))"

definition seeders_and_leechers :: "PeerList \<Rightarrow> usize \<times> usize" where
  "seeders_and_leechers pl =
     (let seeders = length (filter is_seeder (bt_values (pl_peers pl)));
          leechers = PeerList_len pl - seeders
      in (seeders, leechers))"

definition get_peers_excluding_addr :: "SocketAddr \<Rightarrow> usize option \<Rightarrow> PeerList \<Rightarrow> Peer list" where
  "get_peers_excluding_addr addr lim pl =
     (case lim of
        Some n \<Rightarrow> take n (filter (\<lambda>p. get_address p \<noteq> addr) (bt_values (pl_peers pl)))
      | None \<Rightarrow> filter (\<lambda>p. get_address p \<noteq> addr) (bt_values (pl_peers pl)))"

section \<open>Torrent entry (mod.rs, single.rs)\<close>

record Torrent =
  swarm :: PeerList
  t_downloaded :: u32

definition Torrent_default :: Torrent where
  "Torrent_default = \<lparr>swarm = PeerList_default, t_downloaded = 0\<rparr>"

definition get_swarm_metadata :: "Torrent \<Rightarrow> SwarmMetadata" where
  "get_swarm_metadata t =
     (let (seeders, leechers) = seeders_and_leechers (swarm t) in
      \<lparr>sm_downloaded = t_downloaded t, sm_complete = of_nat seeders, sm_incomplete = of_nat leechers\<rparr>)"

definition meets_retaining_policy :: "TrackerPolicy \<Rightarrow> Torrent \<Rightarrow> bool" where
  "meets_retaining_policy pol t =
     (if persistent_torrent_completed_stat pol \<and> t_downloaded t > 0 then True
      else if remove_peerless_torrents pol \<and> PeerList_is_empty (swarm t) then False
      else True)"

definition peers_is_empty :: "Torrent \<Rightarrow> bool" where
  "peers_is_empty t = PeerList_is_empty (swarm t)"

definition get_peers_len :: "Torrent \<Rightarrow> usize" where
  "get_peers_len t = PeerList_len (swarm t)"

definition get_peers :: "usize option \<Rightarrow> Torrent \<Rightarrow> Peer list" where
  "get_peers lim t = PeerList_get_all lim (swarm t)"

definition get_peers_for_client :: "SocketAddr \<Rightarrow> usize option \<Rightarrow> Torrent \<Rightarrow> Peer list" where
  "get_peers_for_client client lim t = get_peers_excluding_addr client lim (swarm t)"

definition upsert_peer :: "Peer \<Rightarrow> Torrent \<Rightarrow> bool \<times> Torrent" where
  "upsert_peer p t =
     (case get_event p of
        EventStopped \<Rightarrow> (False, t\<lparr>swarm := snd (PeerList_remove (get_id p) (swarm t))\<rparr>)
      | EventCompleted \<Rightarrow>
          (let (previous, pl) = PeerList_upsert p (swarm t);
               t' = t\<lparr>swarm := pl\<rparr>
           in case previous of
                Some q \<Rightarrow>
                  if event q \<noteq> EventCompleted
                  then (True, t'\<lparr>t_downloaded := t_downloaded t' + 1\<rparr>)
                  else (False, t')
              | None \<Rightarrow> (False, t'))
      | _ \<Rightarrow> (False, t\<lparr>swarm := snd (PeerList_upsert p (swarm t))\<rparr>))"

definition remove_inactive_peers :: "DurationSinceUnixEpoch \<Rightarrow> Torrent \<Rightarrow> Torrent" where
  "remove_inactive_peers current_cutoff t =
     t\<lparr>swarm := PeerList_remove_inactive_peers current_cutoff (swarm t)\<rparr>"

section \<open>Invariant\<close>

text \<open>
  A well-formed entry: the peer list is an ordered map, each peer is stored under its own
  identifier, and no stored peer has stopped.
\<close>

definition torrent_inv :: "Torrent \<Rightarrow> bool" where
  "torrent_inv t =
     (bt_inv (pl_peers (swarm t)) \<and>
      (\<forall>(k, p) \<in> set (pl_peers (swarm t)). peer_id p = k \<and> event p \<noteq> EventStopped))"

section \<open>Specification\<close>

record SwarmSpec =
  known :: "PeerId \<rightharpoonup> Peer"
  completed :: nat

definition spec_empty :: SwarmSpec where
  "spec_empty = \<lparr>known = (\<lambda>_. None), completed = 0\<rparr>"

text \<open>A download completes when a peer known as not completed announces that it has completed.\<close>

definition spec_completes :: "Peer \<Rightarrow> SwarmSpec \<Rightarrow> bool" where
  "spec_completes p s =
     (event p = EventCompleted \<and>
      (case known s (peer_id p) of None \<Rightarrow> False | Some q \<Rightarrow> event q \<noteq> EventCompleted))"

definition spec_announce :: "Peer \<Rightarrow> SwarmSpec \<Rightarrow> SwarmSpec" where
  "spec_announce p s =
     \<lparr>known = (known s)(peer_id p := (if event p = EventStopped then None else Some p)),
      completed = (if spec_completes p s then completed s + 1 else completed s)\<rparr>"

definition spec_expire :: "DurationSinceUnixEpoch \<Rightarrow> SwarmSpec \<Rightarrow> SwarmSpec" where
  "spec_expire cutoff s =
     s\<lparr>known := (\<lambda>k. case known s k of
                      None \<Rightarrow> None
                    | Some p \<Rightarrow> if cutoff < updated p then Some p else None)\<rparr>"

text \<open>The entry represents a state of the specification.\<close>

definition represents :: "Torrent \<Rightarrow> SwarmSpec \<Rightarrow> bool" where
  "represents t s =
     (torrent_inv t \<and> bt_get (pl_peers (swarm t)) = known s \<and> t_downloaded t = of_nat (completed s))"

section \<open>Histories of an entry\<close>

datatype entry_op = Announce Peer | Expire DurationSinceUnixEpoch

fun run_entry :: "entry_op list \<Rightarrow> Torrent \<Rightarrow> Torrent" where
  "run_entry [] t = t"
| "run_entry (Announce p # ops) t = run_entry ops (snd (upsert_peer p t))"
| "run_entry (Expire cutoff # ops) t = run_entry ops (remove_inactive_peers cutoff t)"

fun run_spec :: "entry_op list \<Rightarrow> SwarmSpec \<Rightarrow> SwarmSpec" where
  "run_spec [] s = s"
| "run_spec (Announce p # ops) s = run_spec ops (spec_announce p s)"
| "run_spec (Expire cutoff # ops) s = run_spec ops (spec_expire cutoff s)"

section \<open>Lemmas\<close>

lemmas peer_list_simps [tracker_simps] =
  PeerList_upsert_def PeerList_remove_def PeerList_remove_inactive_peers_def PeerList_get_def
  PeerList_len_def PeerList_is_empty_def bt_insert_def bt_remove_def

lemma torrent_inv_default [simp]: "torrent_inv Torrent_default"
  by (simp add: torrent_inv_def Torrent_default_def PeerList_default_def bt_empty_def)

lemma torrent_inv_iff:
  "torrent_inv t \<longleftrightarrow>
   bt_inv (pl_peers (swarm t)) \<and>
   (\<forall>k p. bt_get (pl_peers (swarm t)) k = Some p \<longrightarrow> peer_id p = k \<and> event p \<noteq> EventStopped)"
  by (auto simp: torrent_inv_def bt_get_mem)

lemma swarm_upsert_peer:
  "pl_peers (swarm (snd (upsert_peer p t))) =
     (if event p = EventStopped then bt_del (peer_id p) (pl_peers (swarm t))
      else bt_put (peer_id p) p (pl_peers (swarm t)))"
  by (cases "event p") (auto simp: upsert_peer_def tracker_simps Let_def split: option.splits)

lemma downloaded_upsert_peer:
  "t_downloaded (snd (upsert_peer p t)) = t_downloaded t + (if fst (upsert_peer p t) then 1 else 0)"
  by (cases "event p") (auto simp: upsert_peer_def tracker_simps Let_def split: option.splits)

lemma fst_upsert_peer:
  "fst (upsert_peer p t) \<longleftrightarrow>
   event p = EventCompleted \<and>
   (\<exists>q. bt_get (pl_peers (swarm t)) (peer_id p) = Some q \<and> event q \<noteq> EventCompleted)"
  by (cases "event p") (auto simp: upsert_peer_def tracker_simps Let_def split: option.splits)

lemma torrent_inv_bt_inv: "torrent_inv t \<Longrightarrow> bt_inv (pl_peers (swarm t))"
  by (simp add: torrent_inv_def)

lemma torrent_inv_upsert_peer [tracker_inv]: "torrent_inv t \<Longrightarrow> torrent_inv (snd (upsert_peer p t))"
  by (auto simp: torrent_inv_iff swarm_upsert_peer bt_get_put tracker_inv)

lemma torrent_inv_remove_inactive [tracker_inv]:
  "torrent_inv t \<Longrightarrow> torrent_inv (remove_inactive_peers cutoff t)"
  by (auto simp: torrent_inv_iff remove_inactive_peers_def tracker_simps bt_get_retain tracker_inv
      split: option.splits if_splits)

lemma represents_default: "represents Torrent_default spec_empty"
  by (simp add: represents_def)
     (simp add: Torrent_default_def PeerList_default_def spec_empty_def)

lemma represents_upsert_peer:
  assumes "represents t s"
  shows "represents (snd (upsert_peer p t)) (spec_announce p s)"
    and "fst (upsert_peer p t) = spec_completes p s"
  using assms
  by (auto simp: represents_def torrent_inv_upsert_peer swarm_upsert_peer downloaded_upsert_peer
      fst_upsert_peer spec_announce_def spec_completes_def torrent_inv_bt_inv bt_get_put
      split: option.splits)

lemma represents_remove_inactive:
  "represents t s \<Longrightarrow> represents (remove_inactive_peers cutoff t) (spec_expire cutoff s)"
  by (auto simp: represents_def torrent_inv_remove_inactive)
     (auto simp: remove_inactive_peers_def spec_expire_def tracker_simps bt_get_retain fun_eq_iff
       torrent_inv_bt_inv split: option.splits)

lemma represents_run: "represents t s \<Longrightarrow> represents (run_entry ops t) (run_spec ops s)"
  by (induction ops t arbitrary: s rule: run_entry.induct)
     (simp_all add: represents_upsert_peer represents_remove_inactive)

text \<open>What the read operations return, in terms of the map from identifiers to peers.\<close>

lemma distinct_bt_values_entry:
  assumes "torrent_inv t"
  shows "distinct (bt_values (pl_peers (swarm t)))"
proof -
  have "map peer_id (bt_values (pl_peers (swarm t))) = map fst (pl_peers (swarm t))"
    using assms by (auto simp: torrent_inv_def bt_values_def)
  then have "distinct (map peer_id (bt_values (pl_peers (swarm t))))"
    using assms by (simp add: torrent_inv_def bt_inv_distinct)
  then show ?thesis
    by (simp add: distinct_map)
qed

lemma length_filter_values:
  assumes "torrent_inv t"
  shows "length (filter P (bt_values (pl_peers (swarm t)))) =
         card {p \<in> ran (bt_get (pl_peers (swarm t))). P p}"
proof -
  have "length (filter P (bt_values (pl_peers (swarm t)))) =
        card (set (filter P (bt_values (pl_peers (swarm t)))))"
    by (rule distinct_card [symmetric]) (rule distinct_filter [OF distinct_bt_values_entry [OF assms]])
  moreover have "set (filter P (bt_values (pl_peers (swarm t)))) =
                 {p \<in> ran (bt_get (pl_peers (swarm t))). P p}"
    using assms by (auto simp: torrent_inv_def bt_values_mem ran_def)
  ultimately show ?thesis by simp
qed

lemma seeders_plus_leechers:
  "seeders_and_leechers pl = (s, l) \<Longrightarrow> s + l = PeerList_len pl"
  by (auto simp: seeders_and_leechers_def PeerList_len_def bt_values_def Let_def
      intro: order_trans [OF length_filter_le])

section \<open>Properties\<close>

text \<open>
  C8: After any history of announces and expirations the entry represents exactly what the
  specification knows: the latest announce of every peer that has neither stopped nor been expired
  since, stored under its identifier in an ordered map, and the number of completed downloads
  modulo the width of the counter.
\<close>
theorem entry_refines_spec:
  "represents (run_entry ops Torrent_default) (run_spec ops spec_empty)"
  by (intro represents_run represents_default)

lemma represents_known:
  assumes "represents t s"
  shows "{p \<in> ran (bt_get (pl_peers (swarm t))). P p} = {p \<in> ran (known s). P p}"
    and "torrent_inv t"
  using assms by (simp_all add: represents_def)

lemma represents_not_stopped:
  "represents t s \<Longrightarrow> p \<in> ran (known s) \<Longrightarrow> event p \<noteq> EventStopped"
  by (auto simp: represents_def torrent_inv_iff ran_def)

lemma represents_seeders_and_leechers:
  assumes "represents t s"
  shows "seeders_and_leechers (swarm t) =
         (card {p \<in> ran (known s). sint (left p) \<le> 0}, card {p \<in> ran (known s). 0 < sint (left p)})"
proof -
  let ?vs = "bt_values (pl_peers (swarm t))"
  have len: "length (filter is_seeder ?vs) + length (filter (\<lambda>p. \<not> is_seeder p) ?vs) = PeerList_len (swarm t)"
    using sum_length_filter_compl [of is_seeder ?vs]
    by (simp only: PeerList_len_def bt_values_def length_map)
  have "{p \<in> ran (known s). is_seeder p} = {p \<in> ran (known s). sint (left p) \<le> 0}"
    and "{p \<in> ran (known s). \<not> is_seeder p} = {p \<in> ran (known s). 0 < sint (left p)}"
    using represents_not_stopped [OF assms] by (auto simp: is_seeder_def)
  with len show ?thesis
    by (simp add: seeders_and_leechers_def length_filter_values represents_known [OF assms] Let_def)
qed

text \<open>
  After any history the reported statistics are those of the specification: the seeders are the
  known peers with nothing left to download, the leechers the other known peers, and the downloaded
  counter is the number of completed downloads.
\<close>
theorem entry_swarm_metadata:
  "get_swarm_metadata (run_entry ops Torrent_default) =
     \<lparr>sm_downloaded = of_nat (completed (run_spec ops spec_empty)),
      sm_complete = of_nat (card {p \<in> ran (known (run_spec ops spec_empty)). sint (left p) \<le> 0}),
      sm_incomplete = of_nat (card {p \<in> ran (known (run_spec ops spec_empty)). 0 < sint (left p)})\<rparr>"
proof -
  have r: "represents (run_entry ops Torrent_default) (run_spec ops spec_empty)"
    by (intro represents_run represents_default)
  then show ?thesis
    by (simp add: get_swarm_metadata_def represents_seeders_and_leechers [OF r])
       (simp add: represents_def)
qed

lemma represents_peers_for_client:
  assumes "represents t s"
  shows "distinct (get_peers_for_client client lim t)"
    and "set (get_peers_for_client client lim t) \<subseteq> {p \<in> ran (known s). peer_addr p \<noteq> client}"
    and "length (get_peers_for_client client lim t) =
         (case lim of
            None \<Rightarrow> card {p \<in> ran (known s). peer_addr p \<noteq> client}
          | Some n \<Rightarrow> min n (card {p \<in> ran (known s). peer_addr p \<noteq> client}))"
proof -
  let ?f = "filter (\<lambda>p. peer_addr p \<noteq> client) (bt_values (pl_peers (swarm t)))"
  note inv = represents_known(2) [OF assms]
  have eq: "get_peers_for_client client lim t = (case lim of None \<Rightarrow> ?f | Some n \<Rightarrow> take n ?f)"
    by (simp add: get_peers_for_client_def get_peers_excluding_addr_def split: option.split)
  have d: "distinct ?f"
    using distinct_bt_values_entry [OF inv] by simp
  have l: "length ?f = card {p \<in> ran (known s). peer_addr p \<noteq> client}"
    using length_filter_values [OF inv] represents_known(1) [OF assms] by simp
  have s: "set ?f = {p \<in> ran (known s). peer_addr p \<noteq> client}"
    using assms inv
    by (auto simp: represents_def torrent_inv_bt_inv bt_values_mem ran_def)
  show "distinct (get_peers_for_client client lim t)"
    unfolding eq using d by (auto split: option.split intro: distinct_take)
  show "set (get_peers_for_client client lim t) \<subseteq> {p \<in> ran (known s). peer_addr p \<noteq> client}"
    unfolding eq s [symmetric] by (auto split: option.split dest: in_set_takeD)
  show "length (get_peers_for_client client lim t) =
         (case lim of
            None \<Rightarrow> card {p \<in> ran (known s). peer_addr p \<noteq> client}
          | Some n \<Rightarrow> min n (card {p \<in> ran (known s). peer_addr p \<noteq> client}))"
    unfolding eq l [symmetric] by (auto split: option.split)
qed

text \<open>
  The peers returned to a client after any history are distinct known peers, none of them at the
  client's own address, and there are as many of them as the limit allows.
\<close>
theorem entry_peers_for_client:
  fixes ops client lim
  defines "t \<equiv> run_entry ops Torrent_default" and "s \<equiv> run_spec ops spec_empty"
  shows "distinct (get_peers_for_client client lim t) \<and>
         set (get_peers_for_client client lim t) \<subseteq> {p \<in> ran (known s). peer_addr p \<noteq> client} \<and>
         length (get_peers_for_client client lim t) =
           (case lim of
              None \<Rightarrow> card {p \<in> ran (known s). peer_addr p \<noteq> client}
            | Some n \<Rightarrow> min n (card {p \<in> ran (known s). peer_addr p \<noteq> client}))"
proof -
  have "represents t s"
    unfolding t_def s_def by (intro represents_run represents_default)
  then show ?thesis
    by (intro conjI represents_peers_for_client)
qed

end
