(* ===== verification/Repository_Spec.thy ===== *)
theory Repository_Spec
  imports Torrent_Entry
begin

text \<open>
  What a torrent repository promises (\<open>packages/torrent-repository/src/repository/mod.rs\<close>). The
  trait \<open>Repository\<close> is the record of its operations; the state of a repository is viewed as a
  finite map from info-hashes to torrent entries, and each operation has a specification on that
  view. The locale \<open>torrent_repository\<close> holds the laws every implementation satisfies, the
  locale \<open>ordered_repository\<close> adds that pages follow the order of the info-hashes. What clients of
  a repository rely on is proved here once.
\<close>

section \<open>Trait Repository\<close>

text \<open>
  An entry handed out by \<open>get\<close>, \<open>get_paginated\<close> or \<open>remove\<close> is the entry as it is read through
  its handle.
\<close>

record 's Repository =
  repo_default :: 's
  repo_get :: "InfoHash \<Rightarrow> 's \<Rightarrow> Torrent option"
  repo_get_metrics :: "'s \<Rightarrow> TorrentsMetrics"
  repo_get_paginated :: "Pagination option \<Rightarrow> 's \<Rightarrow> (InfoHash \<times> Torrent) list"
  repo_import_persistent :: "PersistentTorrents \<Rightarrow> 's \<Rightarrow> 's"
  repo_remove :: "InfoHash \<Rightarrow> 's \<Rightarrow> Torrent option \<times> 's"
  repo_remove_inactive_peers :: "DurationSinceUnixEpoch \<Rightarrow> 's \<Rightarrow> 's"
  repo_remove_peerless_torrents :: "TrackerPolicy \<Rightarrow> 's \<Rightarrow> 's"
  repo_upsert_peer :: "InfoHash \<Rightarrow> Peer \<Rightarrow> 's \<Rightarrow> 's"
  repo_get_swarm_metadata :: "InfoHash \<Rightarrow> 's \<Rightarrow> SwarmMetadata option"

text \<open>The body of the loop of every \<open>get_metrics\<close>, and the page of an iteration.\<close>

definition metrics_step :: "SwarmMetadata \<Rightarrow> TorrentsMetrics \<Rightarrow> TorrentsMetrics" where
  "metrics_step st m =
     \<lparr>tm_complete = tm_complete m + ucast (sm_complete st),
      tm_downloaded = tm_downloaded m + ucast (sm_downloaded st),
      tm_incomplete = tm_incomplete m + ucast (sm_incomplete st),
      tm_torrents = tm_torrents m + 1\<rparr>"

definition paginate :: "Pagination option \<Rightarrow> 'a list \<Rightarrow> 'a list" where
  "paginate pagination xs =
     (case pagination of
        Some pg \<Rightarrow> take (unat (limit pg)) (drop (unat (offset pg)) xs)
      | None \<Rightarrow> xs)"

section \<open>Specification of the operations\<close>

type_synonym torrents_view = "InfoHash \<rightharpoonup> Torrent"

definition entry_or_default :: "torrents_view \<Rightarrow> InfoHash \<Rightarrow> Torrent" where
  "entry_or_default M ih = (case M ih of Some t \<Rightarrow> t | None \<Rightarrow> Torrent_default)"

definition spec_upsert :: "InfoHash \<Rightarrow> Peer \<Rightarrow> torrents_view \<Rightarrow> torrents_view" where
  "spec_upsert ih p M = M(ih \<mapsto> snd (upsert_peer p (entry_or_default M ih)))"

definition spec_metrics :: "torrents_view \<Rightarrow> TorrentsMetrics" where
  "spec_metrics M =
     \<lparr>tm_complete = (\<Sum>ih \<in> dom M. ucast (sm_complete (get_swarm_metadata (the (M ih))))),
      tm_downloaded = (\<Sum>ih \<in> dom M. ucast (sm_downloaded (get_swarm_metadata (the (M ih))))),
      tm_incomplete = (\<Sum>ih \<in> dom M. ucast (sm_incomplete (get_swarm_metadata (the (M ih))))),
      tm_torrents = of_nat (card (dom M))\<rparr>"

definition spec_entries :: "torrents_view \<Rightarrow> (InfoHash \<times> Torrent) list" where
  "spec_entries M = map (\<lambda>ih. (ih, the (M ih))) (sorted_list_of_set (dom M))"

definition spec_import :: "PersistentTorrents \<Rightarrow> torrents_view \<Rightarrow> torrents_view" where
  "spec_import pts M = (\<lambda>ih.
     case M ih of
       Some t \<Rightarrow> Some t
     | None \<Rightarrow> map_option (\<lambda>n. \<lparr>swarm = PeerList_default, t_downloaded = n\<rparr>) (map_of pts ih))"

definition spec_remove_inactive :: "DurationSinceUnixEpoch \<Rightarrow> torrents_view \<Rightarrow> torrents_view" where
  "spec_remove_inactive cutoff M = (\<lambda>ih. map_option (remove_inactive_peers cutoff) (M ih))"

definition spec_remove_peerless :: "TrackerPolicy \<Rightarrow> torrents_view \<Rightarrow> torrents_view" where
  "spec_remove_peerless pol M = (\<lambda>ih.
     case M ih of
       Some t \<Rightarrow> if meets_retaining_policy pol t then Some t else None
     | None \<Rightarrow> None)"

text \<open>Sequences of operations that change a repository.\<close>

datatype repo_op =
    UpsertPeer InfoHash Peer
  | ImportPersistent PersistentTorrents
  | RemoveTorrent InfoHash
  | RemoveInactivePeers DurationSinceUnixEpoch
  | RemovePeerlessTorrents TrackerPolicy

fun repo_step :: "'s Repository \<Rightarrow> repo_op \<Rightarrow> 's \<Rightarrow> 's" where
  "repo_step R (UpsertPeer ih p) s = repo_upsert_peer R ih p s"
| "repo_step R (ImportPersistent pts) s = repo_import_persistent R pts s"
| "repo_step R (RemoveTorrent ih) s = snd (repo_remove R ih s)"
| "repo_step R (RemoveInactivePeers cutoff) s = repo_remove_inactive_peers R cutoff s"
| "repo_step R (RemovePeerlessTorrents pol) s = repo_remove_peerless_torrents R pol s"

definition run_repo :: "'s Repository \<Rightarrow> repo_op list \<Rightarrow> 's \<Rightarrow> 's" where
  "run_repo R ops s = fold (repo_step R) ops s"

fun spec_step :: "repo_op \<Rightarrow> torrents_view \<Rightarrow> torrents_view" where
  "spec_step (UpsertPeer ih p) M = spec_upsert ih p M"
| "spec_step (ImportPersistent pts) M = spec_import pts M"
| "spec_step (RemoveTorrent ih) M = M(ih := None)"
| "spec_step (RemoveInactivePeers cutoff) M = spec_remove_inactive cutoff M"
| "spec_step (RemovePeerlessTorrents pol) M = spec_remove_peerless pol M"

definition spec_run :: "repo_op list \<Rightarrow> torrents_view \<Rightarrow> torrents_view" where
  "spec_run ops M = fold spec_step ops M"

section \<open>Lemmas on the specification\<close>

definition view_ok :: "torrents_view \<Rightarrow> bool" where
  "view_ok M = (finite (dom M) \<and> (\<forall>t \<in> ran M. torrent_inv t))"

lemma view_okI: "finite (dom M) \<Longrightarrow> (\<And>ih t. M ih = Some t \<Longrightarrow> torrent_inv t) \<Longrightarrow> view_ok M"
  by (auto simp: view_ok_def ran_def)

lemma view_okD: "view_ok M \<Longrightarrow> M ih = Some t \<Longrightarrow> torrent_inv t"
  by (auto simp: view_ok_def ran_def)

lemma view_ok_finite: "view_ok M \<Longrightarrow> finite (dom M)"
  by (simp add: view_ok_def)

lemma view_ok_empty [simp]: "view_ok (\<lambda>_. None)"
  by (simp add: view_ok_def)

lemma view_ok_entry_or_default: "view_ok M \<Longrightarrow> torrent_inv (entry_or_default M ih)"
  by (auto simp: entry_or_default_def dest: view_okD split: option.split)

lemma dom_spec_import_subset: "dom (spec_import pts M) \<subseteq> dom M \<union> fst ` set pts"
  by (force simp: spec_import_def split: option.splits dest: map_of_SomeD)

lemma torrent_inv_imported [simp]: "torrent_inv \<lparr>swarm = PeerList_default, t_downloaded = n\<rparr>"
  by (simp add: torrent_inv_def PeerList_default_def bt_empty_def)

lemma view_ok_step: "view_ok M \<Longrightarrow> view_ok (spec_step op M)"
proof (cases op)
  case (UpsertPeer ih p)
  assume "view_ok M"
  then show ?thesis
    using UpsertPeer
    by (auto intro!: view_okI torrent_inv_upsert_peer view_ok_entry_or_default
        simp: spec_upsert_def view_ok_finite dest: view_okD split: if_splits)
next
  case (ImportPersistent pts)
  assume "view_ok M"
  then show ?thesis
    using ImportPersistent finite_subset [OF dom_spec_import_subset [of pts M]]
    by (auto intro!: view_okI simp: view_ok_finite)
       (auto simp: spec_import_def dest: view_okD split: option.splits)
next
  case (RemoveTorrent ih)
  assume "view_ok M"
  then show ?thesis
    using RemoveTorrent by (auto intro!: view_okI simp: view_ok_finite dest: view_okD split: if_splits)
next
  case (RemoveInactivePeers cutoff)
  assume ok: "view_ok M"
  have "dom (spec_remove_inactive cutoff M) = dom M"
    by (auto simp: spec_remove_inactive_def dom_def)
  with ok show ?thesis
    using RemoveInactivePeers
    by (auto intro!: view_okI simp: view_ok_finite)
       (auto simp: spec_remove_inactive_def torrent_inv_remove_inactive dest: view_okD)
next
  case (RemovePeerlessTorrents pol)
  assume ok: "view_ok M"
  have "dom (spec_remove_peerless pol M) \<subseteq> dom M"
    by (auto simp: spec_remove_peerless_def split: option.splits)
  then have "finite (dom (spec_remove_peerless pol M))"
    using ok by (simp add: view_ok_finite finite_subset)
  with ok show ?thesis
    using RemovePeerlessTorrents
    by (auto intro!: view_okI)
       (auto simp: spec_remove_peerless_def dest: view_okD split: option.splits if_splits)
qed

lemma view_ok_run: "view_ok M \<Longrightarrow> view_ok (spec_run ops M)"
  by (induction ops arbitrary: M) (simp_all add: spec_run_def view_ok_step)

text \<open>The loop of \<open>get_metrics\<close> over the entries of a map adds up the statistics of its entries.\<close>

lemma fold_metrics_step:
  "fold (\<lambda>t. metrics_step (get_swarm_metadata t)) ts m =
     \<lparr>tm_complete = tm_complete m + (\<Sum>t \<leftarrow> ts. ucast (sm_complete (get_swarm_metadata t))),
      tm_downloaded = tm_downloaded m + (\<Sum>t \<leftarrow> ts. ucast (sm_downloaded (get_swarm_metadata t))),
      tm_incomplete = tm_incomplete m + (\<Sum>t \<leftarrow> ts. ucast (sm_incomplete (get_swarm_metadata t))),
      tm_torrents = tm_torrents m + of_nat (length ts)\<rparr>"
  by (induction ts arbitrary: m) (simp_all add: metrics_step_def add.assoc)

lemma sum_list_entries:
  assumes "distinct (map fst es)" and "set es = {(k, t). M k = Some t}"
  shows "(\<Sum>t \<leftarrow> map snd es. f t) = (\<Sum>k \<in> dom M. f (the (M k)))"
proof -
  have "(\<Sum>t \<leftarrow> map snd es. f t) = (\<Sum>e \<leftarrow> es. f (the (M (fst e))))"
    using assms(2) by (auto intro!: arg_cong [where f = sum_list] simp: comp_def)
  also have "\<dots> = (\<Sum>k \<leftarrow> map fst es. f (the (M k)))"
    by (simp add: comp_def)
  also have "\<dots> = (\<Sum>k \<in> set (map fst es). f (the (M k)))"
    using assms(1) by (rule sum_list_distinct_conv_sum_set)
  also have "set (map fst es) = dom M"
    using assms(2) by force
  finally show ?thesis .
qed

lemma fold_metrics_entries:
  assumes "distinct (map fst es)" and "set es = {(k, t). M k = Some t}"
  shows "fold (\<lambda>t. metrics_step (get_swarm_metadata t)) (map snd es) TorrentsMetrics_default = spec_metrics M"
proof -
  have "dom M = fst ` set es"
    using assms(2) by force
  then have "card (dom M) = length es"
    using distinct_card [OF assms(1)] by simp
  then show ?thesis
    unfolding fold_metrics_step sum_list_entries [OF assms] spec_metrics_def
    by (simp add: TorrentsMetrics_default_def)
qed

lemma spec_entries_bt: "bt_inv m \<Longrightarrow> spec_entries (bt_get m) = m"
  by (metis bt_entries_from_keys bt_keys_sorted_list spec_entries_def)

lemma spec_entries_graph:
  assumes "finite (dom M)"
  shows "distinct (map fst (spec_entries M))" and "set (spec_entries M) = {(k, t). M k = Some t}"
  using assms by (auto simp: spec_entries_def comp_def dom_def)

lemma paginate_map: "paginate pg (map f xs) = map f (paginate pg xs)"
  by (simp add: paginate_def take_map drop_map split: option.split)

text \<open>One step of the import loop, and the loop.\<close>

definition import_one :: "InfoHash \<Rightarrow> u32 \<Rightarrow> torrents_view \<Rightarrow> torrents_view" where
  "import_one ih n M =
     (if M ih \<noteq> None then M else M(ih \<mapsto> \<lparr>swarm = PeerList_default, t_downloaded = n\<rparr>))"

lemma spec_import_Nil [simp]: "spec_import [] M = M"
  by (auto simp: spec_import_def fun_eq_iff split: option.split)

lemma spec_import_Cons: "spec_import (e # pts) M = spec_import pts (import_one (fst e) (snd e) M)"
  by (cases e) (auto simp: spec_import_def import_one_def fun_eq_iff split: option.split)

lemma import_loop:
  assumes "ok s"
    and "\<And>s e. ok s \<Longrightarrow> ok (f e s)"
    and "\<And>s e. ok s \<Longrightarrow> view (f e s) = import_one (fst e) (snd e) (view s)"
  shows "ok (fold f pts s) \<and> view (fold f pts s) = spec_import pts (view s)"
  using assms(1)
  by (induction pts arbitrary: s) (auto simp: assms(2, 3) spec_import_Cons)

section \<open>The contract\<close>

locale torrent_repository =
  fixes R :: "'s Repository" and inv :: "'s \<Rightarrow> bool" and view :: "'s \<Rightarrow> torrents_view"
  assumes default: "inv (repo_default R)" "view (repo_default R) = (\<lambda>_. None)"
    and step: "inv s \<Longrightarrow> inv (repo_step R op s)" "inv s \<Longrightarrow> view (repo_step R op s) = spec_step op (view s)"
    and remove: "inv s \<Longrightarrow> fst (repo_remove R ih s) = view s ih"
    and get: "inv s \<Longrightarrow> repo_get R ih s = view s ih"
    and swarm_metadata: "inv s \<Longrightarrow> repo_get_swarm_metadata R ih s = map_option get_swarm_metadata (view s ih)"
    and metrics: "inv s \<Longrightarrow> repo_get_metrics R s = spec_metrics (view s)"
    and paginated: "inv s \<Longrightarrow>
      \<exists>es. distinct (map fst es) \<and> set es = {(k, t). view s k = Some t} \<and>
           (\<forall>pg. repo_get_paginated R pg s = paginate pg es)"
begin

lemma run:
  "inv s \<Longrightarrow> inv (run_repo R ops s)"
  "inv s \<Longrightarrow> view (run_repo R ops s) = spec_run ops (view s)"
  by (induction ops arbitrary: s) (simp_all add: run_repo_def spec_run_def step)

lemma reachable:
  "inv (run_repo R ops (repo_default R))"
  "view (run_repo R ops (repo_default R)) = spec_run ops (\<lambda>_. None)"
  using run [OF default(1)] default(2) by simp_all

lemma reachable_ok: "view_ok (view (run_repo R ops (repo_default R)))"
  by (simp add: reachable view_ok_run)

lemma upsert:
  "inv s \<Longrightarrow> inv (repo_upsert_peer R ih p s)"
  "inv s \<Longrightarrow> view (repo_upsert_peer R ih p s) = spec_upsert ih p (view s)"
  using step [of s "UpsertPeer ih p"] by simp_all

lemma import:
  "inv s \<Longrightarrow> inv (repo_import_persistent R pts s)"
  "inv s \<Longrightarrow> view (repo_import_persistent R pts s) = spec_import pts (view s)"
  using step [of s "ImportPersistent pts"] by simp_all

lemma inactive:
  "inv s \<Longrightarrow> inv (repo_remove_inactive_peers R cutoff s)"
  "inv s \<Longrightarrow> view (repo_remove_inactive_peers R cutoff s) = spec_remove_inactive cutoff (view s)"
  using step [of s "RemoveInactivePeers cutoff"] by simp_all

lemma peerless:
  "inv s \<Longrightarrow> inv (repo_remove_peerless_torrents R pol s)"
  "inv s \<Longrightarrow> view (repo_remove_peerless_torrents R pol s) = spec_remove_peerless pol (view s)"
  using step [of s "RemovePeerlessTorrents pol"] by simp_all

end

locale ordered_repository = torrent_repository +
  assumes ordered: "inv s \<Longrightarrow> repo_get_paginated R pg s = paginate pg (spec_entries (view s))"
begin

text \<open>Everything a client reads after a history of operations is what the specification says.\<close>

lemma observations:
  fixes ops
  defines "s \<equiv> run_repo R ops (repo_default R)" and "M \<equiv> spec_run ops (\<lambda>_. None)"
  shows "repo_get R ih s = M ih"
    and "repo_get_swarm_metadata R ih s = map_option get_swarm_metadata (M ih)"
    and "repo_get_metrics R s = spec_metrics M"
    and "repo_get_paginated R pg s = paginate pg (spec_entries M)"
  unfolding s_def M_def
  by (simp_all add: reachable(1) get swarm_metadata metrics ordered reachable(2))

end

end
