(* ===== verification/Shared_Entry.thy ===== *)
theory Shared_Entry
  imports Repository_Spec
begin

text \<open>
  Shared torrent entries. The repositories keep \<open>Arc\<close> handles to entries behind a lock, so the
  model has an explicit heap of entries: a handle is an address, \<open>Arc::new\<close> allocates, cloning a
  handle copies the address, and each operation takes the lock, works on the entry, and releases
  it. A lock that cannot be taken (a poisoned mutex) makes the tracker panic and is not modelled.

  The four kinds of lock follow the files \<open>mutex_std.rs\<close>, \<open>mutex_parking_lot.rs\<close>,
  \<open>mutex_tokio.rs\<close> and \<open>rw_lock_parking_lot.rs\<close> of \<open>packages/torrent-repository/src/entry\<close>.
\<close>

section \<open>Heap of entries\<close>

type_synonym handle = nat

record Heap =
  cells :: "handle \<Rightarrow> Torrent"
  next_handle :: handle

definition heap_empty :: Heap where
  "heap_empty = \<lparr>cells = (\<lambda>_. Torrent_default), next_handle = 0\<rparr>"

definition arc_new :: "Torrent \<Rightarrow> Heap \<Rightarrow> handle \<times> Heap" where
  "arc_new t h =
     (next_handle h, h\<lparr>cells := (cells h)(next_handle h := t), next_handle := next_handle h + 1\<rparr>)"

text \<open>The access through a lock: for reading, and for an update that also returns a value.\<close>

definition with_lock :: "(Torrent \<Rightarrow> 'a) \<Rightarrow> handle \<Rightarrow> Heap \<Rightarrow> 'a" where
  "with_lock f r h = f (cells h r)"

definition with_lock_mut :: "(Torrent \<Rightarrow> 'a \<times> Torrent) \<Rightarrow> handle \<Rightarrow> Heap \<Rightarrow> 'a \<times> Heap" where
  "with_lock_mut f r h = (let (x, t) = f (cells h r) in (x, h\<lparr>cells := (cells h)(r := t)\<rparr>))"

section \<open>EntryMutexStd (mutex\_std.rs)\<close>

definition EntryMutexStd_get_swarm_metadata :: "handle \<Rightarrow> Heap \<Rightarrow> SwarmMetadata" where
  "EntryMutexStd_get_swarm_metadata r h = with_lock get_swarm_metadata r h"

definition EntryMutexStd_meets_retaining_policy :: "TrackerPolicy \<Rightarrow> handle \<Rightarrow> Heap \<Rightarrow> bool" where
  "EntryMutexStd_meets_retaining_policy pol r h = with_lock (meets_retaining_policy pol) r h"

definition EntryMutexStd_peers_is_empty :: "handle \<Rightarrow> Heap \<Rightarrow> bool" where
  "EntryMutexStd_peers_is_empty r h = with_lock peers_is_empty r h"

definition EntryMutexStd_get_peers_len :: "handle \<Rightarrow> Heap \<Rightarrow> usize" where
  "EntryMutexStd_get_peers_len r h = with_lock get_peers_len r h"

definition EntryMutexStd_get_peers :: "usize option \<Rightarrow> handle \<Rightarrow> Heap \<Rightarrow> Peer list" where
  "EntryMutexStd_get_peers lim r h = with_lock (get_peers lim) r h"

definition EntryMutexStd_get_peers_for_client :: "SocketAddr \<Rightarrow> usize option \<Rightarrow> handle \<Rightarrow> Heap \<Rightarrow> Peer list" where
  "EntryMutexStd_get_peers_for_client client lim r h = with_lock (get_peers_for_client client lim) r h"

definition EntryMutexStd_upsert_peer :: "Peer \<Rightarrow> handle \<Rightarrow> Heap \<Rightarrow> bool \<times> Heap" where
  "EntryMutexStd_upsert_peer p r h = with_lock_mut (upsert_peer p) r h"

definition EntryMutexStd_remove_inactive_peers :: "DurationSinceUnixEpoch \<Rightarrow> handle \<Rightarrow> Heap \<Rightarrow> Heap" where
  "EntryMutexStd_remove_inactive_peers cutoff r h =
     snd (with_lock_mut (\<lambda>t. ((), remove_inactive_peers cutoff t)) r h)"

definition EntryMutexStd_from :: "Torrent \<Rightarrow> Heap \<Rightarrow> handle \<times> Heap" where
  "EntryMutexStd_from t h = arc_new t h"

section \<open>EntryMutexParkingLot (mutex\_parking\_lot.rs)\<close>

definition EntryMutexParkingLot_get_swarm_metadata :: "handle \<Rightarrow> Heap \<Rightarrow> SwarmMetadata" where
  "EntryMutexParkingLot_get_swarm_metadata r h = with_lock get_swarm_metadata r h"

definition EntryMutexParkingLot_meets_retaining_policy :: "TrackerPolicy \<Rightarrow> handle \<Rightarrow> Heap \<Rightarrow> bool" where
  "EntryMutexParkingLot_meets_retaining_policy pol r h = with_lock (meets_retaining_policy pol) r h"

definition EntryMutexParkingLot_peers_is_empty :: "handle \<Rightarrow> Heap \<Rightarrow> bool" where
  "EntryMutexParkingLot_peers_is_empty r h = with_lock peers_is_empty r h"

definition EntryMutexParkingLot_get_peers_len :: "handle \<Rightarrow> Heap \<Rightarrow> usize" where
  "EntryMutexParkingLot_get_peers_len r h = with_lock get_peers_len r h"

definition EntryMutexParkingLot_get_peers :: "usize option \<Rightarrow> handle \<Rightarrow> Heap \<Rightarrow> Peer list" where
  "EntryMutexParkingLot_get_peers lim r h = with_lock (get_peers lim) r h"

definition EntryMutexParkingLot_get_peers_for_client :: "SocketAddr \<Rightarrow> usize option \<Rightarrow> handle \<Rightarrow> Heap \<Rightarrow> Peer list" where
  "EntryMutexParkingLot_get_peers_for_client client lim r h = with_lock (get_peers_for_client client lim) r h"

definition EntryMutexParkingLot_upsert_peer :: "Peer \<Rightarrow> handle \<Rightarrow> Heap \<Rightarrow> bool \<times> Heap" where
  "EntryMutexParkingLot_upsert_peer p r h = with_lock_mut (upsert_peer p) r h"

definition EntryMutexParkingLot_remove_inactive_peers :: "DurationSinceUnixEpoch \<Rightarrow> handle \<Rightarrow> Heap \<Rightarrow> Heap" where
  "EntryMutexParkingLot_remove_inactive_peers cutoff r h =
     snd (with_lock_mut (\<lambda>t. ((), remove_inactive_peers cutoff t)) r h)"

definition EntryMutexParkingLot_from :: "Torrent \<Rightarrow> Heap \<Rightarrow> handle \<times> Heap" where
  "EntryMutexParkingLot_from t h = arc_new t h"

section \<open>EntryMutexTokio (mutex\_tokio.rs)\<close>

definition EntryMutexTokio_get_swarm_metadata :: "handle \<Rightarrow> Heap \<Rightarrow> SwarmMetadata" where
  "EntryMutexTokio_get_swarm_metadata r h = with_lock get_swarm_metadata r h"

definition EntryMutexTokio_meets_retaining_policy :: "TrackerPolicy \<Rightarrow> handle \<Rightarrow> Heap \<Rightarrow> bool" where
  "EntryMutexTokio_meets_retaining_policy pol r h = with_lock (meets_retaining_policy pol) r h"

definition EntryMutexTokio_peers_is_empty :: "handle \<Rightarrow> Heap \<Rightarrow> bool" where
  "EntryMutexTokio_peers_is_empty r h = with_lock peers_is_empty r h"

definition EntryMutexTokio_get_peers_len :: "handle \<Rightarrow> Heap \<Rightarrow> usize" where
  "EntryMutexTokio_get_peers_len r h = with_lock get_peers_len r h"

definition EntryMutexTokio_get_peers :: "usize option \<Rightarrow> handle \<Rightarrow> Heap \<Rightarrow> Peer list" where
  "EntryMutexTokio_get_peers lim r h = with_lock (get_peers lim) r h"

definition EntryMutexTokio_get_peers_for_client :: "SocketAddr \<Rightarrow> usize option \<Rightarrow> handle \<Rightarrow> Heap \<Rightarrow> Peer list" where
  "EntryMutexTokio_get_peers_for_client client lim r h = with_lock (get_peers_for_client client lim) r h"

definition EntryMutexTokio_upsert_peer :: "Peer \<Rightarrow> handle \<Rightarrow> Heap \<Rightarrow> bool \<times> Heap" where
  "EntryMutexTokio_upsert_peer p r h = with_lock_mut (upsert_peer p) r h"

definition EntryMutexTokio_remove_inactive_peers :: "DurationSinceUnixEpoch \<Rightarrow> handle \<Rightarrow> Heap \<Rightarrow> Heap" where
  "EntryMutexTokio_remove_inactive_peers cutoff r h =
     snd (with_lock_mut (\<lambda>t. ((), remove_inactive_peers cutoff t)) r h)"

definition EntryMutexTokio_from :: "Torrent \<Rightarrow> Heap \<Rightarrow> handle \<times> Heap" where
  "EntryMutexTokio_from t h = arc_new t h"

section \<open>EntryRwLockParkingLot (rw\_lock\_parking\_lot.rs)\<close>

definition EntryRwLockParkingLot_get_swarm_metadata :: "handle \<Rightarrow> Heap \<Rightarrow> SwarmMetadata" where
  "EntryRwLockParkingLot_get_swarm_metadata r h = with_lock get_swarm_metadata r h"

definition EntryRwLockParkingLot_meets_retaining_policy :: "TrackerPolicy \<Rightarrow> handle \<Rightarrow> Heap \<Rightarrow> bool" where
  "EntryRwLockParkingLot_meets_retaining_policy pol r h = with_lock (meets_retaining_policy pol) r h"

definition EntryRwLockParkingLot_peers_is_empty :: "handle \<Rightarrow> Heap \<Rightarrow> bool" where
  "EntryRwLockParkingLot_peers_is_empty r h = with_lock peers_is_empty r h"

definition EntryRwLockParkingLot_get_peers_len :: "handle \<Rightarrow> Heap \<Rightarrow> usize" where
  "EntryRwLockParkingLot_get_peers_len r h = with_lock get_peers_len r h"

definition EntryRwLockParkingLot_get_peers :: "usize option \<Rightarrow> handle \<Rightarrow> Heap \<Rightarrow> Peer list" where
  "EntryRwLockParkingLot_get_peers lim r h = with_lock (get_peers lim) r h"

definition EntryRwLockParkingLot_get_peers_for_client :: "SocketAddr \<Rightarrow> usize option \<Rightarrow> handle \<Rightarrow> Heap \<Rightarrow> Peer list" where
  "EntryRwLockParkingLot_get_peers_for_client client lim r h = with_lock (get_peers_for_client client lim) r h"

definition EntryRwLockParkingLot_upsert_peer :: "Peer \<Rightarrow> handle \<Rightarrow> Heap \<Rightarrow> bool \<times> Heap" where
  "EntryRwLockParkingLot_upsert_peer p r h = with_lock_mut (upsert_peer p) r h"

definition EntryRwLockParkingLot_remove_inactive_peers :: "DurationSinceUnixEpoch \<Rightarrow> handle \<Rightarrow> Heap \<Rightarrow> Heap" where
  "EntryRwLockParkingLot_remove_inactive_peers cutoff r h =
     snd (with_lock_mut (\<lambda>t. ((), remove_inactive_peers cutoff t)) r h)"

definition EntryRwLockParkingLot_from :: "Torrent \<Rightarrow> Heap \<Rightarrow> handle \<times> Heap" where
  "EntryRwLockParkingLot_from t h = arc_new t h"

section \<open>Maps of handles\<close>

text \<open>
  A repository of shared entries is an index of handles and the heap. Its view reads every handle;
  handles are allocated and no two info-hashes share one.
\<close>

record 'm SharedTorrents =
  torrents :: 'm
  heap :: Heap

definition heap_view :: "(InfoHash \<rightharpoonup> handle) \<Rightarrow> Heap \<Rightarrow> torrents_view" where
  "heap_view ix h = (\<lambda>ih. map_option (cells h) (ix ih))"

definition handles_ok :: "(InfoHash \<rightharpoonup> handle) \<Rightarrow> Heap \<Rightarrow> bool" where
  "handles_ok ix h = (inj_on ix (dom ix) \<and> (\<forall>r \<in> ran ix. r < next_handle h) \<and> finite (dom ix))"

lemma handles_ok_empty [simp]: "handles_ok (\<lambda>_. None) h"
  by (simp add: handles_ok_def)

lemma heap_view_empty [simp]: "heap_view (\<lambda>_. None) h = (\<lambda>_. None)"
  by (simp add: heap_view_def)

lemma handles_ok_fresh: "handles_ok ix h \<Longrightarrow> ix ih = Some r \<Longrightarrow> r \<noteq> next_handle h"
  by (auto simp: handles_ok_def ran_def)

lemma handles_ok_insert:
  assumes "handles_ok ix h"
  shows "handles_ok (ix(ih \<mapsto> fst (arc_new t h))) (snd (arc_new t h))"
  using assms handles_ok_fresh [OF assms]
  by (auto simp: handles_ok_def arc_new_def inj_on_def ran_def less_Suc_eq)

lemma heap_view_insert:
  "handles_ok ix h \<Longrightarrow>
   heap_view (ix(ih \<mapsto> fst (arc_new t h))) (snd (arc_new t h)) = (heap_view ix h)(ih \<mapsto> t)"
  by (auto simp: heap_view_def arc_new_def fun_eq_iff dest: handles_ok_fresh
      intro!: option.map_cong0 split: option.split)

text \<open>Allocating without storing the handle (a lost race of \<open>get_or_insert\<close>) changes nothing.\<close>

lemma handles_ok_alloc: "handles_ok ix h \<Longrightarrow> handles_ok ix (snd (arc_new t h))"
  by (auto simp: handles_ok_def arc_new_def less_Suc_eq)

lemma heap_view_alloc: "handles_ok ix h \<Longrightarrow> heap_view ix (snd (arc_new t h)) = heap_view ix h"
  by (auto simp: heap_view_def arc_new_def fun_eq_iff dest: handles_ok_fresh
      intro!: option.map_cong0 split: option.split)

lemma handles_ok_update: "handles_ok ix h \<Longrightarrow> handles_ok ix (snd (with_lock_mut f r h))"
  by (simp add: handles_ok_def with_lock_mut_def case_prod_unfold Let_def)

lemma heap_view_update:
  assumes "handles_ok ix h" and "ix ih = Some r"
  shows "heap_view ix (snd (with_lock_mut f r h)) = (heap_view ix h)(ih \<mapsto> snd (f (cells h r)))"
proof
  fix k
  have "k = ih" if "ix k = Some r"
    using assms that by (auto simp: handles_ok_def inj_on_def dom_def)
  then show "heap_view ix (snd (with_lock_mut f r h)) k = ((heap_view ix h)(ih \<mapsto> snd (f (cells h r)))) k"
    using assms(2)
    by (cases "ix k") (auto simp: heap_view_def with_lock_mut_def case_prod_unfold Let_def)
qed

text \<open>Dropping entries of the index.\<close>

lemma handles_ok_submap:
  assumes "handles_ok ix h" and "ix' \<subseteq>\<^sub>m ix"
  shows "handles_ok ix' h"
proof -
  have d: "dom ix' \<subseteq> dom ix"
    using assms(2) by (rule map_le_implies_dom_le)
  moreover have "inj_on ix' (dom ix')"
    using assms d by (auto simp: handles_ok_def map_le_def inj_on_def subset_iff)
  moreover have "ran ix' \<subseteq> ran ix"
    using assms(2) by (auto simp: map_le_def ran_def dom_def) metis
  ultimately show ?thesis
    using assms(1) by (auto simp: handles_ok_def intro: finite_subset)
qed

lemma handles_ok_delete: "handles_ok ix h \<Longrightarrow> handles_ok (ix(ih := None)) h"
  by (erule handles_ok_submap) (simp add: map_le_def)

lemma heap_view_delete: "heap_view (ix(ih := None)) h = (heap_view ix h)(ih := None)"
  by (auto simp: heap_view_def)

lemma heap_view_lookup: "heap_view ix h ih = map_option (\<lambda>r. cells h r) (ix ih)"
  by (simp add: heap_view_def)


section \<open>Loops over handles\<close>

lemma heap_fold_update:
  "next_handle (fold (\<lambda>r h. snd (with_lock_mut (\<lambda>t. ((), f t)) r h)) rs h) = next_handle h"
  "distinct rs \<Longrightarrow>
   cells (fold (\<lambda>r h. snd (with_lock_mut (\<lambda>t. ((), f t)) r h)) rs h) r =
   (if r \<in> set rs then f (cells h r) else cells h r)"
  by (induction rs arbitrary: h) (auto simp: with_lock_mut_def)

lemma handles_ok_distinct:
  assumes "handles_ok ix h" and "distinct (map fst es)" and "set es = {(k, r). ix k = Some r}"
  shows "distinct (map snd es)" and "r \<in> set (map snd es) \<longleftrightarrow> r \<in> ran ix"
proof -
  have "inj_on snd (set es)"
    using assms(1, 3) by (auto simp: handles_ok_def inj_on_def dom_def)
  then show "distinct (map snd es)"
    using assms(2) by (simp add: distinct_map)
  show "r \<in> set (map snd es) \<longleftrightarrow> r \<in> ran ix"
    using assms(3) by (force simp: ran_def)
qed

lemma handles_ok_loop:
  "handles_ok ix h \<Longrightarrow> handles_ok ix (fold (\<lambda>r h. snd (with_lock_mut (\<lambda>t. ((), f t)) r h)) rs h)"
  by (simp add: handles_ok_def heap_fold_update)

lemma heap_view_loop:
  assumes "handles_ok ix h" and "distinct (map fst es)" and "set es = {(k, r). ix k = Some r}"
  shows "heap_view ix (fold (\<lambda>r h. snd (with_lock_mut (\<lambda>t. ((), remove_inactive_peers cutoff t)) r h)) (map snd es) h) =
         spec_remove_inactive cutoff (heap_view ix h)"
proof
  fix ih
  show "heap_view ix (fold (\<lambda>r h. snd (with_lock_mut (\<lambda>t. ((), remove_inactive_peers cutoff t)) r h)) (map snd es) h) ih =
        spec_remove_inactive cutoff (heap_view ix h) ih"
    using handles_ok_distinct [OF assms]
    by (cases "ix ih")
       (auto simp: heap_view_def spec_remove_inactive_def heap_fold_update ran_def)
qed

lemma heap_metrics_loop:
  assumes "distinct (map fst es)" and "set es = {(k, r). ix k = Some r}"
  shows "fold (\<lambda>r. metrics_step (with_lock get_swarm_metadata r h)) (map snd es) TorrentsMetrics_default =
         spec_metrics (heap_view ix h)"
proof -
  let ?es = "map (\<lambda>e. (fst e, cells h (snd e))) es"
  have "map fst ?es = map fst es" and "map snd ?es = map (cells h) (map snd es)"
    by simp_all
  moreover have "set ?es = {(k, t). heap_view ix h k = Some t}"
    using assms(2) by (force simp: heap_view_def)
  ultimately show ?thesis
    using fold_metrics_entries [of ?es "heap_view ix h"] assms(1)
    by (simp add: fold_map comp_def with_lock_def)
qed

lemma heap_view_prune:
  assumes "\<And>ih. ix' ih = (case ix ih of None \<Rightarrow> None
                       | Some r \<Rightarrow> if meets_retaining_policy pol (cells h r) then Some r else None)"
  shows "heap_view ix' h = spec_remove_peerless pol (heap_view ix h)"
  by (auto simp: assms heap_view_def spec_remove_peerless_def fun_eq_iff split: option.split)

lemma handles_ok_prune:
  assumes "handles_ok ix h"
    and "\<And>ih. ix' ih = (case ix ih of None \<Rightarrow> None
                       | Some r \<Rightarrow> if meets_retaining_policy pol (cells h r) then Some r else None)"
  shows "handles_ok ix' h"
  using assms(1)
  by (rule handles_ok_submap) (auto simp: map_le_def assms(2) split: option.splits if_splits)

text \<open>Every lock gives the same access to the entry.\<close>

lemmas lock_defs =
  EntryMutexStd_get_swarm_metadata_def EntryMutexStd_meets_retaining_policy_def EntryMutexStd_upsert_peer_def
  EntryMutexStd_remove_inactive_peers_def EntryMutexStd_from_def
  EntryMutexParkingLot_get_swarm_metadata_def EntryMutexParkingLot_meets_retaining_policy_def EntryMutexParkingLot_upsert_peer_def
  EntryMutexParkingLot_remove_inactive_peers_def EntryMutexParkingLot_from_def
  EntryMutexTokio_get_swarm_metadata_def EntryMutexTokio_meets_retaining_policy_def EntryMutexTokio_upsert_peer_def
  EntryMutexTokio_remove_inactive_peers_def EntryMutexTokio_from_def
  EntryRwLockParkingLot_get_swarm_metadata_def EntryRwLockParkingLot_meets_retaining_policy_def EntryRwLockParkingLot_upsert_peer_def
  EntryRwLockParkingLot_remove_inactive_peers_def EntryRwLockParkingLot_from_def

lemma lock_loop:
  "EntryMutexStd_remove_inactive_peers cutoff = (\<lambda>r h. snd (with_lock_mut (\<lambda>t. ((), remove_inactive_peers cutoff t)) r h))"
  "EntryMutexParkingLot_remove_inactive_peers cutoff = (\<lambda>r h. snd (with_lock_mut (\<lambda>t. ((), remove_inactive_peers cutoff t)) r h))"
  "EntryMutexTokio_remove_inactive_peers cutoff = (\<lambda>r h. snd (with_lock_mut (\<lambda>t. ((), remove_inactive_peers cutoff t)) r h))"
  "EntryRwLockParkingLot_remove_inactive_peers cutoff = (\<lambda>r h. snd (with_lock_mut (\<lambda>t. ((), remove_inactive_peers cutoff t)) r h))"
  by (simp_all add: lock_defs fun_eq_iff)

end
