(* ===== verification/Repository_RwLock.thy ===== *)
theory Repository_RwLock
  imports Shared_Entry
begin

text \<open>
  The repositories that keep their entries by value in a \<open>BTreeMap\<close> behind one read-write lock:
  \<open>TorrentsRwLockStd\<close> (\<open>rw_lock_std.rs\<close>) and \<open>TorrentsRwLockTokio\<close> (\<open>rw_lock_tokio.rs\<close>). Both
  satisfy the repository contract.
\<close>

section \<open>TorrentsRwLockStd (rw\_lock\_std.rs)\<close>

type_synonym TorrentsRwLockStd = "(InfoHash, Torrent) btree_map"

definition TorrentsRwLockStd_default :: TorrentsRwLockStd where
  "TorrentsRwLockStd_default = bt_empty"

definition TorrentsRwLockStd_upsert_peer :: "InfoHash \<Rightarrow> Peer \<Rightarrow> TorrentsRwLockStd \<Rightarrow> TorrentsRwLockStd" where
  "TorrentsRwLockStd_upsert_peer info_hash p db =
     (let t = (case bt_get db info_hash of Some t \<Rightarrow> t | None \<Rightarrow> Torrent_default)
      in bt_put info_hash (snd (upsert_peer p t)) db)"

definition TorrentsRwLockStd_get :: "InfoHash \<Rightarrow> TorrentsRwLockStd \<Rightarrow> Torrent option" where
  "TorrentsRwLockStd_get key db = bt_get db key"

definition TorrentsRwLockStd_get_swarm_metadata :: "InfoHash \<Rightarrow> TorrentsRwLockStd \<Rightarrow> SwarmMetadata option" where
  "TorrentsRwLockStd_get_swarm_metadata info_hash db = map_option get_swarm_metadata (TorrentsRwLockStd_get info_hash db)"

definition TorrentsRwLockStd_get_metrics :: "TorrentsRwLockStd \<Rightarrow> TorrentsMetrics" where
  "TorrentsRwLockStd_get_metrics db =
     fold (\<lambda>t. metrics_step (get_swarm_metadata t)) (bt_values db) TorrentsMetrics_default"

definition TorrentsRwLockStd_get_paginated :: "Pagination option \<Rightarrow> TorrentsRwLockStd \<Rightarrow> (InfoHash \<times> Torrent) list" where
  "TorrentsRwLockStd_get_paginated pagination db = paginate pagination db"

definition TorrentsRwLockStd_import_persistent :: "PersistentTorrents \<Rightarrow> TorrentsRwLockStd \<Rightarrow> TorrentsRwLockStd" where
  "TorrentsRwLockStd_import_persistent persistent_torrents db =
     fold (\<lambda>(info_hash, n) db.
             if bt_contains_key db info_hash then db
             else bt_put info_hash \<lparr>swarm = PeerList_default, t_downloaded = n\<rparr> db)
       persistent_torrents db"

definition TorrentsRwLockStd_remove :: "InfoHash \<Rightarrow> TorrentsRwLockStd \<Rightarrow> Torrent option \<times> TorrentsRwLockStd" where
  "TorrentsRwLockStd_remove key db = bt_remove key db"

definition TorrentsRwLockStd_remove_inactive_peers :: "DurationSinceUnixEpoch \<Rightarrow> TorrentsRwLockStd \<Rightarrow> TorrentsRwLockStd" where
  "TorrentsRwLockStd_remove_inactive_peers current_cutoff db = bt_map_values (remove_inactive_peers current_cutoff) db"

definition TorrentsRwLockStd_remove_peerless_torrents :: "TrackerPolicy \<Rightarrow> TorrentsRwLockStd \<Rightarrow> TorrentsRwLockStd" where
  "TorrentsRwLockStd_remove_peerless_torrents pol db = bt_retain (\<lambda>_ e. meets_retaining_policy pol e) db"

definition TorrentsRwLockStd :: "TorrentsRwLockStd Repository" where
  "TorrentsRwLockStd =
     \<lparr>repo_default = TorrentsRwLockStd_default,
      repo_get = TorrentsRwLockStd_get,
      repo_get_metrics = TorrentsRwLockStd_get_metrics,
      repo_get_paginated = TorrentsRwLockStd_get_paginated,
      repo_import_persistent = TorrentsRwLockStd_import_persistent,
      repo_remove = TorrentsRwLockStd_remove,
      repo_remove_inactive_peers = TorrentsRwLockStd_remove_inactive_peers,
      repo_remove_peerless_torrents = TorrentsRwLockStd_remove_peerless_torrents,
      repo_upsert_peer = TorrentsRwLockStd_upsert_peer,
      repo_get_swarm_metadata = TorrentsRwLockStd_get_swarm_metadata\<rparr>"

section \<open>TorrentsRwLockTokio (rw\_lock\_tokio.rs)\<close>

type_synonym TorrentsRwLockTokio = "(InfoHash, Torrent) btree_map"

definition TorrentsRwLockTokio_default :: TorrentsRwLockTokio where
  "TorrentsRwLockTokio_default = bt_empty"

definition TorrentsRwLockTokio_upsert_peer :: "InfoHash \<Rightarrow> Peer \<Rightarrow> TorrentsRwLockTokio \<Rightarrow> TorrentsRwLockTokio" where
  "TorrentsRwLockTokio_upsert_peer info_hash p db =
     (let t = (case bt_get db info_hash of Some t \<Rightarrow> t | None \<Rightarrow> Torrent_default)
      in bt_put info_hash (snd (upsert_peer p t)) db)"

definition TorrentsRwLockTokio_get :: "InfoHash \<Rightarrow> TorrentsRwLockTokio \<Rightarrow> Torrent option" where
  "TorrentsRwLockTokio_get key db = bt_get db key"

definition TorrentsRwLockTokio_get_swarm_metadata :: "InfoHash \<Rightarrow> TorrentsRwLockTokio \<Rightarrow> SwarmMetadata option" where
  "TorrentsRwLockTokio_get_swarm_metadata info_hash db = map_option get_swarm_metadata (TorrentsRwLockTokio_get info_hash db)"

definition TorrentsRwLockTokio_get_metrics :: "TorrentsRwLockTokio \<Rightarrow> TorrentsMetrics" where
  "TorrentsRwLockTokio_get_metrics db =
     fold (\<lambda>t. metrics_step (get_swarm_metadata t)) (bt_values db) TorrentsMetrics_default"

definition TorrentsRwLockTokio_get_paginated :: "Pagination option \<Rightarrow> TorrentsRwLockTokio \<Rightarrow> (InfoHash \<times> Torrent) list" where
  "TorrentsRwLockTokio_get_paginated pagination db = paginate pagination db"

definition TorrentsRwLockTokio_import_persistent :: "PersistentTorrents \<Rightarrow> TorrentsRwLockTokio \<Rightarrow> TorrentsRwLockTokio" where
  "TorrentsRwLockTokio_import_persistent persistent_torrents db =
     fold (\<lambda>(info_hash, n) db.
             if bt_contains_key db info_hash then db
             else bt_put info_hash \<lparr>swarm = PeerList_default, t_downloaded = n\<rparr> db)
       persistent_torrents db"

definition TorrentsRwLockTokio_remove :: "InfoHash \<Rightarrow> TorrentsRwLockTokio \<Rightarrow> Torrent option \<times> TorrentsRwLockTokio" where
  "TorrentsRwLockTokio_remove key db = bt_remove key db"

definition TorrentsRwLockTokio_remove_inactive_peers :: "DurationSinceUnixEpoch \<Rightarrow> TorrentsRwLockTokio \<Rightarrow> TorrentsRwLockTokio" where
  "TorrentsRwLockTokio_remove_inactive_peers current_cutoff db = bt_map_values (remove_inactive_peers current_cutoff) db"

definition TorrentsRwLockTokio_remove_peerless_torrents :: "TrackerPolicy \<Rightarrow> TorrentsRwLockTokio \<Rightarrow> TorrentsRwLockTokio" where
  "TorrentsRwLockTokio_remove_peerless_torrents pol db = bt_retain (\<lambda>_ e. meets_retaining_policy pol e) db"

definition TorrentsRwLockTokio :: "TorrentsRwLockTokio Repository" where
  "TorrentsRwLockTokio =
     \<lparr>repo_default = TorrentsRwLockTokio_default,
      repo_get = TorrentsRwLockTokio_get,
      repo_get_metrics = TorrentsRwLockTokio_get_metrics,
      repo_get_paginated = TorrentsRwLockTokio_get_paginated,
      repo_import_persistent = TorrentsRwLockTokio_import_persistent,
      repo_remove = TorrentsRwLockTokio_remove,
      repo_remove_inactive_peers = TorrentsRwLockTokio_remove_inactive_peers,
      repo_remove_peerless_torrents = TorrentsRwLockTokio_remove_peerless_torrents,
      repo_upsert_peer = TorrentsRwLockTokio_upsert_peer,
      repo_get_swarm_metadata = TorrentsRwLockTokio_get_swarm_metadata\<rparr>"

section \<open>The contract holds\<close>

lemma bt_entries_set: "bt_inv m \<Longrightarrow> set m = {(k, t). bt_get m k = Some t}"
  by (auto simp: bt_get_mem)

lemma bt_entry_or_default:
  "(case bt_get m ih of Some t \<Rightarrow> t | None \<Rightarrow> Torrent_default) = entry_or_default (bt_get m) ih"
  by (simp add: entry_or_default_def)

lemma bt_fold_metrics:
  "bt_inv m \<Longrightarrow>
   fold (\<lambda>t. metrics_step (get_swarm_metadata t)) (bt_values m) TorrentsMetrics_default =
   spec_metrics (bt_get m)"
  unfolding bt_values_def by (intro fold_metrics_entries bt_inv_distinct bt_entries_set)

lemma bt_import_loop:
  assumes "bt_inv m"
  defines "f \<equiv> \<lambda>(ih, n) db. if bt_contains_key db ih then db
                         else bt_put ih \<lparr>swarm = PeerList_default, t_downloaded = n\<rparr> db"
  shows "bt_inv (fold f pts m) \<and> bt_get (fold f pts m) = spec_import pts (bt_get m)"
  using assms(1)
  by (rule import_loop [where ok = bt_inv and view = bt_get])
     (auto simp: f_def import_one_def bt_contains_key_def bt_get_put tracker_inv split: prod.splits)

lemma bt_spec_remove_inactive:
  "bt_get (bt_map_values (remove_inactive_peers cutoff) m) = spec_remove_inactive cutoff (bt_get m)"
  by (simp add: spec_remove_inactive_def fun_eq_iff)

lemma bt_spec_remove_peerless:
  "bt_inv m \<Longrightarrow>
   bt_get (bt_retain (\<lambda>_ e. meets_retaining_policy pol e) m) = spec_remove_peerless pol (bt_get m)"
  by (simp add: spec_remove_peerless_def bt_get_retain fun_eq_iff)

lemmas bt_repository_laws =
  bt_fold_metrics bt_import_loop bt_spec_remove_inactive bt_spec_remove_peerless bt_entry_or_default

lemmas TorrentsRwLockStd_defs =
  TorrentsRwLockStd_def TorrentsRwLockStd_default_def TorrentsRwLockStd_upsert_peer_def TorrentsRwLockStd_get_def TorrentsRwLockStd_get_swarm_metadata_def
  TorrentsRwLockStd_get_metrics_def TorrentsRwLockStd_get_paginated_def TorrentsRwLockStd_import_persistent_def TorrentsRwLockStd_remove_def
  TorrentsRwLockStd_remove_inactive_peers_def TorrentsRwLockStd_remove_peerless_torrents_def

interpretation rw_lock_std: ordered_repository TorrentsRwLockStd bt_inv bt_get
proof
  fix db :: TorrentsRwLockStd and op assume inv: "bt_inv db"
  show "bt_inv (repo_step TorrentsRwLockStd op db)"
    using inv by (cases op) (simp_all add: TorrentsRwLockStd_defs bt_remove_def bt_repository_laws tracker_inv)
  show "bt_get (repo_step TorrentsRwLockStd op db) = spec_step op (bt_get db)"
    using inv
    by (cases op) (simp_all add: TorrentsRwLockStd_defs bt_remove_def bt_get_put bt_repository_laws spec_upsert_def)
next
  fix db :: TorrentsRwLockStd assume inv: "bt_inv db"
  show "\<exists>es. distinct (map fst es) \<and> set es = {(k, t). bt_get db k = Some t} \<and>
             (\<forall>pg. repo_get_paginated TorrentsRwLockStd pg db = paginate pg es)"
    using inv
    by (intro exI [of _ db]) (simp add: TorrentsRwLockStd_defs bt_inv_distinct bt_entries_set)
qed (simp_all add: TorrentsRwLockStd_defs bt_remove_def bt_repository_laws spec_entries_bt)

lemmas TorrentsRwLockTokio_defs =
  TorrentsRwLockTokio_def TorrentsRwLockTokio_default_def TorrentsRwLockTokio_upsert_peer_def TorrentsRwLockTokio_get_def TorrentsRwLockTokio_get_swarm_metadata_def
  TorrentsRwLockTokio_get_metrics_def TorrentsRwLockTokio_get_paginated_def TorrentsRwLockTokio_import_persistent_def TorrentsRwLockTokio_remove_def
  TorrentsRwLockTokio_remove_inactive_peers_def TorrentsRwLockTokio_remove_peerless_torrents_def

interpretation rw_lock_tokio: ordered_repository TorrentsRwLockTokio bt_inv bt_get
proof
  fix db :: TorrentsRwLockTokio and op assume inv: "bt_inv db"
  show "bt_inv (repo_step TorrentsRwLockTokio op db)"
    using inv by (cases op) (simp_all add: TorrentsRwLockTokio_defs bt_remove_def bt_repository_laws tracker_inv)
  show "bt_get (repo_step TorrentsRwLockTokio op db) = spec_step op (bt_get db)"
    using inv
    by (cases op) (simp_all add: TorrentsRwLockTokio_defs bt_remove_def bt_get_put bt_repository_laws spec_upsert_def)
next
  fix db :: TorrentsRwLockTokio assume inv: "bt_inv db"
  show "\<exists>es. distinct (map fst es) \<and> set es = {(k, t). bt_get db k = Some t} \<and>
             (\<forall>pg. repo_get_paginated TorrentsRwLockTokio pg db = paginate pg es)"
    using inv
    by (intro exI [of _ db]) (simp add: TorrentsRwLockTokio_defs bt_inv_distinct bt_entries_set)
qed (simp_all add: TorrentsRwLockTokio_defs bt_remove_def bt_repository_laws spec_entries_bt)

end
