(* ===== verification/Repository_Shared.thy ===== *)
theory Repository_Shared
  imports Repository_RwLock
begin

text \<open>
  The repositories that keep shared entries in a \<open>BTreeMap\<close> behind a read-write lock:
  \<open>rw_lock_std_mutex_std.rs\<close>, \<open>rw_lock_std_mutex_tokio.rs\<close>, \<open>rw_lock_tokio_mutex_std.rs\<close> and
  \<open>rw_lock_tokio_mutex_tokio.rs\<close>. An operation that takes the lock of the map, releases it and
  then takes the lock of an entry is one step here. All four satisfy the repository contract.
\<close>

type_synonym BTreeShared = "(InfoHash, handle) btree_map SharedTorrents"

section \<open>TorrentsRwLockStdMutexStd (rw\_lock\_std\_mutex\_std.rs)\<close>

definition TorrentsRwLockStdMutexStd_default :: BTreeShared where
  "TorrentsRwLockStdMutexStd_default = \<lparr>torrents = bt_empty, heap = heap_empty\<rparr>"

definition TorrentsRwLockStdMutexStd_upsert_peer :: "InfoHash \<Rightarrow> Peer \<Rightarrow> BTreeShared \<Rightarrow> BTreeShared" where
  "TorrentsRwLockStdMutexStd_upsert_peer info_hash p s =
     (let maybe_entry = bt_get (torrents s) info_hash;
          (entry, s') =
            (case maybe_entry of
               Some entry \<Rightarrow> (entry, s)
             | None \<Rightarrow>
                 (let (new, h) = arc_new Torrent_default (heap s);
                      (entry, db) = bt_entry_or_insert info_hash new (torrents s)
                  in (entry, s\<lparr>torrents := db, heap := h\<rparr>)))
      in s'\<lparr>heap := snd (EntryMutexStd_upsert_peer p entry (heap s'))\<rparr>)"

definition TorrentsRwLockStdMutexStd_get :: "InfoHash \<Rightarrow> BTreeShared \<Rightarrow> handle option" where
  "TorrentsRwLockStdMutexStd_get key s = bt_get (torrents s) key"

definition TorrentsRwLockStdMutexStd_get_swarm_metadata :: "InfoHash \<Rightarrow> BTreeShared \<Rightarrow> SwarmMetadata option" where
  "TorrentsRwLockStdMutexStd_get_swarm_metadata info_hash s =
     map_option (\<lambda>entry. EntryMutexStd_get_swarm_metadata entry (heap s)) (bt_get (torrents s) info_hash)"

definition TorrentsRwLockStdMutexStd_get_metrics :: "BTreeShared \<Rightarrow> TorrentsMetrics" where
  "TorrentsRwLockStdMutexStd_get_metrics s =
     fold (\<lambda>entry. metrics_step (with_lock get_swarm_metadata entry (heap s)))
       (bt_values (torrents s)) TorrentsMetrics_default"

definition TorrentsRwLockStdMutexStd_get_paginated :: "Pagination option \<Rightarrow> BTreeShared \<Rightarrow> (InfoHash \<times> handle) list" where
  "TorrentsRwLockStdMutexStd_get_paginated pagination s = paginate pagination (torrents s)"

definition TorrentsRwLockStdMutexStd_import_persistent :: "PersistentTorrents \<Rightarrow> BTreeShared \<Rightarrow> BTreeShared" where
  "TorrentsRwLockStdMutexStd_import_persistent persistent_torrents s =
     fold (\<lambda>(info_hash, n) s.
             if bt_contains_key (torrents s) info_hash then s
             else
               (let (entry, h) = arc_new \<lparr>swarm = PeerList_default, t_downloaded = n\<rparr> (heap s)
                in s\<lparr>torrents := bt_put info_hash entry (torrents s), heap := h\<rparr>))
       persistent_torrents s"

definition TorrentsRwLockStdMutexStd_remove :: "InfoHash \<Rightarrow> BTreeShared \<Rightarrow> handle option \<times> BTreeShared" where
  "TorrentsRwLockStdMutexStd_remove key s =
     (let (entry, db) = bt_remove key (torrents s) in (entry, s\<lparr>torrents := db\<rparr>))"

definition TorrentsRwLockStdMutexStd_remove_inactive_peers :: "DurationSinceUnixEpoch \<Rightarrow> BTreeShared \<Rightarrow> BTreeShared" where
  "TorrentsRwLockStdMutexStd_remove_inactive_peers current_cutoff s =
     s\<lparr>heap := fold (\<lambda>entry. EntryMutexStd_remove_inactive_peers current_cutoff entry) (bt_values (torrents s)) (heap s)\<rparr>"

definition TorrentsRwLockStdMutexStd_remove_peerless_torrents :: "TrackerPolicy \<Rightarrow> BTreeShared \<Rightarrow> BTreeShared" where
  "TorrentsRwLockStdMutexStd_remove_peerless_torrents pol s =
     s\<lparr>torrents := bt_retain (\<lambda>_ e. with_lock (meets_retaining_policy pol) e (heap s)) (torrents s)\<rparr>"

definition TorrentsRwLockStdMutexStd :: "BTreeShared Repository" where
  "TorrentsRwLockStdMutexStd =
     \<lparr>repo_default = TorrentsRwLockStdMutexStd_default,
      repo_get = (\<lambda>key s. map_option (cells (heap s)) (TorrentsRwLockStdMutexStd_get key s)),
      repo_get_metrics = TorrentsRwLockStdMutexStd_get_metrics,
      repo_get_paginated = (\<lambda>pg s. map (\<lambda>(a, b). (a, cells (heap s) b)) (TorrentsRwLockStdMutexStd_get_paginated pg s)),
      repo_import_persistent = TorrentsRwLockStdMutexStd_import_persistent,
      repo_remove = (\<lambda>key s. apfst (map_option (cells (heap s))) (TorrentsRwLockStdMutexStd_remove key s)),
      repo_remove_inactive_peers = TorrentsRwLockStdMutexStd_remove_inactive_peers,
      repo_remove_peerless_torrents = TorrentsRwLockStdMutexStd_remove_peerless_torrents,
      repo_upsert_peer = TorrentsRwLockStdMutexStd_upsert_peer,
      repo_get_swarm_metadata = TorrentsRwLockStdMutexStd_get_swarm_metadata\<rparr>"

section \<open>TorrentsRwLockStdMutexTokio (rw\_lock\_std\_mutex\_tokio.rs)\<close>

definition TorrentsRwLockStdMutexTokio_default :: BTreeShared where
  "TorrentsRwLockStdMutexTokio_default = \<lparr>torrents = bt_empty, heap = heap_empty\<rparr>"

definition TorrentsRwLockStdMutexTokio_upsert_peer :: "InfoHash \<Rightarrow> Peer \<Rightarrow> BTreeShared \<Rightarrow> BTreeShared" where
  "TorrentsRwLockStdMutexTokio_upsert_peer info_hash p s =
     (let maybe_entry = bt_get (torrents s) info_hash;
          (entry, s') =
            (case maybe_entry of
               Some entry \<Rightarrow> (entry, s)
             | None \<Rightarrow>
                 (let (new, h) = arc_new Torrent_default (heap s);
                      (entry, db) = bt_entry_or_insert info_hash new (torrents s)
                  in (entry, s\<lparr>torrents := db, heap := h\<rparr>)))
      in s'\<lparr>heap := snd (EntryMutexTokio_upsert_peer p entry (heap s'))\<rparr>)"

definition TorrentsRwLockStdMutexTokio_get :: "InfoHash \<Rightarrow> BTreeShared \<Rightarrow> handle option" where
  "TorrentsRwLockStdMutexTokio_get key s = bt_get (torrents s) key"

definition TorrentsRwLockStdMutexTokio_get_swarm_metadata :: "InfoHash \<Rightarrow> BTreeShared \<Rightarrow> SwarmMetadata option" where
  "TorrentsRwLockStdMutexTokio_get_swarm_metadata info_hash s =
     (let maybe_entry = bt_get (torrents s) info_hash
      in case maybe_entry of
           Some entry \<Rightarrow> Some (EntryMutexTokio_get_swarm_metadata entry (heap s))
         | None \<Rightarrow> None)"

definition TorrentsRwLockStdMutexTokio_get_metrics :: "BTreeShared \<Rightarrow> TorrentsMetrics" where
  "TorrentsRwLockStdMutexTokio_get_metrics s =
     fold (\<lambda>entry. metrics_step (with_lock get_swarm_metadata entry (heap s)))
       (bt_values (torrents s)) TorrentsMetrics_default"

definition TorrentsRwLockStdMutexTokio_get_paginated :: "Pagination option \<Rightarrow> BTreeShared \<Rightarrow> (InfoHash \<times> handle) list" where
  "TorrentsRwLockStdMutexTokio_get_paginated pagination s = paginate pagination (torrents s)"

definition TorrentsRwLockStdMutexTokio_import_persistent :: "PersistentTorrents \<Rightarrow> BTreeShared \<Rightarrow> BTreeShared" where
  "TorrentsRwLockStdMutexTokio_import_persistent persistent_torrents s =
     fold (\<lambda>(info_hash, n) s.
             if bt_contains_key (torrents s) info_hash then s
             else
               (let (entry, h) = arc_new \<lparr>swarm = PeerList_default, t_downloaded = n\<rparr> (heap s)
                in s\<lparr>torrents := bt_put info_hash entry (torrents s), heap := h\<rparr>))
       persistent_torrents s"

definition TorrentsRwLockStdMutexTokio_remove :: "InfoHash \<Rightarrow> BTreeShared \<Rightarrow> handle option \<times> BTreeShared" where
  "TorrentsRwLockStdMutexTokio_remove key s =
     (let (entry, db) = bt_remove key (torrents s) in (entry, s\<lparr>torrents := db\<rparr>))"

definition TorrentsRwLockStdMutexTokio_remove_inactive_peers :: "DurationSinceUnixEpoch \<Rightarrow> BTreeShared \<Rightarrow> BTreeShared" where
  "TorrentsRwLockStdMutexTokio_remove_inactive_peers current_cutoff s =
     s\<lparr>heap := fold (\<lambda>entry. EntryMutexTokio_remove_inactive_peers current_cutoff entry) (bt_values (torrents s)) (heap s)\<rparr>"

definition TorrentsRwLockStdMutexTokio_remove_peerless_torrents :: "TrackerPolicy \<Rightarrow> BTreeShared \<Rightarrow> BTreeShared" where
  "TorrentsRwLockStdMutexTokio_remove_peerless_torrents pol s =
     (let not_good =
            map (\<lambda>(infohash, torrent).
                   if EntryMutexTokio_meets_retaining_policy pol torrent (heap s) then None else Some infohash)
              (zip (bt_keys (torrents s)) (bt_values (torrents s)))
      in s\<lparr>torrents := fold (\<lambda>infohash db. snd (bt_remove infohash db))
                        (List.map_filter id not_good) (torrents s)\<rparr>)"

definition TorrentsRwLockStdMutexTokio :: "BTreeShared Repository" where
  "TorrentsRwLockStdMutexTokio =
     \<lparr>repo_default = TorrentsRwLockStdMutexTokio_default,
      repo_get = (\<lambda>key s. map_option (cells (heap s)) (TorrentsRwLockStdMutexTokio_get key s)),
      repo_get_metrics = TorrentsRwLockStdMutexTokio_get_metrics,
      repo_get_paginated = (\<lambda>pg s. map (\<lambda>(a, b). (a, cells (heap s) b)) (TorrentsRwLockStdMutexTokio_get_paginated pg s)),
      repo_import_persistent = TorrentsRwLockStdMutexTokio_import_persistent,
      repo_remove = (\<lambda>key s. apfst (map_option (cells (heap s))) (TorrentsRwLockStdMutexTokio_remove key s)),
      repo_remove_inactive_peers = TorrentsRwLockStdMutexTokio_remove_inactive_peers,
      repo_remove_peerless_torrents = TorrentsRwLockStdMutexTokio_remove_peerless_torrents,
      repo_upsert_peer = TorrentsRwLockStdMutexTokio_upsert_peer,
      repo_get_swarm_metadata = TorrentsRwLockStdMutexTokio_get_swarm_metadata\<rparr>"

section \<open>TorrentsRwLockTokioMutexStd (rw\_lock\_tokio\_mutex\_std.rs)\<close>

definition TorrentsRwLockTokioMutexStd_default :: BTreeShared where
  "TorrentsRwLockTokioMutexStd_default = \<lparr>torrents = bt_empty, heap = heap_empty\<rparr>"

definition TorrentsRwLockTokioMutexStd_upsert_peer :: "InfoHash \<Rightarrow> Peer \<Rightarrow> BTreeShared \<Rightarrow> BTreeShared" where
  "TorrentsRwLockTokioMutexStd_upsert_peer info_hash p s =
     (let maybe_entry = bt_get (torrents s) info_hash;
          (entry, s') =
            (case maybe_entry of
               Some entry \<Rightarrow> (entry, s)
             | None \<Rightarrow>
                 (let (new, h) = arc_new Torrent_default (heap s);
                      (entry, db) = bt_entry_or_insert info_hash new (torrents s)
                  in (entry, s\<lparr>torrents := db, heap := h\<rparr>)))
      in s'\<lparr>heap := snd (EntryMutexStd_upsert_peer p entry (heap s'))\<rparr>)"

definition TorrentsRwLockTokioMutexStd_get :: "InfoHash \<Rightarrow> BTreeShared \<Rightarrow> handle option" where
  "TorrentsRwLockTokioMutexStd_get key s = bt_get (torrents s) key"

definition TorrentsRwLockTokioMutexStd_get_swarm_metadata :: "InfoHash \<Rightarrow> BTreeShared \<Rightarrow> SwarmMetadata option" where
  "TorrentsRwLockTokioMutexStd_get_swarm_metadata info_hash s =
     map_option (\<lambda>entry. EntryMutexStd_get_swarm_metadata entry (heap s)) (TorrentsRwLockTokioMutexStd_get info_hash s)"

definition TorrentsRwLockTokioMutexStd_get_metrics :: "BTreeShared \<Rightarrow> TorrentsMetrics" where
  "TorrentsRwLockTokioMutexStd_get_metrics s =
     fold (\<lambda>entry. metrics_step (EntryMutexStd_get_swarm_metadata entry (heap s)))
       (bt_values (torrents s)) TorrentsMetrics_default"

definition TorrentsRwLockTokioMutexStd_get_paginated :: "Pagination option \<Rightarrow> BTreeShared \<Rightarrow> (InfoHash \<times> handle) list" where
  "TorrentsRwLockTokioMutexStd_get_paginated pagination s = paginate pagination (torrents s)"

definition TorrentsRwLockTokioMutexStd_import_persistent :: "PersistentTorrents \<Rightarrow> BTreeShared \<Rightarrow> BTreeShared" where
  "TorrentsRwLockTokioMutexStd_import_persistent persistent_torrents s =
     fold (\<lambda>(info_hash, n) s.
             if bt_contains_key (torrents s) info_hash then s
             else
               (let (entry, h) = arc_new \<lparr>swarm = PeerList_default, t_downloaded = n\<rparr> (heap s)
                in s\<lparr>torrents := bt_put info_hash entry (torrents s), heap := h\<rparr>))
       persistent_torrents s"

definition TorrentsRwLockTokioMutexStd_remove :: "InfoHash \<Rightarrow> BTreeShared \<Rightarrow> handle option \<times> BTreeShared" where
  "TorrentsRwLockTokioMutexStd_remove key s =
     (let (entry, db) = bt_remove key (torrents s) in (entry, s\<lparr>torrents := db\<rparr>))"

definition TorrentsRwLockTokioMutexStd_remove_inactive_peers :: "DurationSinceUnixEpoch \<Rightarrow> BTreeShared \<Rightarrow> BTreeShared" where
  "TorrentsRwLockTokioMutexStd_remove_inactive_peers current_cutoff s =
     s\<lparr>heap := fold (\<lambda>entry. EntryMutexStd_remove_inactive_peers current_cutoff entry) (bt_values (torrents s)) (heap s)\<rparr>"

definition TorrentsRwLockTokioMutexStd_remove_peerless_torrents :: "TrackerPolicy \<Rightarrow> BTreeShared \<Rightarrow> BTreeShared" where
  "TorrentsRwLockTokioMutexStd_remove_peerless_torrents pol s =
     s\<lparr>torrents := bt_retain (\<lambda>_ e. with_lock (meets_retaining_policy pol) e (heap s)) (torrents s)\<rparr>"

definition TorrentsRwLockTokioMutexStd :: "BTreeShared Repository" where
  "TorrentsRwLockTokioMutexStd =
     \<lparr>repo_default = TorrentsRwLockTokioMutexStd_default,
      repo_get = (\<lambda>key s. map_option (cells (heap s)) (TorrentsRwLockTokioMutexStd_get key s)),
      repo_get_metrics = TorrentsRwLockTokioMutexStd_get_metrics,
      repo_get_paginated = (\<lambda>pg s. map (\<lambda>(a, b). (a, cells (heap s) b)) (TorrentsRwLockTokioMutexStd_get_paginated pg s)),
      repo_import_persistent = TorrentsRwLockTokioMutexStd_import_persistent,
      repo_remove = (\<lambda>key s. apfst (map_option (cells (heap s))) (TorrentsRwLockTokioMutexStd_remove key s)),
      repo_remove_inactive_peers = TorrentsRwLockTokioMutexStd_remove_inactive_peers,
      repo_remove_peerless_torrents = TorrentsRwLockTokioMutexStd_remove_peerless_torrents,
      repo_upsert_peer = TorrentsRwLockTokioMutexStd_upsert_peer,
      repo_get_swarm_metadata = TorrentsRwLockTokioMutexStd_get_swarm_metadata\<rparr>"

section \<open>TorrentsRwLockTokioMutexTokio (rw\_lock\_tokio\_mutex\_tokio.rs)\<close>

definition TorrentsRwLockTokioMutexTokio_default :: BTreeShared where
  "TorrentsRwLockTokioMutexTokio_default = \<lparr>torrents = bt_empty, heap = heap_empty\<rparr>"

definition TorrentsRwLockTokioMutexTokio_upsert_peer :: "InfoHash \<Rightarrow> Peer \<Rightarrow> BTreeShared \<Rightarrow> BTreeShared" where
  "TorrentsRwLockTokioMutexTokio_upsert_peer info_hash p s =
     (let maybe_entry = bt_get (torrents s) info_hash;
          (entry, s') =
            (case maybe_entry of
               Some entry \<Rightarrow> (entry, s)
             | None \<Rightarrow>
                 (let (new, h) = arc_new Torrent_default (heap s);
                      (entry, db) = bt_entry_or_insert info_hash new (torrents s)
                  in (entry, s\<lparr>torrents := db, heap := h\<rparr>)))
      in s'\<lparr>heap := snd (EntryMutexTokio_upsert_peer p entry (heap s'))\<rparr>)"

definition TorrentsRwLockTokioMutexTokio_get :: "InfoHash \<Rightarrow> BTreeShared \<Rightarrow> handle option" where
  "TorrentsRwLockTokioMutexTokio_get key s = bt_get (torrents s) key"

definition TorrentsRwLockTokioMutexTokio_get_swarm_metadata :: "InfoHash \<Rightarrow> BTreeShared \<Rightarrow> SwarmMetadata option" where
  "TorrentsRwLockTokioMutexTokio_get_swarm_metadata info_hash s =
     (case TorrentsRwLockTokioMutexTokio_get info_hash s of
        Some entry \<Rightarrow> Some (EntryMutexTokio_get_swarm_metadata entry (heap s))
      | None \<Rightarrow> None)"

definition TorrentsRwLockTokioMutexTokio_get_metrics :: "BTreeShared \<Rightarrow> TorrentsMetrics" where
  "TorrentsRwLockTokioMutexTokio_get_metrics s =
     fold (\<lambda>entry. metrics_step (EntryMutexTokio_get_swarm_metadata entry (heap s)))
       (bt_values (torrents s)) TorrentsMetrics_default"

definition TorrentsRwLockTokioMutexTokio_get_paginated :: "Pagination option \<Rightarrow> BTreeShared \<Rightarrow> (InfoHash \<times> handle) list" where
  "TorrentsRwLockTokioMutexTokio_get_paginated pagination s = paginate pagination (torrents s)"

definition TorrentsRwLockTokioMutexTokio_import_persistent :: "PersistentTorrents \<Rightarrow> BTreeShared \<Rightarrow> BTreeShared" where
  "TorrentsRwLockTokioMutexTokio_import_persistent persistent_torrents s =
     fold (\<lambda>(info_hash, n) s.
             if bt_contains_key (torrents s) info_hash then s
             else
               (let (entry, h) = arc_new \<lparr>swarm = PeerList_default, t_downloaded = n\<rparr> (heap s)
                in s\<lparr>torrents := bt_put info_hash entry (torrents s), heap := h\<rparr>))
       persistent_torrents s"

definition TorrentsRwLockTokioMutexTokio_remove :: "InfoHash \<Rightarrow> BTreeShared \<Rightarrow> handle option \<times> BTreeShared" where
  "TorrentsRwLockTokioMutexTokio_remove key s =
     (let (entry, db) = bt_remove key (torrents s) in (entry, s\<lparr>torrents := db\<rparr>))"

definition TorrentsRwLockTokioMutexTokio_remove_inactive_peers :: "DurationSinceUnixEpoch \<Rightarrow> BTreeShared \<Rightarrow> BTreeShared" where
  "TorrentsRwLockTokioMutexTokio_remove_inactive_peers current_cutoff s =
     s\<lparr>heap := fold (\<lambda>entry. EntryMutexTokio_remove_inactive_peers current_cutoff entry) (bt_values (torrents s)) (heap s)\<rparr>"

definition TorrentsRwLockTokioMutexTokio_remove_peerless_torrents :: "TrackerPolicy \<Rightarrow> BTreeShared \<Rightarrow> BTreeShared" where
  "TorrentsRwLockTokioMutexTokio_remove_peerless_torrents pol s =
     (let not_good =
            fold (\<lambda>(infohash, torrent) acc.
                    if \<not> EntryMutexTokio_meets_retaining_policy pol torrent (heap s) then acc @ [infohash] else acc)
              (torrents s) []
      in s\<lparr>torrents := fold (\<lambda>infohash db. snd (bt_remove infohash db)) not_good (torrents s)\<rparr>)"

definition TorrentsRwLockTokioMutexTokio :: "BTreeShared Repository" where
  "TorrentsRwLockTokioMutexTokio =
     \<lparr>repo_default = TorrentsRwLockTokioMutexTokio_default,
      repo_get = (\<lambda>key s. map_option (cells (heap s)) (TorrentsRwLockTokioMutexTokio_get key s)),
      repo_get_metrics = TorrentsRwLockTokioMutexTokio_get_metrics,
      repo_get_paginated = (\<lambda>pg s. map (\<lambda>(a, b). (a, cells (heap s) b)) (TorrentsRwLockTokioMutexTokio_get_paginated pg s)),
      repo_import_persistent = TorrentsRwLockTokioMutexTokio_import_persistent,
      repo_remove = (\<lambda>key s. apfst (map_option (cells (heap s))) (TorrentsRwLockTokioMutexTokio_remove key s)),
      repo_remove_inactive_peers = TorrentsRwLockTokioMutexTokio_remove_inactive_peers,
      repo_remove_peerless_torrents = TorrentsRwLockTokioMutexTokio_remove_peerless_torrents,
      repo_upsert_peer = TorrentsRwLockTokioMutexTokio_upsert_peer,
      repo_get_swarm_metadata = TorrentsRwLockTokioMutexTokio_get_swarm_metadata\<rparr>"

section \<open>The contract holds\<close>

definition shared_ok :: "BTreeShared \<Rightarrow> bool" where
  "shared_ok s = (bt_inv (torrents s) \<and> handles_ok (bt_get (torrents s)) (heap s))"

definition shared_view :: "BTreeShared \<Rightarrow> torrents_view" where
  "shared_view s = heap_view (bt_get (torrents s)) (heap s)"

lemma bt_graph:
  fixes m :: "(InfoHash, 'v) btree_map"
  assumes "bt_inv m"
  shows "distinct (map fst m)" and "set m = {(k, r). bt_get m k = Some r}"
  using assms by (auto simp: bt_inv_distinct bt_get_mem)

lemma shared_upsert:
  fixes s ih p
  defines "s' \<equiv> TorrentsRwLockStdMutexStd_upsert_peer ih p s"
  assumes "shared_ok s"
  shows "shared_ok s'" and "shared_view s' = spec_upsert ih p (shared_view s)"
proof -
  let ?ix = "bt_get (torrents s)"
  have inv: "bt_inv (torrents s)" and ok: "handles_ok ?ix (heap s)"
    using assms(2) by (simp_all add: shared_ok_def)
  have "shared_ok s' \<and> shared_view s' = spec_upsert ih p (shared_view s)"
  proof (cases "?ix ih")
    case None
    let ?n = "fst (arc_new Torrent_default (heap s))" and ?h = "snd (arc_new Torrent_default (heap s))"
    have s': "s' = s\<lparr>torrents := bt_put ih ?n (torrents s), heap := snd (with_lock_mut (upsert_peer p) ?n ?h)\<rparr>"
      by (simp add: s'_def TorrentsRwLockStdMutexStd_upsert_peer_def lock_defs None bt_entry_or_insert_def case_prod_unfold Let_def)
    have ok': "handles_ok (?ix(ih \<mapsto> ?n)) ?h"
      using ok by (rule handles_ok_insert)
    show ?thesis
      using inv None heap_view_update [OF ok', of ih ?n "upsert_peer p"]
      by (simp add: s' shared_ok_def shared_view_def bt_get_put bt_inv_put handles_ok_update [OF ok']
          heap_view_insert [OF ok] spec_upsert_def entry_or_default_def heap_view_lookup)
         (simp add: arc_new_def)
  next
    case (Some r)
    then have "s' = s\<lparr>heap := snd (with_lock_mut (upsert_peer p) r (heap s))\<rparr>"
      by (simp add: s'_def TorrentsRwLockStdMutexStd_upsert_peer_def lock_defs)
    then show ?thesis
      using inv Some
      by (simp add: handles_ok_update [OF ok] heap_view_update [OF ok Some] shared_ok_def shared_view_def spec_upsert_def entry_or_default_def heap_view_lookup)
  qed
  then show "shared_ok s'" and "shared_view s' = spec_upsert ih p (shared_view s)"
    by simp_all
qed

lemma shared_import:
  assumes "shared_ok s"
  shows "shared_ok (TorrentsRwLockStdMutexStd_import_persistent pts s) \<and>
         shared_view (TorrentsRwLockStdMutexStd_import_persistent pts s) = spec_import pts (shared_view s)"
  unfolding TorrentsRwLockStdMutexStd_import_persistent_def
  using assms
  by (rule import_loop [where ok = shared_ok and view = shared_view])
     (auto simp: import_one_def shared_ok_def shared_view_def bt_contains_key_def bt_get_put
       bt_inv_put handles_ok_insert heap_view_insert heap_view_lookup case_prod_unfold Let_def)

lemma shared_inactive:
  assumes "shared_ok s"
  shows "shared_ok (TorrentsRwLockStdMutexStd_remove_inactive_peers cutoff s)"
    and "shared_view (TorrentsRwLockStdMutexStd_remove_inactive_peers cutoff s) = spec_remove_inactive cutoff (shared_view s)"
  using assms heap_view_loop [of "bt_get (torrents s)" "heap s" "torrents s"]
  by (simp_all add: shared_ok_def shared_view_def handles_ok_loop bt_values_def bt_graph lock_loop
      TorrentsRwLockStdMutexStd_remove_inactive_peers_def)

lemma shared_peerless:
  assumes "shared_ok s"
  shows "shared_ok (TorrentsRwLockStdMutexStd_remove_peerless_torrents pol s)"
    and "shared_view (TorrentsRwLockStdMutexStd_remove_peerless_torrents pol s) = spec_remove_peerless pol (shared_view s)"
  using assms
  by (auto simp: shared_ok_def shared_view_def bt_inv_retain bt_get_retain with_lock_def
      TorrentsRwLockStdMutexStd_remove_peerless_torrents_def
      intro!: heap_view_prune
      intro: handles_ok_prune [where ix = "bt_get (torrents s)" and pol = pol])

lemma shared_remove:
  assumes "shared_ok s"
  shows "shared_ok (snd (TorrentsRwLockStdMutexStd_remove ih s))"
    and "shared_view (snd (TorrentsRwLockStdMutexStd_remove ih s)) = (shared_view s)(ih := None)"
    and "map_option (cells (heap s)) (fst (TorrentsRwLockStdMutexStd_remove ih s)) = shared_view s ih"
  using assms
  by (simp_all add: shared_ok_def shared_view_def TorrentsRwLockStdMutexStd_remove_def bt_remove_def bt_inv_del
      handles_ok_delete heap_view_delete heap_view_lookup)

text \<open>Collecting the keys to remove and removing them is the same as retaining the others.\<close>

lemma fold_bt_remove: "fold (\<lambda>k db. snd (bt_remove k db)) ks m = filter (\<lambda>e. fst e \<notin> set ks) m"
  by (induction ks arbitrary: m) (auto simp: bt_remove_def bt_del_def intro: filter_cong)

lemma filter_not_good:
  fixes m :: "(InfoHash, 'v) btree_map"
  assumes "bt_inv m"
  shows "filter (\<lambda>e. \<forall>v. (fst e, v) \<in> set m \<longrightarrow> P v) m = bt_retain (\<lambda>_ v. P v) m"
  using assms
  by (auto simp: bt_retain_def intro!: filter_cong dest: bt_get_mem [THEN iffD2]
      split: prod.split) (metis bt_get_mem option.inject)

lemma set_flatten: "set (List.map_filter id xs) = {x. Some x \<in> set xs}"
  by (induction xs) (auto simp: List.map_filter_simps split: option.splits)

lemma not_good_option:
  "set (List.map_filter id (map (\<lambda>(k, v). if P v then None else Some k) (zip (bt_keys m) (bt_values m)))) =
   {k. \<exists>v. (k, v) \<in> set m \<and> \<not> P v}"
proof -
  have "zip (bt_keys m) (bt_values m) = m"
    by (simp add: bt_keys_def bt_values_def zip_map_fst_snd)
  then show ?thesis
    by (auto simp: set_flatten image_iff split: if_splits intro: bexI [rotated])
qed

lemma not_good_loop:
  "fold (\<lambda>(k, v) acc. if \<not> P v then acc @ [k] else acc) m ks = ks @ map fst (filter (\<lambda>e. \<not> P (snd e)) m)"
  by (induction m arbitrary: ks) auto

lemma filter_not_good_loop:
  fixes m :: "(InfoHash, 'v) btree_map"
  assumes "bt_inv m"
  shows "filter (\<lambda>e. fst e \<notin> fst ` set (filter (\<lambda>e. \<not> P (snd e)) m)) m = bt_retain (\<lambda>_ v. P v) m"
  unfolding filter_not_good [OF assms, symmetric] by (force intro!: filter_cong)

lemma shared_reads:
  assumes "shared_ok s"
  shows "TorrentsRwLockStdMutexStd_get_metrics s = spec_metrics (shared_view s)"
    and "map (\<lambda>(a, b). (a, cells (heap s) b)) (TorrentsRwLockStdMutexStd_get_paginated pg s) =
         paginate pg (spec_entries (shared_view s))"
    and "map_option (cells (heap s)) (TorrentsRwLockStdMutexStd_get ih s) = shared_view s ih"
    and "TorrentsRwLockStdMutexStd_get_swarm_metadata ih s = map_option get_swarm_metadata (shared_view s ih)"
proof -
  have inv: "bt_inv (torrents s)"
    using assms by (simp add: shared_ok_def)
  show "TorrentsRwLockStdMutexStd_get_metrics s = spec_metrics (shared_view s)"
    unfolding TorrentsRwLockStdMutexStd_get_metrics_def bt_values_def shared_view_def
    by (intro heap_metrics_loop bt_graph inv)
  show "map_option (cells (heap s)) (TorrentsRwLockStdMutexStd_get ih s) = shared_view s ih"
    by (simp add: TorrentsRwLockStdMutexStd_get_def shared_view_def heap_view_lookup)
  show "TorrentsRwLockStdMutexStd_get_swarm_metadata ih s = map_option get_swarm_metadata (shared_view s ih)"
    by (simp add: TorrentsRwLockStdMutexStd_get_swarm_metadata_def lock_defs with_lock_def shared_view_def heap_view_lookup
        option.map_comp comp_def)
  have "shared_view s = bt_get (bt_map_values (cells (heap s)) (torrents s))"
    by (simp add: shared_view_def heap_view_def fun_eq_iff)
  then show "map (\<lambda>(a, b). (a, cells (heap s) b)) (TorrentsRwLockStdMutexStd_get_paginated pg s) =
             paginate pg (spec_entries (shared_view s))"
    using inv
    by (simp add: TorrentsRwLockStdMutexStd_get_paginated_def spec_entries_bt)
       (simp add: bt_map_values_def paginate_map)
qed

lemma shared_entries:
  assumes "shared_ok s"
  shows "\<exists>es. distinct (map fst es) \<and> set es = {(k, t). shared_view s k = Some t} \<and>
              (\<forall>pg. paginate pg (spec_entries (shared_view s)) = paginate pg es)"
proof -
  have "shared_view s = bt_get (bt_map_values (cells (heap s)) (torrents s))"
    by (simp add: shared_view_def heap_view_def fun_eq_iff)
  then show ?thesis
    using spec_entries_graph [of "shared_view s"]
    by (intro exI [of _ "spec_entries (shared_view s)"]) simp
qed

lemma shared_initial: "shared_ok TorrentsRwLockStdMutexStd_default" "shared_view TorrentsRwLockStdMutexStd_default = (\<lambda>_. None)"
  by (simp_all add: TorrentsRwLockStdMutexStd_default_def shared_ok_def shared_view_def)

lemmas shared_repository_laws =
  shared_initial shared_upsert shared_import shared_inactive shared_peerless shared_remove shared_reads
  shared_entries

interpretation rw_lock_std_mutex_std: ordered_repository TorrentsRwLockStdMutexStd shared_ok shared_view
proof
  fix s :: BTreeShared and op assume ok: "shared_ok s"
  then show "shared_ok (repo_step TorrentsRwLockStdMutexStd op s)"
    by (cases op) (simp_all add: TorrentsRwLockStdMutexStd_def shared_repository_laws)
  from ok show "shared_view (repo_step TorrentsRwLockStdMutexStd op s) = spec_step op (shared_view s)"
    by (cases op) (simp_all add: TorrentsRwLockStdMutexStd_def shared_repository_laws)
qed (simp_all add: TorrentsRwLockStdMutexStd_def shared_repository_laws)

text \<open>The operations of TorrentsRwLockStdMutexTokio are those of TorrentsRwLockStdMutexStd.\<close>

lemma TorrentsRwLockStdMutexTokio_same:
  "TorrentsRwLockStdMutexTokio_default = TorrentsRwLockStdMutexStd_default"
  "TorrentsRwLockStdMutexTokio_upsert_peer = TorrentsRwLockStdMutexStd_upsert_peer"
  "TorrentsRwLockStdMutexTokio_get = TorrentsRwLockStdMutexStd_get"
  "TorrentsRwLockStdMutexTokio_get_swarm_metadata = TorrentsRwLockStdMutexStd_get_swarm_metadata"
  "TorrentsRwLockStdMutexTokio_get_metrics = TorrentsRwLockStdMutexStd_get_metrics"
  "TorrentsRwLockStdMutexTokio_get_paginated = TorrentsRwLockStdMutexStd_get_paginated"
  "TorrentsRwLockStdMutexTokio_import_persistent = TorrentsRwLockStdMutexStd_import_persistent"
  "TorrentsRwLockStdMutexTokio_remove = TorrentsRwLockStdMutexStd_remove"
  "TorrentsRwLockStdMutexTokio_remove_inactive_peers = TorrentsRwLockStdMutexStd_remove_inactive_peers"
  unfolding TorrentsRwLockStdMutexTokio_default_def TorrentsRwLockStdMutexStd_default_def TorrentsRwLockStdMutexTokio_upsert_peer_def TorrentsRwLockStdMutexStd_upsert_peer_def
    TorrentsRwLockStdMutexTokio_get_def TorrentsRwLockStdMutexStd_get_def TorrentsRwLockStdMutexTokio_get_swarm_metadata_def TorrentsRwLockStdMutexStd_get_swarm_metadata_def
    TorrentsRwLockStdMutexTokio_get_metrics_def TorrentsRwLockStdMutexStd_get_metrics_def TorrentsRwLockStdMutexTokio_get_paginated_def TorrentsRwLockStdMutexStd_get_paginated_def
    TorrentsRwLockStdMutexTokio_import_persistent_def TorrentsRwLockStdMutexStd_import_persistent_def TorrentsRwLockStdMutexTokio_remove_def TorrentsRwLockStdMutexStd_remove_def
    TorrentsRwLockStdMutexTokio_remove_inactive_peers_def TorrentsRwLockStdMutexStd_remove_inactive_peers_def lock_defs fun_eq_iff
  by (auto split: option.split)

lemma TorrentsRwLockStdMutexTokio_peerless_same:
  "shared_ok s \<Longrightarrow> TorrentsRwLockStdMutexTokio_remove_peerless_torrents pol s = TorrentsRwLockStdMutexStd_remove_peerless_torrents pol s"
  by (simp add: TorrentsRwLockStdMutexTokio_remove_peerless_torrents_def TorrentsRwLockStdMutexStd_remove_peerless_torrents_def shared_ok_def
      fold_bt_remove not_good_option filter_not_good lock_defs Let_def del: not_None_eq)

interpretation rw_lock_std_mutex_tokio: ordered_repository TorrentsRwLockStdMutexTokio shared_ok shared_view
proof
  fix s :: BTreeShared and op assume ok: "shared_ok s"
  then show "shared_ok (repo_step TorrentsRwLockStdMutexTokio op s)"
    by (cases op) (simp_all add: TorrentsRwLockStdMutexTokio_def TorrentsRwLockStdMutexTokio_same TorrentsRwLockStdMutexTokio_peerless_same shared_repository_laws)
  from ok show "shared_view (repo_step TorrentsRwLockStdMutexTokio op s) = spec_step op (shared_view s)"
    by (cases op) (simp_all add: TorrentsRwLockStdMutexTokio_def TorrentsRwLockStdMutexTokio_same TorrentsRwLockStdMutexTokio_peerless_same shared_repository_laws)
qed (simp_all add: TorrentsRwLockStdMutexTokio_def TorrentsRwLockStdMutexTokio_same shared_repository_laws)

text \<open>The operations of TorrentsRwLockTokioMutexStd are those of TorrentsRwLockStdMutexStd.\<close>

lemma TorrentsRwLockTokioMutexStd_same:
  "TorrentsRwLockTokioMutexStd_default = TorrentsRwLockStdMutexStd_default"
  "TorrentsRwLockTokioMutexStd_upsert_peer = TorrentsRwLockStdMutexStd_upsert_peer"
  "TorrentsRwLockTokioMutexStd_get = TorrentsRwLockStdMutexStd_get"
  "TorrentsRwLockTokioMutexStd_get_swarm_metadata = TorrentsRwLockStdMutexStd_get_swarm_metadata"
  "TorrentsRwLockTokioMutexStd_get_metrics = TorrentsRwLockStdMutexStd_get_metrics"
  "TorrentsRwLockTokioMutexStd_get_paginated = TorrentsRwLockStdMutexStd_get_paginated"
  "TorrentsRwLockTokioMutexStd_import_persistent = TorrentsRwLockStdMutexStd_import_persistent"
  "TorrentsRwLockTokioMutexStd_remove = TorrentsRwLockStdMutexStd_remove"
  "TorrentsRwLockTokioMutexStd_remove_inactive_peers = TorrentsRwLockStdMutexStd_remove_inactive_peers"
  unfolding TorrentsRwLockTokioMutexStd_default_def TorrentsRwLockStdMutexStd_default_def TorrentsRwLockTokioMutexStd_upsert_peer_def TorrentsRwLockStdMutexStd_upsert_peer_def
    TorrentsRwLockTokioMutexStd_get_def TorrentsRwLockStdMutexStd_get_def TorrentsRwLockTokioMutexStd_get_swarm_metadata_def TorrentsRwLockStdMutexStd_get_swarm_metadata_def
    TorrentsRwLockTokioMutexStd_get_metrics_def TorrentsRwLockStdMutexStd_get_metrics_def TorrentsRwLockTokioMutexStd_get_paginated_def TorrentsRwLockStdMutexStd_get_paginated_def
    TorrentsRwLockTokioMutexStd_import_persistent_def TorrentsRwLockStdMutexStd_import_persistent_def TorrentsRwLockTokioMutexStd_remove_def TorrentsRwLockStdMutexStd_remove_def
    TorrentsRwLockTokioMutexStd_remove_inactive_peers_def TorrentsRwLockStdMutexStd_remove_inactive_peers_def lock_defs fun_eq_iff
  by (auto split: option.split)

lemma TorrentsRwLockTokioMutexStd_peerless_same:
  "shared_ok s \<Longrightarrow> TorrentsRwLockTokioMutexStd_remove_peerless_torrents pol s = TorrentsRwLockStdMutexStd_remove_peerless_torrents pol s"
  by (simp add: TorrentsRwLockTokioMutexStd_remove_peerless_torrents_def TorrentsRwLockStdMutexStd_remove_peerless_torrents_def)

interpretation rw_lock_tokio_mutex_std: ordered_repository TorrentsRwLockTokioMutexStd shared_ok shared_view
proof
  fix s :: BTreeShared and op assume ok: "shared_ok s"
  then show "shared_ok (repo_step TorrentsRwLockTokioMutexStd op s)"
    by (cases op) (simp_all add: TorrentsRwLockTokioMutexStd_def TorrentsRwLockTokioMutexStd_same TorrentsRwLockTokioMutexStd_peerless_same shared_repository_laws)
  from ok show "shared_view (repo_step TorrentsRwLockTokioMutexStd op s) = spec_step op (shared_view s)"
    by (cases op) (simp_all add: TorrentsRwLockTokioMutexStd_def TorrentsRwLockTokioMutexStd_same TorrentsRwLockTokioMutexStd_peerless_same shared_repository_laws)
qed (simp_all add: TorrentsRwLockTokioMutexStd_def TorrentsRwLockTokioMutexStd_same shared_repository_laws)

text \<open>The operations of TorrentsRwLockTokioMutexTokio are those of TorrentsRwLockStdMutexStd.\<close>

lemma TorrentsRwLockTokioMutexTokio_same:
  "TorrentsRwLockTokioMutexTokio_default = TorrentsRwLockStdMutexStd_default"
  "TorrentsRwLockTokioMutexTokio_upsert_peer = TorrentsRwLockStdMutexStd_upsert_peer"
  "TorrentsRwLockTokioMutexTokio_get = TorrentsRwLockStdMutexStd_get"
  "TorrentsRwLockTokioMutexTokio_get_swarm_metadata = TorrentsRwLockStdMutexStd_get_swarm_metadata"
  "TorrentsRwLockTokioMutexTokio_get_metrics = TorrentsRwLockStdMutexStd_get_metrics"
  "TorrentsRwLockTokioMutexTokio_get_paginated = TorrentsRwLockStdMutexStd_get_paginated"
  "TorrentsRwLockTokioMutexTokio_import_persistent = TorrentsRwLockStdMutexStd_import_persistent"
  "TorrentsRwLockTokioMutexTokio_remove = TorrentsRwLockStdMutexStd_remove"
  "TorrentsRwLockTokioMutexTokio_remove_inactive_peers = TorrentsRwLockStdMutexStd_remove_inactive_peers"
  unfolding TorrentsRwLockTokioMutexTokio_default_def TorrentsRwLockStdMutexStd_default_def TorrentsRwLockTokioMutexTokio_upsert_peer_def TorrentsRwLockStdMutexStd_upsert_peer_def
    TorrentsRwLockTokioMutexTokio_get_def TorrentsRwLockStdMutexStd_get_def TorrentsRwLockTokioMutexTokio_get_swarm_metadata_def TorrentsRwLockStdMutexStd_get_swarm_metadata_def
    TorrentsRwLockTokioMutexTokio_get_metrics_def TorrentsRwLockStdMutexStd_get_metrics_def TorrentsRwLockTokioMutexTokio_get_paginated_def TorrentsRwLockStdMutexStd_get_paginated_def
    TorrentsRwLockTokioMutexTokio_import_persistent_def TorrentsRwLockStdMutexStd_import_persistent_def TorrentsRwLockTokioMutexTokio_remove_def TorrentsRwLockStdMutexStd_remove_def
    TorrentsRwLockTokioMutexTokio_remove_inactive_peers_def TorrentsRwLockStdMutexStd_remove_inactive_peers_def lock_defs fun_eq_iff
  by (auto split: option.split)

lemma TorrentsRwLockTokioMutexTokio_peerless_same:
  "shared_ok s \<Longrightarrow> TorrentsRwLockTokioMutexTokio_remove_peerless_torrents pol s = TorrentsRwLockStdMutexStd_remove_peerless_torrents pol s"
  using filter_not_good_loop [of "torrents s" "\<lambda>r. with_lock (meets_retaining_policy pol) r (heap s)"]
  by (simp add: TorrentsRwLockTokioMutexTokio_remove_peerless_torrents_def TorrentsRwLockStdMutexStd_remove_peerless_torrents_def shared_ok_def
      fold_bt_remove not_good_loop lock_defs Let_def del: set_filter)

interpretation rw_lock_tokio_mutex_tokio: ordered_repository TorrentsRwLockTokioMutexTokio shared_ok shared_view
proof
  fix s :: BTreeShared and op assume ok: "shared_ok s"
  then show "shared_ok (repo_step TorrentsRwLockTokioMutexTokio op s)"
    by (cases op) (simp_all add: TorrentsRwLockTokioMutexTokio_def TorrentsRwLockTokioMutexTokio_same TorrentsRwLockTokioMutexTokio_peerless_same shared_repository_laws)
  from ok show "shared_view (repo_step TorrentsRwLockTokioMutexTokio op s) = spec_step op (shared_view s)"
    by (cases op) (simp_all add: TorrentsRwLockTokioMutexTokio_def TorrentsRwLockTokioMutexTokio_same TorrentsRwLockTokioMutexTokio_peerless_same shared_repository_laws)
qed (simp_all add: TorrentsRwLockTokioMutexTokio_def TorrentsRwLockTokioMutexTokio_same shared_repository_laws)

end
