(* ===== verification/Repository_SkipMap.thy ===== *)
theory Repository_SkipMap
  imports Repository_Shared
begin

text \<open>
  The repositories over the lock-free skip list of the \<open>crossbeam_skiplist\<close> crate
  (\<open>skip_map_mutex_std.rs\<close>): \<open>TorrentsSkipMapMutexStd\<close>, which the tracker uses, and its two
  variants with the locks of \<open>parking_lot\<close>. The skip list is a parameter: the record of the
  operations the code calls, with the documented behaviour as the locale \<open>skip_map\<close>. An ordered
  map satisfies it. Every skip list that satisfies it makes the three repositories satisfy the
  repository contract.
\<close>

section \<open>The skip list (parameter)\<close>

record 'm skip_map_api =
  sk_new :: 'm
  sk_get :: "'m \<Rightarrow> InfoHash \<Rightarrow> handle option"
  sk_get_or_insert :: "InfoHash \<Rightarrow> handle \<Rightarrow> 'm \<Rightarrow> handle \<times> 'm"
  sk_contains_key :: "'m \<Rightarrow> InfoHash \<Rightarrow> bool"
  sk_remove :: "InfoHash \<Rightarrow> 'm \<Rightarrow> handle option \<times> 'm"
  sk_iter :: "'m \<Rightarrow> (InfoHash \<times> handle) list"
  sk_entry_remove :: "InfoHash \<times> handle \<Rightarrow> 'm \<Rightarrow> 'm"

locale skip_map =
  fixes api :: "'m skip_map_api" and sk_ok :: "'m \<Rightarrow> bool"
  assumes new: "sk_ok (sk_new api)" "sk_get api (sk_new api) k = None"
    and get_or_insert_ok: "sk_ok m \<Longrightarrow> sk_ok (snd (sk_get_or_insert api k r m))"
    and get_or_insert: "sk_ok m \<Longrightarrow>
      sk_get api (snd (sk_get_or_insert api k r m)) =
        (sk_get api m)(k \<mapsto> fst (sk_get_or_insert api k r m))"
      "sk_ok m \<Longrightarrow>
      fst (sk_get_or_insert api k r m) = (case sk_get api m k of Some r' \<Rightarrow> r' | None \<Rightarrow> r)"
    and contains_key: "sk_ok m \<Longrightarrow> sk_contains_key api m k \<longleftrightarrow> sk_get api m k \<noteq> None"
    and remove_ok: "sk_ok m \<Longrightarrow> sk_ok (snd (sk_remove api k m))"
    and remove: "sk_ok m \<Longrightarrow> fst (sk_remove api k m) = sk_get api m k"
      "sk_ok m \<Longrightarrow> sk_get api (snd (sk_remove api k m)) = (sk_get api m)(k := None)"
    and entry_remove_ok: "sk_ok m \<Longrightarrow> sk_ok (sk_entry_remove api (k, r) m)"
    and entry_remove: "sk_ok m \<Longrightarrow> sk_get api m k = Some r \<Longrightarrow>
      sk_get api (sk_entry_remove api (k, r) m) = (sk_get api m)(k := None)"
    and iter: "sk_ok m \<Longrightarrow> bt_inv (sk_iter api m)" "sk_ok m \<Longrightarrow> bt_get (sk_iter api m) = sk_get api m"

text \<open>An ordered map as skip list.\<close>

definition bt_skip_map :: "(InfoHash, handle) btree_map skip_map_api" where
  "bt_skip_map =
     \<lparr>sk_new = bt_empty, sk_get = bt_get, sk_get_or_insert = bt_entry_or_insert,
      sk_contains_key = bt_contains_key, sk_remove = bt_remove, sk_iter = (\<lambda>m. m),
      sk_entry_remove = (\<lambda>(k, r). bt_del k)\<rparr>"

interpretation bt_skip: skip_map bt_skip_map bt_inv
  by unfold_locales
     (auto simp: bt_skip_map_def bt_entry_or_insert_def bt_contains_key_def bt_remove_def bt_get_put
       tracker_inv fun_eq_iff split: option.split)

section \<open>TorrentsSkipMapMutexStd\<close>

definition TorrentsSkipMapMutexStd_default :: "'m skip_map_api \<Rightarrow> 'm SharedTorrents" where
  "TorrentsSkipMapMutexStd_default api = \<lparr>torrents = sk_new api, heap = heap_empty\<rparr>"

definition TorrentsSkipMapMutexStd_upsert_peer :: "'m skip_map_api \<Rightarrow> InfoHash \<Rightarrow> Peer \<Rightarrow> 'm SharedTorrents \<Rightarrow> 'm SharedTorrents" where
  "TorrentsSkipMapMutexStd_upsert_peer api info_hash p s =
     (let (new, h) = arc_new Torrent_default (heap s);
          (entry, m) = sk_get_or_insert api info_hash new (torrents s)
      in s\<lparr>torrents := m, heap := snd (EntryMutexStd_upsert_peer p entry h)\<rparr>)"

definition TorrentsSkipMapMutexStd_get_swarm_metadata :: "'m skip_map_api \<Rightarrow> InfoHash \<Rightarrow> 'm SharedTorrents \<Rightarrow> SwarmMetadata option" where
  "TorrentsSkipMapMutexStd_get_swarm_metadata api info_hash s =
     map_option (\<lambda>entry. EntryMutexStd_get_swarm_metadata entry (heap s)) (sk_get api (torrents s) info_hash)"

definition TorrentsSkipMapMutexStd_get :: "'m skip_map_api \<Rightarrow> InfoHash \<Rightarrow> 'm SharedTorrents \<Rightarrow> handle option" where
  "TorrentsSkipMapMutexStd_get api key s = sk_get api (torrents s) key"

definition TorrentsSkipMapMutexStd_get_metrics :: "'m skip_map_api \<Rightarrow> 'm SharedTorrents \<Rightarrow> TorrentsMetrics" where
  "TorrentsSkipMapMutexStd_get_metrics api s =
     fold (\<lambda>entry. metrics_step (with_lock get_swarm_metadata (snd entry) (heap s)))
       (sk_iter api (torrents s)) TorrentsMetrics_default"

definition TorrentsSkipMapMutexStd_get_paginated ::
  "'m skip_map_api \<Rightarrow> Pagination option \<Rightarrow> 'm SharedTorrents \<Rightarrow> (InfoHash \<times> handle) list" where
  "TorrentsSkipMapMutexStd_get_paginated api pagination s = paginate pagination (sk_iter api (torrents s))"

definition TorrentsSkipMapMutexStd_import_persistent ::
  "'m skip_map_api \<Rightarrow> PersistentTorrents \<Rightarrow> 'm SharedTorrents \<Rightarrow> 'm SharedTorrents" where
  "TorrentsSkipMapMutexStd_import_persistent api persistent_torrents s =
     fold (\<lambda>(info_hash, n) s.
             if sk_contains_key api (torrents s) info_hash then s
             else
               (let (entry, h) = arc_new \<lparr>swarm = PeerList_default, t_downloaded = n\<rparr> (heap s)
                in s\<lparr>torrents := snd (sk_get_or_insert api info_hash entry (torrents s)), heap := h\<rparr>))
       persistent_torrents s"

definition TorrentsSkipMapMutexStd_remove :: "'m skip_map_api \<Rightarrow> InfoHash \<Rightarrow> 'm SharedTorrents \<Rightarrow> handle option \<times> 'm SharedTorrents" where
  "TorrentsSkipMapMutexStd_remove api key s =
     (let (entry, m) = sk_remove api key (torrents s) in (entry, s\<lparr>torrents := m\<rparr>))"

definition TorrentsSkipMapMutexStd_remove_inactive_peers ::
  "'m skip_map_api \<Rightarrow> DurationSinceUnixEpoch \<Rightarrow> 'm SharedTorrents \<Rightarrow> 'm SharedTorrents" where
  "TorrentsSkipMapMutexStd_remove_inactive_peers api current_cutoff s =
     s\<lparr>heap := fold (\<lambda>entry. EntryMutexStd_remove_inactive_peers current_cutoff (snd entry))
                 (sk_iter api (torrents s)) (heap s)\<rparr>"

definition TorrentsSkipMapMutexStd_remove_peerless_torrents ::
  "'m skip_map_api \<Rightarrow> TrackerPolicy \<Rightarrow> 'm SharedTorrents \<Rightarrow> 'm SharedTorrents" where
  "TorrentsSkipMapMutexStd_remove_peerless_torrents api pol s =
     fold (\<lambda>entry s.
             if EntryMutexStd_meets_retaining_policy pol (snd entry) (heap s) then s
             else s\<lparr>torrents := sk_entry_remove api entry (torrents s)\<rparr>)
       (sk_iter api (torrents s)) s"

definition TorrentsSkipMapMutexStd :: "'m skip_map_api \<Rightarrow> 'm SharedTorrents Repository" where
  "TorrentsSkipMapMutexStd api =
     \<lparr>repo_default = TorrentsSkipMapMutexStd_default api,
      repo_get = (\<lambda>key s. map_option (cells (heap s)) (TorrentsSkipMapMutexStd_get api key s)),
      repo_get_metrics = TorrentsSkipMapMutexStd_get_metrics api,
      repo_get_paginated = (\<lambda>pg s. map (\<lambda>(a, b). (a, cells (heap s) b)) (TorrentsSkipMapMutexStd_get_paginated api pg s)),
      repo_import_persistent = TorrentsSkipMapMutexStd_import_persistent api,
      repo_remove = (\<lambda>key s. apfst (map_option (cells (heap s))) (TorrentsSkipMapMutexStd_remove api key s)),
      repo_remove_inactive_peers = TorrentsSkipMapMutexStd_remove_inactive_peers api,
      repo_remove_peerless_torrents = TorrentsSkipMapMutexStd_remove_peerless_torrents api,
      repo_upsert_peer = TorrentsSkipMapMutexStd_upsert_peer api,
      repo_get_swarm_metadata = TorrentsSkipMapMutexStd_get_swarm_metadata api\<rparr>"

section \<open>TorrentsSkipMapRwLockParkingLot\<close>

definition TorrentsSkipMapRwLockParkingLot_default :: "'m skip_map_api \<Rightarrow> 'm SharedTorrents" where
  "TorrentsSkipMapRwLockParkingLot_default api = \<lparr>torrents = sk_new api, heap = heap_empty\<rparr>"

definition TorrentsSkipMapRwLockParkingLot_upsert_peer :: "'m skip_map_api \<Rightarrow> InfoHash \<Rightarrow> Peer \<Rightarrow> 'm SharedTorrents \<Rightarrow> 'm SharedTorrents" where
  "TorrentsSkipMapRwLockParkingLot_upsert_peer api info_hash p s =
     (let (new, h) = arc_new Torrent_default (heap s);
          (entry, m) = sk_get_or_insert api info_hash new (torrents s)
      in s\<lparr>torrents := m, heap := snd (EntryRwLockParkingLot_upsert_peer p entry h)\<rparr>)"

definition TorrentsSkipMapRwLockParkingLot_get_swarm_metadata :: "'m skip_map_api \<Rightarrow> InfoHash \<Rightarrow> 'm SharedTorrents \<Rightarrow> SwarmMetadata option" where
  "TorrentsSkipMapRwLockParkingLot_get_swarm_metadata api info_hash s =
     map_option (\<lambda>entry. EntryRwLockParkingLot_get_swarm_metadata entry (heap s)) (sk_get api (torrents s) info_hash)"

definition TorrentsSkipMapRwLockParkingLot_get :: "'m skip_map_api \<Rightarrow> InfoHash \<Rightarrow> 'm SharedTorrents \<Rightarrow> handle option" where
  "TorrentsSkipMapRwLockParkingLot_get api key s = sk_get api (torrents s) key"

definition TorrentsSkipMapRwLockParkingLot_get_metrics :: "'m skip_map_api \<Rightarrow> 'm SharedTorrents \<Rightarrow> TorrentsMetrics" where
  "TorrentsSkipMapRwLockParkingLot_get_metrics api s =
     fold (\<lambda>entry. metrics_step (with_lock get_swarm_metadata (snd entry) (heap s)))
       (sk_iter api (torrents s)) TorrentsMetrics_default"

definition TorrentsSkipMapRwLockParkingLot_get_paginated ::
  "'m skip_map_api \<Rightarrow> Pagination option \<Rightarrow> 'm SharedTorrents \<Rightarrow> (InfoHash \<times> handle) list" where
  "TorrentsSkipMapRwLockParkingLot_get_paginated api pagination s = paginate pagination (sk_iter api (torrents s))"

definition TorrentsSkipMapRwLockParkingLot_import_persistent ::
  "'m skip_map_api \<Rightarrow> PersistentTorrents \<Rightarrow> 'm SharedTorrents \<Rightarrow> 'm SharedTorrents" where
  "TorrentsSkipMapRwLockParkingLot_import_persistent api persistent_torrents s =
     fold (\<lambda>(info_hash, n) s.
             if sk_contains_key api (torrents s) info_hash then s
             else
               (let (entry, h) = arc_new \<lparr>swarm = PeerList_default, t_downloaded = n\<rparr> (heap s)
                in s\<lparr>torrents := snd (sk_get_or_insert api info_hash entry (torrents s)), heap := h\<rparr>))
       persistent_torrents s"

definition TorrentsSkipMapRwLockParkingLot_remove :: "'m skip_map_api \<Rightarrow> InfoHash \<Rightarrow> 'm SharedTorrents \<Rightarrow> handle option \<times> 'm SharedTorrents" where
  "TorrentsSkipMapRwLockParkingLot_remove api key s =
     (let (entry, m) = sk_remove api key (torrents s) in (entry, s\<lparr>torrents := m\<rparr>))"

definition TorrentsSkipMapRwLockParkingLot_remove_inactive_peers ::
  "'m skip_map_api \<Rightarrow> DurationSinceUnixEpoch \<Rightarrow> 'm SharedTorrents \<Rightarrow> 'm SharedTorrents" where
  "TorrentsSkipMapRwLockParkingLot_remove_inactive_peers api current_cutoff s =
     s\<lparr>heap := fold (\<lambda>entry. EntryRwLockParkingLot_remove_inactive_peers current_cutoff (snd entry))
                 (sk_iter api (torrents s)) (heap s)\<rparr>"

definition TorrentsSkipMapRwLockParkingLot_remove_peerless_torrents ::
  "'m skip_map_api \<Rightarrow> TrackerPolicy \<Rightarrow> 'm SharedTorrents \<Rightarrow> 'm SharedTorrents" where
  "TorrentsSkipMapRwLockParkingLot_remove_peerless_torrents api pol s =
     fold (\<lambda>entry s.
             if EntryRwLockParkingLot_meets_retaining_policy pol (snd entry) (heap s) then s
             else s\<lparr>torrents := sk_entry_remove api entry (torrents s)\<rparr>)
       (sk_iter api (torrents s)) s"

definition TorrentsSkipMapRwLockParkingLot :: "'m skip_map_api \<Rightarrow> 'm SharedTorrents Repository" where
  "TorrentsSkipMapRwLockParkingLot api =
     \<lparr>repo_default = TorrentsSkipMapRwLockParkingLot_default api,
      repo_get = (\<lambda>key s. map_option (cells (heap s)) (TorrentsSkipMapRwLockParkingLot_get api key s)),
      repo_get_metrics = TorrentsSkipMapRwLockParkingLot_get_metrics api,
      repo_get_paginated = (\<lambda>pg s. map (\<lambda>(a, b). (a, cells (heap s) b)) (TorrentsSkipMapRwLockParkingLot_get_paginated api pg s)),
      repo_import_persistent = TorrentsSkipMapRwLockParkingLot_import_persistent api,
      repo_remove = (\<lambda>key s. apfst (map_option (cells (heap s))) (TorrentsSkipMapRwLockParkingLot_remove api key s)),
      repo_remove_inactive_peers = TorrentsSkipMapRwLockParkingLot_remove_inactive_peers api,
      repo_remove_peerless_torrents = TorrentsSkipMapRwLockParkingLot_remove_peerless_torrents api,
      repo_upsert_peer = TorrentsSkipMapRwLockParkingLot_upsert_peer api,
      repo_get_swarm_metadata = TorrentsSkipMapRwLockParkingLot_get_swarm_metadata api\<rparr>"

section \<open>TorrentsSkipMapMutexParkingLot\<close>

definition TorrentsSkipMapMutexParkingLot_default :: "'m skip_map_api \<Rightarrow> 'm SharedTorrents" where
  "TorrentsSkipMapMutexParkingLot_default api = \<lparr>torrents = sk_new api, heap = heap_empty\<rparr>"

definition TorrentsSkipMapMutexParkingLot_upsert_peer :: "'m skip_map_api \<Rightarrow> InfoHash \<Rightarrow> Peer \<Rightarrow> 'm SharedTorrents \<Rightarrow> 'm SharedTorrents" where
  "TorrentsSkipMapMutexParkingLot_upsert_peer api info_hash p s =
     (let (new, h) = arc_new Torrent_default (heap s);
          (entry, m) = sk_get_or_insert api info_hash new (torrents s)
      in s\<lparr>torrents := m, heap := snd (EntryMutexParkingLot_upsert_peer p entry h)\<rparr>)"

definition TorrentsSkipMapMutexParkingLot_get_swarm_metadata :: "'m skip_map_api \<Rightarrow> InfoHash \<Rightarrow> 'm SharedTorrents \<Rightarrow> SwarmMetadata option" where
  "TorrentsSkipMapMutexParkingLot_get_swarm_metadata api info_hash s =
     map_option (\<lambda>entry. EntryMutexParkingLot_get_swarm_metadata entry (heap s)) (sk_get api (torrents s) info_hash)"

definition TorrentsSkipMapMutexParkingLot_get :: "'m skip_map_api \<Rightarrow> InfoHash \<Rightarrow> 'm SharedTorrents \<Rightarrow> handle option" where
  "TorrentsSkipMapMutexParkingLot_get api key s = sk_get api (torrents s) key"

definition TorrentsSkipMapMutexParkingLot_get_metrics :: "'m skip_map_api \<Rightarrow> 'm SharedTorrents \<Rightarrow> TorrentsMetrics" where
  "TorrentsSkipMapMutexParkingLot_get_metrics api s =
     fold (\<lambda>entry. metrics_step (with_lock get_swarm_metadata (snd entry) (heap s)))
       (sk_iter api (torrents s)) TorrentsMetrics_default"

definition TorrentsSkipMapMutexParkingLot_get_paginated ::
  "'m skip_map_api \<Rightarrow> Pagination option \<Rightarrow> 'm SharedTorrents \<Rightarrow> (InfoHash \<times> handle) list" where
  "TorrentsSkipMapMutexParkingLot_get_paginated api pagination s = paginate pagination (sk_iter api (torrents s))"

definition TorrentsSkipMapMutexParkingLot_import_persistent ::
  "'m skip_map_api \<Rightarrow> PersistentTorrents \<Rightarrow> 'm SharedTorrents \<Rightarrow> 'm SharedTorrents" where
  "TorrentsSkipMapMutexParkingLot_import_persistent api persistent_torrents s =
     fold (\<lambda>(info_hash, n) s.
             if sk_contains_key api (torrents s) info_hash then s
             else
               (let (entry, h) = arc_new \<lparr>swarm = PeerList_default, t_downloaded = n\<rparr> (heap s)
                in s\<lparr>torrents := snd (sk_get_or_insert api info_hash entry (torrents s)), heap := h\<rparr>))
       persistent_torrents s"

definition TorrentsSkipMapMutexParkingLot_remove :: "'m skip_map_api \<Rightarrow> InfoHash \<Rightarrow> 'm SharedTorrents \<Rightarrow> handle option \<times> 'm SharedTorrents" where
  "TorrentsSkipMapMutexParkingLot_remove api key s =
     (let (entry, m) = sk_remove api key (torrents s) in (entry, s\<lparr>torrents := m\<rparr>))"

definition TorrentsSkipMapMutexParkingLot_remove_inactive_peers ::
  "'m skip_map_api \<Rightarrow> DurationSinceUnixEpoch \<Rightarrow> 'm SharedTorrents \<Rightarrow> 'm SharedTorrents" where
  "TorrentsSkipMapMutexParkingLot_remove_inactive_peers api current_cutoff s =
     s\<lparr>heap := fold (\<lambda>entry. EntryMutexParkingLot_remove_inactive_peers current_cutoff (snd entry))
                 (sk_iter api (torrents s)) (heap s)\<rparr>"

definition TorrentsSkipMapMutexParkingLot_remove_peerless_torrents ::
  "'m skip_map_api \<Rightarrow> TrackerPolicy \<Rightarrow> 'm SharedTorrents \<Rightarrow> 'm SharedTorrents" where
  "TorrentsSkipMapMutexParkingLot_remove_peerless_torrents api pol s =
     fold (\<lambda>entry s.
             if EntryMutexParkingLot_meets_retaining_policy pol (snd entry) (heap s) then s
             else s\<lparr>torrents := sk_entry_remove api entry (torrents s)\<rparr>)
       (sk_iter api (torrents s)) s"

definition TorrentsSkipMapMutexParkingLot :: "'m skip_map_api \<Rightarrow> 'm SharedTorrents Repository" where
  "TorrentsSkipMapMutexParkingLot api =
     \<lparr>repo_default = TorrentsSkipMapMutexParkingLot_default api,
      repo_get = (\<lambda>key s. map_option (cells (heap s)) (TorrentsSkipMapMutexParkingLot_get api key s)),
      repo_get_metrics = TorrentsSkipMapMutexParkingLot_get_metrics api,
      repo_get_paginated = (\<lambda>pg s. map (\<lambda>(a, b). (a, cells (heap s) b)) (TorrentsSkipMapMutexParkingLot_get_paginated api pg s)),
      repo_import_persistent = TorrentsSkipMapMutexParkingLot_import_persistent api,
      repo_remove = (\<lambda>key s. apfst (map_option (cells (heap s))) (TorrentsSkipMapMutexParkingLot_remove api key s)),
      repo_remove_inactive_peers = TorrentsSkipMapMutexParkingLot_remove_inactive_peers api,
      repo_remove_peerless_torrents = TorrentsSkipMapMutexParkingLot_remove_peerless_torrents api,
      repo_upsert_peer = TorrentsSkipMapMutexParkingLot_upsert_peer api,
      repo_get_swarm_metadata = TorrentsSkipMapMutexParkingLot_get_swarm_metadata api\<rparr>"

section \<open>The two steps of an upsert\<close>

text \<open>
  The upsert of the tracker's repository is not atomic: it takes the handle from the skip list and
  then locks the entry. The two steps, for interleavings with other operations.
\<close>

definition TorrentsSkipMapMutexStd_upsert_peer_acquire ::
  "'m skip_map_api \<Rightarrow> InfoHash \<Rightarrow> 'm SharedTorrents \<Rightarrow> handle \<times> 'm SharedTorrents" where
  "TorrentsSkipMapMutexStd_upsert_peer_acquire api info_hash s =
     (let (new, h) = arc_new Torrent_default (heap s);
          (entry, m) = sk_get_or_insert api info_hash new (torrents s)
      in (entry, s\<lparr>torrents := m, heap := h\<rparr>))"

definition TorrentsSkipMapMutexStd_upsert_peer_apply :: "Peer \<Rightarrow> handle \<Rightarrow> 'm SharedTorrents \<Rightarrow> 'm SharedTorrents" where
  "TorrentsSkipMapMutexStd_upsert_peer_apply p entry s = s\<lparr>heap := snd (EntryMutexStd_upsert_peer p entry (heap s))\<rparr>"

lemma TorrentsSkipMapMutexStd_upsert_peer_steps:
  "TorrentsSkipMapMutexStd_upsert_peer api ih p s =
     (let (entry, s1) = TorrentsSkipMapMutexStd_upsert_peer_acquire api ih s in TorrentsSkipMapMutexStd_upsert_peer_apply p entry s1)"
  by (simp add: TorrentsSkipMapMutexStd_upsert_peer_def TorrentsSkipMapMutexStd_upsert_peer_acquire_def TorrentsSkipMapMutexStd_upsert_peer_apply_def
      case_prod_unfold Let_def)

section \<open>The contract holds\<close>

definition skip_ok :: "'m skip_map_api \<Rightarrow> ('m \<Rightarrow> bool) \<Rightarrow> 'm SharedTorrents \<Rightarrow> bool" where
  "skip_ok api sk_ok s = (sk_ok (torrents s) \<and> handles_ok (sk_get api (torrents s)) (heap s))"

definition skip_view :: "'m skip_map_api \<Rightarrow> 'm SharedTorrents \<Rightarrow> torrents_view" where
  "skip_view api s = heap_view (sk_get api (torrents s)) (heap s)"

context skip_map
begin

lemma iter_graph:
  assumes "sk_ok m"
  shows "distinct (map fst (sk_iter api m))"
    and "set (sk_iter api m) = {(k, r). sk_get api m k = Some r}"
  using iter [OF assms] bt_graph [of "sk_iter api m"] by auto

lemma skip_initial: "skip_ok api sk_ok (TorrentsSkipMapMutexStd_default api)" "skip_view api (TorrentsSkipMapMutexStd_default api) = (\<lambda>_. None)"
proof -
  have "sk_get api (sk_new api) = (\<lambda>_. None)"
    using new(2) by (simp add: fun_eq_iff)
  then show "skip_ok api sk_ok (TorrentsSkipMapMutexStd_default api)" "skip_view api (TorrentsSkipMapMutexStd_default api) = (\<lambda>_. None)"
    by (simp_all add: TorrentsSkipMapMutexStd_default_def skip_ok_def skip_view_def new(1))
qed

lemma skip_acquire:
  fixes s ih
  defines "r \<equiv> fst (TorrentsSkipMapMutexStd_upsert_peer_acquire api ih s)" and "s1 \<equiv> snd (TorrentsSkipMapMutexStd_upsert_peer_acquire api ih s)"
  assumes "skip_ok api sk_ok s"
  shows "skip_ok api sk_ok s1"
    and "sk_get api (torrents s1) = (sk_get api (torrents s))(ih \<mapsto> r)"
    and "skip_view api s1 = (skip_view api s)(ih \<mapsto> entry_or_default (skip_view api s) ih)"
    and "cells (heap s1) r = entry_or_default (skip_view api s) ih"
proof -
  let ?ix = "sk_get api (torrents s)"
  let ?n = "fst (arc_new Torrent_default (heap s))" and ?h = "snd (arc_new Torrent_default (heap s))"
  have sk: "sk_ok (torrents s)" and ok: "handles_ok ?ix (heap s)"
    using assms(3) by (simp_all add: skip_ok_def)
  have s1: "torrents s1 = snd (sk_get_or_insert api ih ?n (torrents s))" "heap s1 = ?h"
    and r: "r = fst (sk_get_or_insert api ih ?n (torrents s))"
    by (simp_all add: r_def s1_def TorrentsSkipMapMutexStd_upsert_peer_acquire_def case_prod_unfold Let_def)
  show get: "sk_get api (torrents s1) = ?ix(ih \<mapsto> r)"
    by (simp add: s1 r get_or_insert(1) sk)
  have "handles_ok (?ix(ih \<mapsto> r)) ?h \<and>
        heap_view (?ix(ih \<mapsto> r)) ?h = (heap_view ?ix (heap s))(ih \<mapsto> cells ?h r) \<and>
        cells ?h r = entry_or_default (heap_view ?ix (heap s)) ih"
  proof (cases "?ix ih")
    case None
    then have "r = ?n" by (simp add: r get_or_insert(2) sk)
    then show ?thesis
      using None handles_ok_insert [OF ok] heap_view_insert [OF ok]
      by (simp add: entry_or_default_def heap_view_lookup) (simp add: arc_new_def)
  next
    case (Some r')
    then have "r = r'" by (simp add: r get_or_insert(2) sk)
    moreover have "cells ?h r' = cells (heap s) r'"
      using handles_ok_fresh [OF ok Some] by (simp add: arc_new_def)
    ultimately show ?thesis
      using Some handles_ok_alloc [OF ok] heap_view_alloc [OF ok]
      by (simp add: entry_or_default_def heap_view_lookup map_upd_triv)
  qed
  then show "skip_ok api sk_ok s1"
    and "skip_view api s1 = (skip_view api s)(ih \<mapsto> entry_or_default (skip_view api s) ih)"
    and "cells (heap s1) r = entry_or_default (skip_view api s) ih"
    using get by (simp_all add: skip_ok_def skip_view_def s1 get_or_insert_ok sk)
qed

lemma skip_upsert:
  assumes "skip_ok api sk_ok s"
  shows "skip_ok api sk_ok (TorrentsSkipMapMutexStd_upsert_peer api ih p s)"
    and "skip_view api (TorrentsSkipMapMutexStd_upsert_peer api ih p s) = spec_upsert ih p (skip_view api s)"
proof -
  define r where "r = fst (TorrentsSkipMapMutexStd_upsert_peer_acquire api ih s)"
  define s1 where "s1 = snd (TorrentsSkipMapMutexStd_upsert_peer_acquire api ih s)"
  note acq = skip_acquire [OF assms, of ih, folded r_def s1_def]
  have s': "TorrentsSkipMapMutexStd_upsert_peer api ih p s = s1\<lparr>heap := snd (with_lock_mut (upsert_peer p) r (heap s1))\<rparr>"
    by (simp add: r_def s1_def TorrentsSkipMapMutexStd_upsert_peer_def TorrentsSkipMapMutexStd_upsert_peer_acquire_def lock_defs
        case_prod_unfold Let_def)
  have ok: "handles_ok (sk_get api (torrents s1)) (heap s1)"
    using acq(1) by (simp add: skip_ok_def)
  show "skip_ok api sk_ok (TorrentsSkipMapMutexStd_upsert_peer api ih p s)"
    and "skip_view api (TorrentsSkipMapMutexStd_upsert_peer api ih p s) = spec_upsert ih p (skip_view api s)"
    using acq heap_view_update [OF ok, of ih r "upsert_peer p"]
    by (simp_all add: s' skip_ok_def skip_view_def handles_ok_update spec_upsert_def)
qed

lemma skip_import:
  assumes "skip_ok api sk_ok s"
  shows "skip_ok api sk_ok (TorrentsSkipMapMutexStd_import_persistent api pts s) \<and>
         skip_view api (TorrentsSkipMapMutexStd_import_persistent api pts s) = spec_import pts (skip_view api s)"
  unfolding TorrentsSkipMapMutexStd_import_persistent_def
  using assms
  by (rule import_loop [where ok = "skip_ok api sk_ok" and view = "skip_view api"])
     (auto simp: import_one_def skip_ok_def skip_view_def contains_key get_or_insert get_or_insert_ok
       handles_ok_insert heap_view_insert heap_view_lookup case_prod_unfold Let_def)

lemma skip_inactive:
  assumes "skip_ok api sk_ok s"
  shows "skip_ok api sk_ok (TorrentsSkipMapMutexStd_remove_inactive_peers api cutoff s)"
    and "skip_view api (TorrentsSkipMapMutexStd_remove_inactive_peers api cutoff s) = spec_remove_inactive cutoff (skip_view api s)"
proof -
  let ?h = "fold (\<lambda>r h. snd (with_lock_mut (\<lambda>t. ((), remove_inactive_peers cutoff t)) r h))
              (map snd (sk_iter api (torrents s))) (heap s)"
  have eq: "TorrentsSkipMapMutexStd_remove_inactive_peers api cutoff s = s\<lparr>heap := ?h\<rparr>"
    by (simp add: TorrentsSkipMapMutexStd_remove_inactive_peers_def lock_loop fold_map comp_def)
  show "skip_ok api sk_ok (TorrentsSkipMapMutexStd_remove_inactive_peers api cutoff s)"
    and "skip_view api (TorrentsSkipMapMutexStd_remove_inactive_peers api cutoff s) = spec_remove_inactive cutoff (skip_view api s)"
    unfolding eq using assms heap_view_loop [OF _ iter_graph, of "torrents s" "heap s" cutoff]
    by (simp_all add: skip_ok_def skip_view_def handles_ok_loop)
qed

lemma peerless_loop:
  fixes pol
  defines "f \<equiv> \<lambda>entry s.
             if EntryMutexStd_meets_retaining_policy pol (snd entry) (heap s) then s
             else s\<lparr>torrents := sk_entry_remove api entry (torrents s)\<rparr>"
  assumes "sk_ok (torrents s)" and "distinct (map fst es)"
    and "\<forall>(k, r) \<in> set es. sk_get api (torrents s) k = Some r"
  shows "heap (fold f es s) = heap s \<and> sk_ok (torrents (fold f es s)) \<and>
         (\<forall>k. sk_get api (torrents (fold f es s)) k =
              (case map_of es k of
                 None \<Rightarrow> sk_get api (torrents s) k
               | Some r \<Rightarrow> if meets_retaining_policy pol (cells (heap s) r) then Some r else None))"
  using assms(2-4)
proof (induction es arbitrary: s)
  case (Cons e es)
  obtain k r where e: "e = (k, r)" by fastforce
  have ok: "sk_ok (torrents (f e s))"
    using Cons.prems(1) by (simp add: f_def e entry_remove_ok)
  have get: "sk_get api (torrents (f e s)) =
             (if meets_retaining_policy pol (cells (heap s) r) then sk_get api (torrents s)
              else (sk_get api (torrents s))(k := None))"
    using Cons.prems by (simp add: f_def e entry_remove lock_defs with_lock_def)
  have h: "heap (f e s) = heap s"
    by (simp add: f_def)
  have k: "map_of es k = None"
    using Cons.prems(2) by (simp add: e map_of_eq_None_iff)
  have "sk_get api (torrents (f e s)) k' = Some r'" if "(k', r') \<in> set es" for k' r'
  proof -
    have "k' \<noteq> k"
      using that k by (force simp: map_of_eq_None_iff)
    then show ?thesis
      using that Cons.prems(3) by (auto simp: get)
  qed
  then have all: "\<forall>(k', r') \<in> set es. sk_get api (torrents (f e s)) k' = Some r'"
    by blast
  have IH: "heap (fold f es (f e s)) = heap s" "sk_ok (torrents (fold f es (f e s)))"
    "\<And>k. sk_get api (torrents (fold f es (f e s))) k =
          (case map_of es k of
             None \<Rightarrow> sk_get api (torrents (f e s)) k
           | Some r \<Rightarrow> if meets_retaining_policy pol (cells (heap s) r) then Some r else None)"
    using Cons.IH [OF ok _ all, unfolded h] Cons.prems(2) by simp_all
  show ?case
    using Cons.prems(3) by (auto simp: IH [unfolded e] get [unfolded e] k e split: option.split)
qed simp

lemma skip_peerless:
  assumes "skip_ok api sk_ok s"
  shows "skip_ok api sk_ok (TorrentsSkipMapMutexStd_remove_peerless_torrents api pol s)"
    and "skip_view api (TorrentsSkipMapMutexStd_remove_peerless_torrents api pol s) = spec_remove_peerless pol (skip_view api s)"
proof -
  let ?s = "TorrentsSkipMapMutexStd_remove_peerless_torrents api pol s" and ?ix = "sk_get api (torrents s)"
  have sk: "sk_ok (torrents s)" and ok: "handles_ok ?ix (heap s)"
    using assms by (simp_all add: skip_ok_def)
  have es: "map_of (sk_iter api (torrents s)) = ?ix"
    using iter(2) [OF sk] unfolding bt_get_def by blast
  have r: "heap ?s = heap s" "sk_ok (torrents ?s)"
    "\<And>k. sk_get api (torrents ?s) k =
          (case ?ix k of None \<Rightarrow> None
           | Some r \<Rightarrow> if meets_retaining_policy pol (cells (heap s) r) then Some r else None)"
    using peerless_loop [of s "sk_iter api (torrents s)" pol] iter_graph [OF sk] sk es
    by (auto simp: TorrentsSkipMapMutexStd_remove_peerless_torrents_def split: option.splits)
  show "skip_ok api sk_ok ?s" and "skip_view api ?s = spec_remove_peerless pol (skip_view api s)"
    using handles_ok_prune [OF ok r(3)] heap_view_prune [OF r(3)] r(1, 2)
    by (simp_all add: skip_ok_def skip_view_def)
qed

lemma skip_remove:
  assumes "skip_ok api sk_ok s"
  shows "skip_ok api sk_ok (snd (TorrentsSkipMapMutexStd_remove api ih s))"
    and "skip_view api (snd (TorrentsSkipMapMutexStd_remove api ih s)) = (skip_view api s)(ih := None)"
    and "map_option (cells (heap s)) (fst (TorrentsSkipMapMutexStd_remove api ih s)) = skip_view api s ih"
  using assms
  by (simp_all add: skip_ok_def skip_view_def TorrentsSkipMapMutexStd_remove_def remove remove_ok case_prod_unfold
      handles_ok_delete heap_view_delete heap_view_lookup)

lemma skip_reads:
  assumes "skip_ok api sk_ok s"
  shows "TorrentsSkipMapMutexStd_get_metrics api s = spec_metrics (skip_view api s)"
    and "map (\<lambda>(a, b). (a, cells (heap s) b)) (TorrentsSkipMapMutexStd_get_paginated api pg s) =
         paginate pg (spec_entries (skip_view api s))"
    and "map_option (cells (heap s)) (TorrentsSkipMapMutexStd_get api ih s) = skip_view api s ih"
    and "TorrentsSkipMapMutexStd_get_swarm_metadata api ih s = map_option get_swarm_metadata (skip_view api s ih)"
proof -
  let ?es = "bt_map_values (cells (heap s)) (sk_iter api (torrents s))"
  have sk: "sk_ok (torrents s)"
    using assms by (simp add: skip_ok_def)
  show "TorrentsSkipMapMutexStd_get_metrics api s = spec_metrics (skip_view api s)"
    using heap_metrics_loop [OF iter_graph [OF sk]]
    by (simp add: TorrentsSkipMapMutexStd_get_metrics_def fold_map comp_def skip_view_def)
  show "map_option (cells (heap s)) (TorrentsSkipMapMutexStd_get api ih s) = skip_view api s ih"
    by (simp add: TorrentsSkipMapMutexStd_get_def skip_view_def heap_view_lookup)
  show "TorrentsSkipMapMutexStd_get_swarm_metadata api ih s = map_option get_swarm_metadata (skip_view api s ih)"
    by (simp add: TorrentsSkipMapMutexStd_get_swarm_metadata_def lock_defs with_lock_def skip_view_def heap_view_lookup
        option.map_comp comp_def)
  have "skip_view api s = bt_get ?es"
    using iter(2) [OF sk] by (simp add: skip_view_def heap_view_def fun_eq_iff)
  then show "map (\<lambda>(a, b). (a, cells (heap s) b)) (TorrentsSkipMapMutexStd_get_paginated api pg s) =
             paginate pg (spec_entries (skip_view api s))"
    using iter(1) [OF sk]
    by (simp add: TorrentsSkipMapMutexStd_get_paginated_def spec_entries_bt) (simp add: bt_map_values_def paginate_map)
qed

lemma skip_entries:
  assumes "skip_ok api sk_ok s"
  shows "\<exists>es. distinct (map fst es) \<and> set es = {(k, t). skip_view api s k = Some t} \<and>
              (\<forall>pg. paginate pg (spec_entries (skip_view api s)) = paginate pg es)"
proof -
  have "finite (dom (skip_view api s))"
    using assms by (auto simp: skip_ok_def skip_view_def heap_view_def handles_ok_def dom_def
        elim!: finite_subset [rotated])
  then show ?thesis
    using spec_entries_graph [of "skip_view api s"]
    by (intro exI [of _ "spec_entries (skip_view api s)"]) simp
qed

lemmas skip_repository_laws =
  skip_initial skip_upsert skip_import skip_inactive skip_peerless skip_remove skip_reads skip_entries

end

sublocale skip_map \<subseteq> mutex_std: ordered_repository "TorrentsSkipMapMutexStd api" "skip_ok api sk_ok" "skip_view api"
proof
  fix s op assume ok: "skip_ok api sk_ok s"
  then show "skip_ok api sk_ok (repo_step (TorrentsSkipMapMutexStd api) op s)"
    by (cases op) (simp_all add: TorrentsSkipMapMutexStd_def skip_repository_laws)
  from ok show "skip_view api (repo_step (TorrentsSkipMapMutexStd api) op s) = spec_step op (skip_view api s)"
    by (cases op) (simp_all add: TorrentsSkipMapMutexStd_def skip_repository_laws)
qed (simp_all add: TorrentsSkipMapMutexStd_def skip_repository_laws)

text \<open>The operations of TorrentsSkipMapRwLockParkingLot are those of TorrentsSkipMapMutexStd.\<close>

lemma TorrentsSkipMapRwLockParkingLot_same:
  "TorrentsSkipMapRwLockParkingLot_default = TorrentsSkipMapMutexStd_default"
  "TorrentsSkipMapRwLockParkingLot_upsert_peer = TorrentsSkipMapMutexStd_upsert_peer"
  "TorrentsSkipMapRwLockParkingLot_get = TorrentsSkipMapMutexStd_get"
  "TorrentsSkipMapRwLockParkingLot_get_swarm_metadata = TorrentsSkipMapMutexStd_get_swarm_metadata"
  "TorrentsSkipMapRwLockParkingLot_get_metrics = TorrentsSkipMapMutexStd_get_metrics"
  "TorrentsSkipMapRwLockParkingLot_get_paginated = TorrentsSkipMapMutexStd_get_paginated"
  "TorrentsSkipMapRwLockParkingLot_import_persistent = TorrentsSkipMapMutexStd_import_persistent"
  "TorrentsSkipMapRwLockParkingLot_remove = TorrentsSkipMapMutexStd_remove"
  "TorrentsSkipMapRwLockParkingLot_remove_inactive_peers = TorrentsSkipMapMutexStd_remove_inactive_peers"
  "TorrentsSkipMapRwLockParkingLot_remove_peerless_torrents = TorrentsSkipMapMutexStd_remove_peerless_torrents"
  unfolding TorrentsSkipMapRwLockParkingLot_default_def TorrentsSkipMapMutexStd_default_def TorrentsSkipMapRwLockParkingLot_upsert_peer_def TorrentsSkipMapMutexStd_upsert_peer_def
    TorrentsSkipMapRwLockParkingLot_get_def TorrentsSkipMapMutexStd_get_def TorrentsSkipMapRwLockParkingLot_get_swarm_metadata_def TorrentsSkipMapMutexStd_get_swarm_metadata_def
    TorrentsSkipMapRwLockParkingLot_get_metrics_def TorrentsSkipMapMutexStd_get_metrics_def TorrentsSkipMapRwLockParkingLot_get_paginated_def TorrentsSkipMapMutexStd_get_paginated_def
    TorrentsSkipMapRwLockParkingLot_import_persistent_def TorrentsSkipMapMutexStd_import_persistent_def TorrentsSkipMapRwLockParkingLot_remove_def TorrentsSkipMapMutexStd_remove_def
    TorrentsSkipMapRwLockParkingLot_remove_inactive_peers_def TorrentsSkipMapMutexStd_remove_inactive_peers_def TorrentsSkipMapRwLockParkingLot_remove_peerless_torrents_def
    TorrentsSkipMapMutexStd_remove_peerless_torrents_def lock_defs fun_eq_iff
  by simp_all

sublocale skip_map \<subseteq> rw_lock_pl: ordered_repository "TorrentsSkipMapRwLockParkingLot api" "skip_ok api sk_ok" "skip_view api"
proof
  fix s op assume ok: "skip_ok api sk_ok s"
  then show "skip_ok api sk_ok (repo_step (TorrentsSkipMapRwLockParkingLot api) op s)"
    by (cases op) (simp_all add: TorrentsSkipMapRwLockParkingLot_def TorrentsSkipMapRwLockParkingLot_same skip_repository_laws)
  from ok show "skip_view api (repo_step (TorrentsSkipMapRwLockParkingLot api) op s) = spec_step op (skip_view api s)"
    by (cases op) (simp_all add: TorrentsSkipMapRwLockParkingLot_def TorrentsSkipMapRwLockParkingLot_same skip_repository_laws)
qed (simp_all add: TorrentsSkipMapRwLockParkingLot_def TorrentsSkipMapRwLockParkingLot_same skip_repository_laws)

text \<open>The operations of TorrentsSkipMapMutexParkingLot are those of TorrentsSkipMapMutexStd.\<close>

lemma TorrentsSkipMapMutexParkingLot_same:
  "TorrentsSkipMapMutexParkingLot_default = TorrentsSkipMapMutexStd_default"
  "TorrentsSkipMapMutexParkingLot_upsert_peer = TorrentsSkipMapMutexStd_upsert_peer"
  "TorrentsSkipMapMutexParkingLot_get = TorrentsSkipMapMutexStd_get"
  "TorrentsSkipMapMutexParkingLot_get_swarm_metadata = TorrentsSkipMapMutexStd_get_swarm_metadata"
  "TorrentsSkipMapMutexParkingLot_get_metrics = TorrentsSkipMapMutexStd_get_metrics"
  "TorrentsSkipMapMutexParkingLot_get_paginated = TorrentsSkipMapMutexStd_get_paginated"
  "TorrentsSkipMapMutexParkingLot_import_persistent = TorrentsSkipMapMutexStd_import_persistent"
  "TorrentsSkipMapMutexParkingLot_remove = TorrentsSkipMapMutexStd_remove"
  "TorrentsSkipMapMutexParkingLot_remove_inactive_peers = TorrentsSkipMapMutexStd_remove_inactive_peers"
  "TorrentsSkipMapMutexParkingLot_remove_peerless_torrents = TorrentsSkipMapMutexStd_remove_peerless_torrents"
  unfolding TorrentsSkipMapMutexParkingLot_default_def TorrentsSkipMapMutexStd_default_def TorrentsSkipMapMutexParkingLot_upsert_peer_def TorrentsSkipMapMutexStd_upsert_peer_def
    TorrentsSkipMapMutexParkingLot_get_def TorrentsSkipMapMutexStd_get_def TorrentsSkipMapMutexParkingLot_get_swarm_metadata_def TorrentsSkipMapMutexStd_get_swarm_metadata_def
    TorrentsSkipMapMutexParkingLot_get_metrics_def TorrentsSkipMapMutexStd_get_metrics_def TorrentsSkipMapMutexParkingLot_get_paginated_def TorrentsSkipMapMutexStd_get_paginated_def
    TorrentsSkipMapMutexParkingLot_import_persistent_def TorrentsSkipMapMutexStd_import_persistent_def TorrentsSkipMapMutexParkingLot_remove_def TorrentsSkipMapMutexStd_remove_def
    TorrentsSkipMapMutexParkingLot_remove_inactive_peers_def TorrentsSkipMapMutexStd_remove_inactive_peers_def TorrentsSkipMapMutexParkingLot_remove_peerless_torrents_def
    TorrentsSkipMapMutexStd_remove_peerless_torrents_def lock_defs fun_eq_iff
  by simp_all

sublocale skip_map \<subseteq> mutex_pl: ordered_repository "TorrentsSkipMapMutexParkingLot api" "skip_ok api sk_ok" "skip_view api"
proof
  fix s op assume ok: "skip_ok api sk_ok s"
  then show "skip_ok api sk_ok (repo_step (TorrentsSkipMapMutexParkingLot api) op s)"
    by (cases op) (simp_all add: TorrentsSkipMapMutexParkingLot_def TorrentsSkipMapMutexParkingLot_same skip_repository_laws)
  from ok show "skip_view api (repo_step (TorrentsSkipMapMutexParkingLot api) op s) = spec_step op (skip_view api s)"
    by (cases op) (simp_all add: TorrentsSkipMapMutexParkingLot_def TorrentsSkipMapMutexParkingLot_same skip_repository_laws)
qed (simp_all add: TorrentsSkipMapMutexParkingLot_def TorrentsSkipMapMutexParkingLot_same skip_repository_laws)

text \<open>The contract of the three repositories, for use outside the locale.\<close>

context skip_map
begin

lemma mutex_std_contract: "ordered_repository (TorrentsSkipMapMutexStd api) (skip_ok api sk_ok) (skip_view api)"
  by (rule mutex_std.ordered_repository_axioms)

lemma mutex_pl_contract: "ordered_repository (TorrentsSkipMapMutexParkingLot api) (skip_ok api sk_ok) (skip_view api)"
  by (rule mutex_pl.ordered_repository_axioms)

lemma rw_lock_pl_contract: "ordered_repository (TorrentsSkipMapRwLockParkingLot api) (skip_ok api sk_ok) (skip_view api)"
  by (rule rw_lock_pl.ordered_repository_axioms)

end

end
