(* ===== verification/Authentication_Key.thy ===== *)
theory Authentication_Key
  imports Clock
begin

text \<open>
  Peer keys (\<open>packages/tracker-core/src/authentication/key\<close>): parsing and printing of keys,
  generation and expiration. A Rust \<open>str\<close> is the list of its UTF-8 bytes as characters, so
  \<open>str::len\<close> is the length of the list, and a non-ASCII character has only bytes above 127.
\<close>

definition is_ascii_alphanumeric :: "char \<Rightarrow> bool" where
  "is_ascii_alphanumeric c =
     (let n = (of_char c :: nat)
      in (48 \<le> n \<and> n \<le> 57) \<or> (65 \<le> n \<and> n \<le> 90) \<or> (97 \<le> n \<and> n \<le> 122))"

section \<open>Keys (peer\_key.rs)\<close>

definition AUTH_KEY_LENGTH :: usize where
  "AUTH_KEY_LENGTH = 32"

datatype ParseKeyError = InvalidKeyLength | InvalidChars

datatype Key = Key (key_value: string)

definition Key_new :: "string \<Rightarrow> (ParseKeyError, Key) result" where
  "Key_new s =
     (if length s \<noteq> AUTH_KEY_LENGTH then Inl InvalidKeyLength
      else if \<not> list_all is_ascii_alphanumeric s then Inl InvalidChars
      else Inr (Key s))"

definition Key_from_str :: "string \<Rightarrow> (ParseKeyError, Key) result" where
  "Key_from_str s = (case Key_new s of Inl e \<Rightarrow> Inl e | Inr _ \<Rightarrow> Inr (Key s))"

text \<open>
  \<open>Key::random\<close>: the parameter is the stream of characters drawn from the \<open>rand\<close> crate; a panic
  of \<open>expect\<close> is \<^const>\<open>None\<close>.
\<close>

definition Key_random :: "(nat \<Rightarrow> char) \<Rightarrow> Key option" where
  "Key_random rng =
     (case Key_from_str (map rng [0..<AUTH_KEY_LENGTH]) of Inl _ \<Rightarrow> None | Inr k \<Rightarrow> Some k)"

record PeerKey =
  pk_key :: Key
  valid_until :: "DurationSinceUnixEpoch option"

definition PeerKey_eq :: "PeerKey \<Rightarrow> PeerKey \<Rightarrow> bool" where
  "PeerKey_eq a b =
     (pk_key a = pk_key b \<and>
      (case (valid_until a, valid_until b) of
         (Some x, Some y) \<Rightarrow> as_secs x = as_secs y
       | (None, None) \<Rightarrow> True
       | _ \<Rightarrow> False))"

definition expiry_time :: "(i64 \<Rightarrow> u32 \<Rightarrow> 'dt option) \<Rightarrow> PeerKey \<Rightarrow> 'dt option option" where
  "expiry_time from_timestamp k =
     (case valid_until k of
        None \<Rightarrow> Some None
      | Some d \<Rightarrow>
          map_option Some (convert_from_timestamp_to_datetime_utc from_timestamp (from_secs (as_secs d))))"

section \<open>Generation and expiration (mod.rs)\<close>

datatype KeyError = KeyVerificationError | UnableToReadKey Key | KeyExpired

text \<open>\<open>generate_key\<close>: \<^const>\<open>None\<close> where the \<open>unwrap\<close> of the checked addition panics.\<close>

definition generate_key ::
  "(nat \<Rightarrow> char) \<Rightarrow> DurationSinceUnixEpoch \<Rightarrow> Duration option \<Rightarrow> PeerKey option" where
  "generate_key rng now lifetime =
     (case Key_random rng of
        None \<Rightarrow> None
      | Some random_key \<Rightarrow>
          (case lifetime of
             Some d \<Rightarrow>
               (case now_add now d of
                  None \<Rightarrow> None
                | Some t \<Rightarrow> Some \<lparr>pk_key = random_key, valid_until = Some t\<rparr>)
           | None \<Rightarrow> Some \<lparr>pk_key = random_key, valid_until = None\<rparr>))"

definition verify_key_expiration :: "DurationSinceUnixEpoch \<Rightarrow> PeerKey \<Rightarrow> (KeyError, unit) result" where
  "verify_key_expiration now auth_key =
     (case valid_until auth_key of
        Some t \<Rightarrow> if t < now then Inl KeyExpired else Inr ()
      | None \<Rightarrow> Inr ())"

section \<open>Lemmas\<close>

text \<open>A key that parsing can produce.\<close>

definition key_valid :: "Key \<Rightarrow> bool" where
  "key_valid k = (Key_from_str (key_value k) = Inr k)"

lemma key_valid_from_str: "Key_from_str s = Inr k \<Longrightarrow> key_valid k"
  by (auto simp: key_valid_def Key_from_str_def Key_new_def split: if_splits)

lemma key_valid_random: "Key_random rng = Some k \<Longrightarrow> key_valid k"
  by (auto simp: Key_random_def intro: key_valid_from_str split: sum.splits)

lemma Key_new_ok:
  "Key_new s = Inr k \<longleftrightarrow> length s = 32 \<and> list_all is_ascii_alphanumeric s \<and> k = Key s"
  by (auto simp: Key_new_def AUTH_KEY_LENGTH_def)

lemma Key_from_str_new: "Key_from_str s = Key_new s"
  by (simp add: Key_from_str_def Key_new_def)

definition alphanumeric_source :: "(nat \<Rightarrow> char) \<Rightarrow> bool" where
  "alphanumeric_source rng = (\<forall>i. is_ascii_alphanumeric (rng i))"

lemma Key_random_ok:
  "alphanumeric_source rng \<Longrightarrow> Key_random rng = Some (Key (map rng [0..<32]))"
  by (simp add: Key_random_def Key_from_str_new Key_new_def AUTH_KEY_LENGTH_def list_all_iff
      alphanumeric_source_def)

text \<open>
  A text parses as a key exactly when it has 32 bytes, all of them ASCII letters or digits; the
  parsed key prints as the text it was parsed from; a text of another length is reported as such
  even when it also has invalid characters.
\<close>
theorem key_parse_exact:
  "(Key_from_str s = Inr k \<longleftrightarrow>
      length s = 32 \<and> (\<forall>c \<in> set s. is_ascii_alphanumeric c) \<and> key_value k = s) \<and>
   (Key_from_str s = Inl InvalidKeyLength \<longleftrightarrow> length s \<noteq> 32) \<and>
   (Key_from_str s = Inl InvalidChars \<longleftrightarrow> length s = 32 \<and> (\<exists>c \<in> set s. \<not> is_ascii_alphanumeric c))"
  by (cases k) (auto simp: Key_from_str_new Key_new_def AUTH_KEY_LENGTH_def list_all_iff)

theorem key_parse_exact_witness:
  "Key_from_str (replicate 32 CHR ''a'') = Inr (Key (replicate 32 CHR ''a'')) \<and>
   Key_from_str ''-'' = Inl InvalidKeyLength \<and>
   Key_from_str (replicate 32 CHR ''-'') = Inl InvalidChars"
  using key_parse_exact [of "replicate 32 CHR ''a''" "Key (replicate 32 CHR ''a'')"]
    key_parse_exact [of "''-''"] key_parse_exact [of "replicate 32 CHR ''-''"]
  by (simp add: is_ascii_alphanumeric_def of_char_def)

end
