(* ===== verification/Database_Contract.thy ===== *)
theory Database_Contract
  imports Authentication_Key
begin

text \<open>
  The persistence interface of the tracker (\<open>packages/tracker-core/src/databases/mod.rs\<close>) and
  what its clients rely on. The trait \<open>Database\<close> is the record of its operations. The contents
  of a database are viewed as the set of whitelisted info-hashes, the map from keys to the second
  until which they are valid, and the map from info-hashes to completed downloads. Any operation
  may fail; then it changes nothing.
\<close>

section \<open>Errors (error.rs)\<close>

text \<open>The location and the source of an error are not kept.\<close>

datatype DbError =
    QueryReturnedNoRows Driver
  | InvalidQuery Driver
  | InsertFailed Driver
  | DeleteFailed usize Driver
  | ConnectionError Driver
  | ConnectionPool Driver

section \<open>Trait Database\<close>

record 'db DatabaseTrait =
  load_persistent_torrents :: "'db \<Rightarrow> (DbError, PersistentTorrents) result"
  save_persistent_torrent :: "InfoHash \<Rightarrow> u32 \<Rightarrow> 'db \<Rightarrow> (DbError, unit) result \<times> 'db"
  load_whitelist :: "'db \<Rightarrow> (DbError, InfoHash list) result"
  get_info_hash_from_whitelist :: "InfoHash \<Rightarrow> 'db \<Rightarrow> (DbError, InfoHash option) result"
  add_info_hash_to_whitelist :: "InfoHash \<Rightarrow> 'db \<Rightarrow> (DbError, usize) result \<times> 'db"
  remove_info_hash_from_whitelist :: "InfoHash \<Rightarrow> 'db \<Rightarrow> (DbError, usize) result \<times> 'db"
  load_keys :: "'db \<Rightarrow> (DbError, PeerKey list) result"
  get_key_from_keys :: "Key \<Rightarrow> 'db \<Rightarrow> (DbError, PeerKey option) result"
  add_key_to_keys :: "PeerKey \<Rightarrow> 'db \<Rightarrow> (DbError, usize) result \<times> 'db"
  remove_key_from_keys :: "Key \<Rightarrow> 'db \<Rightarrow> (DbError, usize) result \<times> 'db"

definition is_info_hash_whitelisted ::
  "'db DatabaseTrait \<Rightarrow> InfoHash \<Rightarrow> 'db \<Rightarrow> (DbError, bool) result" where
  "is_info_hash_whitelisted D info_hash db =
     (case get_info_hash_from_whitelist D info_hash db of
        Inl e \<Rightarrow> Inl e
      | Inr r \<Rightarrow> Inr (r \<noteq> None))"

section \<open>The contract\<close>

record DbView =
  v_whitelist :: "InfoHash set"
  v_keys :: "Key \<rightharpoonup> u64 option"
  v_torrents :: "InfoHash \<rightharpoonup> u32"

text \<open>The row of a key: seconds only.\<close>

definition stored_validity :: "PeerKey \<Rightarrow> u64 option" where
  "stored_validity k = map_option as_secs (valid_until k)"

text \<open>What the contents are after an operation that succeeds, or changes nothing.\<close>

definition on_success :: "(DbError, 'a) result \<Rightarrow> DbView \<Rightarrow> DbView \<Rightarrow> DbView" where
  "on_success r v' v = (case r of Inr _ \<Rightarrow> v' | Inl _ \<Rightarrow> v)"

lemma on_success_simps [simp]:
  "on_success (Inr x) v' v = v'" "on_success (Inl e) v' v = v"
  by (simp_all add: on_success_def)

locale database =
  fixes D :: "'db DatabaseTrait" and ok :: "'db \<Rightarrow> bool" and view :: "'db \<Rightarrow> DbView"
    and storable :: "PeerKey \<Rightarrow> bool"
  assumes save_torrent: "ok db \<Longrightarrow> ok (snd (save_persistent_torrent D ih n db))"
      "ok db \<Longrightarrow> view (snd (save_persistent_torrent D ih n db)) =
        on_success (fst (save_persistent_torrent D ih n db))
          ((view db)\<lparr>v_torrents := (v_torrents (view db))(ih \<mapsto> n)\<rparr>) (view db)"
    and add_whitelist: "ok db \<Longrightarrow> ok (snd (add_info_hash_to_whitelist D ih db))"
      "ok db \<Longrightarrow> view (snd (add_info_hash_to_whitelist D ih db)) =
        on_success (fst (add_info_hash_to_whitelist D ih db))
          ((view db)\<lparr>v_whitelist := insert ih (v_whitelist (view db))\<rparr>) (view db)"
    and remove_whitelist: "ok db \<Longrightarrow> ok (snd (remove_info_hash_from_whitelist D ih db))"
      "ok db \<Longrightarrow> view (snd (remove_info_hash_from_whitelist D ih db)) =
        on_success (fst (remove_info_hash_from_whitelist D ih db))
          ((view db)\<lparr>v_whitelist := v_whitelist (view db) - {ih}\<rparr>) (view db)"
    and add_key: "ok db \<Longrightarrow> storable k \<Longrightarrow> ok (snd (add_key_to_keys D k db))"
      "ok db \<Longrightarrow> storable k \<Longrightarrow> view (snd (add_key_to_keys D k db)) =
        on_success (fst (add_key_to_keys D k db))
          ((view db)\<lparr>v_keys := (v_keys (view db))(pk_key k \<mapsto> stored_validity k)\<rparr>) (view db)"
    and remove_key: "ok db \<Longrightarrow> ok (snd (remove_key_from_keys D key db))"
      "ok db \<Longrightarrow> view (snd (remove_key_from_keys D key db)) =
        on_success (fst (remove_key_from_keys D key db))
          ((view db)\<lparr>v_keys := (v_keys (view db))(key := None)\<rparr>) (view db)"
    and load_torrents: "ok db \<Longrightarrow> load_persistent_torrents D db = Inr pts \<Longrightarrow> bt_inv pts"
      "ok db \<Longrightarrow> load_persistent_torrents D db = Inr pts \<Longrightarrow> bt_get pts = v_torrents (view db)"
    and load_whitelist: "ok db \<Longrightarrow> load_whitelist D db = Inr ihs \<Longrightarrow> set ihs = v_whitelist (view db)"
    and get_whitelist: "ok db \<Longrightarrow> get_info_hash_from_whitelist D ih db = Inr r \<Longrightarrow>
        r = (if ih \<in> v_whitelist (view db) then Some ih else None)"
    and load_keys: "ok db \<Longrightarrow> load_keys D db = Inr ks \<Longrightarrow> distinct (map pk_key ks)"
      "ok db \<Longrightarrow> load_keys D db = Inr ks \<Longrightarrow>
        {(pk_key k, valid_until k) | k. k \<in> set ks} =
        {(key, map_option from_secs s) | key s. v_keys (view db) key = Some s}"
    and get_key: "ok db \<Longrightarrow> get_key_from_keys D key db = Inr pk \<Longrightarrow>
        pk = map_option (\<lambda>s. \<lparr>pk_key = key, valid_until = map_option from_secs s\<rparr>) (v_keys (view db) key)"
begin

lemma is_whitelisted:
  "ok db \<Longrightarrow> is_info_hash_whitelisted D ih db = Inr b \<Longrightarrow> b = (ih \<in> v_whitelist (view db))"
  by (auto simp: is_info_hash_whitelisted_def dest!: get_whitelist split: sum.splits if_splits)

end

end
