(* ===== verification/Whitelist.thy ===== *)
theory Whitelist
  imports Database_Contract
begin

text \<open>
  The whitelist of torrents (\<open>packages/tracker-core/src/whitelist\<close>): the set in memory, the
  persisted list, the manager that keeps both, and the authorization of torrents in listed mode.
\<close>

section \<open>In memory (repository/in\_memory.rs)\<close>

record InMemoryWhitelist =
  whitelist :: "InfoHash set"

definition InMemoryWhitelist_add :: "InfoHash \<Rightarrow> InMemoryWhitelist \<Rightarrow> bool \<times> InMemoryWhitelist" where
  "InMemoryWhitelist_add info_hash w =
     (info_hash \<notin> whitelist w, w\<lparr>whitelist := insert info_hash (whitelist w)\<rparr>)"

definition InMemoryWhitelist_remove :: "InfoHash \<Rightarrow> InMemoryWhitelist \<Rightarrow> bool \<times> InMemoryWhitelist" where
  "InMemoryWhitelist_remove info_hash w =
     (info_hash \<in> whitelist w, w\<lparr>whitelist := whitelist w - {info_hash}\<rparr>)"

definition InMemoryWhitelist_contains :: "InfoHash \<Rightarrow> InMemoryWhitelist \<Rightarrow> bool" where
  "InMemoryWhitelist_contains info_hash w = (info_hash \<in> whitelist w)"

definition InMemoryWhitelist_clear :: "InMemoryWhitelist \<Rightarrow> InMemoryWhitelist" where
  "InMemoryWhitelist_clear w = w\<lparr>whitelist := {}\<rparr>"

section \<open>Persisted (repository/persisted.rs)\<close>

definition DatabaseWhitelist_add ::
  "'db DatabaseTrait \<Rightarrow> InfoHash \<Rightarrow> 'db \<Rightarrow> (DbError, unit) result \<times> 'db" where
  "DatabaseWhitelist_add D info_hash db =
     (case is_info_hash_whitelisted D info_hash db of
        Inl e \<Rightarrow> (Inl e, db)
      | Inr is_whitelisted \<Rightarrow>
          if is_whitelisted then (Inr (), db)
          else
            (case add_info_hash_to_whitelist D info_hash db of
               (Inl e, db') \<Rightarrow> (Inl e, db')
             | (Inr _, db') \<Rightarrow> (Inr (), db')))"

definition DatabaseWhitelist_remove ::
  "'db DatabaseTrait \<Rightarrow> InfoHash \<Rightarrow> 'db \<Rightarrow> (DbError, unit) result \<times> 'db" where
  "DatabaseWhitelist_remove D info_hash db =
     (case is_info_hash_whitelisted D info_hash db of
        Inl e \<Rightarrow> (Inl e, db)
      | Inr is_whitelisted \<Rightarrow>
          if \<not> is_whitelisted then (Inr (), db)
          else
            (case remove_info_hash_from_whitelist D info_hash db of
               (Inl e, db') \<Rightarrow> (Inl e, db')
             | (Inr _, db') \<Rightarrow> (Inr (), db')))"

definition DatabaseWhitelist_load_from_database ::
  "'db DatabaseTrait \<Rightarrow> 'db \<Rightarrow> (DbError, InfoHash list) result" where
  "DatabaseWhitelist_load_from_database D db = load_whitelist D db"

section \<open>Manager (manager.rs)\<close>

record 'db WhitelistManager =
  in_memory_whitelist :: InMemoryWhitelist
  database_whitelist :: 'db

definition add_torrent_to_whitelist ::
  "'db DatabaseTrait \<Rightarrow> InfoHash \<Rightarrow> 'db WhitelistManager \<Rightarrow> (DbError, unit) result \<times> 'db WhitelistManager" where
  "add_torrent_to_whitelist D info_hash s =
     (case DatabaseWhitelist_add D info_hash (database_whitelist s) of
        (Inl e, db) \<Rightarrow> (Inl e, s\<lparr>database_whitelist := db\<rparr>)
      | (Inr _, db) \<Rightarrow>
          (Inr (),
           s\<lparr>database_whitelist := db,
             in_memory_whitelist := snd (InMemoryWhitelist_add info_hash (in_memory_whitelist s))\<rparr>))"

definition remove_torrent_from_whitelist ::
  "'db DatabaseTrait \<Rightarrow> InfoHash \<Rightarrow> 'db WhitelistManager \<Rightarrow> (DbError, unit) result \<times> 'db WhitelistManager" where
  "remove_torrent_from_whitelist D info_hash s =
     (case DatabaseWhitelist_remove D info_hash (database_whitelist s) of
        (Inl e, db) \<Rightarrow> (Inl e, s\<lparr>database_whitelist := db\<rparr>)
      | (Inr _, db) \<Rightarrow>
          (Inr (),
           s\<lparr>database_whitelist := db,
             in_memory_whitelist := snd (InMemoryWhitelist_remove info_hash (in_memory_whitelist s))\<rparr>))"

definition load_whitelist_from_database ::
  "'db DatabaseTrait \<Rightarrow> 'db WhitelistManager \<Rightarrow> (DbError, unit) result \<times> 'db WhitelistManager" where
  "load_whitelist_from_database D s =
     (case DatabaseWhitelist_load_from_database D (database_whitelist s) of
        Inl e \<Rightarrow> (Inl e, s)
      | Inr info_hashes \<Rightarrow>
          (Inr (),
           s\<lparr>in_memory_whitelist :=
               fold (\<lambda>info_hash w. snd (InMemoryWhitelist_add info_hash w)) info_hashes
                 (InMemoryWhitelist_clear (in_memory_whitelist s))\<rparr>))"

section \<open>Authorization (authorization.rs)\<close>

datatype WhitelistError = TorrentNotWhitelisted InfoHash

definition is_listed :: "Core \<Rightarrow> bool" where
  "is_listed config = listed config"

definition authorize :: "Core \<Rightarrow> InMemoryWhitelist \<Rightarrow> InfoHash \<Rightarrow> (WhitelistError, unit) result" where
  "authorize config w info_hash =
     (if \<not> is_listed config then Inr ()
      else if InMemoryWhitelist_contains info_hash w then Inr ()
      else Inl (TorrentNotWhitelisted info_hash))"

section \<open>Memory and database\<close>

datatype whitelist_op = AddTorrent InfoHash | RemoveTorrentWl InfoHash | LoadWhitelist

fun whitelist_step ::
  "'db DatabaseTrait \<Rightarrow> whitelist_op \<Rightarrow> 'db WhitelistManager \<Rightarrow> (DbError, unit) result \<times> 'db WhitelistManager" where
  "whitelist_step D (AddTorrent ih) s = add_torrent_to_whitelist D ih s"
| "whitelist_step D (RemoveTorrentWl ih) s = remove_torrent_from_whitelist D ih s"
| "whitelist_step D LoadWhitelist s = load_whitelist_from_database D s"

definition run_whitelist :: "'db DatabaseTrait \<Rightarrow> whitelist_op list \<Rightarrow> 'db WhitelistManager \<Rightarrow> 'db WhitelistManager" where
  "run_whitelist D ops s = fold (\<lambda>op s. snd (whitelist_step D op s)) ops s"

definition whitelist_synced :: "('db \<Rightarrow> DbView) \<Rightarrow> 'db WhitelistManager \<Rightarrow> bool" where
  "whitelist_synced view s =
     (whitelist (in_memory_whitelist s) = v_whitelist (view (database_whitelist s)))"

text \<open>What an operation that succeeds does to the whitelisted torrents.\<close>

fun whitelist_effect :: "whitelist_op \<Rightarrow> InfoHash set \<Rightarrow> InfoHash set" where
  "whitelist_effect (AddTorrent ih) W = insert ih W"
| "whitelist_effect (RemoveTorrentWl ih) W = W - {ih}"
| "whitelist_effect LoadWhitelist W = W"

lemma whitelist_fold_add:
  "whitelist (fold (\<lambda>ih w. snd (InMemoryWhitelist_add ih w)) ihs w) = whitelist w \<union> set ihs"
  by (induction ihs arbitrary: w) (auto simp: InMemoryWhitelist_add_def)

lemmas whitelist_defs =
  add_torrent_to_whitelist_def remove_torrent_from_whitelist_def load_whitelist_from_database_def
  DatabaseWhitelist_load_from_database_def
  InMemoryWhitelist_add_def InMemoryWhitelist_remove_def InMemoryWhitelist_clear_def

context database
begin

lemma DatabaseWhitelist_add:
  assumes "ok db"
  shows "ok (snd (DatabaseWhitelist_add D ih db))"
    and "view (snd (DatabaseWhitelist_add D ih db)) =
         on_success (fst (DatabaseWhitelist_add D ih db))
           ((view db)\<lparr>v_whitelist := insert ih (v_whitelist (view db))\<rparr>) (view db)"
proof -
  obtain r db' where add: "add_info_hash_to_whitelist D ih db = (r, db')"
    by fastforce
  have "ok db'" and v: "view db' = on_success r ((view db)\<lparr>v_whitelist := insert ih (v_whitelist (view db))\<rparr>) (view db)"
    using add_whitelist [OF assms, of ih] by (simp_all add: add)
  then show "ok (snd (DatabaseWhitelist_add D ih db))"
    and "view (snd (DatabaseWhitelist_add D ih db)) =
         on_success (fst (DatabaseWhitelist_add D ih db))
           ((view db)\<lparr>v_whitelist := insert ih (v_whitelist (view db))\<rparr>) (view db)"
    using assms
    by (auto simp: DatabaseWhitelist_add_def add insert_absorb dest: is_whitelisted split: sum.split)
qed

lemma DatabaseWhitelist_remove:
  assumes "ok db"
  shows "ok (snd (DatabaseWhitelist_remove D ih db))"
    and "view (snd (DatabaseWhitelist_remove D ih db)) =
         on_success (fst (DatabaseWhitelist_remove D ih db))
           ((view db)\<lparr>v_whitelist := v_whitelist (view db) - {ih}\<rparr>) (view db)"
proof -
  obtain r db' where rm: "remove_info_hash_from_whitelist D ih db = (r, db')"
    by fastforce
  have "ok db'" and v: "view db' = on_success r ((view db)\<lparr>v_whitelist := v_whitelist (view db) - {ih}\<rparr>) (view db)"
    using remove_whitelist [OF assms, of ih] by (simp_all add: rm)
  then show "ok (snd (DatabaseWhitelist_remove D ih db))"
    and "view (snd (DatabaseWhitelist_remove D ih db)) =
         on_success (fst (DatabaseWhitelist_remove D ih db))
           ((view db)\<lparr>v_whitelist := v_whitelist (view db) - {ih}\<rparr>) (view db)"
    using assms
    by (auto simp: DatabaseWhitelist_remove_def rm dest: is_whitelisted split: sum.split)
qed

lemma whitelist_step_synced:
  assumes "ok (database_whitelist s)" and "whitelist_synced view s"
  shows "ok (database_whitelist (snd (whitelist_step D op s))) \<and>
         whitelist_synced view (snd (whitelist_step D op s)) \<and>
         whitelist (in_memory_whitelist (snd (whitelist_step D op s))) =
           (case fst (whitelist_step D op s) of
              Inr _ \<Rightarrow> whitelist_effect op (whitelist (in_memory_whitelist s))
            | Inl _ \<Rightarrow> whitelist (in_memory_whitelist s))"
proof (cases op)
  case (AddTorrent ih)
  obtain r db' where "DatabaseWhitelist_add D ih (database_whitelist s) = (r, db')"
    by fastforce
  then show ?thesis
    using AddTorrent assms(2) DatabaseWhitelist_add [OF assms(1), of ih]
    by (cases r) (simp_all add: whitelist_synced_def whitelist_defs)
next
  case (RemoveTorrentWl ih)
  obtain r db' where "DatabaseWhitelist_remove D ih (database_whitelist s) = (r, db')"
    by fastforce
  then show ?thesis
    using RemoveTorrentWl assms(2) DatabaseWhitelist_remove [OF assms(1), of ih]
    by (cases r) (simp_all add: whitelist_synced_def whitelist_defs)
next
  case LoadWhitelist
  show ?thesis
    using LoadWhitelist assms load_whitelist [OF assms(1)]
    by (cases "load_whitelist D (database_whitelist s)")
       (simp_all add: whitelist_synced_def load_whitelist_from_database_def whitelist_fold_add
        DatabaseWhitelist_load_from_database_def InMemoryWhitelist_clear_def)
qed

lemma run_whitelist_synced:
  "ok (database_whitelist s) \<Longrightarrow> whitelist_synced view s \<Longrightarrow>
   ok (database_whitelist (run_whitelist D ops s)) \<and> whitelist_synced view (run_whitelist D ops s)"
proof (induction ops arbitrary: s)
  case (Cons op ops)
  then show ?case
    using whitelist_step_synced [of s op] by (simp add: run_whitelist_def)
qed (simp add: run_whitelist_def)

end

end
