(* ===== verification/Tracker_Core.thy ===== *)
theory Tracker_Core
  imports Repository_SkipMap Whitelist
begin

text \<open>
  The core of the tracker (\<open>packages/tracker-core/src\<close>): the torrents in memory and their
  persistence, the announce and scrape handlers, the torrents manager, and the listings for the
  API. The operations call a repository of torrents and a database; the locale \<open>tracker\<close> proves
  what they do from the two contracts.
\<close>

section \<open>In-memory torrents (torrent/repository/in\_memory.rs)\<close>

definition InMemoryTorrentRepository_upsert_peer :: "'s Repository \<Rightarrow> InfoHash \<Rightarrow> Peer \<Rightarrow> 's \<Rightarrow> 's" where
  "InMemoryTorrentRepository_upsert_peer R info_hash peer s = repo_upsert_peer R info_hash peer s"

definition InMemoryTorrentRepository_remove_inactive_peers ::
  "'s Repository \<Rightarrow> DurationSinceUnixEpoch \<Rightarrow> 's \<Rightarrow> 's" where
  "InMemoryTorrentRepository_remove_inactive_peers R current_cutoff s =
     repo_remove_inactive_peers R current_cutoff s"

definition InMemoryTorrentRepository_remove_peerless_torrents ::
  "'s Repository \<Rightarrow> TrackerPolicy \<Rightarrow> 's \<Rightarrow> 's" where
  "InMemoryTorrentRepository_remove_peerless_torrents R pol s = repo_remove_peerless_torrents R pol s"

definition InMemoryTorrentRepository_get :: "'s Repository \<Rightarrow> InfoHash \<Rightarrow> 's \<Rightarrow> Torrent option" where
  "InMemoryTorrentRepository_get R key s = repo_get R key s"

definition InMemoryTorrentRepository_get_paginated ::
  "'s Repository \<Rightarrow> Pagination option \<Rightarrow> 's \<Rightarrow> (InfoHash \<times> Torrent) list" where
  "InMemoryTorrentRepository_get_paginated R pagination s = repo_get_paginated R pagination s"

definition InMemoryTorrentRepository_get_swarm_metadata ::
  "'s Repository \<Rightarrow> InfoHash \<Rightarrow> 's \<Rightarrow> SwarmMetadata" where
  "InMemoryTorrentRepository_get_swarm_metadata R info_hash s =
     (case repo_get R info_hash s of
        Some torrent_entry \<Rightarrow> get_swarm_metadata torrent_entry
      | None \<Rightarrow> SwarmMetadata_zeroed)"

definition InMemoryTorrentRepository_get_peers_for ::
  "'s Repository \<Rightarrow> InfoHash \<Rightarrow> Peer \<Rightarrow> usize \<Rightarrow> 's \<Rightarrow> Peer list" where
  "InMemoryTorrentRepository_get_peers_for R info_hash peer n s =
     (case repo_get R info_hash s of
        None \<Rightarrow> []
      | Some entry \<Rightarrow> get_peers_for_client (peer_addr peer) (Some (max n TORRENT_PEERS_LIMIT)) entry)"

definition InMemoryTorrentRepository_get_torrent_peers :: "'s Repository \<Rightarrow> InfoHash \<Rightarrow> 's \<Rightarrow> Peer list" where
  "InMemoryTorrentRepository_get_torrent_peers R info_hash s =
     (case repo_get R info_hash s of
        None \<Rightarrow> []
      | Some entry \<Rightarrow> get_peers (Some TORRENT_PEERS_LIMIT) entry)"

definition InMemoryTorrentRepository_get_torrents_metrics :: "'s Repository \<Rightarrow> 's \<Rightarrow> TorrentsMetrics" where
  "InMemoryTorrentRepository_get_torrents_metrics R s = repo_get_metrics R s"

definition InMemoryTorrentRepository_import_persistent ::
  "'s Repository \<Rightarrow> PersistentTorrents \<Rightarrow> 's \<Rightarrow> 's" where
  "InMemoryTorrentRepository_import_persistent R persistent_torrents s =
     repo_import_persistent R persistent_torrents s"

section \<open>Persisted torrents (torrent/repository/persisted.rs)\<close>

definition DatabasePersistentTorrentRepository_load_all ::
  "'db DatabaseTrait \<Rightarrow> 'db \<Rightarrow> (DbError, PersistentTorrents) result" where
  "DatabasePersistentTorrentRepository_load_all D db = load_persistent_torrents D db"

definition DatabasePersistentTorrentRepository_save ::
  "'db DatabaseTrait \<Rightarrow> InfoHash \<Rightarrow> u32 \<Rightarrow> 'db \<Rightarrow> (DbError, unit) result \<times> 'db" where
  "DatabasePersistentTorrentRepository_save D info_hash n db = save_persistent_torrent D info_hash n db"

section \<open>Announce (announce\_handler.rs)\<close>

record ('s, 'db) AnnounceHandler =
  in_memory_torrent_repository :: 's
  db_torrent_repository :: 'db

datatype PeersWanted = AsManyAsPossible | Only (amount: usize)

definition PeersWanted_limit :: "PeersWanted \<Rightarrow> usize" where
  "PeersWanted_limit w = (case w of AsManyAsPossible \<Rightarrow> TORRENT_PEERS_LIMIT | Only n \<Rightarrow> n)"

definition PeersWanted_from_i32 :: "32 word \<Rightarrow> PeersWanted" where
  "PeersWanted_from_i32 v =
     (if sint v \<le> 0 then AsManyAsPossible else Only (min (nat (sint v)) TORRENT_PEERS_LIMIT))"

definition PeersWanted_from_u32 :: "u32 \<Rightarrow> PeersWanted" where
  "PeersWanted_from_u32 v =
     (if v = 0 then AsManyAsPossible else Only (min (unat v) TORRENT_PEERS_LIMIT))"

definition PeersWanted_only :: "u32 \<Rightarrow> PeersWanted" where
  "PeersWanted_only n = PeersWanted_from_u32 n"

definition assign_ip_address_to_peer :: "IpAddr \<Rightarrow> IpAddr option \<Rightarrow> IpAddr" where
  "assign_ip_address_to_peer remote_client_ip tracker_external_ip =
     (case tracker_external_ip of
        Some host_ip \<Rightarrow> if is_loopback remote_client_ip then host_ip else remote_client_ip
      | None \<Rightarrow> remote_client_ip)"

definition persist_stats ::
  "'db DatabaseTrait \<Rightarrow> Core \<Rightarrow> InfoHash \<Rightarrow> SwarmMetadata \<Rightarrow> ('s, 'db) AnnounceHandler \<Rightarrow> ('s, 'db) AnnounceHandler" where
  "persist_stats D config info_hash swarm_metadata h =
     (if persistent_torrent_completed_stat (tracker_policy config)
      then h\<lparr>db_torrent_repository :=
               snd (DatabasePersistentTorrentRepository_save D info_hash (sm_downloaded swarm_metadata)
                      (db_torrent_repository h))\<rparr>
      else h)"

definition upsert_peer_and_get_stats ::
  "'s Repository \<Rightarrow> 'db DatabaseTrait \<Rightarrow> Core \<Rightarrow> InfoHash \<Rightarrow> Peer \<Rightarrow> ('s, 'db) AnnounceHandler \<Rightarrow>
   SwarmMetadata \<times> ('s, 'db) AnnounceHandler" where
  "upsert_peer_and_get_stats R D config info_hash peer h =
     (let before = InMemoryTorrentRepository_get_swarm_metadata R info_hash (in_memory_torrent_repository h);
          h1 = h\<lparr>in_memory_torrent_repository :=
                   InMemoryTorrentRepository_upsert_peer R info_hash peer (in_memory_torrent_repository h)\<rparr>;
          after = InMemoryTorrentRepository_get_swarm_metadata R info_hash (in_memory_torrent_repository h1);
          h2 = (if before \<noteq> after then persist_stats D config info_hash after h1 else h1)
      in (after, h2))"

text \<open>The peer is changed in place: it is a result too.\<close>

definition announce ::
  "'s Repository \<Rightarrow> 'db DatabaseTrait \<Rightarrow> Core \<Rightarrow> InfoHash \<Rightarrow> Peer \<Rightarrow> IpAddr \<Rightarrow> PeersWanted \<Rightarrow>
   ('s, 'db) AnnounceHandler \<Rightarrow> (AnnounceData \<times> Peer) \<times> ('s, 'db) AnnounceHandler" where
  "announce R D config info_hash peer remote_client_ip peers_wanted h =
     (let peer' = change_ip (assign_ip_address_to_peer remote_client_ip (external_ip (net config))) peer;
          (st, h') = upsert_peer_and_get_stats R D config info_hash peer' h;
          ps = InMemoryTorrentRepository_get_peers_for R info_hash peer' (PeersWanted_limit peers_wanted)
                 (in_memory_torrent_repository h')
      in ((\<lparr>peers = ps, stats = st, policy = announce_policy config\<rparr>, peer'), h'))"

section \<open>Scrape (scrape\_handler.rs)\<close>

definition scrape :: "'s Repository \<Rightarrow> Core \<Rightarrow> InMemoryWhitelist \<Rightarrow> InfoHash list \<Rightarrow> 's \<Rightarrow> ScrapeData" where
  "scrape R config w info_hashes s =
     fold (\<lambda>info_hash scrape_data.
             let swarm_metadata =
                   (case authorize config w info_hash of
                      Inr _ \<Rightarrow> InMemoryTorrentRepository_get_swarm_metadata R info_hash s
                    | Inl _ \<Rightarrow> SwarmMetadata_zeroed)
             in add_file info_hash swarm_metadata scrape_data)
       info_hashes ScrapeData_empty"

section \<open>Torrents manager (torrent/manager.rs)\<close>

definition load_torrents_from_database ::
  "'s Repository \<Rightarrow> 'db DatabaseTrait \<Rightarrow> ('s, 'db) AnnounceHandler \<Rightarrow>
   (DbError, unit) result \<times> ('s, 'db) AnnounceHandler" where
  "load_torrents_from_database R D h =
     (case DatabasePersistentTorrentRepository_load_all D (db_torrent_repository h) of
        Inl e \<Rightarrow> (Inl e, h)
      | Inr persistent_torrents \<Rightarrow>
          (Inr (),
           h\<lparr>in_memory_torrent_repository :=
               InMemoryTorrentRepository_import_persistent R persistent_torrents
                 (in_memory_torrent_repository h)\<rparr>))"

definition cleanup_cutoff :: "Core \<Rightarrow> DurationSinceUnixEpoch \<Rightarrow> DurationSinceUnixEpoch" where
  "cleanup_cutoff config now =
     (case now_sub now (from_secs (ucast (max_peer_timeout (tracker_policy config)))) of
        Some cutoff \<Rightarrow> cutoff
      | None \<Rightarrow> 0)"

definition cleanup_torrents ::
  "'s Repository \<Rightarrow> Core \<Rightarrow> DurationSinceUnixEpoch \<Rightarrow> 's \<Rightarrow> 's" where
  "cleanup_torrents R config now s =
     (let s1 = InMemoryTorrentRepository_remove_inactive_peers R (cleanup_cutoff config now) s
      in if remove_peerless_torrents (tracker_policy config)
         then InMemoryTorrentRepository_remove_peerless_torrents R (tracker_policy config) s1
         else s1)"

section \<open>Listings (torrent/services.rs)\<close>

record TorrentInfo =
  ti_info_hash :: InfoHash
  ti_seeders :: u64
  ti_completed :: u64
  ti_leechers :: u64
  ti_peers :: "Peer list option"

record BasicInfo =
  bi_info_hash :: InfoHash
  bi_seeders :: u64
  bi_completed :: u64
  bi_leechers :: u64

definition basic_info :: "InfoHash \<Rightarrow> SwarmMetadata \<Rightarrow> BasicInfo" where
  "basic_info info_hash st =
     \<lparr>bi_info_hash = info_hash, bi_seeders = ucast (sm_complete st),
      bi_completed = ucast (sm_downloaded st), bi_leechers = ucast (sm_incomplete st)\<rparr>"

definition get_torrent_info :: "'s Repository \<Rightarrow> InfoHash \<Rightarrow> 's \<Rightarrow> TorrentInfo option" where
  "get_torrent_info R info_hash s =
     (case InMemoryTorrentRepository_get R info_hash s of
        None \<Rightarrow> None
      | Some torrent_entry \<Rightarrow>
          (let st = get_swarm_metadata torrent_entry;
               ps = get_peers None torrent_entry
           in Some \<lparr>ti_info_hash = info_hash, ti_seeders = ucast (sm_complete st),
                    ti_completed = ucast (sm_downloaded st), ti_leechers = ucast (sm_incomplete st),
                    ti_peers = Some ps\<rparr>))"

definition get_torrents_page :: "'s Repository \<Rightarrow> Pagination option \<Rightarrow> 's \<Rightarrow> BasicInfo list" where
  "get_torrents_page R pagination s =
     fold (\<lambda>(info_hash, torrent_entry) basic_infos.
             basic_infos @ [basic_info info_hash (get_swarm_metadata torrent_entry)])
       (InMemoryTorrentRepository_get_paginated R pagination s) []"

definition get_torrents :: "'s Repository \<Rightarrow> InfoHash list \<Rightarrow> 's \<Rightarrow> BasicInfo list" where
  "get_torrents R info_hashes s =
     fold (\<lambda>info_hash basic_infos.
             case map_option get_swarm_metadata (InMemoryTorrentRepository_get R info_hash s) of
               Some st \<Rightarrow> basic_infos @ [basic_info info_hash st]
             | None \<Rightarrow> basic_infos)
       info_hashes []"

lemmas in_memory_torrent_defs [tracker_simps] =
  InMemoryTorrentRepository_upsert_peer_def InMemoryTorrentRepository_remove_inactive_peers_def
  InMemoryTorrentRepository_remove_peerless_torrents_def InMemoryTorrentRepository_get_def
  InMemoryTorrentRepository_get_paginated_def InMemoryTorrentRepository_get_swarm_metadata_def
  InMemoryTorrentRepository_get_peers_for_def InMemoryTorrentRepository_get_torrent_peers_def
  InMemoryTorrentRepository_get_torrents_metrics_def InMemoryTorrentRepository_import_persistent_def
  DatabasePersistentTorrentRepository_load_all_def DatabasePersistentTorrentRepository_save_def

end
