(* ===== verification/Statistics.thy ===== *)
theory Statistics
  imports Float64 Udp_Banning Tracker_Core
begin

text \<open>
  The usage statistics (\<open>src/packages/udp_tracker_core/statistics\<close>,
  \<open>src/packages/http_tracker_core/statistics\<close> and \<open>src/packages/tracker_api_core/statistics\<close>): the
  counters and moving averages, the handling of events in the order in which the channel delivers
  them, and the metrics the API reports. The lock around the counters makes each update atomic.
\<close>

section \<open>UDP metrics (metrics.rs)\<close>

record UdpMetrics =
  udp_requests_aborted :: u64
  udp_requests_banned :: u64
  udp_banned_ips_total :: u64
  udp_avg_connect_processing_time_ns :: u64
  udp_avg_announce_processing_time_ns :: u64
  udp_avg_scrape_processing_time_ns :: u64
  udp4_requests :: u64
  udp4_connections_handled :: u64
  udp4_announces_handled :: u64
  udp4_scrapes_handled :: u64
  udp4_responses :: u64
  udp4_errors_handled :: u64
  udp6_requests :: u64
  udp6_connections_handled :: u64
  udp6_announces_handled :: u64
  udp6_scrapes_handled :: u64
  udp6_responses :: u64
  udp6_errors_handled :: u64

definition UdpMetrics_default :: UdpMetrics where
  "UdpMetrics_default =
     \<lparr>udp_requests_aborted = 0, udp_requests_banned = 0, udp_banned_ips_total = 0,
      udp_avg_connect_processing_time_ns = 0, udp_avg_announce_processing_time_ns = 0, udp_avg_scrape_processing_time_ns = 0,
      udp4_requests = 0, udp4_connections_handled = 0, udp4_announces_handled = 0,
      udp4_scrapes_handled = 0, udp4_responses = 0, udp4_errors_handled = 0,
      udp6_requests = 0, udp6_connections_handled = 0, udp6_announces_handled = 0,
      udp6_scrapes_handled = 0, udp6_responses = 0, udp6_errors_handled = 0\<rparr>"

section \<open>UDP repository (repository.rs)\<close>

definition increase_udp_requests_aborted :: "UdpMetrics \<Rightarrow> UdpMetrics" where
  "increase_udp_requests_aborted m = m\<lparr>udp_requests_aborted := udp_requests_aborted m + 1\<rparr>"

definition increase_udp_requests_banned :: "UdpMetrics \<Rightarrow> UdpMetrics" where
  "increase_udp_requests_banned m = m\<lparr>udp_requests_banned := udp_requests_banned m + 1\<rparr>"

definition increase_udp4_requests :: "UdpMetrics \<Rightarrow> UdpMetrics" where
  "increase_udp4_requests m = m\<lparr>udp4_requests := udp4_requests m + 1\<rparr>"

definition increase_udp4_connections :: "UdpMetrics \<Rightarrow> UdpMetrics" where
  "increase_udp4_connections m = m\<lparr>udp4_connections_handled := udp4_connections_handled m + 1\<rparr>"

definition increase_udp4_announces :: "UdpMetrics \<Rightarrow> UdpMetrics" where
  "increase_udp4_announces m = m\<lparr>udp4_announces_handled := udp4_announces_handled m + 1\<rparr>"

definition increase_udp4_scrapes :: "UdpMetrics \<Rightarrow> UdpMetrics" where
  "increase_udp4_scrapes m = m\<lparr>udp4_scrapes_handled := udp4_scrapes_handled m + 1\<rparr>"

definition increase_udp4_responses :: "UdpMetrics \<Rightarrow> UdpMetrics" where
  "increase_udp4_responses m = m\<lparr>udp4_responses := udp4_responses m + 1\<rparr>"

definition increase_udp4_errors :: "UdpMetrics \<Rightarrow> UdpMetrics" where
  "increase_udp4_errors m = m\<lparr>udp4_errors_handled := udp4_errors_handled m + 1\<rparr>"

definition increase_udp6_requests :: "UdpMetrics \<Rightarrow> UdpMetrics" where
  "increase_udp6_requests m = m\<lparr>udp6_requests := udp6_requests m + 1\<rparr>"

definition increase_udp6_connections :: "UdpMetrics \<Rightarrow> UdpMetrics" where
  "increase_udp6_connections m = m\<lparr>udp6_connections_handled := udp6_connections_handled m + 1\<rparr>"

definition increase_udp6_announces :: "UdpMetrics \<Rightarrow> UdpMetrics" where
  "increase_udp6_announces m = m\<lparr>udp6_announces_handled := udp6_announces_handled m + 1\<rparr>"

definition increase_udp6_scrapes :: "UdpMetrics \<Rightarrow> UdpMetrics" where
  "increase_udp6_scrapes m = m\<lparr>udp6_scrapes_handled := udp6_scrapes_handled m + 1\<rparr>"

definition increase_udp6_responses :: "UdpMetrics \<Rightarrow> UdpMetrics" where
  "increase_udp6_responses m = m\<lparr>udp6_responses := udp6_responses m + 1\<rparr>"

definition increase_udp6_errors :: "UdpMetrics \<Rightarrow> UdpMetrics" where
  "increase_udp6_errors m = m\<lparr>udp6_errors_handled := udp6_errors_handled m + 1\<rparr>"

text \<open>Rounding up and casting to an unsigned integer, which saturates.\<close>

definition moving_average :: "u64 \<Rightarrow> Duration \<Rightarrow> u64 \<Rightarrow> u64" where
  "moving_average previous_avg req_processing_time handled =
     (let t = f64_of_nat req_processing_time;
          n = f64_of_nat (unat handled);
          prev = f64_of_nat (unat previous_avg);
          new_avg = f64_add prev (f64_div (f64_sub t prev) n)
      in f64_to_u64 (f64_ceil new_avg))"

definition recalculate_udp_avg_connect_processing_time_ns :: "Duration \<Rightarrow> UdpMetrics \<Rightarrow> UdpMetrics" where
  "recalculate_udp_avg_connect_processing_time_ns req_processing_time m =
     m\<lparr>udp_avg_connect_processing_time_ns :=
         moving_average (udp_avg_connect_processing_time_ns m) req_processing_time
           (udp4_connections_handled m + udp6_connections_handled m)\<rparr>"

definition recalculate_udp_avg_announce_processing_time_ns :: "Duration \<Rightarrow> UdpMetrics \<Rightarrow> UdpMetrics" where
  "recalculate_udp_avg_announce_processing_time_ns req_processing_time m =
     m\<lparr>udp_avg_announce_processing_time_ns :=
         moving_average (udp_avg_announce_processing_time_ns m) req_processing_time
           (udp4_announces_handled m + udp6_announces_handled m)\<rparr>"

definition recalculate_udp_avg_scrape_processing_time_ns :: "Duration \<Rightarrow> UdpMetrics \<Rightarrow> UdpMetrics" where
  "recalculate_udp_avg_scrape_processing_time_ns req_processing_time m =
     m\<lparr>udp_avg_scrape_processing_time_ns :=
         moving_average (udp_avg_scrape_processing_time_ns m) req_processing_time
           (udp4_scrapes_handled m + udp6_scrapes_handled m)\<rparr>"

section \<open>UDP events (event/mod.rs, event/handler.rs)\<close>

datatype UdpResponseKind = KindConnect | KindAnnounce | KindScrape | KindError

datatype UdpEvent =
    UdpRequestAborted
  | UdpRequestBanned
  | Udp4Request
  | Udp4Connect
  | Udp4Announce
  | Udp4Scrape
  | Udp4Response UdpResponseKind Duration
  | Udp4Error
  | Udp6Request
  | Udp6Connect
  | Udp6Announce
  | Udp6Scrape
  | Udp6Response UdpResponseKind Duration
  | Udp6Error

fun udp_handle_event :: "UdpEvent \<Rightarrow> UdpMetrics \<Rightarrow> UdpMetrics" where
  "udp_handle_event UdpRequestAborted m = increase_udp_requests_aborted m"
| "udp_handle_event UdpRequestBanned m = increase_udp_requests_banned m"
| "udp_handle_event Udp4Request m = increase_udp4_requests m"
| "udp_handle_event Udp4Connect m = increase_udp4_connections m"
| "udp_handle_event Udp4Announce m = increase_udp4_announces m"
| "udp_handle_event Udp4Scrape m = increase_udp4_scrapes m"
| "udp_handle_event (Udp4Response kind req_processing_time) m =
     (let m' = increase_udp4_responses m
      in case kind of
           KindConnect \<Rightarrow> recalculate_udp_avg_connect_processing_time_ns req_processing_time m'
         | KindAnnounce \<Rightarrow> recalculate_udp_avg_announce_processing_time_ns req_processing_time m'
         | KindScrape \<Rightarrow> recalculate_udp_avg_scrape_processing_time_ns req_processing_time m'
         | KindError \<Rightarrow> m')"
| "udp_handle_event Udp4Error m = increase_udp4_errors m"
| "udp_handle_event Udp6Request m = increase_udp6_requests m"
| "udp_handle_event Udp6Connect m = increase_udp6_connections m"
| "udp_handle_event Udp6Announce m = increase_udp6_announces m"
| "udp_handle_event Udp6Scrape m = increase_udp6_scrapes m"
| "udp_handle_event (Udp6Response kind req_processing_time) m = increase_udp6_responses m"
| "udp_handle_event Udp6Error m = increase_udp6_errors m"

definition udp_dispatch_events :: "UdpEvent list \<Rightarrow> UdpMetrics \<Rightarrow> UdpMetrics" where
  "udp_dispatch_events received m = fold udp_handle_event received m"

section \<open>HTTP statistics\<close>

record HttpMetrics =
  tcp4_connections_handled :: u64
  tcp4_announces_handled :: u64
  tcp4_scrapes_handled :: u64
  tcp6_connections_handled :: u64
  tcp6_announces_handled :: u64
  tcp6_scrapes_handled :: u64

definition HttpMetrics_default :: HttpMetrics where
  "HttpMetrics_default =
     \<lparr>tcp4_connections_handled = 0, tcp4_announces_handled = 0, tcp4_scrapes_handled = 0,
      tcp6_connections_handled = 0, tcp6_announces_handled = 0, tcp6_scrapes_handled = 0\<rparr>"

definition increase_tcp4_announces :: "HttpMetrics \<Rightarrow> HttpMetrics" where
  "increase_tcp4_announces m = m\<lparr>tcp4_announces_handled := tcp4_announces_handled m + 1\<rparr>"

definition increase_tcp4_connections :: "HttpMetrics \<Rightarrow> HttpMetrics" where
  "increase_tcp4_connections m = m\<lparr>tcp4_connections_handled := tcp4_connections_handled m + 1\<rparr>"

definition increase_tcp4_scrapes :: "HttpMetrics \<Rightarrow> HttpMetrics" where
  "increase_tcp4_scrapes m = m\<lparr>tcp4_scrapes_handled := tcp4_scrapes_handled m + 1\<rparr>"

definition increase_tcp6_announces :: "HttpMetrics \<Rightarrow> HttpMetrics" where
  "increase_tcp6_announces m = m\<lparr>tcp6_announces_handled := tcp6_announces_handled m + 1\<rparr>"

definition increase_tcp6_connections :: "HttpMetrics \<Rightarrow> HttpMetrics" where
  "increase_tcp6_connections m = m\<lparr>tcp6_connections_handled := tcp6_connections_handled m + 1\<rparr>"

definition increase_tcp6_scrapes :: "HttpMetrics \<Rightarrow> HttpMetrics" where
  "increase_tcp6_scrapes m = m\<lparr>tcp6_scrapes_handled := tcp6_scrapes_handled m + 1\<rparr>"

datatype HttpEvent = Tcp4Announce | Tcp4Scrape | Tcp6Announce | Tcp6Scrape

fun http_handle_event :: "HttpEvent \<Rightarrow> HttpMetrics \<Rightarrow> HttpMetrics" where
  "http_handle_event Tcp4Announce m = increase_tcp4_connections (increase_tcp4_announces m)"
| "http_handle_event Tcp4Scrape m = increase_tcp4_connections (increase_tcp4_scrapes m)"
| "http_handle_event Tcp6Announce m = increase_tcp6_connections (increase_tcp6_announces m)"
| "http_handle_event Tcp6Scrape m = increase_tcp6_connections (increase_tcp6_scrapes m)"

definition http_dispatch_events :: "HttpEvent list \<Rightarrow> HttpMetrics \<Rightarrow> HttpMetrics" where
  "http_dispatch_events received m = fold http_handle_event received m"

section \<open>Metrics of the API (services.rs)\<close>

text \<open>The fields are those of the two protocols side by side, with the prefix \<open>api_\<close>.\<close>

record ApiMetrics =
  api_tcp4_connections_handled :: u64
  api_tcp4_announces_handled :: u64
  api_tcp4_scrapes_handled :: u64
  api_tcp6_connections_handled :: u64
  api_tcp6_announces_handled :: u64
  api_tcp6_scrapes_handled :: u64
  api_udp_requests_aborted :: u64
  api_udp_requests_banned :: u64
  api_udp_banned_ips_total :: u64
  api_udp_avg_connect_processing_time_ns :: u64
  api_udp_avg_announce_processing_time_ns :: u64
  api_udp_avg_scrape_processing_time_ns :: u64
  api_udp4_requests :: u64
  api_udp4_connections_handled :: u64
  api_udp4_announces_handled :: u64
  api_udp4_scrapes_handled :: u64
  api_udp4_responses :: u64
  api_udp4_errors_handled :: u64
  api_udp6_requests :: u64
  api_udp6_connections_handled :: u64
  api_udp6_announces_handled :: u64
  api_udp6_scrapes_handled :: u64
  api_udp6_responses :: u64
  api_udp6_errors_handled :: u64

record TrackerMetrics =
  torrents_metrics :: TorrentsMetrics
  protocol_metrics :: ApiMetrics

definition api_get_metrics ::
  "'s Repository \<Rightarrow> 's \<Rightarrow> 'b BanService \<Rightarrow> HttpMetrics \<Rightarrow> UdpMetrics \<Rightarrow> TrackerMetrics" where
  "api_get_metrics R s ban_service http_stats udp_stats =
     \<lparr>torrents_metrics = InMemoryTorrentRepository_get_torrents_metrics R s,
      protocol_metrics =
        \<lparr>api_tcp4_connections_handled = tcp4_connections_handled http_stats,
         api_tcp4_announces_handled = tcp4_announces_handled http_stats,
         api_tcp4_scrapes_handled = tcp4_scrapes_handled http_stats,
         api_tcp6_connections_handled = tcp6_connections_handled http_stats,
         api_tcp6_announces_handled = tcp6_announces_handled http_stats,
         api_tcp6_scrapes_handled = tcp6_scrapes_handled http_stats,
         api_udp_requests_aborted = udp_requests_aborted udp_stats,
         api_udp_requests_banned = udp_requests_banned udp_stats,
         api_udp_banned_ips_total = of_nat (get_banned_ips_total ban_service),
         api_udp_avg_connect_processing_time_ns = udp_avg_connect_processing_time_ns udp_stats,
         api_udp_avg_announce_processing_time_ns = udp_avg_announce_processing_time_ns udp_stats,
         api_udp_avg_scrape_processing_time_ns = udp_avg_scrape_processing_time_ns udp_stats,
         api_udp4_requests = udp4_requests udp_stats,
         api_udp4_connections_handled = udp4_connections_handled udp_stats,
         api_udp4_announces_handled = udp4_announces_handled udp_stats,
         api_udp4_scrapes_handled = udp4_scrapes_handled udp_stats,
         api_udp4_responses = udp4_responses udp_stats,
         api_udp4_errors_handled = udp4_errors_handled udp_stats,
         api_udp6_requests = udp6_requests udp_stats,
         api_udp6_connections_handled = udp6_connections_handled udp_stats,
         api_udp6_announces_handled = udp6_announces_handled udp_stats,
         api_udp6_scrapes_handled = udp6_scrapes_handled udp_stats,
         api_udp6_responses = udp6_responses udp_stats,
         api_udp6_errors_handled = udp6_errors_handled udp_stats\<rparr>\<rparr>"

lemmas increase_defs =
  increase_udp_requests_aborted_def increase_udp_requests_banned_def increase_udp4_requests_def
  increase_udp4_connections_def increase_udp4_announces_def increase_udp4_scrapes_def
  increase_udp4_responses_def increase_udp4_errors_def increase_udp6_requests_def
  increase_udp6_connections_def increase_udp6_announces_def increase_udp6_scrapes_def
  increase_udp6_responses_def increase_udp6_errors_def
  increase_tcp4_announces_def increase_tcp4_connections_def increase_tcp4_scrapes_def increase_tcp6_announces_def increase_tcp6_connections_def increase_tcp6_scrapes_def

lemmas recalculate_defs =
  recalculate_udp_avg_connect_processing_time_ns_def recalculate_udp_avg_announce_processing_time_ns_def
  recalculate_udp_avg_scrape_processing_time_ns_def

section \<open>Counting\<close>

lemma fold_counter:
  fixes f :: "'m \<Rightarrow> 'a::len word"
  assumes "\<And>e m. f (h e m) = f m + (if P e then 1 else 0)"
  shows "f (fold h es m) = f m + of_nat (length (filter P es))"
  by (induction es arbitrary: m) (simp_all add: assms ac_simps)

definition count_events :: "'e \<Rightarrow> 'e list \<Rightarrow> u64" where
  "count_events e es = of_nat (length (filter (\<lambda>x. x = e) es))"

fun is_udp4_response :: "UdpEvent \<Rightarrow> bool" where
  "is_udp4_response (Udp4Response kind t) = True"
| "is_udp4_response _ = False"

fun is_udp6_response :: "UdpEvent \<Rightarrow> bool" where
  "is_udp6_response (Udp6Response kind t) = True"
| "is_udp6_response _ = False"

lemma udp_counter_step:
  "udp_requests_aborted (udp_handle_event e m) = udp_requests_aborted m + (if e = UdpRequestAborted then 1 else 0)"
  "udp_requests_banned (udp_handle_event e m) = udp_requests_banned m + (if e = UdpRequestBanned then 1 else 0)"
  "udp4_requests (udp_handle_event e m) = udp4_requests m + (if e = Udp4Request then 1 else 0)"
  "udp4_connections_handled (udp_handle_event e m) = udp4_connections_handled m + (if e = Udp4Connect then 1 else 0)"
  "udp4_announces_handled (udp_handle_event e m) = udp4_announces_handled m + (if e = Udp4Announce then 1 else 0)"
  "udp4_scrapes_handled (udp_handle_event e m) = udp4_scrapes_handled m + (if e = Udp4Scrape then 1 else 0)"
  "udp4_errors_handled (udp_handle_event e m) = udp4_errors_handled m + (if e = Udp4Error then 1 else 0)"
  "udp6_requests (udp_handle_event e m) = udp6_requests m + (if e = Udp6Request then 1 else 0)"
  "udp6_connections_handled (udp_handle_event e m) = udp6_connections_handled m + (if e = Udp6Connect then 1 else 0)"
  "udp6_announces_handled (udp_handle_event e m) = udp6_announces_handled m + (if e = Udp6Announce then 1 else 0)"
  "udp6_scrapes_handled (udp_handle_event e m) = udp6_scrapes_handled m + (if e = Udp6Scrape then 1 else 0)"
  "udp6_errors_handled (udp_handle_event e m) = udp6_errors_handled m + (if e = Udp6Error then 1 else 0)"
  "udp4_responses (udp_handle_event e m) = udp4_responses m + (if is_udp4_response e then 1 else 0)"
  "udp6_responses (udp_handle_event e m) = udp6_responses m + (if is_udp6_response e then 1 else 0)"
  by (cases e; simp add: increase_defs recalculate_defs Let_def split: UdpResponseKind.split)+

lemma udp_counters:
  "udp_requests_aborted (fold udp_handle_event es m) = udp_requests_aborted m + count_events UdpRequestAborted es"
  "udp_requests_banned (fold udp_handle_event es m) = udp_requests_banned m + count_events UdpRequestBanned es"
  "udp4_requests (fold udp_handle_event es m) = udp4_requests m + count_events Udp4Request es"
  "udp4_connections_handled (fold udp_handle_event es m) = udp4_connections_handled m + count_events Udp4Connect es"
  "udp4_announces_handled (fold udp_handle_event es m) = udp4_announces_handled m + count_events Udp4Announce es"
  "udp4_scrapes_handled (fold udp_handle_event es m) = udp4_scrapes_handled m + count_events Udp4Scrape es"
  "udp4_errors_handled (fold udp_handle_event es m) = udp4_errors_handled m + count_events Udp4Error es"
  "udp6_requests (fold udp_handle_event es m) = udp6_requests m + count_events Udp6Request es"
  "udp6_connections_handled (fold udp_handle_event es m) = udp6_connections_handled m + count_events Udp6Connect es"
  "udp6_announces_handled (fold udp_handle_event es m) = udp6_announces_handled m + count_events Udp6Announce es"
  "udp6_scrapes_handled (fold udp_handle_event es m) = udp6_scrapes_handled m + count_events Udp6Scrape es"
  "udp6_errors_handled (fold udp_handle_event es m) = udp6_errors_handled m + count_events Udp6Error es"
  "udp4_responses (fold udp_handle_event es m) = udp4_responses m + of_nat (length (filter is_udp4_response es))"
  "udp6_responses (fold udp_handle_event es m) = udp6_responses m + of_nat (length (filter is_udp6_response es))"
  unfolding count_events_def by (rule fold_counter, rule udp_counter_step)+

text \<open>
  After any sequence of events every UDP counter is the number of its events, for both
  versions of the protocol, modulo the width of the counter.
\<close>
theorem udp_counters_exact:
  fixes evs
  defines "m \<equiv> udp_dispatch_events evs UdpMetrics_default"
  shows "udp_requests_aborted m = count_events UdpRequestAborted evs \<and>
         udp_requests_banned m = count_events UdpRequestBanned evs \<and>
         udp4_requests m = count_events Udp4Request evs \<and>
         udp4_connections_handled m = count_events Udp4Connect evs \<and>
         udp4_announces_handled m = count_events Udp4Announce evs \<and>
         udp4_scrapes_handled m = count_events Udp4Scrape evs \<and>
         udp4_errors_handled m = count_events Udp4Error evs \<and>
         udp6_requests m = count_events Udp6Request evs \<and>
         udp6_connections_handled m = count_events Udp6Connect evs \<and>
         udp6_announces_handled m = count_events Udp6Announce evs \<and>
         udp6_scrapes_handled m = count_events Udp6Scrape evs \<and>
         udp6_errors_handled m = count_events Udp6Error evs \<and>
         udp4_responses m = of_nat (length (filter is_udp4_response evs)) \<and>
         udp6_responses m = of_nat (length (filter is_udp6_response evs))"
  unfolding m_def udp_dispatch_events_def
  by (simp add: udp_counters UdpMetrics_default_def)

text \<open>
  After any sequence of events the HTTP connections are the announces and scrapes together,
  for both versions of the protocol, and each counter is the number of its events.
\<close>
theorem http_counters_exact:
  fixes evs
  defines "m \<equiv> http_dispatch_events evs HttpMetrics_default"
  shows "tcp4_announces_handled m = count_events Tcp4Announce evs \<and>
         tcp4_scrapes_handled m = count_events Tcp4Scrape evs \<and>
         tcp6_announces_handled m = count_events Tcp6Announce evs \<and>
         tcp6_scrapes_handled m = count_events Tcp6Scrape evs \<and>
         tcp4_connections_handled m = tcp4_announces_handled m + tcp4_scrapes_handled m \<and>
         tcp6_connections_handled m = tcp6_announces_handled m + tcp6_scrapes_handled m"
proof -
  have counters: "tcp4_announces_handled (fold http_handle_event evs m) = tcp4_announces_handled m + count_events Tcp4Announce evs"
    "tcp4_scrapes_handled (fold http_handle_event evs m) = tcp4_scrapes_handled m + count_events Tcp4Scrape evs"
    "tcp6_announces_handled (fold http_handle_event evs m) = tcp6_announces_handled m + count_events Tcp6Announce evs"
    "tcp6_scrapes_handled (fold http_handle_event evs m) = tcp6_scrapes_handled m + count_events Tcp6Scrape evs"
    for m
    unfolding count_events_def
    by (rule fold_counter; rename_tac e m; case_tac e; simp add: increase_defs)+
  have "tcp4_connections_handled (fold http_handle_event evs m) =
        tcp4_announces_handled (fold http_handle_event evs m) + tcp4_scrapes_handled (fold http_handle_event evs m) \<and>
        tcp6_connections_handled (fold http_handle_event evs m) =
        tcp6_announces_handled (fold http_handle_event evs m) + tcp6_scrapes_handled (fold http_handle_event evs m)"
    if "tcp4_connections_handled m = tcp4_announces_handled m + tcp4_scrapes_handled m"
      "tcp6_connections_handled m = tcp6_announces_handled m + tcp6_scrapes_handled m" for m
    using that
  proof (induction evs arbitrary: m)
    case (Cons e evs)
    then show ?case
      by (cases e) (simp_all add: increase_defs)
  qed simp
  from this [of HttpMetrics_default] counters [of HttpMetrics_default] show ?thesis
    unfolding m_def http_dispatch_events_def by (simp add: HttpMetrics_default_def)
qed

section \<open>The moving averages\<close>

lemma average_step_between:
  assumes "p < 2 ^ 53" "t < 2 ^ 53" "n < 2 ^ 53" "0 < n"
  defines "a \<equiv> f64_add (f64_of_nat p) (f64_div (f64_sub (f64_of_nat t) (f64_of_nat p)) (f64_of_nat n))"
  shows "f64_is_finite a" "int (min p t) * 2 ^ 1074 \<le> f64_scaled a" "f64_scaled a \<le> int (max p t) * 2 ^ 1074"
proof -
  define u :: int where "u = 2 ^ 1074"
  have u: "0 < u"
    by (simp add: u_def)
  let ?d = "f64_sub (f64_of_nat t) (f64_of_nat p)"
  let ?q = "f64_div ?d (f64_of_nat n)"
  note exact = f64_of_nat_exact [folded u_def]
  note d = f64_sub_of_nat [OF assms(2,1), folded u_def]
  have "u \<le> f64_scaled (f64_of_nat n)"
    unfolding exact(2) [OF assms(3)] using assms(4) u by (simp add: mult_le_cancel_right1)
  note q = f64_div_shrinks [OF d(1) exact(1) [OF assms(3)], folded u_def, OF this]
  have lt: "min p t < 2 ^ 53" "max p t < 2 ^ 53"
    using assms(1,2) by simp_all
  note low = f64_le_add(1) [OF exact(1) [OF assms(1)] q(1) exact(1) [OF lt(1)]]
    and high = f64_le_add(2) [OF exact(1) [OF assms(1)] q(1) exact(1) [OF lt(2)]]
  have "f64_le (f64_of_nat (min p t)) a" and "f64_le a (f64_of_nat (max p t))"
  proof -
    have sign: "0 \<le> f64_scaled ?d \<longleftrightarrow> p \<le> t" "f64_scaled ?d \<le> 0 \<longleftrightarrow> t \<le> p"
      unfolding d(2) using u by (simp_all add: zero_le_mult_iff mult_le_0_iff)
    have "int (min p t) * u \<le> int p * u + f64_scaled ?q \<and> int p * u + f64_scaled ?q \<le> int (max p t) * u"
      using q(2,3) sign d(2) u by (cases "p \<le> t") (simp_all add: min_def max_def left_diff_distrib)
    then show "f64_le (f64_of_nat (min p t)) a" and "f64_le a (f64_of_nat (max p t))"
      unfolding a_def using low high by (simp_all only: exact(2) [OF assms(1)] exact(2) [OF lt(1)] exact(2) [OF lt(2)])
  qed
  then show "f64_is_finite a" "int (min p t) * 2 ^ 1074 \<le> f64_scaled a" "f64_scaled a \<le> int (max p t) * 2 ^ 1074"
    unfolding u_def [symmetric] exact(2) [OF lt(1), symmetric] exact(2) [OF lt(2), symmetric]
    using f64_le_finite exact(1) [OF lt(1)] exact(1) [OF lt(2)] by (auto simp: f64_le_def f64_rank_le_iff)
qed

lemma moving_average_between:
  assumes "unat prev < 2 ^ 53" "t < 2 ^ 53" "0 < unat handled" "unat handled < 2 ^ 53"
  shows "min (unat prev) t \<le> unat (moving_average prev t handled)"
    and "unat (moving_average prev t handled) \<le> max (unat prev) t"
proof -
  let ?a = "f64_add (f64_of_nat (unat prev))
    (f64_div (f64_sub (f64_of_nat t) (f64_of_nat (unat prev))) (f64_of_nat (unat handled)))"
  have hi: "max (unat prev) t < 2 ^ 53"
    using assms(1,2) by simp
  obtain c where c: "min (unat prev) t \<le> c" "c \<le> max (unat prev) t"
    "f64_is_finite (f64_ceil ?a)" "f64_scaled (f64_ceil ?a) = int c * 2 ^ 1074"
    using f64_ceil_exact [OF average_step_between [OF assms(1,2,4,3)] hi] by blast
  have "unat (moving_average prev t handled) = c"
    unfolding moving_average_def Let_def 
    by (intro f64_to_u64_exact [OF c(3,4)] le_less_trans [OF c(2)] less_trans [OF hi]) simp
  then show "min (unat prev) t \<le> unat (moving_average prev t handled)"
    and "unat (moving_average prev t handled) \<le> max (unat prev) t"
    using c(1,2) by simp_all
qed


text \<open>A response is preceded by the event of the request it answers.\<close>

fun preceded :: "UdpEvent \<Rightarrow> UdpEvent list \<Rightarrow> bool" where
  "preceded (Udp4Response KindConnect t) before = (Udp4Connect \<in> set before)"
| "preceded (Udp4Response KindAnnounce t) before = (Udp4Announce \<in> set before)"
| "preceded (Udp4Response KindScrape t) before = (Udp4Scrape \<in> set before)"
| "preceded _ before = True"

fun requests_first :: "UdpEvent list \<Rightarrow> UdpEvent list \<Rightarrow> bool" where
  "requests_first before [] = True"
| "requests_first before (e # es) = (preceded e before \<and> requests_first (before @ [e]) es)"

fun within :: "nat \<Rightarrow> UdpEvent \<Rightarrow> bool" where
  "within T (Udp4Response kind t) = (t \<le> T)"
| "within T _ = True"

lemma requests_first_snoc:
  "requests_first before (es @ [e]) \<longleftrightarrow> requests_first before es \<and> preceded e (before @ es)"
  by (induction es arbitrary: before) simp_all

lemma count_events_positive:
  assumes "e \<in> set es" and "length es < 2 ^ 52" and "e \<noteq> e'"
  shows "0 < unat (count_events e es + count_events e' es)" and "unat (count_events e es + count_events e' es) < 2 ^ 53"
proof -
  let ?n = "\<lambda>e. length (filter (\<lambda>x. x = e) es)"
  have le: "?n x \<le> length es" for x
    by (rule length_filter_le)
  have "count_events e es + count_events e' es = of_nat (?n e + ?n e')"
    by (simp add: count_events_def)
  moreover have "?n e + ?n e' < 2 ^ 53"
    using add_strict_mono [OF le_less_trans [OF le assms(2)] le_less_trans [OF le assms(2)], of e e'] by simp
  ultimately have eq: "unat (count_events e es + count_events e' es) = ?n e + ?n e'"
    by (simp only: unat_of_nat) simp
  show "0 < unat (count_events e es + count_events e' es)"
    unfolding eq using assms(1) by (auto simp: filter_empty_conv)
  show "unat (count_events e es + count_events e' es) < 2 ^ 53"
    unfolding eq by (rule \<open>?n e + ?n e' < 2 ^ 53\<close>)
qed

lemma moving_average_le:
  assumes "unat prev \<le> T" "t \<le> T" "T < 2 ^ 53" "e \<in> set es" "length es < 2 ^ 52" "e \<noteq> e'"
  shows "unat (moving_average prev t (count_events e es + count_events e' es)) \<le> T"
proof -
  have "unat prev < 2 ^ 53" "t < 2 ^ 53"
    using assms(1-3) by simp_all
  from moving_average_between(2) [OF this count_events_positive [OF assms(4-6)]] show ?thesis
    using assms(1,2) by (meson max.boundedI order_trans)
qed

lemma averages_le:
  assumes "requests_first [] evs" and "length evs < 2 ^ 52"
    and "list_all (within T) evs" and "T < 2 ^ 53"
  defines "m \<equiv> udp_dispatch_events evs UdpMetrics_default"
  shows "unat (udp_avg_connect_processing_time_ns m) \<le> T \<and>
         unat (udp_avg_announce_processing_time_ns m) \<le> T \<and>
         unat (udp_avg_scrape_processing_time_ns m) \<le> T"
  using assms(1-3) unfolding m_def udp_dispatch_events_def
proof (induction evs rule: rev_induct)
  case Nil
  show ?case
    by (simp add: UdpMetrics_default_def)
next
  case (snoc e es)
  let ?m = "fold udp_handle_event es UdpMetrics_default"
  have IH: "unat (udp_avg_connect_processing_time_ns ?m) \<le> T"
    "unat (udp_avg_announce_processing_time_ns ?m) \<le> T" "unat (udp_avg_scrape_processing_time_ns ?m) \<le> T"
    using snoc by (auto simp: requests_first_snoc)
  have counts:
    "udp4_connections_handled ?m + udp6_connections_handled ?m = count_events Udp4Connect es + count_events Udp6Connect es"
    "udp4_announces_handled ?m + udp6_announces_handled ?m = count_events Udp4Announce es + count_events Udp6Announce es"
    "udp4_scrapes_handled ?m + udp6_scrapes_handled ?m = count_events Udp4Scrape es + count_events Udp6Scrape es"
    by (simp_all add: udp_counters UdpMetrics_default_def)
  have len: "length es < 2 ^ 52" and pre: "preceded e es" and le: "within T e"
    using snoc.prems by (simp_all add: requests_first_snoc)
  show ?case
  proof (cases e)
    case (Udp4Response kind t)
    then show ?thesis
      using IH pre le by (cases kind)
        (simp_all add: increase_defs recalculate_defs counts moving_average_le [OF _ _ assms(4) _ len])
  qed (use IH in \<open>simp_all add: increase_defs\<close>)
qed

end
