(* ===== verification/Authentication.thy ===== *)
theory Authentication
  imports Database_Contract
begin

text \<open>
  Peer authentication (\<open>packages/tracker-core/src/authentication\<close>): the keys in memory, the
  persisted keys, the handler that adds and removes them, and the authentication service.
\<close>

section \<open>Keys in memory (key/repository/in\_memory.rs)\<close>

record InMemoryKeyRepository =
  keys :: "Key \<rightharpoonup> PeerKey"

definition InMemoryKeyRepository_insert :: "PeerKey \<Rightarrow> InMemoryKeyRepository \<Rightarrow> InMemoryKeyRepository" where
  "InMemoryKeyRepository_insert auth_key s = s\<lparr>keys := (keys s)(pk_key auth_key \<mapsto> auth_key)\<rparr>"

definition InMemoryKeyRepository_remove :: "Key \<Rightarrow> InMemoryKeyRepository \<Rightarrow> InMemoryKeyRepository" where
  "InMemoryKeyRepository_remove key s = s\<lparr>keys := (keys s)(key := None)\<rparr>"

definition InMemoryKeyRepository_get :: "Key \<Rightarrow> InMemoryKeyRepository \<Rightarrow> PeerKey option" where
  "InMemoryKeyRepository_get key s = keys s key"

definition InMemoryKeyRepository_clear :: "InMemoryKeyRepository \<Rightarrow> InMemoryKeyRepository" where
  "InMemoryKeyRepository_clear s = s\<lparr>keys := (\<lambda>_. None)\<rparr>"

definition InMemoryKeyRepository_reset_with :: "PeerKey list \<Rightarrow> InMemoryKeyRepository \<Rightarrow> InMemoryKeyRepository" where
  "InMemoryKeyRepository_reset_with peer_keys s =
     fold InMemoryKeyRepository_insert peer_keys (s\<lparr>keys := (\<lambda>_. None)\<rparr>)"

section \<open>Persisted keys (key/repository/persisted.rs)\<close>

definition DatabaseKeyRepository_add ::
  "'db DatabaseTrait \<Rightarrow> PeerKey \<Rightarrow> 'db \<Rightarrow> (DbError, unit) result \<times> 'db" where
  "DatabaseKeyRepository_add D peer_key db =
     (case add_key_to_keys D peer_key db of
        (Inl e, db') \<Rightarrow> (Inl e, db')
      | (Inr _, db') \<Rightarrow> (Inr (), db'))"

definition DatabaseKeyRepository_remove ::
  "'db DatabaseTrait \<Rightarrow> Key \<Rightarrow> 'db \<Rightarrow> (DbError, unit) result \<times> 'db" where
  "DatabaseKeyRepository_remove D key db =
     (case remove_key_from_keys D key db of
        (Inl e, db') \<Rightarrow> (Inl e, db')
      | (Inr _, db') \<Rightarrow> (Inr (), db'))"

definition DatabaseKeyRepository_load_keys :: "'db DatabaseTrait \<Rightarrow> 'db \<Rightarrow> (DbError, PeerKey list) result" where
  "DatabaseKeyRepository_load_keys D db = load_keys D db"

section \<open>Handler (handler.rs)\<close>

datatype PeerKeyError = DurationOverflow u64 | InvalidKey string ParseKeyError | DatabaseError DbError

record AddKeyRequest =
  opt_key :: "string option"
  opt_seconds_valid :: "u64 option"

record 'db KeysHandler =
  db_key_repository :: 'db
  in_memory_key_repository :: InMemoryKeyRepository

definition add_expiring_peer_key ::
  "'db DatabaseTrait \<Rightarrow> Key \<Rightarrow> DurationSinceUnixEpoch option \<Rightarrow> 'db KeysHandler \<Rightarrow>
   (DbError, PeerKey) result \<times> 'db KeysHandler" where
  "add_expiring_peer_key D key t s =
     (let peer_key = \<lparr>pk_key = key, valid_until = t\<rparr>
      in case DatabaseKeyRepository_add D peer_key (db_key_repository s) of
           (Inl e, db) \<Rightarrow> (Inl e, s\<lparr>db_key_repository := db\<rparr>)
         | (Inr _, db) \<Rightarrow>
             (Inr peer_key,
              s\<lparr>db_key_repository := db,
                in_memory_key_repository := InMemoryKeyRepository_insert peer_key (in_memory_key_repository s)\<rparr>))"

definition add_permanent_peer_key ::
  "'db DatabaseTrait \<Rightarrow> Key \<Rightarrow> 'db KeysHandler \<Rightarrow> (DbError, PeerKey) result \<times> 'db KeysHandler" where
  "add_permanent_peer_key D key s = add_expiring_peer_key D key None s"

text \<open>The generation of a random key can panic, then there is no result (\<^const>\<open>None\<close>).\<close>

definition generate_expiring_peer_key ::
  "'db DatabaseTrait \<Rightarrow> (nat \<Rightarrow> char) \<Rightarrow> DurationSinceUnixEpoch \<Rightarrow> Duration option \<Rightarrow> 'db KeysHandler \<Rightarrow>
   ((DbError, PeerKey) result \<times> 'db KeysHandler) option" where
  "generate_expiring_peer_key D rng now lifetime s =
     (case generate_key rng now lifetime of
        None \<Rightarrow> None
      | Some peer_key \<Rightarrow>
          Some
            (case DatabaseKeyRepository_add D peer_key (db_key_repository s) of
               (Inl e, db) \<Rightarrow> (Inl e, s\<lparr>db_key_repository := db\<rparr>)
             | (Inr _, db) \<Rightarrow>
                 (Inr peer_key,
                  s\<lparr>db_key_repository := db,
                    in_memory_key_repository :=
                      InMemoryKeyRepository_insert peer_key (in_memory_key_repository s)\<rparr>)))"

definition generate_permanent_peer_key ::
  "'db DatabaseTrait \<Rightarrow> (nat \<Rightarrow> char) \<Rightarrow> DurationSinceUnixEpoch \<Rightarrow> 'db KeysHandler \<Rightarrow>
   ((DbError, PeerKey) result \<times> 'db KeysHandler) option" where
  "generate_permanent_peer_key D rng now s = generate_expiring_peer_key D rng now None s"

definition map_database_error :: "(DbError, 'a) result \<times> 's \<Rightarrow> (PeerKeyError, 'a) result \<times> 's" where
  "map_database_error r =
     (case r of (Inl e, s) \<Rightarrow> (Inl (DatabaseError e), s) | (Inr x, s) \<Rightarrow> (Inr x, s))"

definition add_peer_key ::
  "'db DatabaseTrait \<Rightarrow> (nat \<Rightarrow> char) \<Rightarrow> DurationSinceUnixEpoch \<Rightarrow> AddKeyRequest \<Rightarrow> 'db KeysHandler \<Rightarrow>
   ((PeerKeyError, PeerKey) result \<times> 'db KeysHandler) option" where
  "add_peer_key D rng now req s =
     (case opt_key req of
        Some pre_existing_key \<Rightarrow>
          (case opt_seconds_valid req of
             Some seconds_valid \<Rightarrow>
               (case now_add now (from_secs seconds_valid) of
                  None \<Rightarrow> Some (Inl (DurationOverflow seconds_valid), s)
                | Some t \<Rightarrow>
                    (case Key_from_str pre_existing_key of
                       Inr key \<Rightarrow> Some (map_database_error (add_expiring_peer_key D key (Some t) s))
                     | Inl err \<Rightarrow> Some (Inl (InvalidKey pre_existing_key err), s)))
           | None \<Rightarrow>
               (case Key_from_str pre_existing_key of
                  Inr key \<Rightarrow> Some (map_database_error (add_permanent_peer_key D key s))
                | Inl err \<Rightarrow> Some (Inl (InvalidKey pre_existing_key err), s)))
      | None \<Rightarrow>
          (case opt_seconds_valid req of
             Some seconds_valid \<Rightarrow>
               map_option map_database_error
                 (generate_expiring_peer_key D rng now (Some (from_secs seconds_valid)) s)
           | None \<Rightarrow> map_option map_database_error (generate_permanent_peer_key D rng now s)))"

definition remove_in_memory_auth_key :: "Key \<Rightarrow> 'db KeysHandler \<Rightarrow> 'db KeysHandler" where
  "remove_in_memory_auth_key key s =
     s\<lparr>in_memory_key_repository := InMemoryKeyRepository_remove key (in_memory_key_repository s)\<rparr>"

definition remove_peer_key ::
  "'db DatabaseTrait \<Rightarrow> Key \<Rightarrow> 'db KeysHandler \<Rightarrow> (DbError, unit) result \<times> 'db KeysHandler" where
  "remove_peer_key D key s =
     (case DatabaseKeyRepository_remove D key (db_key_repository s) of
        (Inl e, db) \<Rightarrow> (Inl e, s\<lparr>db_key_repository := db\<rparr>)
      | (Inr _, db) \<Rightarrow> (Inr (), remove_in_memory_auth_key key (s\<lparr>db_key_repository := db\<rparr>)))"

definition load_peer_keys_from_database ::
  "'db DatabaseTrait \<Rightarrow> 'db KeysHandler \<Rightarrow> (DbError, unit) result \<times> 'db KeysHandler" where
  "load_peer_keys_from_database D s =
     (case DatabaseKeyRepository_load_keys D (db_key_repository s) of
        Inl e \<Rightarrow> (Inl e, s)
      | Inr ks \<Rightarrow>
          (Inr (),
           s\<lparr>in_memory_key_repository :=
               InMemoryKeyRepository_reset_with ks (in_memory_key_repository s)\<rparr>))"

section \<open>Service (service.rs)\<close>

definition tracker_is_private :: "Core \<Rightarrow> bool" where
  "tracker_is_private config = core_private config"

definition verify_auth_key ::
  "Core \<Rightarrow> InMemoryKeyRepository \<Rightarrow> DurationSinceUnixEpoch \<Rightarrow> Key \<Rightarrow> (KeyError, unit) result" where
  "verify_auth_key config repo now key =
     (case InMemoryKeyRepository_get key repo of
        None \<Rightarrow> Inl (UnableToReadKey key)
      | Some peer_key \<Rightarrow>
          (case private_mode config of
             Some pm \<Rightarrow>
               if check_keys_expiration pm then verify_key_expiration now peer_key else Inr ()
           | None \<Rightarrow> verify_key_expiration now peer_key))"

definition authenticate ::
  "Core \<Rightarrow> InMemoryKeyRepository \<Rightarrow> DurationSinceUnixEpoch \<Rightarrow> Key \<Rightarrow> (KeyError, unit) result" where
  "authenticate config repo now key =
     (if tracker_is_private config then verify_auth_key config repo now key else Inr ())"

section \<open>Histories of the keys handler\<close>

text \<open>A request whose handling panics leaves the handler as it was.\<close>

datatype keys_op =
    AddKey "nat \<Rightarrow> char" DurationSinceUnixEpoch AddKeyRequest
  | RemoveKey Key
  | LoadKeys

fun keys_step :: "'db DatabaseTrait \<Rightarrow> keys_op \<Rightarrow> 'db KeysHandler \<Rightarrow> 'db KeysHandler" where
  "keys_step D (AddKey rng now req) s =
     (case add_peer_key D rng now req s of None \<Rightarrow> s | Some (_, s') \<Rightarrow> s')"
| "keys_step D (RemoveKey key) s = snd (remove_peer_key D key s)"
| "keys_step D LoadKeys s = snd (load_peer_keys_from_database D s)"

definition run_keys :: "'db DatabaseTrait \<Rightarrow> keys_op list \<Rightarrow> 'db KeysHandler \<Rightarrow> 'db KeysHandler" where
  "run_keys D ops s = fold (keys_step D) ops s"

text \<open>When a key asked for now expires.\<close>

definition requested_validity :: "DurationSinceUnixEpoch \<Rightarrow> AddKeyRequest \<Rightarrow> DurationSinceUnixEpoch option" where
  "requested_validity now req = map_option (\<lambda>n. now + from_secs n) (opt_seconds_valid req)"

text \<open>The keys that a history adds can be represented in the database.\<close>

fun op_storable :: "(PeerKey \<Rightarrow> bool) \<Rightarrow> keys_op \<Rightarrow> bool" where
  "op_storable storable (AddKey rng now req) =
     (\<forall>key. key_valid key \<longrightarrow> storable \<lparr>pk_key = key, valid_until = requested_validity now req\<rparr>)"
| "op_storable storable (RemoveKey key) = True"
| "op_storable storable LoadKeys = True"

text \<open>
  The memory holds exactly the keys of the database, each under its own name, with an expiration
  that differs from the stored one by less than a second.
\<close>

definition keys_synced :: "('db \<Rightarrow> DbView) \<Rightarrow> 'db KeysHandler \<Rightarrow> bool" where
  "keys_synced view s =
     ((\<forall>key. map_option stored_validity (keys (in_memory_key_repository s) key) =
             v_keys (view (db_key_repository s)) key) \<and>
      (\<forall>key pk. keys (in_memory_key_repository s) key = Some pk \<longrightarrow>
         pk_key pk = key \<and> (\<forall>t. valid_until pk = Some t \<longrightarrow> t \<le> DURATION_MAX)))"

section \<open>Lemmas\<close>

lemma PeerKey_surj [simp]: "\<lparr>pk_key = pk_key pk, valid_until = valid_until pk\<rparr> = (pk :: PeerKey)"
  by (cases pk) simp

lemma generate_expiring_as_add:
  "generate_expiring_peer_key D rng now lifetime s =
     map_option (\<lambda>pk. add_expiring_peer_key D (pk_key pk) (valid_until pk) s) (generate_key rng now lifetime)"
  by (simp add: generate_expiring_peer_key_def add_expiring_peer_key_def Let_def split: option.split)

lemma generate_key_validity:
  "generate_key rng now (map_option from_secs secs) = Some pk \<Longrightarrow>
   key_valid (pk_key pk) \<and> valid_until pk = map_option (\<lambda>n. now + from_secs n) secs \<and>
   (\<forall>t. valid_until pk = Some t \<longrightarrow> t \<le> DURATION_MAX)"
  by (auto simp: generate_key_def now_add_def duration_checked_add_def key_valid_random
      split: option.splits if_splits)

text \<open>Adding a key either reports an error and changes nothing, or is one insertion.\<close>

lemma add_peer_key_cases:
  assumes "add_peer_key D rng now req s = Some (r, s')"
  shows "(s' = s \<and> (\<exists>e. r = Inl e)) \<or>
         (\<exists>key t. key_valid key \<and> t = requested_validity now req \<and> (\<forall>d. t = Some d \<longrightarrow> d \<le> DURATION_MAX) \<and>
            (r, s') = map_database_error (add_expiring_peer_key D key t s))"
proof (cases "opt_key req")
  case (Some given)
  show ?thesis
  proof (cases "Key_from_str given")
    case (Inl e)
    then show ?thesis
      using assms Some by (auto simp: add_peer_key_def split: option.splits)
  next
    case (Inr key)
    then show ?thesis
      using assms Some
      by (auto simp: add_peer_key_def add_permanent_peer_key_def requested_validity_def now_add_def
          duration_checked_add_def key_valid_from_str split: option.splits if_splits intro!: exI [of _ key])
  qed
next
  case None
  then have "map_option map_database_error
      (generate_expiring_peer_key D rng now (map_option from_secs (opt_seconds_valid req)) s) = Some (r, s')"
    using assms
    by (cases "opt_seconds_valid req") (simp_all add: add_peer_key_def generate_permanent_peer_key_def)
  then obtain pk where pk: "generate_key rng now (map_option from_secs (opt_seconds_valid req)) = Some pk"
    and r: "(r, s') = map_database_error (add_expiring_peer_key D (pk_key pk) (valid_until pk) s)"
    by (auto simp: generate_expiring_as_add)
  then show ?thesis
    using generate_key_validity [OF pk] by (auto simp: requested_validity_def)
qed

lemma keys_fold_insert:
  "distinct (map pk_key ks) \<Longrightarrow>
   keys (fold InMemoryKeyRepository_insert ks s) key = Some pk \<longleftrightarrow>
   pk \<in> set ks \<and> pk_key pk = key \<or> key \<notin> pk_key ` set ks \<and> keys s key = Some pk"
  by (induction ks arbitrary: s) (auto simp: InMemoryKeyRepository_insert_def)

lemma keys_reset_with:
  "distinct (map pk_key ks) \<Longrightarrow>
   keys (InMemoryKeyRepository_reset_with ks s) key = Some pk \<longleftrightarrow> pk \<in> set ks \<and> pk_key pk = key"
  by (simp add: InMemoryKeyRepository_reset_with_def keys_fold_insert)

context database
begin

lemma add_expiring_peer_key_effect:
  assumes "ok (db_key_repository s)" and "storable \<lparr>pk_key = key, valid_until = t\<rparr>"
    and "add_expiring_peer_key D key t s = (r, s')"
  shows "ok (db_key_repository s') \<and>
    (case r of
       Inr pk \<Rightarrow>
         pk = \<lparr>pk_key = key, valid_until = t\<rparr> \<and>
         keys (in_memory_key_repository s') = (keys (in_memory_key_repository s))(key \<mapsto> pk) \<and>
         v_keys (view (db_key_repository s')) = (v_keys (view (db_key_repository s)))(key \<mapsto> stored_validity pk)
     | Inl _ \<Rightarrow>
         in_memory_key_repository s' = in_memory_key_repository s \<and>
         view (db_key_repository s') = view (db_key_repository s))"
proof -
  obtain r0 db' where add: "add_key_to_keys D \<lparr>pk_key = key, valid_until = t\<rparr> (db_key_repository s) = (r0, db')"
    by fastforce
  then show ?thesis
    using assms(3) add_key [OF assms(1, 2)]
    by (cases r0) (auto simp: add_expiring_peer_key_def DatabaseKeyRepository_add_def
        InMemoryKeyRepository_insert_def Let_def)
qed

lemma add_peer_key_synced:
  assumes "ok (db_key_repository s)" and "keys_synced view s"
    and "op_storable storable (AddKey rng now req)"
    and "add_peer_key D rng now req s = Some (r, s')"
  shows "ok (db_key_repository s') \<and> keys_synced view s'"
  using add_peer_key_cases [OF assms(4)]
proof (elim disjE exE conjE)
  fix key t
  assume valid: "key_valid key" and t: "t = requested_validity now req" and max: "\<forall>d. t = Some d \<longrightarrow> d \<le> DURATION_MAX"
    and "(r, s') = map_database_error (add_expiring_peer_key D key t s)"
  then obtain r0 where r0: "add_expiring_peer_key D key t s = (r0, s')"
    by (auto simp: map_database_error_def split: prod.splits sum.splits)
  have "storable \<lparr>pk_key = key, valid_until = t\<rparr>"
    using assms(3) t valid by simp
  from add_expiring_peer_key_effect [OF assms(1) this r0] show ?thesis
    using assms(2) max by (cases r0) (auto simp: keys_synced_def)
qed (use assms in auto)

lemma remove_peer_key_synced:
  assumes "ok (db_key_repository s)" and "keys_synced view s"
  shows "ok (db_key_repository (snd (remove_peer_key D key s))) \<and>
         keys_synced view (snd (remove_peer_key D key s))"
proof -
  obtain r db' where rm: "remove_key_from_keys D key (db_key_repository s) = (r, db')"
    by fastforce
  then show ?thesis
    using assms(2) remove_key [OF assms(1), of key]
    by (cases r) (auto simp: remove_peer_key_def DatabaseKeyRepository_remove_def
        remove_in_memory_auth_key_def InMemoryKeyRepository_remove_def keys_synced_def)
qed

lemma load_peer_keys_effect:
  assumes "ok (db_key_repository s)" and "load_peer_keys_from_database D s = (Inr u, s')"
  shows "db_key_repository s' = db_key_repository s"
    and "keys (in_memory_key_repository s') key =
         map_option (\<lambda>sec. \<lparr>pk_key = key, valid_until = map_option from_secs sec\<rparr>)
           (v_keys (view (db_key_repository s)) key)"
proof -
  obtain ks where ks: "load_keys D (db_key_repository s) = Inr ks"
    and s': "s' = s\<lparr>in_memory_key_repository := InMemoryKeyRepository_reset_with ks (in_memory_key_repository s)\<rparr>"
    using assms(2)
    by (auto simp: load_peer_keys_from_database_def DatabaseKeyRepository_load_keys_def split: sum.splits)
  show "db_key_repository s' = db_key_repository s"
    by (simp add: s')
  note load = load_keys [OF assms(1) ks]
  have mem: "pk \<in> set ks \<longleftrightarrow>
      (\<exists>sec. v_keys (view (db_key_repository s)) (pk_key pk) = Some sec \<and> valid_until pk = map_option from_secs sec)"
    for pk :: PeerKey
  proof -
    have "pk \<in> set ks \<longleftrightarrow> (pk_key pk, valid_until pk) \<in> {(pk_key k, valid_until k) | k. k \<in> set ks}"
      by (auto, metis (full_types) PeerKey.equality old.unit.exhaust)
    then show ?thesis
      unfolding load(2) by auto
  qed
  show "keys (in_memory_key_repository s') key =
         map_option (\<lambda>sec. \<lparr>pk_key = key, valid_until = map_option from_secs sec\<rparr>)
           (v_keys (view (db_key_repository s)) key)"
  proof (cases "v_keys (view (db_key_repository s)) key")
    case None
    then have "keys (in_memory_key_repository s') key \<noteq> Some pk" for pk
      using mem [of pk] by (auto simp: s' keys_reset_with [OF load(1)])
    then show ?thesis
      by (cases "keys (in_memory_key_repository s') key") (auto simp: None)
  next
    case (Some sec)
    then have "keys (in_memory_key_repository s') key = Some \<lparr>pk_key = key, valid_until = map_option from_secs sec\<rparr>"
      using mem [of "\<lparr>pk_key = key, valid_until = map_option from_secs sec\<rparr>"]
      by (simp add: s' keys_reset_with [OF load(1)])
    then show ?thesis
      by (simp add: Some)
  qed
qed

lemma load_peer_keys_synced:
  assumes "ok (db_key_repository s)" and "keys_synced view s"
  shows "ok (db_key_repository (snd (load_peer_keys_from_database D s))) \<and>
         keys_synced view (snd (load_peer_keys_from_database D s))"
proof (cases "fst (load_peer_keys_from_database D s)")
  case (Inl e)
  then have "snd (load_peer_keys_from_database D s) = s"
    by (auto simp: load_peer_keys_from_database_def split: sum.splits)
  then show ?thesis
    using assms by simp
next
  case (Inr u)
  then have "load_peer_keys_from_database D s = (Inr u, snd (load_peer_keys_from_database D s))"
    by (metis prod.collapse)
  from load_peer_keys_effect [OF assms(1) this] show ?thesis
    using assms(1)
    by (auto simp: keys_synced_def stored_validity_def option.map_comp comp_def option.map_ident)
qed

lemma run_keys_synced:
  "ok (db_key_repository s) \<Longrightarrow> keys_synced view s \<Longrightarrow> \<forall>op \<in> set ops. op_storable storable op \<Longrightarrow>
   ok (db_key_repository (run_keys D ops s)) \<and> keys_synced view (run_keys D ops s)"
proof (induction ops arbitrary: s)
  case (Cons op ops)
  have "ok (db_key_repository (keys_step D op s)) \<and> keys_synced view (keys_step D op s)"
  proof (cases op)
    case (AddKey rng now req)
    then show ?thesis
      using Cons.prems add_peer_key_synced [of s rng now req] by (auto split: option.split)
  next
    case (RemoveKey key)
    then show ?thesis
      using Cons.prems remove_peer_key_synced [of s key] by simp
  next
    case LoadKeys
    then show ?thesis
      using Cons.prems load_peer_keys_synced [of s] by simp
  qed
  then show ?case
    using Cons.IH [of "keys_step D op s"] Cons.prems by (simp add: run_keys_def)
qed (simp add: run_keys_def)

end

section \<open>Authentication decisions\<close>

definition expiration_checked :: "Core \<Rightarrow> bool" where
  "expiration_checked config =
     (case private_mode config of None \<Rightarrow> True | Some pm \<Rightarrow> check_keys_expiration pm)"

lemma authenticate_cases:
  "authenticate config repo now key =
     (if \<not> core_private config then Inr ()
      else case keys repo key of
             None \<Rightarrow> Inl (UnableToReadKey key)
           | Some pk \<Rightarrow> if expiration_checked config then verify_key_expiration now pk else Inr ())"
  by (simp add: authenticate_def tracker_is_private_def verify_auth_key_def expiration_checked_def
      InMemoryKeyRepository_get_def split: option.split)

text \<open>
  In public mode every key is accepted. In private mode a key is accepted exactly when it is
  known and, where expiration is checked, the present moment is not past the moment until which it
  is valid; an unknown key and an expired key are told apart. Expiration is checked unless the
  private mode section switches the check off.
\<close>
theorem authenticate_exact:
  "(authenticate config repo now key = Inr () \<longleftrightarrow>
      \<not> core_private config \<or>
      (\<exists>pk. keys repo key = Some pk \<and>
            (expiration_checked config \<longrightarrow> (\<forall>t. valid_until pk = Some t \<longrightarrow> now \<le> t)))) \<and>
   (authenticate config repo now key = Inl (UnableToReadKey key) \<longleftrightarrow>
      core_private config \<and> keys repo key = None) \<and>
   (authenticate config repo now key = Inl KeyExpired \<longleftrightarrow>
      core_private config \<and> expiration_checked config \<and>
      (\<exists>pk t. keys repo key = Some pk \<and> valid_until pk = Some t \<and> t < now))"
  by (auto simp: authenticate_cases verify_key_expiration_def split: option.splits if_splits)

definition sample_key :: Key where
  "sample_key = Key (replicate 32 CHR ''k'')"

theorem authenticate_exact_witness:
  "authenticate (Core_default\<lparr>core_private := True\<rparr>)
     \<lparr>keys = [sample_key \<mapsto> \<lparr>pk_key = sample_key, valid_until = Some 5\<rparr>]\<rparr> 5 sample_key = Inr () \<and>
   authenticate (Core_default\<lparr>core_private := True\<rparr>)
     \<lparr>keys = [sample_key \<mapsto> \<lparr>pk_key = sample_key, valid_until = Some 5\<rparr>]\<rparr> 6 sample_key = Inl KeyExpired"
  using authenticate_exact [of "Core_default\<lparr>core_private := True\<rparr>"
      "\<lparr>keys = [sample_key \<mapsto> \<lparr>pk_key = sample_key, valid_until = Some 5\<rparr>]\<rparr>" 5 sample_key]
    authenticate_exact [of "Core_default\<lparr>core_private := True\<rparr>"
      "\<lparr>keys = [sample_key \<mapsto> \<lparr>pk_key = sample_key, valid_until = Some 5\<rparr>]\<rparr>" 6 sample_key]
  by (simp add: expiration_checked_def Core_default_def Core_default_private_mode_def
      Core_default_private_def)

text \<open>
  C32: A request to add a pre-generated key whose lifetime overflows the clock is answered with an
  error and changes nothing, and the same request for a random key panics.
\<close>
theorem add_key_overflow:
  assumes "DURATION_MAX < now + from_secs n" and "alphanumeric_source rng"
  shows "add_peer_key D rng now \<lparr>opt_key = Some given, opt_seconds_valid = Some n\<rparr> s =
           Some (Inl (DurationOverflow n), s) \<and>
         add_peer_key D rng now \<lparr>opt_key = None, opt_seconds_valid = Some n\<rparr> s = None"
  using assms
  by (simp add: add_peer_key_def generate_expiring_peer_key_def generate_key_def now_add_def
      duration_checked_add_def Key_random_ok)

theorem add_key_overflow_witness:
  "\<forall>D. add_peer_key D (\<lambda>_. CHR ''x'') (from_secs 1) \<lparr>opt_key = None, opt_seconds_valid = Some 18446744073709551615\<rparr>
     \<lparr>db_key_repository = (), in_memory_key_repository = \<lparr>keys = Map.empty\<rparr>\<rparr> = None"
proof -
  have "DURATION_MAX < from_secs 1 + from_secs 18446744073709551615"
    by (simp add: from_secs_def DURATION_MAX_def NANOS_PER_SEC_def)
  moreover have "alphanumeric_source (\<lambda>_. CHR ''x'')"
    by (simp add: alphanumeric_source_def is_ascii_alphanumeric_def of_char_def)
  ultimately show ?thesis
    using add_key_overflow by blast
qed

end
