(* ===== verification/Http_Handlers.thy ===== *)
theory Http_Handlers
  imports Http_Requests Http_Responses Statistics Authentication
begin

text \<open>
  The HTTP tracker (\<open>src/servers/http/v1\<close>): the extractors of the requests, the handlers of the
  routes and the services they call. The web framework is a parameter as far as it turns a request
  into its parts: the query of the URL, the key in the path, and the addresses of the client. The texts
  of the errors and the serializer of error responses belong to other crates.
\<close>

section \<open>Errors (responses/error.rs, handlers/common/auth.rs)\<close>

datatype HttpAuthError = MissingAuthKey | InvalidKeyFormat | CannotExtractKeyParam

record error_texts =
  show_query_error :: "ParseQueryError \<Rightarrow> string"
  show_announce_error :: "ParseAnnounceQueryError \<Rightarrow> string"
  show_scrape_error :: "ParseScrapeQueryError \<Rightarrow> string"
  show_ip_error :: "PeerIpResolutionError \<Rightarrow> string"
  show_whitelist_error :: "WhitelistError \<Rightarrow> string"
  show_auth_error :: "HttpAuthError \<Rightarrow> string"
  show_key_error :: "KeyError \<Rightarrow> string"

record HttpError =
  failure_reason :: string

definition error_from_query :: "error_texts \<Rightarrow> ParseQueryError \<Rightarrow> HttpError" where
  "error_from_query T e = \<lparr>failure_reason = ''Bad request. Cannot parse query params: '' @ show_query_error T e\<rparr>"

definition error_from_announce :: "error_texts \<Rightarrow> ParseAnnounceQueryError \<Rightarrow> HttpError" where
  "error_from_announce T e =
     \<lparr>failure_reason = ''Bad request. Cannot parse query params for announce request: '' @ show_announce_error T e\<rparr>"

definition error_from_scrape :: "error_texts \<Rightarrow> ParseScrapeQueryError \<Rightarrow> HttpError" where
  "error_from_scrape T e =
     \<lparr>failure_reason = ''Bad request. Cannot parse query params for scrape request: '' @ show_scrape_error T e\<rparr>"

definition error_from_ip :: "error_texts \<Rightarrow> PeerIpResolutionError \<Rightarrow> HttpError" where
  "error_from_ip T e = \<lparr>failure_reason = ''Error resolving peer IP: '' @ show_ip_error T e\<rparr>"

definition error_from_whitelist :: "error_texts \<Rightarrow> WhitelistError \<Rightarrow> HttpError" where
  "error_from_whitelist T e = \<lparr>failure_reason = ''Tracker error: '' @ show_whitelist_error T e\<rparr>"

definition error_from_auth :: "error_texts \<Rightarrow> HttpAuthError \<Rightarrow> HttpError" where
  "error_from_auth T e = \<lparr>failure_reason = ''Authentication error: '' @ show_auth_error T e\<rparr>"

definition map_auth_error_to_error_response :: "error_texts \<Rightarrow> KeyError \<Rightarrow> HttpError" where
  "map_auth_error_to_error_response T e = \<lparr>failure_reason = ''Authentication error: '' @ show_key_error T e\<rparr>"

section \<open>The environment and the state\<close>

record ('s, 'db, 'm) http_env =
  he_repository :: "'s Repository"
  he_database :: "'db DatabaseTrait"
  he_multimap :: "'m multimap_api"
  he_url :: url_api
  he_order :: "(InfoHash \<rightharpoonup> SwarmMetadata) \<Rightarrow> (InfoHash \<times> SwarmMetadata) list"
  he_texts :: error_texts
  to_bencode_string :: "HttpError \<Rightarrow> u8 list"

text \<open>
  The services shared by the handlers (\<open>HttpTrackerContainer\<close>). The scrape handler reads the same
  torrents as the announce handler; the events that were sent to the statistics are kept in order.
\<close>

record ('s, 'db) HttpTrackerContainer =
  ht_core_config :: Core
  ht_announce_handler :: "('s, 'db) AnnounceHandler"
  ht_keys :: InMemoryKeyRepository
  ht_whitelist :: InMemoryWhitelist
  ht_stats_enabled :: bool
  ht_events :: "HttpEvent list"

record HttpResponse =
  response_status :: nat
  response_body :: "u8 list"

definition http_send_event :: "HttpEvent \<Rightarrow> ('s, 'db) HttpTrackerContainer \<Rightarrow> ('s, 'db) HttpTrackerContainer" where
  "http_send_event e c = (if ht_stats_enabled c then c\<lparr>ht_events := ht_events c @ [e]\<rparr> else c)"

definition error_response :: "('s, 'db, 'm) http_env \<Rightarrow> HttpError \<Rightarrow> HttpResponse" where
  "error_response E e = \<lparr>response_status = 200, response_body = to_bencode_string E e\<rparr>"

section \<open>Extractors (extractors)\<close>

definition extract_announce_from :: "('s, 'db, 'm) http_env \<Rightarrow> string option \<Rightarrow> (HttpError, AnnounceQuery) result" where
  "extract_announce_from E maybe_raw_query =
     (case maybe_raw_query of
        None \<Rightarrow> Inl (error_from_announce (he_texts E) MissingParams)
      | Some raw_query \<Rightarrow>
          (case Query_from_str (he_multimap E) raw_query of
             Inl e \<Rightarrow> Inl (error_from_query (he_texts E) e)
           | Inr query \<Rightarrow> map_err (error_from_announce (he_texts E)) (Announce_try_from (he_multimap E) (he_url E) query)))"

definition extract_scrape_from :: "('s, 'db, 'm) http_env \<Rightarrow> string option \<Rightarrow> (HttpError, ScrapeQuery) result" where
  "extract_scrape_from E maybe_raw_query =
     (case maybe_raw_query of
        None \<Rightarrow> Inl (error_from_scrape (he_texts E) ScrapeMissingParams)
      | Some raw_query \<Rightarrow>
          (case Query_from_str (he_multimap E) raw_query of
             Inl e \<Rightarrow> Inl (error_from_query (he_texts E) e)
           | Inr query \<Rightarrow> map_err (error_from_scrape (he_texts E)) (Scrape_try_from (he_multimap E) (he_url E) query)))"

datatype PathRejection = FailedToDeserializePathParams | MissingPathParams | OtherRejection

fun custom_error :: "error_texts \<Rightarrow> PathRejection \<Rightarrow> HttpError" where
  "custom_error T FailedToDeserializePathParams = error_from_auth T InvalidKeyFormat"
| "custom_error T MissingPathParams = error_from_auth T MissingAuthKey"
| "custom_error T OtherRejection = error_from_auth T CannotExtractKeyParam"

definition parse_key :: "error_texts \<Rightarrow> string \<Rightarrow> (HttpError, Key) result" where
  "parse_key T key = map_err (\<lambda>_. error_from_auth T InvalidKeyFormat) (Key_from_str key)"

definition extract_key :: "error_texts \<Rightarrow> (PathRejection, string) result \<Rightarrow> (HttpError, Key) result" where
  "extract_key T path = (case path of Inr key_param \<Rightarrow> parse_key T key_param | Inl rejection \<Rightarrow> Inl (custom_error T rejection))"

section \<open>Services (services)\<close>

definition announce_invoke ::
  "('s, 'db, 'm) http_env \<Rightarrow> InfoHash \<Rightarrow> Peer \<Rightarrow> PeersWanted \<Rightarrow> ('s, 'db) HttpTrackerContainer \<Rightarrow>
   AnnounceData \<times> ('s, 'db) HttpTrackerContainer" where
  "announce_invoke E info_hash peer peers_wanted c =
     (let original_peer_ip = sa_ip (peer_addr peer);
          ((announce_data, _), h) = announce (he_repository E) (he_database E) (ht_core_config c) info_hash peer
            original_peer_ip peers_wanted (ht_announce_handler c)
      in (announce_data,
          http_send_event (per_version original_peer_ip Tcp4Announce Tcp6Announce) (c\<lparr>ht_announce_handler := h\<rparr>)))"

definition send_scrape_event :: "IpAddr \<Rightarrow> ('s, 'db) HttpTrackerContainer \<Rightarrow> ('s, 'db) HttpTrackerContainer" where
  "send_scrape_event original_peer_ip c = http_send_event (per_version original_peer_ip Tcp4Scrape Tcp6Scrape) c"

definition scrape_invoke ::
  "('s, 'db, 'm) http_env \<Rightarrow> InfoHash list \<Rightarrow> IpAddr \<Rightarrow> ('s, 'db) HttpTrackerContainer \<Rightarrow>
   ScrapeData \<times> ('s, 'db) HttpTrackerContainer" where
  "scrape_invoke E info_hashes original_peer_ip c =
     (let scrape_data = scrape (he_repository E) (ht_core_config c) (ht_whitelist c) info_hashes
            (in_memory_torrent_repository (ht_announce_handler c))
      in (scrape_data, send_scrape_event original_peer_ip c))"

definition scrape_fake ::
  "InfoHash list \<Rightarrow> IpAddr \<Rightarrow> ('s, 'db) HttpTrackerContainer \<Rightarrow> ScrapeData \<times> ('s, 'db) HttpTrackerContainer" where
  "scrape_fake info_hashes original_peer_ip c =
     (ScrapeData_zeroed info_hashes, send_scrape_event original_peer_ip c)"

section \<open>Announce handlers (handlers/announce.rs)\<close>

fun map_to_torrust_event :: "Event option \<Rightarrow> AnnounceEvent" where
  "map_to_torrust_event (Some Started) = EventStarted"
| "map_to_torrust_event (Some Stopped) = EventStopped"
| "map_to_torrust_event (Some Completed) = EventCompleted"
| "map_to_torrust_event None = EventNone"

definition peer_from_request :: "DurationSinceUnixEpoch \<Rightarrow> AnnounceQuery \<Rightarrow> IpAddr \<Rightarrow> Peer" where
  "peer_from_request now request ip =
     (let unwrap_or_zero = (\<lambda>n :: i64 option. case n of Some k \<Rightarrow> k | None \<Rightarrow> 0)
      in \<lparr>peer_id = aq_peer_id request, peer_addr = SocketAddr ip (aq_port request), updated = now,
          uploaded = unwrap_or_zero (aq_uploaded request), downloaded = unwrap_or_zero (aq_downloaded request),
          left = unwrap_or_zero (aq_left request), event = map_to_torrust_event (aq_event request)\<rparr>)"

definition http_handle_announce ::
  "('s, 'db, 'm) http_env \<Rightarrow> DurationSinceUnixEpoch \<Rightarrow> AnnounceQuery \<Rightarrow> ClientIpSources \<Rightarrow> Key option \<Rightarrow>
   ('s, 'db) HttpTrackerContainer \<Rightarrow> (HttpError, AnnounceData) result \<times> ('s, 'db) HttpTrackerContainer" where
  "http_handle_announce E now request client_ip_sources maybe_key c =
     (case (if core_private (ht_core_config c)
            then (case maybe_key of
                    Some key \<Rightarrow> map_err (map_auth_error_to_error_response (he_texts E))
                      (authenticate (ht_core_config c) (ht_keys c) now key)
                  | None \<Rightarrow> Inl (error_from_auth (he_texts E) MissingAuthKey))
            else Inr ()) of
        Inl e \<Rightarrow> (Inl e, c)
      | Inr _ \<Rightarrow>
          (case authorize (ht_core_config c) (ht_whitelist c) (aq_info_hash request) of
             Inl e \<Rightarrow> (Inl (error_from_whitelist (he_texts E) e), c)
           | Inr _ \<Rightarrow>
               (case peer_ip_resolver_invoke (on_reverse_proxy (net (ht_core_config c))) client_ip_sources of
                  Inl e \<Rightarrow> (Inl (error_from_ip (he_texts E) e), c)
                | Inr resolved_ip \<Rightarrow>
                    (let peer = peer_from_request now request resolved_ip;
                         peers_wanted = (case aq_numwant request of
                                           Some numwant \<Rightarrow> PeersWanted_only numwant
                                         | None \<Rightarrow> AsManyAsPossible);
                         (announce_data, c') = announce_invoke E (aq_info_hash request) peer peers_wanted c
                     in (Inr announce_data, c')))))"

definition build_announce_response :: "AnnounceQuery \<Rightarrow> AnnounceData \<Rightarrow> HttpResponse" where
  "build_announce_response request announce_data =
     (if aq_compact request = Some Accepted
      then \<lparr>response_status = 200, response_body = Compact_into (Compact_from announce_data)\<rparr>
      else \<lparr>response_status = 200, response_body = Normal_into (Normal_from announce_data)\<rparr>)"

definition announce_handle ::
  "('s, 'db, 'm) http_env \<Rightarrow> DurationSinceUnixEpoch \<Rightarrow> AnnounceQuery \<Rightarrow> ClientIpSources \<Rightarrow> Key option \<Rightarrow>
   ('s, 'db) HttpTrackerContainer \<Rightarrow> HttpResponse \<times> ('s, 'db) HttpTrackerContainer" where
  "announce_handle E now request client_ip_sources maybe_key c =
     (case http_handle_announce E now request client_ip_sources maybe_key c of
        (Inr announce_data, c') \<Rightarrow> (build_announce_response request announce_data, c')
      | (Inl e, c') \<Rightarrow> (error_response E e, c'))"

definition announce_handle_without_key ::
  "('s, 'db, 'm) http_env \<Rightarrow> DurationSinceUnixEpoch \<Rightarrow> string option \<Rightarrow> ClientIpSources \<Rightarrow>
   ('s, 'db) HttpTrackerContainer \<Rightarrow> HttpResponse \<times> ('s, 'db) HttpTrackerContainer" where
  "announce_handle_without_key E now raw_query client_ip_sources c =
     (case extract_announce_from E raw_query of
        Inl e \<Rightarrow> (error_response E e, c)
      | Inr request \<Rightarrow> announce_handle E now request client_ip_sources None c)"

definition announce_handle_with_key ::
  "('s, 'db, 'm) http_env \<Rightarrow> DurationSinceUnixEpoch \<Rightarrow> string option \<Rightarrow> ClientIpSources \<Rightarrow>
   (PathRejection, string) result \<Rightarrow> ('s, 'db) HttpTrackerContainer \<Rightarrow> HttpResponse \<times> ('s, 'db) HttpTrackerContainer" where
  "announce_handle_with_key E now raw_query client_ip_sources path c =
     (case extract_announce_from E raw_query of
        Inl e \<Rightarrow> (error_response E e, c)
      | Inr request \<Rightarrow>
          (case extract_key (he_texts E) path of
             Inl e \<Rightarrow> (error_response E e, c)
           | Inr key \<Rightarrow> announce_handle E now request client_ip_sources (Some key) c))"

section \<open>Scrape handlers (handlers/scrape.rs)\<close>

definition http_handle_scrape ::
  "('s, 'db, 'm) http_env \<Rightarrow> DurationSinceUnixEpoch \<Rightarrow> ScrapeQuery \<Rightarrow> ClientIpSources \<Rightarrow> Key option \<Rightarrow>
   ('s, 'db) HttpTrackerContainer \<Rightarrow> (HttpError, ScrapeData) result \<times> ('s, 'db) HttpTrackerContainer" where
  "http_handle_scrape E now request client_ip_sources maybe_key c =
     (let return_real_scrape_data =
            (if core_private (ht_core_config c)
             then (case maybe_key of
                     Some key \<Rightarrow> (case authenticate (ht_core_config c) (ht_keys c) now key of Inr _ \<Rightarrow> True | Inl _ \<Rightarrow> False)
                   | None \<Rightarrow> False)
             else True)
      in case peer_ip_resolver_invoke (on_reverse_proxy (net (ht_core_config c))) client_ip_sources of
           Inl e \<Rightarrow> (Inl (error_from_ip (he_texts E) e), c)
         | Inr resolved_ip \<Rightarrow>
             (let (scrape_data, c') = (if return_real_scrape_data then scrape_invoke E (sq_info_hashes request) resolved_ip c
                                       else scrape_fake (sq_info_hashes request) resolved_ip c)
              in (Inr scrape_data, c')))"

definition build_scrape_response :: "('s, 'db, 'm) http_env \<Rightarrow> ScrapeData \<Rightarrow> HttpResponse" where
  "build_scrape_response E scrape_data =
     \<lparr>response_status = 200, response_body = Bencoded_body (he_order E) scrape_data\<rparr>"

definition scrape_handle ::
  "('s, 'db, 'm) http_env \<Rightarrow> DurationSinceUnixEpoch \<Rightarrow> ScrapeQuery \<Rightarrow> ClientIpSources \<Rightarrow> Key option \<Rightarrow>
   ('s, 'db) HttpTrackerContainer \<Rightarrow> HttpResponse \<times> ('s, 'db) HttpTrackerContainer" where
  "scrape_handle E now request client_ip_sources maybe_key c =
     (case http_handle_scrape E now request client_ip_sources maybe_key c of
        (Inr scrape_data, c') \<Rightarrow> (build_scrape_response E scrape_data, c')
      | (Inl e, c') \<Rightarrow> (error_response E e, c'))"

definition scrape_handle_without_key ::
  "('s, 'db, 'm) http_env \<Rightarrow> DurationSinceUnixEpoch \<Rightarrow> string option \<Rightarrow> ClientIpSources \<Rightarrow>
   ('s, 'db) HttpTrackerContainer \<Rightarrow> HttpResponse \<times> ('s, 'db) HttpTrackerContainer" where
  "scrape_handle_without_key E now raw_query client_ip_sources c =
     (case extract_scrape_from E raw_query of
        Inl e \<Rightarrow> (error_response E e, c)
      | Inr request \<Rightarrow> scrape_handle E now request client_ip_sources None c)"

definition scrape_handle_with_key ::
  "('s, 'db, 'm) http_env \<Rightarrow> DurationSinceUnixEpoch \<Rightarrow> string option \<Rightarrow> ClientIpSources \<Rightarrow>
   (PathRejection, string) result \<Rightarrow> ('s, 'db) HttpTrackerContainer \<Rightarrow> HttpResponse \<times> ('s, 'db) HttpTrackerContainer" where
  "scrape_handle_with_key E now raw_query client_ip_sources path c =
     (case extract_scrape_from E raw_query of
        Inl e \<Rightarrow> (error_response E e, c)
      | Inr request \<Rightarrow>
          (case extract_key (he_texts E) path of
             Inl e \<Rightarrow> (error_response E e, c)
           | Inr key \<Rightarrow> scrape_handle E now request client_ip_sources (Some key) c))"

section \<open>Routes (routes.rs)\<close>

text \<open>The routes with the key that the framework found in the path; the health check is apart.\<close>

datatype HttpRoute =
    AnnounceRoute
  | AnnounceKeyRoute "(PathRejection, string) result"
  | ScrapeRoute
  | ScrapeKeyRoute "(PathRejection, string) result"

fun http_router ::
  "('s, 'db, 'm) http_env \<Rightarrow> DurationSinceUnixEpoch \<Rightarrow> HttpRoute \<Rightarrow> string option \<Rightarrow> ClientIpSources \<Rightarrow>
   ('s, 'db) HttpTrackerContainer \<Rightarrow> HttpResponse \<times> ('s, 'db) HttpTrackerContainer" where
  "http_router E now AnnounceRoute raw_query sources c = announce_handle_without_key E now raw_query sources c"
| "http_router E now (AnnounceKeyRoute path) raw_query sources c = announce_handle_with_key E now raw_query sources path c"
| "http_router E now ScrapeRoute raw_query sources c = scrape_handle_without_key E now raw_query sources c"
| "http_router E now (ScrapeKeyRoute path) raw_query sources c = scrape_handle_with_key E now raw_query sources path c"

end
