(* ===== verification/Http_Client.thy ===== *)
theory Http_Client
  imports Http_Requests Ip_Text Authentication_Key
begin

text \<open>
  The HTTP client of the tracker (\<open>packages/tracker-client/src/http\<close>): it builds the queries of
  announce and scrape requests and reads the responses. The percent encoding of another crate is a
  parameter; the locale \<open>percent_codec\<close> says that the server's decoder inverts it.
\<close>

section \<open>Announce queries (client/requests/announce.rs)\<close>

datatype ClientEvent = ClientCompleted

fun ClientEvent_fmt :: "ClientEvent \<Rightarrow> string" where
  "ClientEvent_fmt ClientCompleted = ''completed''"

record ClientAnnounce =
  ca_info_hash :: "u8 list"
  ca_peer_addr :: IpAddr
  ca_downloaded :: u64
  ca_uploaded :: u64
  ca_peer_id :: "u8 list"
  ca_port :: u16
  ca_left :: u64
  ca_event :: "ClientEvent option"
  ca_compact :: "Compact option"

record QueryParams =
  qp_info_hash :: "string option"
  qp_peer_addr :: "string option"
  qp_downloaded :: "string option"
  qp_uploaded :: "string option"
  qp_peer_id :: "string option"
  qp_port :: "string option"
  qp_left :: "string option"
  qp_event :: "string option"
  qp_compact :: "string option"

definition percent_encode_byte_array :: "(u8 list \<Rightarrow> string) \<Rightarrow> u8 list \<Rightarrow> string" where
  "percent_encode_byte_array percent_encode bytes = percent_encode bytes"

definition QueryParams_from :: "(u8 list \<Rightarrow> string) \<Rightarrow> ClientAnnounce \<Rightarrow> QueryParams" where
  "QueryParams_from percent_encode q =
     \<lparr>qp_info_hash = Some (percent_encode_byte_array percent_encode (ca_info_hash q)),
      qp_peer_addr = Some (ip_to_string (ca_peer_addr q)),
      qp_downloaded = Some (nat_to_string (unat (ca_downloaded q))),
      qp_uploaded = Some (nat_to_string (unat (ca_uploaded q))),
      qp_peer_id = Some (percent_encode_byte_array percent_encode (ca_peer_id q)),
      qp_port = Some (nat_to_string (unat (ca_port q))),
      qp_left = Some (nat_to_string (unat (ca_left q))),
      qp_event = map_option ClientEvent_fmt (ca_event q),
      qp_compact = map_option Compact_fmt (ca_compact q)\<rparr>"

definition param_list :: "QueryParams \<Rightarrow> (string \<times> string) list" where
  "param_list p =
     (let push = (\<lambda>name v. case v of Some s \<Rightarrow> [(name, s)] | None \<Rightarrow> [])
      in push ''info_hash'' (qp_info_hash p) @ push ''peer_addr'' (qp_peer_addr p) @
         push ''downloaded'' (qp_downloaded p) @ push ''uploaded'' (qp_uploaded p) @
         push ''peer_id'' (qp_peer_id p) @ push ''port'' (qp_port p) @ push ''left'' (qp_left p) @
         push ''event'' (qp_event p) @ push ''compact'' (qp_compact p))"

definition QueryParams_fmt :: "QueryParams \<Rightarrow> string" where
  "QueryParams_fmt p = join ''&'' (map (\<lambda>param. fst param @ ''='' @ snd param) (param_list p))"

definition ClientAnnounce_build :: "(u8 list \<Rightarrow> string) \<Rightarrow> ClientAnnounce \<Rightarrow> string" where
  "ClientAnnounce_build percent_encode q = QueryParams_fmt (QueryParams_from percent_encode q)"

definition remove_optional_params :: "QueryParams \<Rightarrow> QueryParams" where
  "remove_optional_params p =
     p\<lparr>qp_peer_addr := None, qp_downloaded := None, qp_uploaded := None, qp_left := None, qp_event := None,
       qp_compact := None\<rparr>"

section \<open>Scrape queries (client/requests/scrape.rs)\<close>

record ClientScrape =
  cs_info_hash :: "u8 list list"

definition ClientScrape_build :: "(u8 list \<Rightarrow> string) \<Rightarrow> ClientScrape \<Rightarrow> string" where
  "ClientScrape_build percent_encode q =
     join ''&'' (map (\<lambda>info_hash. ''info_hash='' @ info_hash)
       (map (percent_encode_byte_array percent_encode) (cs_info_hash q)))"

section \<open>Compact responses (client/responses/announce.rs)\<close>

text \<open>An index out of range panics, which is \<^const>\<open>None\<close>.\<close>

definition CompactPeer_new_from_bytes :: "u8 list \<Rightarrow> (u32 \<times> u16) option" where
  "CompactPeer_new_from_bytes bytes =
     (if length bytes < 6 then None
      else Some (word_rcat [bytes ! 0, bytes ! 1, bytes ! 2, bytes ! 3], word_rcat [bytes ! 4, bytes ! 5]))"

text \<open>\<open>chunks_exact\<close>: what remains at the end is left out.\<close>

fun chunks_exact :: "nat \<Rightarrow> 'a list \<Rightarrow> 'a list list" where
  "chunks_exact n xs = (if n = 0 \<or> length xs < n then [] else take n xs # chunks_exact n (drop n xs))"

declare chunks_exact.simps [simp del]

definition read_compact_peers :: "u8 list \<Rightarrow> (u32 \<times> u16) list option" where
  "read_compact_peers bytes = those (map CompactPeer_new_from_bytes (chunks_exact 6 bytes))"

section \<open>Scrape responses (client/responses/scrape.rs)\<close>

text \<open>
  The values of the \<open>serde_bencode\<close> crate; a dictionary is a hash map, given by its entries in the
  order of iteration. The crate's reader of the field \<open>files\<close> of a response is a parameter. A panic is
  \<^const>\<open>None\<close>.
\<close>

datatype Value =
    ValueBytes "u8 list"
  | ValueInt i64
  | ValueList "Value list"
  | ValueDict "(u8 list \<times> Value) list"

record File =
  file_complete :: i64
  file_downloaded :: i64
  file_incomplete :: i64

datatype ScrapeParseError =
    InvalidValueExpectedDict Value
  | InvalidValueExpectedInt Value
  | InvalidFileField Value
  | MissingFileField string

fun parse_file_fields ::
  "(u8 list \<times> Value) list \<Rightarrow> i64 option \<times> i64 option \<times> i64 option \<Rightarrow>
   (ScrapeParseError, i64 option \<times> i64 option \<times> i64 option) result" where
  "parse_file_fields [] found = Inr found"
| "parse_file_fields ((field_name, value) # rest) (c, d, i) =
     (case value of
        ValueInt number \<Rightarrow>
          if field_name = as_bytes ''complete'' then parse_file_fields rest (Some number, d, i)
          else if field_name = as_bytes ''downloaded'' then parse_file_fields rest (c, Some number, i)
          else if field_name = as_bytes ''incomplete'' then parse_file_fields rest (c, d, Some number)
          else Inl (InvalidFileField value)
      | _ \<Rightarrow> Inl (InvalidValueExpectedInt value))"

definition parse_bencoded_file :: "Value \<Rightarrow> (ScrapeParseError, File) result" where
  "parse_bencoded_file value =
     (case value of
        ValueDict dict \<Rightarrow>
          try_bind (parse_file_fields dict (None, None, None)) (\<lambda>(opt_complete, opt_downloaded, opt_incomplete).
            case opt_complete of
              None \<Rightarrow> Inl (MissingFileField ''complete'')
            | Some c \<Rightarrow>
                (case opt_downloaded of
                   None \<Rightarrow> Inl (MissingFileField ''downloaded'')
                 | Some d \<Rightarrow>
                     (case opt_incomplete of
                        None \<Rightarrow> Inl (MissingFileField ''incomplete'')
                      | Some i \<Rightarrow> Inr \<lparr>file_complete = c, file_downloaded = d, file_incomplete = i\<rparr>)))
      | _ \<Rightarrow> Inl (InvalidValueExpectedDict value))"

text \<open>\<open>InfoHash::new\<close> copies into an array and panics when the length differs.\<close>

definition InfoHash_new :: "u8 list \<Rightarrow> (u8 list) option" where
  "InfoHash_new bytes = (if length bytes = 20 then Some bytes else None)"

fun collect_files :: "(u8 list \<times> Value) list \<Rightarrow> (u8 list \<rightharpoonup> File) \<Rightarrow> (u8 list \<rightharpoonup> File) option" where
  "collect_files [] fs = Some fs"
| "collect_files ((info_hash, value) # entries) fs =
     (case parse_bencoded_file value of
        Inl _ \<Rightarrow> None
      | Inr file \<Rightarrow>
          (case InfoHash_new info_hash of
             None \<Rightarrow> None
           | Some key \<Rightarrow> collect_files entries (fs(key \<mapsto> file))))"

definition parse_bencoded_response :: "Value \<Rightarrow> (ScrapeParseError, u8 list \<rightharpoonup> File) result option" where
  "parse_bencoded_response value =
     (case value of
        ValueDict dict \<Rightarrow> map_option Inr (collect_files dict (\<lambda>_. None))
      | _ \<Rightarrow> Some (Inl (InvalidValueExpectedDict value)))"

definition Response_try_from_bencoded ::
  "(u8 list \<Rightarrow> Value option) \<Rightarrow> u8 list \<Rightarrow> (ScrapeParseError, u8 list \<rightharpoonup> File) result option" where
  "Response_try_from_bencoded read_files bytes = Option.bind (read_files bytes) parse_bencoded_response"

section \<open>Percent encoding\<close>

locale percent_codec =
  fixes U :: url_api and percent_encode :: "u8 list \<Rightarrow> string"
  assumes decode_encode: "percent_decode_str U (percent_encode bytes) = bytes"
    and encode_chars: "c \<in> set (percent_encode bytes) \<Longrightarrow> is_ascii_alphanumeric c \<or> c = CHR ''%''"
    and info_hash: "length bytes = 20 \<Longrightarrow> info_hash_try_from U bytes = Inr (InfoHash bytes)"

section \<open>Lemmas\<close>

lemma digit_not_plus: "is_digit c \<Longrightarrow> c \<noteq> CHR ''+''"
  by (auto simp: is_digit_def)

lemma parse_unsigned_printed: "n < bound \<Longrightarrow> parse_unsigned bound (nat_to_string n) = Some n"
proof -
  have "hd (nat_to_string n) \<noteq> CHR ''+''"
    using nat_to_string_digits [of n] digit_not_plus by (cases "nat_to_string n") auto
  then show "n < bound \<Longrightarrow> ?thesis"
    by (simp add: parse_unsigned_def nat_to_string_digits)
qed

lemma printed_numbers:
  "u16_from_str (nat_to_string (unat p)) = Some p" "u64_from_str (nat_to_string (unat n)) = Some n"
proof -
  have "unat p < 2 ^ 16" "unat n < 2 ^ 64"
    using unsigned_less [of p] unsigned_less [of n] by simp_all
  then show "u16_from_str (nat_to_string (unat p)) = Some p" "u64_from_str (nat_to_string (unat n)) = Some n"
    unfolding u16_from_str_def u64_from_str_def by (simp_all only: parse_unsigned_printed) simp_all
qed

lemma plain_alphanumeric: "is_ascii_alphanumeric c \<or> c = CHR ''%'' \<Longrightarrow> visible c \<and> c \<noteq> CHR ''&'' \<and> c \<noteq> CHR ''=''"
  by (auto simp: is_ascii_alphanumeric_def visible_def Let_def)

lemma plain_ip: "plain (ip_to_string ip)"
  using ip_to_string_chars [of ip] ip_chars_visible unfolding plain_def list_all_iff by blast

lemma plain_number: "plain (nat_to_string n)"
  using nat_to_string_chars [of n] ip_chars_visible unfolding plain_def list_all_iff ip_chars_def by blast

lemma plain_fmts: "plain (ClientEvent_fmt e)" "plain (Compact_fmt c)"
  by (cases e; simp add: plain_def visible_def) (cases c; simp add: plain_def visible_def)

lemma QueryParams_fmt_pairs:
  "QueryParams_fmt p = join ''&'' (map NameValuePair_fmt (map (\<lambda>(n, v). NameValuePair_new n v) (param_list p)))"
  by (simp add: QueryParams_fmt_def NameValuePair_fmt_def NameValuePair_new_def comp_def case_prod_unfold)

text \<open>What the server makes of a number of bytes that the client sent.\<close>

lemma number_of_bytes_sent:
  "get_param M q name = Some (nat_to_string (unat n)) \<Longrightarrow>
   extract_number_of_bytes_from_param M name q =
     (if unat n < 2 ^ 63 then Inr (Some n) else Inl (NumberOfBytesOverflow name (nat_to_string (unat n))))"
  by (simp add: extract_number_of_bytes_from_param_def printed_numbers i64_try_from_def)

lemma Compact_from_fmt: "Compact_from_str (Compact_fmt c) = Inr c"
  by (cases c) (simp_all add: Compact_from_str_def)

lemma Event_from_client: "Event_from_str (ClientEvent_fmt e) = Inr Completed"
  by (cases e) (simp add: Event_from_str_def)

text \<open>The first number of bytes that does not fit a signed 64-bit integer, in the order of the server's checks.\<close>

definition first_overflow :: "ClientAnnounce \<Rightarrow> (string \<times> u64) option" where
  "first_overflow q =
     find (\<lambda>(name, n). 2 ^ 63 \<le> unat n)
       [(''downloaded'', ca_downloaded q), (''uploaded'', ca_uploaded q), (''left'', ca_left q)]"

definition received :: "ClientAnnounce \<Rightarrow> AnnounceQuery" where
  "received q =
     \<lparr>aq_info_hash = InfoHash (ca_info_hash q), aq_peer_id = PeerId (ca_peer_id q), aq_port = ca_port q,
      aq_downloaded = Some (ca_downloaded q), aq_uploaded = Some (ca_uploaded q), aq_left = Some (ca_left q),
      aq_event = map_option (\<lambda>_. Completed) (ca_event q), aq_compact = ca_compact q, aq_numwant = None\<rparr>"

locale client_server = percent_codec + multimap
begin

lemma plain_encoded: "plain (percent_encode bytes)"
  using encode_chars plain_alphanumeric unfolding plain_def list_all_iff by blast

lemma announce_params:
  "\<exists>query. Query_from_str M (ClientAnnounce_build percent_encode q) = Inr query \<and>
     (\<forall>name. get_param M query name = map_of (param_list (QueryParams_from percent_encode q)) name)"
proof -
  let ?es = "param_list (QueryParams_from percent_encode q)"
  let ?ps = "map (\<lambda>(n, v). NameValuePair_new n v) ?es"
  have "plain name" if "name \<in> {''info_hash'', ''peer_addr'', ''downloaded'', ''uploaded'', ''peer_id'', ''port'', ''left'', ''event'', ''compact''}"
    for name
    using that by (auto simp: plain_def visible_def)
  then have "list_all plain_pair ?ps"
    by (auto simp: param_list_def QueryParams_from_def percent_encode_byte_array_def NameValuePair_new_def plain_pair_def
        plain_encoded plain_ip plain_number plain_fmts split: option.split)
  moreover have "?ps \<noteq> []"
    by (simp add: param_list_def QueryParams_from_def)
  ultimately obtain query where "Query_from_str M (ClientAnnounce_build percent_encode q) = Inr query"
    "contents (query_params query) = grouped ?ps"
    using from_str_plain [of ?ps] by (auto simp: ClientAnnounce_build_def QueryParams_fmt_pairs)
  moreover have "map_option nv_value (find (\<lambda>p. nv_name p = name) (map (\<lambda>(n, v). NameValuePair_new n v) es)) = map_of es name"
    for name es
    by (induction es) (auto simp: NameValuePair_new_def)
  ultimately show ?thesis
    using param_reads [of query ?ps] by metis
qed

lemma announce_received:
  assumes "length (ca_info_hash q) = 20" and "length (ca_peer_id q) = 20"
  shows "\<exists>query. Query_from_str M (ClientAnnounce_build percent_encode q) = Inr query \<and>
     Announce_try_from M U query =
       (case first_overflow q of
          None \<Rightarrow> Inr (received q)
        | Some (name, n) \<Rightarrow> Inl (NumberOfBytesOverflow name (nat_to_string (unat n))))"
proof -
  obtain query where query: "Query_from_str M (ClientAnnounce_build percent_encode q) = Inr query"
    and "\<And>name. get_param M query name = map_of (param_list (QueryParams_from percent_encode q)) name"
    using announce_params [of q] by blast
  then have params: "get_param M query ''info_hash'' = Some (percent_encode (ca_info_hash q))"
    "get_param M query ''peer_id'' = Some (percent_encode (ca_peer_id q))"
    "get_param M query ''port'' = Some (nat_to_string (unat (ca_port q)))"
    "get_param M query ''downloaded'' = Some (nat_to_string (unat (ca_downloaded q)))"
    "get_param M query ''uploaded'' = Some (nat_to_string (unat (ca_uploaded q)))"
    "get_param M query ''left'' = Some (nat_to_string (unat (ca_left q)))"
    "get_param M query ''event'' = map_option ClientEvent_fmt (ca_event q)"
    "get_param M query ''compact'' = map_option Compact_fmt (ca_compact q)"
    "get_param M query ''numwant'' = None"
    by (simp_all add: param_list_def QueryParams_from_def percent_encode_byte_array_def split: option.split)
  have mandatory: "extract_info_hash M U query = Inr (InfoHash (ca_info_hash q))"
    "extract_peer_id M U query = Inr (PeerId (ca_peer_id q))" "extract_port M query = Inr (ca_port q)"
    using assms info_hash
    by (simp_all add: extract_info_hash_def extract_peer_id_def extract_port_def params percent_decode_info_hash_def
        percent_decode_peer_id_def decode_encode Id_try_from_def PEER_ID_BYTES_LEN_def printed_numbers)
  have "extract_event M query = Inr (map_option (\<lambda>_. Completed) (ca_event q))"
    "extract_compact M query = Inr (ca_compact q)" "extract_numwant M query = Inr None"
    by (simp_all add: extract_event_def extract_compact_def extract_numwant_def params Event_from_client Compact_from_fmt
        split: option.split)
  with mandatory show ?thesis
    by (auto simp: query Announce_try_from_def number_of_bytes_sent params first_overflow_def received_def)
qed

lemma scrape_received:
  assumes "cs_info_hash q \<noteq> []" and "list_all (\<lambda>bytes. length bytes = 20) (cs_info_hash q)"
  shows "\<exists>query. Query_from_str M (ClientScrape_build percent_encode q) = Inr query \<and>
     Scrape_try_from M U query = Inr \<lparr>sq_info_hashes = map InfoHash (cs_info_hash q)\<rparr>"
proof -
  let ?ps = "map (\<lambda>bytes. NameValuePair_new ''info_hash'' (percent_encode bytes)) (cs_info_hash q)"
  have "ClientScrape_build percent_encode q = join ''&'' (map NameValuePair_fmt ?ps)"
    by (simp add: ClientScrape_build_def percent_encode_byte_array_def NameValuePair_fmt_def NameValuePair_new_def comp_def)
  moreover have "plain ''info_hash''"
    by (simp add: plain_def visible_def)
  then have "list_all plain_pair ?ps"
    by (simp add: list_all_iff plain_pair_def NameValuePair_new_def plain_encoded)
  ultimately obtain query where query: "Query_from_str M (ClientScrape_build percent_encode q) = Inr query"
    "contents (query_params query) = grouped ?ps"
    using from_str_plain [of ?ps] assms(1) by auto
  have "get_param_vec M query ''info_hash'' = Some (map percent_encode (cs_info_hash q))"
    using param_reads [OF query(2)] assms(1) by (simp add: NameValuePair_new_def comp_def split: list.split)
  moreover have "decode_info_hashes U (map percent_encode bss) ihs = Inr (ihs @ map InfoHash bss)"
    if "list_all (\<lambda>bytes. length bytes = 20) bss" for bss ihs
    using that by (induction bss arbitrary: ihs) (simp_all add: percent_decode_info_hash_def decode_encode info_hash)
  ultimately show ?thesis
    using query(1) assms(2) by (simp add: Scrape_try_from_def extract_info_hashes_def)
qed

end

section \<open>A percent encoding\<close>

definition upper_hex :: "nat \<Rightarrow> char" where
  "upper_hex d = char_of (if d < 10 then 48 + d else 55 + d)"

definition hex_value :: "char \<Rightarrow> nat" where
  "hex_value c = (if is_digit c then digit_value c else of_char c - 55)"

definition pct_byte :: "u8 \<Rightarrow> string" where
  "pct_byte b =
     (if is_ascii_alphanumeric (char_of (unat b)) then [char_of (unat b)]
      else [CHR ''%'', upper_hex (unat b div 16), upper_hex (unat b mod 16)])"

definition pct_encode :: "u8 list \<Rightarrow> string" where
  "pct_encode bytes = concat (map pct_byte bytes)"

fun pct_decode :: "string \<Rightarrow> u8 list" where
  "pct_decode [] = []"
| "pct_decode (c # s) =
     (if c = CHR ''%'' \<and> 2 \<le> length s then of_nat (16 * hex_value (s ! 0) + hex_value (s ! 1)) # pct_decode (drop 2 s)
      else byte_of c # pct_decode s)"

definition url_codec :: url_api where
  "url_codec =
     \<lparr>percent_decode_str = pct_decode,
      info_hash_try_from = (\<lambda>bytes. if length bytes = 20 then Inr (InfoHash bytes) else Inl ''invalid length'')\<rparr>"

lemma hex_value_upper: "d < 16 \<Longrightarrow> hex_value (upper_hex d) = d"
  by (auto simp: hex_value_def upper_hex_def is_digit_def digit_value_def)

lemma upper_hex_alphanumeric: "d < 16 \<Longrightarrow> is_ascii_alphanumeric (upper_hex d)"
  by (auto simp: is_ascii_alphanumeric_def upper_hex_def Let_def)

lemma byte_lt: "unat (b :: u8) < 256"
  using unsigned_less [of b] by simp

lemma byte_of_char_of: "byte_of (char_of (unat b)) = b"
proof -
  have "byte_of (char_of (unat b)) = of_nat (of_char (char_of (unat b)))"
    by (simp only: byte_of_def of_nat_of_char)
  then show ?thesis
    using byte_lt [of b] by simp
qed

lemma plain_percent: "\<not> is_ascii_alphanumeric CHR ''%''"
  by (simp add: is_ascii_alphanumeric_def)

lemma pct_decode_byte: "pct_decode (pct_byte b @ s) = b # pct_decode s"
proof (cases "is_ascii_alphanumeric (char_of (unat b))")
  case True
  then have "char_of (unat b) \<noteq> CHR ''%''"
    by (metis plain_percent)
  with True show ?thesis
    by (simp add: pct_byte_def byte_of_char_of)
next
  case False
  then show ?thesis
    using byte_lt [of b] by (simp add: pct_byte_def hex_value_upper less_mult_imp_div_less)
qed

interpretation pct: client_server url_codec pct_encode alist_multimap map_of
proof unfold_locales
  fix bytes :: "u8 list"
  show "percent_decode_str url_codec (pct_encode bytes) = bytes"
    by (induction bytes) (simp_all add: url_codec_def pct_encode_def pct_decode_byte)
  show "c \<in> set (pct_encode bytes) \<Longrightarrow> is_ascii_alphanumeric c \<or> c = CHR ''%''" for c
    using byte_lt by (auto simp: pct_encode_def pct_byte_def upper_hex_alphanumeric less_mult_imp_div_less split: if_splits)
  show "length bytes = 20 \<Longrightarrow> info_hash_try_from url_codec bytes = Inr (InfoHash bytes)"
    by (simp add: url_codec_def)
qed

text \<open>
  C20: The query that the client builds for an announce is read back by the server: with an info-hash
  and a peer id of 20 bytes the server's request has exactly the values of the client. When a number of
  bytes does not fit a signed 64-bit integer, the server reports the first such parameter.
\<close>
theorem announce_request_roundtrip:
  assumes "percent_codec U percent_encode" and "multimap M contents"
    and "length (ca_info_hash q) = 20" and "length (ca_peer_id q) = 20"
  shows "\<exists>query. Query_from_str M (ClientAnnounce_build percent_encode q) = Inr query \<and>
     Announce_try_from M U query =
       (case first_overflow q of
          None \<Rightarrow> Inr (received q)
        | Some (name, n) \<Rightarrow> Inl (NumberOfBytesOverflow name (nat_to_string (unat n))))"
  using client_server.announce_received [OF client_server.intro [OF assms(1,2)] assms(3,4)] .

definition sample_announce :: ClientAnnounce where
  "sample_announce =
     \<lparr>ca_info_hash = replicate 20 38, ca_peer_addr = ipv4 192 168 1 88, ca_downloaded = 0, ca_uploaded = 7,
      ca_peer_id = replicate 20 65, ca_port = 17548, ca_left = 0, ca_event = Some ClientCompleted,
      ca_compact = Some NotAccepted\<rparr>"

theorem announce_request_roundtrip_witness:
  "(\<exists>query. Query_from_str alist_multimap (ClientAnnounce_build pct_encode sample_announce) = Inr query \<and>
      Announce_try_from alist_multimap url_codec query = Inr (received sample_announce)) \<and>
   (\<exists>query. Query_from_str alist_multimap (ClientAnnounce_build pct_encode (sample_announce\<lparr>ca_left := 9223372036854775808\<rparr>)) = Inr query \<and>
      Announce_try_from alist_multimap url_codec query = Inl (NumberOfBytesOverflow ''left'' (nat_to_string 9223372036854775808)))"
  using announce_request_roundtrip [OF pct.percent_codec_axioms alist.multimap_axioms, of sample_announce]
    announce_request_roundtrip [OF pct.percent_codec_axioms alist.multimap_axioms, of "sample_announce\<lparr>ca_left := 9223372036854775808\<rparr>"]
  by (simp add: sample_announce_def first_overflow_def)

end
