(* ===== verification/Connection_Cookie.thy ===== *)
theory Connection_Cookie
  imports Float64 Whitelist
begin

text \<open>
  The connection cookies of the UDP server (\<open>src/servers/udp/connection_cookie.rs\<close>), its errors
  (\<open>src/servers/udp/error.rs\<close>) and the time window in which a cookie is valid
  (\<open>CookieTimeValues\<close> in \<open>src/servers/udp/handlers.rs\<close>). The block cipher is a parameter. The eight
  bytes of a cookie are the 64-bit word they hold; the conversions between bytes and words, which
  all use the order of the machine, are the identity on words.
\<close>

section \<open>Errors (error.rs)\<close>

type_synonym ConnectionId = "64 word"
type_synonym TransactionId = "32 word"

text \<open>The parse errors of the protocol library carry the text of their cause.\<close>

datatype RequestParseError =
    Sendable ConnectionId TransactionId string
  | Unsendable string

datatype UdpError =
    CookieValueNotNormal f64
  | CookieValueExpired f64 f64
  | CookieValueFromFuture f64 f64
  | RequestParse RequestParseError
  | TrackerError WhitelistError
  | InternalServer string
  | BadRequest string
  | TrackerAuthenticationRequired

section \<open>The cipher (parameter)\<close>

record cipher_api =
  encrypt_block :: "64 word \<Rightarrow> 64 word"
  decrypt_block :: "64 word \<Rightarrow> 64 word"

locale block_cipher =
  fixes C :: cipher_api
  assumes decrypt_encrypt: "decrypt_block C (encrypt_block C x) = x"
    and encrypt_decrypt: "encrypt_block C (decrypt_block C y) = y"

section \<open>Cookies (connection\_cookie.rs)\<close>

definition assemble :: "u64 \<Rightarrow> f64 \<Rightarrow> 64 word" where
  "assemble fingerprint issue_at = issue_at + fingerprint"

definition disassemble :: "u64 \<Rightarrow> 64 word \<Rightarrow> f64" where
  "disassemble fingerprint cookie = cookie - fingerprint"

definition cookie_encode :: "cipher_api \<Rightarrow> 64 word \<Rightarrow> 64 word" where
  "cookie_encode C cookie = encrypt_block C cookie"

definition cookie_decode :: "cipher_api \<Rightarrow> 64 word \<Rightarrow> 64 word" where
  "cookie_decode C cookie = decrypt_block C cookie"

definition cookie_make :: "cipher_api \<Rightarrow> u64 \<Rightarrow> f64 \<Rightarrow> (UdpError, ConnectionId) result" where
  "cookie_make C fingerprint issue_at =
     (if \<not> f64_is_normal issue_at then Inl (CookieValueNotNormal issue_at)
      else Inr (cookie_encode C (assemble fingerprint issue_at)))"

text \<open>The assertion on the range panics (\<^const>\<open>None\<close>).\<close>

definition cookie_check ::
  "cipher_api \<Rightarrow> ConnectionId \<Rightarrow> u64 \<Rightarrow> f64 \<times> f64 \<Rightarrow> (UdpError, f64) result option" where
  "cookie_check C cookie fingerprint valid_range =
     (if \<not> f64_le (fst valid_range) (snd valid_range) then None
      else
        (let issue_time = disassemble fingerprint (cookie_decode C cookie)
         in Some
           (if \<not> f64_is_normal issue_time then Inl (CookieValueNotNormal issue_time)
            else if f64_lt issue_time (fst valid_range)
              then Inl (CookieValueExpired issue_time (fst valid_range))
            else if f64_lt (snd valid_range) issue_time
              then Inl (CookieValueFromFuture issue_time (snd valid_range))
            else Inr issue_time)))"

section \<open>The valid window (handlers.rs)\<close>

record CookieTimeValues =
  issue_time :: f64
  valid_range :: "f64 \<times> f64"

definition CookieTimeValues_new :: "DurationSinceUnixEpoch \<Rightarrow> f64 \<Rightarrow> CookieTimeValues" where
  "CookieTimeValues_new now lifetime =
     (let it = as_secs_f64 now;
          expiry_time = f64_sub (f64_sub it lifetime) F64_ONE;
          tolerance_max_time = f64_add it F64_ONE
      in \<lparr>issue_time = it, valid_range = (expiry_time, tolerance_max_time)\<rparr>)"

section \<open>Lemmas\<close>

context block_cipher
begin

lemma check_iff:
  assumes "f64_le lo hi"
  shows "cookie_check C cookie fp (lo, hi) = Some (Inr t) \<longleftrightarrow>
         cookie_make C fp t = Inr cookie \<and> f64_le lo t \<and> f64_le t hi"
proof -
  have nan: "\<not> f64_is_nan lo" "\<not> f64_is_nan hi"
    using assms by (simp_all add: f64_le_def)
  have dis: "disassemble fp (cookie_decode C cookie) = t \<longleftrightarrow> cookie_encode C (assemble fp t) = cookie"
    unfolding disassemble_def assemble_def cookie_decode_def cookie_encode_def diff_eq_eq
    by (metis decrypt_encrypt encrypt_decrypt)
  have range: "f64_is_normal u \<Longrightarrow> \<not> f64_lt u lo \<longleftrightarrow> f64_le lo u"
    "f64_is_normal u \<Longrightarrow> \<not> f64_lt hi u \<longleftrightarrow> f64_le u hi" for u
    using nan f64_lt_le finite_not_nan f64_normal_finite by blast+
  show ?thesis
    using assms range [of "disassemble fp (cookie_decode C cookie)"]
    by (auto simp: cookie_check_def cookie_make_def Let_def simp flip: dis)
qed

lemma valid_for_lifetime:
  assumes "t1 = issue_time (CookieTimeValues_new issued lifetime)"
    and "v2 = CookieTimeValues_new now lifetime"
    and "cookie_make C fp t1 = Inr cookie"
    and "f64_is_finite (issue_time v2)" and "f64_is_finite lifetime"
    and "f64_scaled t1 \<le> f64_scaled (issue_time v2)"
    and "f64_scaled (issue_time v2) \<le> f64_scaled t1 + f64_scaled lifetime"
  shows "cookie_check C cookie fp (valid_range v2) = Some (Inr t1)"
proof -
  let ?t2 = "as_secs_f64 now"
  let ?d = "f64_sub ?t2 lifetime" and ?hi = "f64_add ?t2 F64_ONE"
  let ?lo = "f64_sub ?d F64_ONE"
  have t2: "issue_time v2 = ?t2" "valid_range v2 = (?lo, ?hi)"
    by (simp_all add: assms(2) CookieTimeValues_new_def Let_def)
  have fin: "f64_is_finite ?t2" "f64_is_finite t1"
    using assms(3,4) f64_normal_finite by (auto simp: t2 cookie_make_def split: if_splits)
  have one: "0 \<le> f64_scaled F64_ONE"
    by (simp add: F64_ONE_simps)
  have hi: "f64_le t1 ?hi"
    using f64_le_add(1) [OF fin(1) F64_ONE_simps(1) fin(2)] assms(6) one by (simp add: t2)
  have d: "f64_le ?d t1" "\<not> f64_is_nan ?d"
    using f64_le_add(2) [OF fin(1) _ fin(2), of "f64_negate lifetime"]
      f64_add_rank(2) [OF fin(1), of "f64_negate lifetime"] assms(5,7)
    by (simp_all add: f64_sub_def f64_negate_simps t2)
  have lo: "f64_le ?lo t1"
  proof (cases "f64_is_finite ?d")
    case True
    have "f64_scaled ?d \<le> f64_scaled t1"
      using d(1) by (simp add: f64_le_def flip: f64_rank_le_iff)
    then show ?thesis
      using f64_le_add(2) [OF True _ fin(2), of "f64_negate F64_ONE"] one
      by (simp add: f64_sub_def f64_negate_simps F64_ONE_simps)
  next
    case False
    then have "?lo = ?d"
      using d(2) F64_ONE_simps(1) by (simp add: f64_sub_def f64_add_def finite_not_nan f64_negate_simps)
    then show ?thesis
      using d(1) by simp
  qed
  have "f64_le ?lo ?hi"
    using lo hi by (rule f64_le_trans)
  then show ?thesis
    using check_iff assms(3) lo hi by (simp add: t2)
qed

end

definition xor_cipher :: "64 word \<Rightarrow> cipher_api" where
  "xor_cipher k = \<lparr>encrypt_block = (\<lambda>x. xor x k), decrypt_block = (\<lambda>y. xor y k)\<rparr>"

interpretation xor_block: block_cipher "xor_cipher k"
  by unfold_locales (simp_all add: xor_cipher_def xor.assoc)

section \<open>Properties\<close>

text \<open>
  C25: The server accepts a cookie exactly when it is the one it makes for the same client at an
  issue time within the valid range, and then it recovers that issue time.
\<close>
theorem cookie_exact:
  assumes "block_cipher C" and "f64_le lo hi"
  shows "cookie_check C cookie fp (lo, hi) = Some (Inr t) \<longleftrightarrow>
         cookie_make C fp t = Inr cookie \<and> f64_le lo t \<and> f64_le t hi"
  by (rule block_cipher.check_iff [OF assms])

theorem cookie_exact_witness:
  "cookie_make (xor_cipher 12345) 7 F64_ONE = Inr (xor (F64_ONE + 7) 12345) \<and>
   cookie_check (xor_cipher 12345) (xor (F64_ONE + 7) 12345) 7 (0, F64_ONE) = Some (Inr F64_ONE)"
proof -
  have "cookie_make (xor_cipher 12345) 7 F64_ONE = Inr (xor (F64_ONE + 7) 12345)"
    by (simp add: cookie_make_def F64_ONE_range cookie_encode_def assemble_def xor_cipher_def)
  then show ?thesis
    using cookie_exact [OF xor_block.block_cipher_axioms, of 0 F64_ONE 12345 "xor (F64_ONE + 7) 12345" 7 F64_ONE]
    by (simp add: F64_ONE_range)
qed

text \<open>
  A cookie that a client gets from a connect is accepted from the same client for the whole
  configured lifetime: the rounding of the floating-point computation of the valid range never
  shortens it. The check does not panic.
\<close>
theorem cookie_valid_for_lifetime:
  assumes "block_cipher C"
    and "t1 = issue_time (CookieTimeValues_new issued lifetime)"
    and "v2 = CookieTimeValues_new now lifetime"
    and "cookie_make C fp t1 = Inr cookie"
    and "f64_is_finite (issue_time v2)" and "f64_is_finite lifetime"
    and "f64_scaled t1 \<le> f64_scaled (issue_time v2)"
    and "f64_scaled (issue_time v2) \<le> f64_scaled t1 + f64_scaled lifetime"
  shows "cookie_check C cookie fp (valid_range v2) = Some (Inr t1)"
  by (rule block_cipher.valid_for_lifetime [OF assms])

theorem cookie_valid_for_lifetime_witness:
  "\<exists>cookie.
     cookie_make (xor_cipher 12345) 7
       (issue_time (CookieTimeValues_new (from_secs 1000) (as_secs_f64 (from_secs 120)))) = Inr cookie \<and>
     cookie_check (xor_cipher 12345) cookie 7
       (valid_range (CookieTimeValues_new (from_secs 1100) (as_secs_f64 (from_secs 120)))) =
       Some (Inr (as_secs_f64 (from_secs 1000)))"
proof -
  let ?L = "as_secs_f64 (from_secs 120)"
  have t: "issue_time (CookieTimeValues_new d ?L) = as_secs_f64 d" for d
    by (simp add: CookieTimeValues_new_def Let_def)
  have normal: "f64_is_normal (as_secs_f64 (from_secs 1000))"
    by (rule as_secs_f64_normal) simp_all
  have exact: "f64_scaled (as_secs_f64 (from_secs 1000)) = 1000 * 2 ^ 1074"
    "f64_scaled (as_secs_f64 (from_secs 1100)) = 1100 * 2 ^ 1074" "f64_scaled ?L = 120 * 2 ^ 1074"
    using as_secs_f64_whole(2) [of 1000] as_secs_f64_whole(2) [of 1100] as_secs_f64_whole(2) [of 120]
    by simp_all
  have finite: "f64_is_finite (as_secs_f64 (from_secs 1100))" "f64_is_finite ?L"
    by (rule as_secs_f64_whole; simp)+
  obtain cookie where made: "cookie_make (xor_cipher 12345) 7
      (issue_time (CookieTimeValues_new (from_secs 1000) ?L)) = Inr cookie"
    using normal by (simp add: cookie_make_def t)
  have "cookie_check (xor_cipher 12345) cookie 7 (valid_range (CookieTimeValues_new (from_secs 1100) ?L)) =
      Some (Inr (issue_time (CookieTimeValues_new (from_secs 1000) ?L)))"
    by (rule cookie_valid_for_lifetime [OF xor_block.block_cipher_axioms refl refl made])
       (simp_all add: t finite exact)
  with made show ?thesis
    by (auto simp: t)
qed

end
