(* ===== verification/Udp_Handlers.thy ===== *)
theory Udp_Handlers
  imports Connection_Cookie Statistics
begin

text \<open>
  The handlers of the UDP server (\<open>src/servers/udp/handlers.rs\<close>, \<open>src/servers/udp/peer_builder.rs\<close>):
  a packet is parsed, its request is answered from the tracker, and every failure becomes an error
  response. The packet format of the protocol library, the text of the errors and the two choices
  the standard library leaves open (the default hash of an address, the order in which a hash map is
  read) are parameters. A panic of the task that handles the packet is \<^const>\<open>None\<close>; every panic
  comes before the first change of the state.
\<close>

section \<open>Requests and responses\<close>

record ConnectRequest =
  cr_transaction_id :: TransactionId

record AnnounceRequest =
  ar_connection_id :: ConnectionId
  ar_transaction_id :: TransactionId
  ar_info_hash :: InfoHash
  ar_peer_id :: PeerId
  ar_bytes_downloaded :: i64
  ar_bytes_uploaded :: i64
  ar_bytes_left :: i64
  ar_event :: i32
  ar_peers_wanted :: i32
  ar_port :: u16

record ScrapeRequest =
  sr_connection_id :: ConnectionId
  sr_transaction_id :: TransactionId
  sr_info_hashes :: "InfoHash list"

datatype UdpRequest =
    RequestConnect ConnectRequest
  | RequestAnnounce AnnounceRequest
  | RequestScrape ScrapeRequest

record AnnounceFixedData =
  af_transaction_id :: TransactionId
  af_announce_interval :: i32
  af_leechers :: i32
  af_seeders :: i32

record TorrentScrapeStatistics =
  ts_seeders :: i32
  ts_completed :: i32
  ts_leechers :: i32

datatype UdpResponse =
    ResponseConnect TransactionId ConnectionId
  | ResponseAnnounceIpv4 AnnounceFixedData "(u32 \<times> u16) list"
  | ResponseAnnounceIpv6 AnnounceFixedData "(u128 \<times> u16) list"
  | ResponseScrape TransactionId "TorrentScrapeStatistics list"
  | ResponseError TransactionId string

section \<open>The environment and the state\<close>

text \<open>What the handlers call: the two traits of the core, and the code outside the repository.\<close>

record ('s, 'db, 'b) udp_env =
  env_repository :: "'s Repository"
  env_database :: "'db DatabaseTrait"
  env_filter :: "'b bloom_api"
  env_cipher :: cipher_api
  default_hash :: "SocketAddr \<Rightarrow> u64"
  files_order :: "(InfoHash \<rightharpoonup> SwarmMetadata) \<Rightarrow> (InfoHash \<times> SwarmMetadata) list"
  parse_bytes :: "u8 list \<Rightarrow> u8 \<Rightarrow> (RequestParseError, UdpRequest) result"
  write_bytes :: "UdpResponse \<Rightarrow> u8 list option"
  event_from_bytes :: "i32 \<Rightarrow> AnnounceEvent"
  error_text :: "UdpError \<Rightarrow> string"

text \<open>
  The services shared by the handlers (\<open>UdpTrackerContainer\<close>). The events that were sent to the
  statistics are kept in order; there is a sender exactly when the statistics are enabled.
\<close>

record ('s, 'db, 'b) UdpTrackerContainer =
  core_config :: Core
  announce_handler :: "('s, 'db) AnnounceHandler"
  tracker_whitelist :: InMemoryWhitelist
  stats_enabled :: bool
  stats_events :: "UdpEvent list"
  ban_service :: "'b BanService"

definition send_event ::
  "UdpEvent \<Rightarrow> ('s, 'db, 'b) UdpTrackerContainer \<Rightarrow> ('s, 'db, 'b) UdpTrackerContainer" where
  "send_event e c = (if stats_enabled c then c\<lparr>stats_events := stats_events c @ [e]\<rparr> else c)"

definition as_i32 :: "u32 \<Rightarrow> i32" where
  "as_i32 n = ucast (ucast n :: i64)"

section \<open>Handlers (handlers.rs, peer\_builder.rs)\<close>

definition MAX_SCRAPE_TORRENTS :: u8 where
  "MAX_SCRAPE_TORRENTS = 74"

definition gen_remote_fingerprint :: "('s, 'db, 'b) udp_env \<Rightarrow> SocketAddr \<Rightarrow> u64" where
  "gen_remote_fingerprint E remote_addr = default_hash E remote_addr"

definition from_request ::
  "('s, 'db, 'b) udp_env \<Rightarrow> DurationSinceUnixEpoch \<Rightarrow> AnnounceRequest \<Rightarrow> IpAddr \<Rightarrow> Peer" where
  "from_request E now request ip =
     \<lparr>peer_id = ar_peer_id request, peer_addr = SocketAddr ip (ar_port request), updated = now,
      uploaded = ar_bytes_uploaded request, downloaded = ar_bytes_downloaded request,
      left = ar_bytes_left request, event = event_from_bytes E (ar_event request)\<rparr>"

definition handle_connect ::
  "('s, 'db, 'b) udp_env \<Rightarrow> SocketAddr \<Rightarrow> ConnectRequest \<Rightarrow> f64 \<Rightarrow> ('s, 'db, 'b) UdpTrackerContainer \<Rightarrow>
   (UdpResponse \<times> ('s, 'db, 'b) UdpTrackerContainer) option" where
  "handle_connect E remote_addr request cookie_issue_time c =
     (case cookie_make (env_cipher E) (gen_remote_fingerprint E remote_addr) cookie_issue_time of
        Inl _ \<Rightarrow> None
      | Inr connection_id \<Rightarrow>
          Some (ResponseConnect (cr_transaction_id request) connection_id,
                send_event (per_version (sa_ip remote_addr) Udp4Connect Udp6Connect) c))"

fun ipv4_peer :: "Peer \<Rightarrow> (u32 \<times> u16) option" where
  "ipv4_peer p = (case sa_ip (peer_addr p) of V4 ip \<Rightarrow> Some (ip, sa_port (peer_addr p)) | V6 _ \<Rightarrow> None)"

fun ipv6_peer :: "Peer \<Rightarrow> (u128 \<times> u16) option" where
  "ipv6_peer p = (case sa_ip (peer_addr p) of V6 ip \<Rightarrow> Some (ip, sa_port (peer_addr p)) | V4 _ \<Rightarrow> None)"

definition announce_response_of :: "Core \<Rightarrow> SocketAddr \<Rightarrow> TransactionId \<Rightarrow> AnnounceData \<Rightarrow> UdpResponse" where
  "announce_response_of config remote_addr transaction_id response =
     (let fixed = \<lparr>af_transaction_id = transaction_id,
                   af_announce_interval = as_i32 (interval (announce_policy config)),
                   af_leechers = as_i32 (sm_incomplete (stats response)),
                   af_seeders = as_i32 (sm_complete (stats response))\<rparr>
      in if is_ipv4 (sa_ip remote_addr)
         then ResponseAnnounceIpv4 fixed (List.map_filter ipv4_peer (peers response))
         else ResponseAnnounceIpv6 fixed (List.map_filter ipv6_peer (peers response)))"

definition handle_announce ::
  "('s, 'db, 'b) udp_env \<Rightarrow> DurationSinceUnixEpoch \<Rightarrow> SocketAddr \<Rightarrow> AnnounceRequest \<Rightarrow> f64 \<times> f64 \<Rightarrow>
   ('s, 'db, 'b) UdpTrackerContainer \<Rightarrow>
   ((UdpError \<times> TransactionId, UdpResponse) result \<times> ('s, 'db, 'b) UdpTrackerContainer) option" where
  "handle_announce E now remote_addr request cookie_valid_range c =
     (case cookie_check (env_cipher E) (ar_connection_id request) (gen_remote_fingerprint E remote_addr)
             cookie_valid_range of
        None \<Rightarrow> None
      | Some (Inl e) \<Rightarrow> Some (Inl (e, ar_transaction_id request), c)
      | Some (Inr _) \<Rightarrow>
          (let info_hash = ar_info_hash request;
               remote_client_ip = sa_ip remote_addr
           in case authorize (core_config c) (tracker_whitelist c) info_hash of
                Inl e \<Rightarrow> Some (Inl (TrackerError e, ar_transaction_id request), c)
              | Inr _ \<Rightarrow>
                  (let peer = from_request E now request remote_client_ip;
                       peers_wanted = PeersWanted_from_i32 (ar_peers_wanted request);
                       ((response, _), h) = announce (env_repository E) (env_database E) (core_config c)
                         info_hash peer remote_client_ip peers_wanted (announce_handler c);
                       c1 = send_event (per_version remote_client_ip Udp4Announce Udp6Announce)
                              (c\<lparr>announce_handler := h\<rparr>)
                   in Some (Inr (announce_response_of (core_config c) remote_addr (ar_transaction_id request)
                                   response), c1))))"

definition scrape_entry :: "SwarmMetadata \<Rightarrow> TorrentScrapeStatistics" where
  "scrape_entry swarm_metadata =
     \<lparr>ts_seeders = as_i32 (sm_complete swarm_metadata), ts_completed = as_i32 (sm_downloaded swarm_metadata),
      ts_leechers = as_i32 (sm_incomplete swarm_metadata)\<rparr>"

definition handle_scrape ::
  "('s, 'db, 'b) udp_env \<Rightarrow> SocketAddr \<Rightarrow> ScrapeRequest \<Rightarrow> f64 \<times> f64 \<Rightarrow> ('s, 'db, 'b) UdpTrackerContainer \<Rightarrow>
   ((UdpError \<times> TransactionId, UdpResponse) result \<times> ('s, 'db, 'b) UdpTrackerContainer) option" where
  "handle_scrape E remote_addr request cookie_valid_range c =
     (case cookie_check (env_cipher E) (sr_connection_id request) (gen_remote_fingerprint E remote_addr)
             cookie_valid_range of
        None \<Rightarrow> None
      | Some (Inl e) \<Rightarrow> Some (Inl (e, sr_transaction_id request), c)
      | Some (Inr _) \<Rightarrow>
          (let scrape_data = scrape (env_repository E) (core_config c) (tracker_whitelist c)
                 (sr_info_hashes request) (in_memory_torrent_repository (announce_handler c));
               torrent_stats = map (\<lambda>file. scrape_entry (snd file)) (files_order E (files scrape_data))
           in Some (Inr (ResponseScrape (sr_transaction_id request) torrent_stats),
                    send_event (per_version (sa_ip remote_addr) Udp4Scrape Udp6Scrape) c)))"

fun handle_request ::
  "('s, 'db, 'b) udp_env \<Rightarrow> DurationSinceUnixEpoch \<Rightarrow> UdpRequest \<Rightarrow> SocketAddr \<Rightarrow> CookieTimeValues \<Rightarrow>
   ('s, 'db, 'b) UdpTrackerContainer \<Rightarrow>
   ((UdpError \<times> TransactionId, UdpResponse) result \<times> ('s, 'db, 'b) UdpTrackerContainer) option" where
  "handle_request E now (RequestConnect request) remote_addr cookie_time_values c =
     map_option (\<lambda>(response, c'). (Inr response, c'))
       (handle_connect E remote_addr request (issue_time cookie_time_values) c)"
| "handle_request E now (RequestAnnounce request) remote_addr cookie_time_values c =
     handle_announce E now remote_addr request (valid_range cookie_time_values) c"
| "handle_request E now (RequestScrape request) remote_addr cookie_time_values c =
     handle_scrape E remote_addr request (valid_range cookie_time_values) c"

definition handle_error ::
  "('s, 'db, 'b) udp_env \<Rightarrow> SocketAddr \<Rightarrow> f64 \<times> f64 \<Rightarrow> UdpError \<Rightarrow> TransactionId option \<Rightarrow>
   ('s, 'db, 'b) UdpTrackerContainer \<Rightarrow> (UdpResponse \<times> ('s, 'db, 'b) UdpTrackerContainer) option" where
  "handle_error E remote_addr cookie_valid_range e transaction_id c =
     (case (case e of
              RequestParse (Sendable connection_id tid err) \<Rightarrow>
                (case cookie_check (env_cipher E) connection_id (gen_remote_fingerprint E remote_addr)
                        cookie_valid_range of
                   None \<Rightarrow> None
                 | Some (Inl e') \<Rightarrow> Some (error_text E e', Some tid)
                 | Some (Inr _) \<Rightarrow> Some (err, Some tid))
            | RequestParse (Unsendable err) \<Rightarrow> Some (err, transaction_id)
            | _ \<Rightarrow> Some (error_text E e, transaction_id)) of
        None \<Rightarrow> None
      | Some (message, tid) \<Rightarrow>
          Some (ResponseError (case tid of Some t \<Rightarrow> t | None \<Rightarrow> 0) message,
                if tid \<noteq> None then send_event (per_version (sa_ip remote_addr) Udp4Error Udp6Error) c else c))"

fun is_cookie_error :: "UdpError \<Rightarrow> bool" where
  "is_cookie_error (CookieValueNotNormal _) = True"
| "is_cookie_error (CookieValueExpired _ _) = True"
| "is_cookie_error (CookieValueFromFuture _ _) = True"
| "is_cookie_error _ = False"

record RawRequest =
  payload :: "u8 list"
  raw_from :: SocketAddr

definition handle_packet ::
  "('s, 'db, 'b) udp_env \<Rightarrow> DurationSinceUnixEpoch \<Rightarrow> RawRequest \<Rightarrow> CookieTimeValues \<Rightarrow>
   ('s, 'db, 'b) UdpTrackerContainer \<Rightarrow> (UdpResponse \<times> ('s, 'db, 'b) UdpTrackerContainer) option" where
  "handle_packet E now udp_request cookie_time_values c =
     (case parse_bytes E (payload udp_request) MAX_SCRAPE_TORRENTS of
        Inl e \<Rightarrow>
          handle_error E (raw_from udp_request) (valid_range cookie_time_values) (RequestParse e) None c
      | Inr request \<Rightarrow>
          (case handle_request E now request (raw_from udp_request) cookie_time_values c of
             None \<Rightarrow> None
           | Some (Inr response, c') \<Rightarrow> Some (response, c')
           | Some (Inl (e, transaction_id), c') \<Rightarrow>
               (let c'' = (if is_cookie_error e
                           then c'\<lparr>ban_service := increase_counter (env_filter E) (sa_ip (raw_from udp_request))
                                     (ban_service c')\<rparr>
                           else c')
                in handle_error E (raw_from udp_request) (valid_range cookie_time_values) e
                     (Some transaction_id) c'')))"

end
