(* ===== verification/Udp_Request_Buffer.thy ===== *)
theory Udp_Request_Buffer
  imports Tracker_Prelude
begin

text \<open>
  The buffer of active UDP requests (\<open>src/servers/udp/server/request_buffer.rs\<close>). The ring buffer
  and the tasks are parameters: whether a task is finished is asked when an old task is found, asked
  again after yielding, and asked for the new task at the end.
\<close>

section \<open>The ring buffer (parameter)\<close>

text \<open>
  \<open>rb_pop_iter\<close> are the elements that the popping iterator yields, oldest first; \<open>rb_popped n\<close> is the
  buffer after \<open>n\<close> of them were taken.
\<close>

record ('h, 'b) ring_api =
  rb_default :: 'b
  rb_try_push :: "'h \<Rightarrow> 'b \<Rightarrow> 'b option"
  rb_pop_iter :: "'b \<Rightarrow> 'h list"
  rb_popped :: "nat \<Rightarrow> 'b \<Rightarrow> 'b"

definition RB_CAPACITY :: nat where
  "RB_CAPACITY = 50"

locale ring_buffer =
  fixes B :: "('h, 'b) ring_api" and contents :: "'b \<Rightarrow> 'h list"
  assumes default: "contents (rb_default B) = []"
    and try_push: "rb_try_push B h b = None \<longleftrightarrow> RB_CAPACITY \<le> length (contents b)"
      "rb_try_push B h b = Some b' \<Longrightarrow> contents b' = contents b @ [h]"
    and pop_iter: "rb_pop_iter B b = contents b"
    and popped: "contents (rb_popped B n b) = drop n (contents b)"

section \<open>ActiveRequests\<close>

text \<open>What the tasks answer when they are asked whether they are finished.\<close>

record 'h task_answers =
  at_first :: "'h \<Rightarrow> bool"
  after_yield :: "'h \<Rightarrow> bool"
  at_the_end :: "'h \<Rightarrow> bool"

text \<open>
  The loop over the popped tasks: how many were taken, the task to insert again, the aborted tasks.
\<close>

fun pop_loop ::
  "'h task_answers \<Rightarrow> nat \<Rightarrow> 'h option \<Rightarrow> nat \<Rightarrow> 'h list \<Rightarrow> nat \<times> 'h option \<times> 'h list" where
  "pop_loop T finished unfinished_task taken [] = (taken, unfinished_task, [])"
| "pop_loop T finished unfinished_task taken (old_task # rest) =
     (if at_first T old_task then pop_loop T (finished + 1) unfinished_task (taken + 1) rest
      else if after_yield T old_task then pop_loop T (finished + 1) unfinished_task (taken + 1) rest
      else if finished = 0 then (taken + 1, unfinished_task, [old_task])
      else pop_loop T finished (Some old_task) (taken + 1) rest)"

text \<open>
  The result is whether an old task was aborted, the buffer, and the aborted tasks; a failed
  expectation panics (\<^const>\<open>None\<close>).
\<close>

definition force_push ::
  "('h, 'b) ring_api \<Rightarrow> 'h task_answers \<Rightarrow> 'h \<Rightarrow> 'b \<Rightarrow> (bool \<times> 'b \<times> 'h list) option" where
  "force_push B T new_task b =
     (case rb_try_push B new_task b of
        Some b' \<Rightarrow> Some (False, b', [])
      | None \<Rightarrow>
          (let (taken, unfinished_task, aborted) = pop_loop T 0 None 0 (rb_pop_iter B b);
               b1 = rb_popped B taken b
           in case (case unfinished_task of Some h \<Rightarrow> rb_try_push B h b1 | None \<Rightarrow> Some b1) of
                None \<Rightarrow> None
              | Some b2 \<Rightarrow>
                  (case (if at_the_end T new_task then Some b2 else rb_try_push B new_task b2) of
                     None \<Rightarrow> None
                   | Some b3 \<Rightarrow> Some (aborted \<noteq> [], b3, aborted))))"

definition drop_requests :: "('h, 'b) ring_api \<Rightarrow> ('h \<Rightarrow> bool) \<Rightarrow> 'b \<Rightarrow> 'h list" where
  "drop_requests B finished b = filter (\<lambda>h. \<not> finished h) (rb_pop_iter B b)"

section \<open>Lemmas\<close>

text \<open>A task that is still running after it was given a second chance.\<close>

definition still_running :: "'h task_answers \<Rightarrow> 'h \<Rightarrow> bool" where
  "still_running T h = (\<not> at_first T h \<and> \<not> after_yield T h)"

lemma pop_loop_after_finished:
  "0 < finished \<Longrightarrow>
   pop_loop T finished u taken hs =
     (taken + length hs, (if filter (still_running T) hs = [] then u else Some (last (filter (still_running T) hs))), [])"
  by (induction hs arbitrary: finished u taken) (auto simp: still_running_def)

lemma pop_loop_start:
  "pop_loop T 0 None 0 [] = (0, None, [])"
  "pop_loop T 0 None 0 (h # hs) =
     (if still_running T h then (1, None, [h])
      else (1 + length hs,
            (if filter (still_running T) hs = [] then None else Some (last (filter (still_running T) hs))), []))"
  by (auto simp: still_running_def pop_loop_after_finished)

context ring_buffer
begin

lemma try_push_room: "length (contents b) < RB_CAPACITY \<Longrightarrow> \<exists>b'. rb_try_push B h b = Some b' \<and> contents b' = contents b @ [h]"
  using try_push [of h b] by (cases "rb_try_push B h b") auto

lemma force_push_cases:
  assumes "length (contents b) \<le> RB_CAPACITY"
  obtains (room) b' where "length (contents b) < RB_CAPACITY" and "force_push B T new b = Some (False, b', [])"
      and "contents b' = contents b @ [new]"
  | (aborts) h hs b' where "contents b = h # hs" and "length (contents b) = RB_CAPACITY" and "still_running T h"
      and "force_push B T new b = Some (True, b', [h])"
      and "contents b' = hs @ (if at_the_end T new then [] else [new])"
  | (purges) h hs b' where "contents b = h # hs" and "length (contents b) = RB_CAPACITY" and "\<not> still_running T h"
      and "force_push B T new b = Some (False, b', [])"
      and "contents b' =
            (if filter (still_running T) hs = [] then [] else [last (filter (still_running T) hs)]) @
            (if at_the_end T new then [] else [new])"
proof (cases "rb_try_push B new b")
  case (Some b')
  moreover have "length (contents b) < RB_CAPACITY"
    using Some try_push(1) [of new b] by auto
  ultimately show ?thesis
    using room try_push(2) by (simp add: force_push_def)
next
  case None
  then have full: "length (contents b) = RB_CAPACITY"
    using assms try_push(1) [of new b] by auto
  then obtain h hs where hs: "contents b = h # hs"
    by (cases "contents b") (auto simp: RB_CAPACITY_def)
  show ?thesis
  proof (cases "still_running T h")
    case True
    have "contents (rb_popped B 1 b) = hs"
      by (simp add: popped hs)
    moreover have "length hs < RB_CAPACITY"
      using full hs by simp
    ultimately obtain b' where b': "(if at_the_end T new then Some (rb_popped B 1 b)
        else rb_try_push B new (rb_popped B 1 b)) = Some b'"
      "contents b' = hs @ (if at_the_end T new then [] else [new])"
      using try_push_room [of "rb_popped B 1 b" new] by (cases "at_the_end T new") auto
    have "force_push B T new b = Some (True, b', [h])"
      unfolding force_push_def pop_iter hs pop_loop_start using None True b'(1)
      by (simp add: Let_def split: if_splits)
    then show ?thesis
      using aborts [OF hs full True] b'(2) by simp
  next
    case False
    let ?run = "filter (still_running T) hs"
    let ?b1 = "rb_popped B (Suc (length hs)) b"
    let ?u = "if ?run = [] then None else Some (last ?run)"
    have c1: "contents ?b1 = []"
      by (simp add: popped hs)
    obtain b2 where b2: "(case ?u of Some x \<Rightarrow> rb_try_push B x ?b1 | None \<Rightarrow> Some ?b1) = Some b2"
      "contents b2 = (if ?run = [] then [] else [last ?run])"
      using try_push_room [of ?b1 "last ?run"] c1 by (cases "?run = []") (auto simp: RB_CAPACITY_def)
    obtain b3 where b3: "(if at_the_end T new then Some b2 else rb_try_push B new b2) = Some b3"
      "contents b3 = contents b2 @ (if at_the_end T new then [] else [new])"
      using try_push_room [of b2 new] b2(2) by (cases "at_the_end T new") (auto simp: RB_CAPACITY_def split: if_splits)
    have "force_push B T new b = Some (False, b3, [])"
      unfolding force_push_def pop_iter hs pop_loop_start using None False b2(1) b3(1) by (simp add: Let_def del: if_split)
    then show ?thesis
      using purges [OF hs full False] b2(2) b3(2) by simp
  qed
qed

end

section \<open>Bounded lists as ring buffers\<close>

definition list_ring :: "('h, 'h list) ring_api" where
  "list_ring =
     \<lparr>rb_default = [], rb_try_push = (\<lambda>h b. if RB_CAPACITY \<le> length b then None else Some (b @ [h])),
      rb_pop_iter = (\<lambda>b. b), rb_popped = drop\<rparr>"

interpretation list_ring: ring_buffer list_ring "\<lambda>b. b"
  by unfold_locales (auto simp: list_ring_def split: if_splits)

section \<open>Properties\<close>



text \<open>
  C40: When the buffer is full and its oldest task has finished, every running task but the newest
  is forgotten: it is neither kept in the buffer nor aborted, so that it runs on outside the limit
  of the buffer and is not aborted when the server stops.
\<close>
theorem force_push_forgets_running:
  assumes "ring_buffer B contents" and "contents b = h # hs" and "length (contents b) = RB_CAPACITY"
    and "\<not> still_running T h"
    and "filter (still_running T) hs = forgotten @ [newest]" and "\<not> at_the_end T new"
  shows "\<exists>b'. force_push B T new b = Some (False, b', []) \<and> contents b' = [newest, new]"
proof -
  have le: "length (contents b) \<le> RB_CAPACITY"
    using assms(3) by simp
  show ?thesis
  proof (cases rule: ring_buffer.force_push_cases [OF assms(1) le, of T new])
    case 1
    then show ?thesis using assms(3) by simp
  next
    case (2 h' hs' b')
    then show ?thesis using assms(2,4) by simp
  next
    case (3 h' hs' b')
    then show ?thesis using assms(2,5,6) by simp
  qed
qed

definition sample_answers :: "nat task_answers" where
  "sample_answers = \<lparr>at_first = (\<lambda>h. h = 0), after_yield = (\<lambda>_. False), at_the_end = (\<lambda>_. False)\<rparr>"

theorem force_push_forgets_running_witness:
  "\<exists>b'. force_push list_ring sample_answers 50 [0..<50] = Some (False, b', []) \<and> b' = [49, 50]"
proof -
  have "filter (still_running sample_answers) [1..<50] = [1..<50]"
    by (rule filter_True) (simp add: still_running_def sample_answers_def)
  also have "[1..<50] = [1..<49] @ [49]"
    using upt_Suc_append [of 1 49] by simp
  finally show ?thesis
    using force_push_forgets_running [OF list_ring.ring_buffer_axioms, of "[0..<50]" 0 "[1..<50]" sample_answers
        "[1..<49]" 49 50]
    by (simp add: upt_conv_Cons RB_CAPACITY_def still_running_def sample_answers_def)
qed

end
