(* ===== verification/Udp_Server.thy ===== *)
theory Udp_Server
  imports Udp_Handlers Udp_Request_Buffer
begin

text \<open>
  The UDP server (\<open>src/servers/udp/server/launcher.rs\<close>, \<open>src/servers/udp/server/processor.rs\<close>): the
  main loop refuses banned addresses, spawns one task for each other packet and keeps its handle in
  the request buffer; the tasks handle their packet and send the response. The steps interleave in
  any order. A step runs the main loop or one task to its next point of interest: a task is
  spawned, has handled its packet, or is gone.
\<close>

section \<open>Processor (processor.rs)\<close>

fun response_kind :: "UdpResponse \<Rightarrow> UdpResponseKind" where
  "response_kind (ResponseConnect _ _) = KindConnect"
| "response_kind (ResponseAnnounceIpv4 _ _) = KindAnnounce"
| "response_kind (ResponseAnnounceIpv6 _ _) = KindAnnounce"
| "response_kind (ResponseScrape _ _) = KindScrape"
| "response_kind (ResponseError _ _) = KindError"

definition response_event :: "SocketAddr \<Rightarrow> UdpResponse \<Rightarrow> Duration \<Rightarrow> UdpEvent" where
  "response_event target response req_processing_time =
     per_version (sa_ip target) (Udp4Response (response_kind response) req_processing_time)
       (Udp6Response (response_kind response) req_processing_time)"

text \<open>\<open>send_ok\<close> is whether the socket accepts the packet.\<close>

definition send_response ::
  "('s, 'db, 'b) udp_env \<Rightarrow> (SocketAddr \<Rightarrow> u8 list \<Rightarrow> bool) \<Rightarrow> SocketAddr \<Rightarrow> UdpResponse \<Rightarrow> Duration \<Rightarrow>
   ('s, 'db, 'b) UdpTrackerContainer \<Rightarrow> ('s, 'db, 'b) UdpTrackerContainer" where
  "send_response E send_ok target response req_processing_time c =
     (case write_bytes E response of
        None \<Rightarrow> c
      | Some bytes \<Rightarrow>
          if send_ok target bytes then send_event (response_event target response req_processing_time) c else c)"

text \<open>A request processed without interruption.\<close>

definition process_request ::
  "('s, 'db, 'b) udp_env \<Rightarrow> f64 \<Rightarrow> DurationSinceUnixEpoch \<Rightarrow> DurationSinceUnixEpoch \<Rightarrow>
   (SocketAddr \<Rightarrow> u8 list \<Rightarrow> bool) \<Rightarrow> Duration \<Rightarrow> RawRequest \<Rightarrow> ('s, 'db, 'b) UdpTrackerContainer \<Rightarrow>
   (UdpResponse \<times> ('s, 'db, 'b) UdpTrackerContainer) option" where
  "process_request E lifetime issued now send_ok elapsed_time request c =
     (case handle_packet E now request (CookieTimeValues_new issued lifetime) c of
        None \<Rightarrow> None
      | Some (response, c') \<Rightarrow> Some (response, send_response E send_ok (raw_from request) response elapsed_time c'))"

section \<open>The main loop (launcher.rs)\<close>

datatype UdpTask = Spawned RawRequest | Handled SocketAddr UdpResponse

datatype UdpLoop = Waiting | Pushing nat | Stopped

record ('s, 'db, 'b, 'r) UdpServerState =
  container :: "('s, 'db, 'b) UdpTrackerContainer"
  active_requests :: 'r
  tasks :: "nat \<rightharpoonup> UdpTask"
  next_task :: nat
  main_loop :: UdpLoop

definition request_received ::
  "SocketAddr \<Rightarrow> ('s, 'db, 'b) UdpTrackerContainer \<Rightarrow> ('s, 'db, 'b) UdpTrackerContainer" where
  "request_received source c = send_event (per_version (sa_ip source) Udp4Request Udp6Request) c"

text \<open>A handle is finished when its task is gone; no other task runs while the buffer is changed.\<close>

definition finished_tasks :: "(nat \<rightharpoonup> UdpTask) \<Rightarrow> nat task_answers" where
  "finished_tasks ts =
     \<lparr>at_first = (\<lambda>h. ts h = None), after_yield = (\<lambda>h. ts h = None), at_the_end = (\<lambda>h. ts h = None)\<rparr>"

definition without_tasks :: "nat list \<Rightarrow> (nat \<rightharpoonup> UdpTask) \<Rightarrow> (nat \<rightharpoonup> UdpTask)" where
  "without_tasks hs ts = (\<lambda>h. if h \<in> set hs then None else ts h)"

definition run_udp_server_start ::
  "(nat, 'r) ring_api \<Rightarrow> ('s, 'db, 'b) UdpTrackerContainer \<Rightarrow> ('s, 'db, 'b, 'r) UdpServerState" where
  "run_udp_server_start B c =
     \<lparr>container = c, active_requests = rb_default B, tasks = Map.empty, next_task = 0, main_loop = Waiting\<rparr>"

inductive udp_step ::
  "('s, 'db, 'b) udp_env \<Rightarrow> (nat, 'r) ring_api \<Rightarrow> f64 \<Rightarrow> ('s, 'db, 'b, 'r) UdpServerState \<Rightarrow>
   ('s, 'db, 'b, 'r) UdpServerState \<Rightarrow> bool"
  for E B lifetime where
  refuse:
  "main_loop s = Waiting \<Longrightarrow> c = request_received (raw_from (req :: RawRequest)) (container s) \<Longrightarrow>
   is_banned (env_filter E) (sa_ip (raw_from req)) (ban_service c) \<Longrightarrow>
   udp_step E B lifetime s (s\<lparr>container := send_event UdpRequestBanned c\<rparr>)"
| spawn:
  "main_loop s = Waiting \<Longrightarrow> c = request_received (raw_from (req :: RawRequest)) (container s) \<Longrightarrow>
   \<not> is_banned (env_filter E) (sa_ip (raw_from req)) (ban_service c) \<Longrightarrow>
   udp_step E B lifetime s
     (s\<lparr>container := c, tasks := (tasks s)(next_task s \<mapsto> Spawned req), next_task := next_task s + 1,
        main_loop := Pushing (next_task s)\<rparr>)"
| finished:
  "main_loop s = Pushing h \<Longrightarrow> tasks s h = None \<Longrightarrow> udp_step E B lifetime s (s\<lparr>main_loop := Waiting\<rparr>)"
| push:
  "main_loop s = Pushing h \<Longrightarrow> tasks s h \<noteq> None \<Longrightarrow>
   force_push B (finished_tasks (tasks s)) h (active_requests s) = Some (old_request_aborted, b, aborted) \<Longrightarrow>
   udp_step E B lifetime s
     (s\<lparr>container := (if old_request_aborted then send_event UdpRequestAborted (container s) else container s),
        active_requests := b, tasks := without_tasks aborted (tasks s), main_loop := Waiting\<rparr>)"
| stop:
  "main_loop s = Waiting \<Longrightarrow>
   udp_step E B lifetime s
     (s\<lparr>tasks := without_tasks (drop_requests B (\<lambda>h. tasks s h = None) (active_requests s)) (tasks s),
        main_loop := Stopped\<rparr>)"
| handle:
  "tasks s h = Some (Spawned req) \<Longrightarrow>
   handle_packet E now req (CookieTimeValues_new issued lifetime) (container s) = Some (response, c) \<Longrightarrow>
   udp_step E B lifetime s
     (s\<lparr>container := c, tasks := (tasks s)(h \<mapsto> Handled (raw_from req) response)\<rparr>)"
| panic:
  "tasks s h = Some (Spawned req) \<Longrightarrow>
   handle_packet E now req (CookieTimeValues_new issued lifetime) (container s) = None \<Longrightarrow>
   udp_step E B lifetime s (s\<lparr>tasks := (tasks s)(h := None)\<rparr>)"
| respond:
  "tasks s h = Some (Handled target response) \<Longrightarrow>
   udp_step E B lifetime s
     (s\<lparr>container := send_response E send_ok target response elapsed_time (container s),
        tasks := (tasks s)(h := None)\<rparr>)"
| clean_bans:
  "udp_step E B lifetime s
     (s\<lparr>container := (container s)\<lparr>ban_service := reset_bans (env_filter E) now (ban_service (container s))\<rparr>\<rparr>)"

inductive udp_reachable ::
  "('s, 'db, 'b) udp_env \<Rightarrow> (nat, 'r) ring_api \<Rightarrow> f64 \<Rightarrow> ('s, 'db, 'b) UdpTrackerContainer \<Rightarrow>
   ('s, 'db, 'b, 'r) UdpServerState \<Rightarrow> bool"
  for E B lifetime c where
  start: "udp_reachable E B lifetime c (run_udp_server_start B c)"
| step: "udp_reachable E B lifetime c s \<Longrightarrow> udp_step E B lifetime s s' \<Longrightarrow> udp_reachable E B lifetime c s'"

section \<open>Events of the handlers\<close>

fun is_handler_event :: "UdpEvent \<Rightarrow> bool" where
  "is_handler_event Udp4Connect = True"
| "is_handler_event Udp4Announce = True"
| "is_handler_event Udp4Scrape = True"
| "is_handler_event Udp4Error = True"
| "is_handler_event Udp6Connect = True"
| "is_handler_event Udp6Announce = True"
| "is_handler_event Udp6Scrape = True"
| "is_handler_event Udp6Error = True"
| "is_handler_event _ = False"

lemma send_event_simps [simp]:
  "stats_enabled (send_event e c) = stats_enabled c"
  "stats_events (send_event e c) = (if stats_enabled c then stats_events c @ [e] else stats_events c)"
  "ban_service (send_event e c) = ban_service c"
  "announce_handler (send_event e c) = announce_handler c"
  "core_config (send_event e c) = core_config c"
  "tracker_whitelist (send_event e c) = tracker_whitelist c"
  by (simp_all add: send_event_def)

text \<open>
  What a handler sends: only events about the request, and, if it answers other than with an error,
  the event of the request.
\<close>

definition announces_itself ::
  "SocketAddr \<Rightarrow> UdpResponse \<Rightarrow> ('s, 'db, 'b) UdpTrackerContainer \<Rightarrow> ('s, 'db, 'b) UdpTrackerContainer \<Rightarrow> bool" where
  "announces_itself source response c c' \<longleftrightarrow>
     stats_enabled c' = stats_enabled c \<and>
     (\<exists>es. stats_events c' = stats_events c @ es \<and> list_all is_handler_event es \<and>
           (stats_enabled c \<longrightarrow> (\<forall>t. preceded (response_event source response t) es)) \<and>
           (\<not> stats_enabled c \<longrightarrow> es = []))"

lemma handle_connect_events:
  "handle_connect E a r t c = Some (response, c') \<Longrightarrow> announces_itself a response c c'"
  by (auto simp: handle_connect_def announces_itself_def response_event_def per_version_def
      split: sum.splits IpAddr.splits)

lemma handle_announce_events:
  "handle_announce E now a r v c = Some (Inr response, c') \<Longrightarrow> announces_itself a response c c'"
  by (auto simp: handle_announce_def announce_response_of_def announces_itself_def response_event_def per_version_def
      Let_def split: sum.splits option.splits prod.splits IpAddr.splits if_splits)

lemma handle_scrape_events:
  "handle_scrape E a r v c = Some (Inr response, c') \<Longrightarrow> announces_itself a response c c'"
  by (auto simp: handle_scrape_def announces_itself_def response_event_def per_version_def Let_def
      split: sum.splits option.splits IpAddr.splits)

lemma cookie_check_error: "cookie_check C cookie fp v = Some (Inl e) \<Longrightarrow> is_cookie_error e"
  by (auto simp: cookie_check_def Let_def split: if_splits)

text \<open>A failed request changes nothing.\<close>

lemma handle_request_error:
  assumes "handle_request E now r a v c = Some (Inl (e, tid), c')"
  shows "c' = c" and "is_cookie_error e \<or> (\<exists>w. e = TrackerError w)"
  using assms by (cases r; force simp: handle_announce_def handle_scrape_def Let_def dest: cookie_check_error
      split: sum.splits option.splits prod.splits)+

lemma handle_error_events:
  "handle_error E a v e tid c = Some (response, c') \<Longrightarrow> announces_itself a response c c'"
  by (auto simp: handle_error_def announces_itself_def response_event_def per_version_def
      split: UdpError.splits RequestParseError.splits sum.splits option.splits IpAddr.splits if_splits)

lemma handle_request_events:
  "handle_request E now r a v c = Some (Inr response, c') \<Longrightarrow> announces_itself a response c c'"
  by (cases r) (auto dest: handle_connect_events handle_announce_events handle_scrape_events)

lemma announces_itself_ban [simp]:
  "announces_itself a response (c\<lparr>ban_service := b\<rparr>) c' = announces_itself a response c c'"
  by (simp add: announces_itself_def)

lemma handle_packet_events:
  assumes "handle_packet E now req v c = Some (response, c')"
  shows "announces_itself (raw_from req) response c c'"
proof (cases "parse_bytes E (payload req) MAX_SCRAPE_TORRENTS")
  case (Inl e)
  then show ?thesis
    using assms by (auto simp: handle_packet_def dest: handle_error_events)
next
  case (Inr r)
  then obtain result c1 where r: "handle_request E now r (raw_from req) v c = Some (result, c1)"
    using assms by (auto simp: handle_packet_def split: option.splits)
  show ?thesis
  proof (cases result)
    case (Inl p)
    then have "c1 = c"
      using r handle_request_error(1) by (cases p) blast
    then show ?thesis
      using assms Inr r Inl by (auto simp: handle_packet_def Let_def dest!: handle_error_events split: if_splits prod.splits)
  next
    case (Inr response')
    then show ?thesis
      using assms r \<open>parse_bytes E _ _ = Inr r\<close> handle_request_events by (auto simp: handle_packet_def)
  qed
qed

section \<open>Invariants of the server\<close>

lemma requests_first_append:
  "requests_first before (es @ es') \<longleftrightarrow> requests_first before es \<and> requests_first (before @ es) es'"
  by (induction es arbitrary: before) simp_all

lemma handler_events_first: "list_all is_handler_event es \<Longrightarrow> requests_first before es"
proof (induction es arbitrary: before)
  case (Cons e es)
  then show ?case
    by (cases e) simp_all
qed simp

lemma preceded_append: "preceded e es \<or> preceded e es' \<Longrightarrow> preceded e (es @ es')"
  by (cases "(e, es)" rule: preceded.cases) auto

fun is_request :: "UdpEvent \<Rightarrow> bool" where
  "is_request Udp4Request = True"
| "is_request Udp6Request = True"
| "is_request _ = False"

fun is_outcome :: "UdpEvent \<Rightarrow> bool" where
  "is_outcome UdpRequestBanned = True"
| "is_outcome UdpRequestAborted = True"
| "is_outcome (Udp4Response _ _) = True"
| "is_outcome (Udp6Response _ _) = True"
| "is_outcome _ = False"

definition tally :: "(UdpEvent \<Rightarrow> bool) \<Rightarrow> UdpEvent list \<Rightarrow> nat" where
  "tally P es = length (filter P es)"

lemma tally_simps [simp]:
  "tally P [] = 0" "tally P (es @ es') = tally P es + tally P es'" "tally P (e # es) = (if P e then 1 else 0) + tally P es"
  by (simp_all add: tally_def)

lemma tally_handler_events:
  "list_all is_handler_event es \<Longrightarrow> tally is_request es = 0 \<and> tally is_outcome es = 0"
proof (induction es)
  case (Cons e es)
  then show ?case
    by (cases e) (simp_all add: tally_def)
qed simp

text \<open>
  The events sent so far announce every request before its response, and every event about the
  outcome of a request stands for a request that is not running any more.
\<close>

definition events_ok :: "UdpEvent list \<Rightarrow> (nat \<rightharpoonup> UdpTask) \<Rightarrow> bool" where
  "events_ok es ts \<longleftrightarrow>
     requests_first [] es \<and>
     (\<forall>h target response t. ts h = Some (Handled target response) \<longrightarrow> preceded (response_event target response t) es) \<and>
     tally is_outcome es + card (dom ts) \<le> tally is_request es"

lemma events_ok_snoc:
  assumes "events_ok es ts" and "preceded e es"
    and "\<And>h target response. ts' h = Some (Handled target response) \<Longrightarrow> ts h = Some (Handled target response)"
    and "(if is_outcome e then 1 else 0) + card (dom ts') \<le> (if is_request e then 1 else 0) + card (dom ts)"
  shows "events_ok (es @ [e]) ts'"
  unfolding events_ok_def
proof (intro conjI allI impI)
  show "requests_first [] (es @ [e])"
    using assms(1,2) by (simp add: events_ok_def requests_first_append)
  show "preceded (response_event target response t) (es @ [e])" if "ts' h = Some (Handled target response)" for h target response t
    using assms(1) assms(3) [OF that] by (auto simp: events_ok_def intro: preceded_append)
  show "tally is_outcome (es @ [e]) + card (dom ts') \<le> tally is_request (es @ [e])"
    using assms(1,4) by (simp add: events_ok_def split: if_splits)
qed

lemma events_ok_tasks:
  assumes "events_ok es ts" and "card (dom ts') \<le> card (dom ts)"
    and "\<And>h target response. ts' h = Some (Handled target response) \<Longrightarrow> ts h = Some (Handled target response)"
  shows "events_ok es ts'"
proof -
  have "preceded (response_event target response t) es" if "ts' h = Some (Handled target response)" for h target response t
    using assms(1) assms(3) [OF that] by (auto simp: events_ok_def)
  then show ?thesis
    using assms(1,2) by (simp add: events_ok_def)
qed

lemma events_ok_handled:
  assumes "events_ok es ts" and "list_all is_handler_event es'" and "ts h \<noteq> None"
    and "\<And>t. preceded (response_event target response t) es'"
  shows "events_ok (es @ es') (ts(h \<mapsto> Handled target response))"
proof -
  have "dom (ts(h \<mapsto> Handled target response)) = dom ts"
    using assms(3) by auto
  then show ?thesis
    using assms(1,2,4) tally_handler_events [OF assms(2)] handler_events_first [OF assms(2)]
    by (auto simp: events_ok_def requests_first_append intro!: preceded_append)
qed

definition server_ok :: "('r \<Rightarrow> nat list) \<Rightarrow> ('s, 'db, 'b, 'r) UdpServerState \<Rightarrow> bool" where
  "server_ok contents s \<longleftrightarrow>
     length (contents (active_requests s)) \<le> RB_CAPACITY \<and> finite (dom (tasks s)) \<and>
     (\<forall>h. tasks s h \<noteq> None \<longrightarrow> h < next_task s) \<and>
     (stats_enabled (container s) \<longrightarrow> events_ok (stats_events (container s)) (tasks s)) \<and>
     (\<not> stats_enabled (container s) \<longrightarrow> stats_events (container s) = [])"

lemma card_dom_without: "finite (dom ts) \<Longrightarrow> card (dom (without_tasks hs ts)) \<le> card (dom ts)"
  by (rule card_mono) (auto simp: without_tasks_def split: if_splits)

text \<open>The shared part of the steps: the container sends one event, and the tasks change.\<close>

lemma server_ok_event:
  assumes "server_ok contents s" and "length (contents b) \<le> RB_CAPACITY" and "finite (dom ts)"
    and "\<And>h. ts h \<noteq> None \<Longrightarrow> h < n"
    and "\<And>h target response. ts h = Some (Handled target response) \<Longrightarrow> tasks s h = Some (Handled target response)"
    and "preceded e (stats_events (container s)) \<or> \<not> stats_enabled (container s)"
    and "(if is_outcome e then 1 else 0) + card (dom ts) \<le> (if is_request e then 1 else 0) + card (dom (tasks s))"
  shows "server_ok contents (s\<lparr>container := send_event e (container s), active_requests := b, tasks := ts,
           next_task := n, main_loop := l\<rparr>)"
  using assms(1-4,6) events_ok_snoc [OF _ _ assms(5,7)] by (auto simp: server_ok_def)

lemma server_ok_tasks:
  assumes "server_ok contents s" and "length (contents b) \<le> RB_CAPACITY" and "finite (dom ts)"
    and "\<And>h. ts h \<noteq> None \<Longrightarrow> h < n"
    and "\<And>h target response. ts h = Some (Handled target response) \<Longrightarrow> tasks s h = Some (Handled target response)"
    and "card (dom ts) \<le> card (dom (tasks s))"
  shows "server_ok contents (s\<lparr>active_requests := b, tasks := ts, next_task := n, main_loop := l\<rparr>)"
  using assms(1-4) events_ok_tasks [OF _ assms(6,5)] by (auto simp: server_ok_def)

lemma server_ok_handled:
  assumes "server_ok contents s" and "tasks s h \<noteq> None" and "announces_itself target response (container s) c"
  shows "server_ok contents (s\<lparr>container := c, tasks := (tasks s)(h \<mapsto> Handled target response)\<rparr>)"
proof -
  obtain es where es: "stats_events c = stats_events (container s) @ es" "list_all is_handler_event es"
    "stats_enabled c = stats_enabled (container s)"
    "stats_enabled (container s) \<Longrightarrow> preceded (response_event target response t) es"
    "\<not> stats_enabled (container s) \<Longrightarrow> es = []" for t
    using assms(3) by (auto simp: announces_itself_def)
  show ?thesis
  proof (cases "stats_enabled (container s)")
    case True
    then have "events_ok (stats_events c) ((tasks s)(h \<mapsto> Handled target response))"
      unfolding es(1) using assms(1,2) es(2,4) by (intro events_ok_handled) (auto simp: server_ok_def)
    then show ?thesis
      using assms(1,2) es(3) True by (auto simp: server_ok_def)
  next
    case False
    then show ?thesis
      using assms(1,2) es by (auto simp: server_ok_def)
  qed
qed

lemma per_version_cases: "per_version ip a b = a \<or> per_version ip a b = b"
  by (cases ip) (simp_all add: per_version_def)

lemma received_event:
  obtains e where "request_received source c = send_event e c" "is_request e" "\<not> is_outcome e" "\<And>es. preceded e es"
  unfolding request_received_def using per_version_cases [of "sa_ip source" Udp4Request Udp6Request] by auto

lemma server_ok_refuse:
  assumes "server_ok contents s" and "is_request e" "\<not> is_outcome e" "\<And>es. preceded e es"
  shows "server_ok contents (s\<lparr>container := send_event UdpRequestBanned (send_event e (container s))\<rparr>)"
  using assms by (auto simp: server_ok_def events_ok_def requests_first_append intro!: preceded_append)

lemma server_ok_spawn:
  assumes "server_ok contents s" and "is_request e" "\<not> is_outcome e" "\<And>es. preceded e es"
  shows "server_ok contents
    (s\<lparr>container := send_event e (container s), tasks := (tasks s)(next_task s \<mapsto> Spawned req),
       next_task := next_task s + 1, main_loop := l\<rparr>)"
proof -
  have "tasks s (next_task s) = None"
    using assms(1) by (auto simp: server_ok_def)
  then have "card (dom ((tasks s)(next_task s \<mapsto> Spawned req))) = card (dom (tasks s)) + 1"
    using assms(1) by (simp add: server_ok_def domIff)
  then have "server_ok contents
    (s\<lparr>container := send_event e (container s), active_requests := active_requests s,
       tasks := (tasks s)(next_task s \<mapsto> Spawned req), next_task := next_task s + 1, main_loop := l\<rparr>)"
    using assms by (intro server_ok_event) (auto simp: server_ok_def less_Suc_eq split: if_splits)
  then show ?thesis by simp
qed

lemma server_ok_without:
  assumes "server_ok contents s"
  shows "server_ok contents (s\<lparr>tasks := without_tasks hs (tasks s), main_loop := l\<rparr>)"
proof -
  have "server_ok contents (s\<lparr>active_requests := active_requests s, tasks := without_tasks hs (tasks s),
      next_task := next_task s, main_loop := l\<rparr>)"
  proof (rule server_ok_tasks [OF assms])
    have "dom (without_tasks hs (tasks s)) \<subseteq> dom (tasks s)"
      by (auto simp: without_tasks_def split: if_splits)
    then show "finite (dom (without_tasks hs (tasks s)))"
      using assms finite_subset by (auto simp: server_ok_def)
  qed (use assms card_dom_without in \<open>auto simp: server_ok_def without_tasks_def split: if_splits\<close>)
  then show ?thesis by simp
qed

lemma server_ok_respond:
  assumes "server_ok contents s" and "tasks s h = Some (Handled target response)"
  shows "server_ok contents (s\<lparr>container := send_event (response_event target response t) (container s),
                               tasks := (tasks s)(h := None)\<rparr>)"
proof -
  have "preceded (response_event target response t) (stats_events (container s)) \<or> \<not> stats_enabled (container s)"
    using assms by (auto simp: server_ok_def events_ok_def)
  moreover have "Suc (card (dom ((tasks s)(h := None)))) = card (dom (tasks s))"
    using card_Suc_Diff1 [of "dom (tasks s)" h] assms by (simp add: server_ok_def domIff)
  moreover have "is_outcome (response_event target response t)" "\<not> is_request (response_event target response t)"
    by (simp_all add: response_event_def per_version_def split: IpAddr.split)
  ultimately have "server_ok contents (s\<lparr>container := send_event (response_event target response t) (container s),
      active_requests := active_requests s, tasks := (tasks s)(h := None), next_task := next_task s,
      main_loop := main_loop s\<rparr>)"
    using assms(1) by (intro server_ok_event) (auto simp: server_ok_def split: if_splits)
  then show ?thesis by simp
qed


locale udp_buffer = ring_buffer B contents
  for B :: "(nat, 'r) ring_api" and contents :: "'r \<Rightarrow> nat list"
begin

lemma push_ok:
  assumes "server_ok contents s"
    and "force_push B (finished_tasks (tasks s)) h (active_requests s) = Some (flag, b, aborted)"
  shows "server_ok contents
    (s\<lparr>container := (if flag then send_event UdpRequestAborted (container s) else container s),
       active_requests := b, tasks := without_tasks aborted (tasks s), main_loop := l\<rparr>)"
proof -
  let ?T = "finished_tasks (tasks s)"
  have len: "length (contents (active_requests s)) \<le> RB_CAPACITY" and fin: "finite (dom (tasks s))"
    using assms(1) by (simp_all add: server_ok_def)
  have quiet: "server_ok contents (s\<lparr>active_requests := b, tasks := without_tasks [] (tasks s), main_loop := l\<rparr>)"
    if "length (contents b) \<le> RB_CAPACITY"
    using assms(1) that by (auto simp: server_ok_def without_tasks_def)
  show ?thesis
  proof (cases rule: force_push_cases [OF len, of ?T h])
    case (1 b')
    then show ?thesis
      using assms(2) quiet by simp
  next
    case (2 h' hs b')
    then have b: "flag" "aborted = [h']" "b = b'" and len': "length (contents b) \<le> RB_CAPACITY"
      using assms(2) by auto
    have "tasks s h' \<noteq> None"
      using 2(3) by (simp add: still_running_def finished_tasks_def)
    then have card: "Suc (card (dom ((tasks s)(h' := None)))) = card (dom (tasks s))"
      using card_Suc_Diff1 [OF fin, of h'] by (simp add: domIff)
    have eq: "without_tasks aborted (tasks s) = (tasks s)(h' := None)"
      by (auto simp: without_tasks_def b)
    have "server_ok contents (s\<lparr>container := send_event UdpRequestAborted (container s), active_requests := b,
        tasks := (tasks s)(h' := None), next_task := next_task s, main_loop := l\<rparr>)"
      using assms(1) len' card by (intro server_ok_event) (auto simp: server_ok_def split: if_splits)
    then show ?thesis
      unfolding eq using b(1) by simp
  next
    case (3 h' hs b')
    then show ?thesis
      using assms(2) quiet by (simp add: RB_CAPACITY_def split: if_splits)
  qed
qed

lemma step_ok:
  assumes "server_ok contents s" and "udp_step E B lifetime s s'"
  shows "server_ok contents s'"
  using assms(2)
proof cases
  case (refuse c req)
  obtain e where e: "c = send_event e (container s)" "is_request e" "\<not> is_outcome e" "\<And>es. preceded e es"
    using refuse(3) received_event by metis
  show ?thesis
    unfolding refuse(1) e(1) by (rule server_ok_refuse [OF assms(1) e(2-4)])
next
  case (spawn c req)
  obtain e where e: "c = send_event e (container s)" "is_request e" "\<not> is_outcome e" "\<And>es. preceded e es"
    using spawn(3) received_event by metis
  show ?thesis
    unfolding spawn(1) e(1) by (rule server_ok_spawn [OF assms(1) e(2-4)])
next
  case (finished h)
  then show ?thesis using assms(1) by (simp add: server_ok_def)
next
  case (push h flag b aborted)
  then show ?thesis
    using push_ok [OF assms(1)] by simp
next
  case stop
  then show ?thesis
    using server_ok_without [OF assms(1)] by simp
next
  case (handle h req now issued response c)
  show ?thesis
    unfolding handle(1) using handle(2)
    by (intro server_ok_handled [OF assms(1) _ handle_packet_events [OF handle(3)]]) simp
next
  case (panic h req now issued)
  have "(tasks s)(h := None) = without_tasks [h] (tasks s)"
    by (auto simp: without_tasks_def)
  then show ?thesis
    using server_ok_without [OF assms(1), of "main_loop s" "[h]"] panic(1) by simp
next
  case (respond h target response send_ok elapsed_time)
  have remove: "(tasks s)(h := None) = without_tasks [h] (tasks s)"
    by (auto simp: without_tasks_def)
  have "send_response E send_ok target response elapsed_time (container s) \<in>
      {container s, send_event (response_event target response elapsed_time) (container s)}"
    by (auto simp: send_response_def split: option.split)
  then show ?thesis
    using server_ok_respond [OF assms(1) respond(2)] server_ok_without [OF assms(1), of "main_loop s" "[h]"] respond(1)
    by (auto simp flip: remove)
next
  case (clean_bans now)
  then show ?thesis using assms(1) by (simp add: server_ok_def)
qed

lemma reachable_ok:
  assumes "udp_reachable E B lifetime c s" and "stats_events c = []"
  shows "server_ok contents s"
  using assms(1)
proof induction
  case start
  show ?case
    using assms(2) by (simp add: server_ok_def run_udp_server_start_def default events_ok_def)
next
  case (step s s')
  then show ?case
    using step_ok by blast
qed

end

interpretation list_buffer: udp_buffer list_ring "\<lambda>b. b"
  by (rule udp_buffer.intro) (rule list_ring.ring_buffer_axioms)

end
