(* ===== verification/Tracker_Spec.thy ===== *)
theory Tracker_Spec
  imports Tracker_Core
begin

text \<open>
  What the core of the tracker promises: a map from info-hashes to swarms, changed by announces and
  cleanups, from which the answers to announces, scrapes and listings follow. The locale \<open>tracker\<close>
  combines the contract of the repository with that of the database and shows that the operations
  of the core implement this specification.
\<close>

section \<open>Histories of the tracker\<close>

datatype tracker_op =
    OpAnnounce InfoHash Peer IpAddr PeersWanted
  | OpCleanup DurationSinceUnixEpoch

fun tracker_step ::
  "'s Repository \<Rightarrow> 'db DatabaseTrait \<Rightarrow> Core \<Rightarrow> tracker_op \<Rightarrow> ('s, 'db) AnnounceHandler \<Rightarrow> ('s, 'db) AnnounceHandler" where
  "tracker_step R D config (OpAnnounce ih p ip w) h = snd (announce R D config ih p ip w h)"
| "tracker_step R D config (OpCleanup now) h =
     h\<lparr>in_memory_torrent_repository := cleanup_torrents R config now (in_memory_torrent_repository h)\<rparr>"

definition run_tracker ::
  "'s Repository \<Rightarrow> 'db DatabaseTrait \<Rightarrow> Core \<Rightarrow> tracker_op list \<Rightarrow> ('s, 'db) AnnounceHandler \<Rightarrow> ('s, 'db) AnnounceHandler" where
  "run_tracker R D config ops h = fold (tracker_step R D config) ops h"

section \<open>Specification\<close>

type_synonym swarms = "InfoHash \<rightharpoonup> SwarmSpec"

definition swarm_of :: "swarms \<Rightarrow> InfoHash \<Rightarrow> SwarmSpec" where
  "swarm_of S ih = (case S ih of Some s \<Rightarrow> s | None \<Rightarrow> spec_empty)"

definition announced_peer :: "Core \<Rightarrow> IpAddr \<Rightarrow> Peer \<Rightarrow> Peer" where
  "announced_peer config ip p = change_ip (assign_ip_address_to_peer ip (external_ip (net config))) p"

definition swarms_announce :: "Core \<Rightarrow> InfoHash \<Rightarrow> Peer \<Rightarrow> IpAddr \<Rightarrow> swarms \<Rightarrow> swarms" where
  "swarms_announce config ih p ip S = S(ih \<mapsto> spec_announce (announced_peer config ip p) (swarm_of S ih))"

text \<open>
  A swarm outlives a cleanup when it still has peers, when torrents without peers are kept, or when
  completed downloads are persisted and its counter is not zero.
\<close>

definition survives :: "TrackerPolicy \<Rightarrow> SwarmSpec \<Rightarrow> bool" where
  "survives pol s =
     (\<not> remove_peerless_torrents pol \<or> known s \<noteq> (\<lambda>_. None) \<or>
      persistent_torrent_completed_stat pol \<and> (of_nat (completed s) :: u32) \<noteq> 0)"

definition swarms_cleanup :: "Core \<Rightarrow> DurationSinceUnixEpoch \<Rightarrow> swarms \<Rightarrow> swarms" where
  "swarms_cleanup config now S = (\<lambda>ih.
     case S ih of
       None \<Rightarrow> None
     | Some s \<Rightarrow>
         (let s' = spec_expire (cleanup_cutoff config now) s
          in if survives (tracker_policy config) s' then Some s' else None))"

fun swarms_step :: "Core \<Rightarrow> tracker_op \<Rightarrow> swarms \<Rightarrow> swarms" where
  "swarms_step config (OpAnnounce ih p ip w) S = swarms_announce config ih p ip S"
| "swarms_step config (OpCleanup now) S = swarms_cleanup config now S"

definition run_swarms :: "Core \<Rightarrow> tracker_op list \<Rightarrow> swarms \<Rightarrow> swarms" where
  "run_swarms config ops S = fold (swarms_step config) ops S"

definition swarm_stats :: "SwarmSpec \<Rightarrow> SwarmMetadata" where
  "swarm_stats s =
     \<lparr>sm_downloaded = of_nat (completed s),
      sm_complete = of_nat (card {p \<in> ran (known s). sint (left p) \<le> 0}),
      sm_incomplete = of_nat (card {p \<in> ran (known s). 0 < sint (left p)})\<rparr>"

definition represents_all :: "torrents_view \<Rightarrow> swarms \<Rightarrow> bool" where
  "represents_all M S = (\<forall>ih. rel_option represents (M ih) (S ih))"

section \<open>Lemmas\<close>

lemma represents_swarm_stats: "represents t s \<Longrightarrow> get_swarm_metadata t = swarm_stats s"
  by (simp add: get_swarm_metadata_def swarm_stats_def represents_seeders_and_leechers)
     (simp add: represents_def)

lemma bt_get_None_iff: "bt_inv m \<Longrightarrow> bt_get m = (\<lambda>_. None) \<longleftrightarrow> m = []"
  by (cases m) (auto simp: bt_get_def fun_eq_iff)

lemma represents_survives:
  assumes "represents t s" and "remove_peerless_torrents pol"
  shows "meets_retaining_policy pol t \<longleftrightarrow> survives pol s"
proof -
  have "PeerList_is_empty (swarm t) \<longleftrightarrow> known s = (\<lambda>_. None)"
    using assms(1) bt_get_None_iff [of "pl_peers (swarm t)"]
    by (auto simp: represents_def torrent_inv_bt_inv PeerList_is_empty_def)
  then show ?thesis
    using assms by (auto simp: meets_retaining_policy_def survives_def represents_def word_gt_0)
qed

lemma represents_all_get:
  "represents_all M S \<Longrightarrow> M ih = Some t \<Longrightarrow> \<exists>s. S ih = Some s \<and> represents t s"
  "represents_all M S \<Longrightarrow> M ih = None \<longleftrightarrow> S ih = None"
  by (auto simp: represents_all_def option_rel_Some1 dest!: spec [of _ ih] elim: option.rel_cases)

lemma represents_all_entry:
  "represents_all M S \<Longrightarrow> represents (entry_or_default M ih) (swarm_of S ih)"
  using represents_all_get [of M S ih]
  by (cases "M ih") (auto simp: entry_or_default_def swarm_of_def represents_default)

lemma represents_all_empty: "represents_all (\<lambda>_. None) (\<lambda>_. None)"
  by (simp add: represents_all_def)

lemma represents_all_upsert:
  "represents_all M S \<Longrightarrow>
   represents_all (spec_upsert ih p M) (S(ih \<mapsto> spec_announce p (swarm_of S ih)))"
  using represents_upsert_peer(1) [OF represents_all_entry [of M S ih], of p]
  by (simp add: represents_all_def spec_upsert_def)

lemma represents_all_cleanup:
  assumes "represents_all M S"
  shows "remove_peerless_torrents (tracker_policy config) \<Longrightarrow>
      represents_all (spec_remove_peerless (tracker_policy config)
        (spec_remove_inactive (cleanup_cutoff config now) M)) (swarms_cleanup config now S)"
    and "\<not> remove_peerless_torrents (tracker_policy config) \<Longrightarrow>
      represents_all (spec_remove_inactive (cleanup_cutoff config now) M) (swarms_cleanup config now S)"
proof -
  have rep: "M ih = Some t \<Longrightarrow> \<exists>s. S ih = Some s \<and>
      represents (remove_inactive_peers (cleanup_cutoff config now) t) (spec_expire (cleanup_cutoff config now) s)"
    for ih t
    using represents_all_get(1) [OF assms] represents_remove_inactive by blast
  show "represents_all (spec_remove_inactive (cleanup_cutoff config now) M) (swarms_cleanup config now S)"
    if "\<not> remove_peerless_torrents (tracker_policy config)"
    unfolding represents_all_def
  proof
    fix ih
    show "rel_option represents (spec_remove_inactive (cleanup_cutoff config now) M ih) (swarms_cleanup config now S ih)"
      using rep [of ih] represents_all_get(2) [OF assms, of ih] that
      by (cases "M ih") (auto simp: spec_remove_inactive_def swarms_cleanup_def survives_def Let_def)
  qed
  show "represents_all (spec_remove_peerless (tracker_policy config)
        (spec_remove_inactive (cleanup_cutoff config now) M)) (swarms_cleanup config now S)"
    if pol: "remove_peerless_torrents (tracker_policy config)"
    unfolding represents_all_def
  proof
    fix ih
    show "rel_option represents (spec_remove_peerless (tracker_policy config)
        (spec_remove_inactive (cleanup_cutoff config now) M) ih) (swarms_cleanup config now S ih)"
      using rep [of ih] represents_all_get(2) [OF assms, of ih] represents_survives [OF _ pol]
      by (cases "M ih") (auto simp: spec_remove_peerless_def spec_remove_inactive_def swarms_cleanup_def Let_def)
  qed
qed

lemma get_peers_remove_inactive:
  "get_peers None (remove_inactive_peers cutoff t) = filter (\<lambda>p. cutoff < updated p) (get_peers None t)"
proof -
  have "map snd (filter (\<lambda>x. P (snd x)) xs) = filter P (map snd xs)" for P and xs :: "(PeerId \<times> Peer) list"
    by (induction xs) auto
  then show ?thesis
    by (simp add: get_peers_def PeerList_get_all_def remove_inactive_peers_def PeerList_remove_inactive_peers_def
        bt_values_def bt_retain_def case_prod_unfold)
qed

section \<open>The tracker over the two contracts\<close>

definition handler_ok :: "('s \<Rightarrow> bool) \<Rightarrow> ('db \<Rightarrow> bool) \<Rightarrow> ('s, 'db) AnnounceHandler \<Rightarrow> bool" where
  "handler_ok r_ok d_ok h = (r_ok (in_memory_torrent_repository h) \<and> d_ok (db_torrent_repository h))"

definition view_stats :: "torrents_view \<Rightarrow> InfoHash \<Rightarrow> SwarmMetadata" where
  "view_stats M ih = (case M ih of Some t \<Rightarrow> get_swarm_metadata t | None \<Rightarrow> SwarmMetadata_zeroed)"

lemma view_stats_upsert [simp]:
  "view_stats (spec_upsert ih p M) ih = get_swarm_metadata (snd (upsert_peer p (entry_or_default M ih)))"
  by (simp add: view_stats_def spec_upsert_def)

lemma represents_all_view_stats: "represents_all M S \<Longrightarrow> view_stats M ih = swarm_stats (swarm_of S ih)"
  using represents_all_get [of M S ih]
  by (cases "M ih")
     (auto simp: view_stats_def swarm_of_def represents_swarm_stats swarm_stats_def spec_empty_def
       SwarmMetadata_zeroed_def)

locale tracker =
  repo: ordered_repository R r_ok r_view + db: database D d_ok d_view storable
  for R :: "'s Repository" and r_ok r_view and D :: "'db DatabaseTrait" and d_ok d_view storable
begin

lemma get_stats:
  "r_ok s \<Longrightarrow> InMemoryTorrentRepository_get_swarm_metadata R ih s = view_stats (r_view s) ih"
  by (simp add: InMemoryTorrentRepository_get_swarm_metadata_def repo.get view_stats_def)

lemma announce_effect:
  fixes config ih p ip w h
  defines "p' \<equiv> announced_peer config ip p"
  defines "M' \<equiv> spec_upsert ih p' (r_view (in_memory_torrent_repository h))"
  assumes "handler_ok r_ok d_ok h"
  shows "handler_ok r_ok d_ok (snd (announce R D config ih p ip w h))"
    and "r_view (in_memory_torrent_repository (snd (announce R D config ih p ip w h))) = M'"
    and "fst (announce R D config ih p ip w h) =
      (\<lparr>peers = get_peers_for_client (peer_addr p') (Some (max (PeersWanted_limit w) TORRENT_PEERS_LIMIT)) (the (M' ih)),
        stats = view_stats M' ih, policy = announce_policy config\<rparr>, p')"
    and "d_view (db_torrent_repository (snd (announce R D config ih p ip w h))) =
      (if persistent_torrent_completed_stat (tracker_policy config) \<and>
          view_stats (r_view (in_memory_torrent_repository h)) ih \<noteq> view_stats M' ih
       then on_success (fst (save_persistent_torrent D ih (sm_downloaded (view_stats M' ih)) (db_torrent_repository h)))
         ((d_view (db_torrent_repository h))
            \<lparr>v_torrents := (v_torrents (d_view (db_torrent_repository h)))(ih \<mapsto> sm_downloaded (view_stats M' ih))\<rparr>)
         (d_view (db_torrent_repository h))
       else d_view (db_torrent_repository h))"
proof -
  have r: "r_ok (in_memory_torrent_repository h)" and d: "d_ok (db_torrent_repository h)"
    using assms(3) by (simp_all add: handler_ok_def)
  let ?s = "repo_upsert_peer R ih p' (in_memory_torrent_repository h)"
  have up: "r_ok ?s" "r_view ?s = M'"
    by (simp_all add: repo.upsert [OF r] M'_def)
  obtain t where some: "M' ih = Some t"
    by (simp add: M'_def spec_upsert_def)
  note defs = announce_def Let_def upsert_peer_and_get_stats_def persist_stats_def
    p'_def [unfolded announced_peer_def, symmetric] InMemoryTorrentRepository_upsert_peer_def
    DatabasePersistentTorrentRepository_save_def get_stats [OF r] get_stats [OF up(1)] up
  show "handler_ok r_ok d_ok (snd (announce R D config ih p ip w h))"
    and "r_view (in_memory_torrent_repository (snd (announce R D config ih p ip w h))) = M'"
    and "fst (announce R D config ih p ip w h) =
      (\<lparr>peers = get_peers_for_client (peer_addr p') (Some (max (PeersWanted_limit w) TORRENT_PEERS_LIMIT)) (the (M' ih)),
        stats = view_stats M' ih, policy = announce_policy config\<rparr>, p')"
    by (simp_all add: defs handler_ok_def db.save_torrent d InMemoryTorrentRepository_get_peers_for_def repo.get
        some)
  show "d_view (db_torrent_repository (snd (announce R D config ih p ip w h))) =
      (if persistent_torrent_completed_stat (tracker_policy config) \<and>
          view_stats (r_view (in_memory_torrent_repository h)) ih \<noteq> view_stats M' ih
       then on_success (fst (save_persistent_torrent D ih (sm_downloaded (view_stats M' ih)) (db_torrent_repository h)))
         ((d_view (db_torrent_repository h))
            \<lparr>v_torrents := (v_torrents (d_view (db_torrent_repository h)))(ih \<mapsto> sm_downloaded (view_stats M' ih))\<rparr>)
         (d_view (db_torrent_repository h))
       else d_view (db_torrent_repository h))"
    by (simp add: defs db.save_torrent d)
qed

lemma cleanup_effect:
  assumes "r_ok s" and "represents_all (r_view s) S"
  shows "r_ok (cleanup_torrents R config now s) \<and>
         represents_all (r_view (cleanup_torrents R config now s)) (swarms_cleanup config now S)"
  using assms represents_all_cleanup [OF assms(2), of config now]
  by (simp add: cleanup_torrents_def Let_def tracker_simps repo.inactive repo.peerless)

lemma step_refines:
  assumes "handler_ok r_ok d_ok h" and "represents_all (r_view (in_memory_torrent_repository h)) S"
  shows "handler_ok r_ok d_ok (tracker_step R D config op h) \<and>
         represents_all (r_view (in_memory_torrent_repository (tracker_step R D config op h))) (swarms_step config op S)"
proof (cases op)
  case (OpAnnounce ih p ip w)
  then show ?thesis
    using announce_effect(1,2) [OF assms(1)] represents_all_upsert [OF assms(2)]
    by (simp add: swarms_announce_def)
next
  case (OpCleanup now)
  then show ?thesis
    using assms cleanup_effect [of "in_memory_torrent_repository h" S config now]
    by (simp add: handler_ok_def)
qed

lemma run_refines:
  "handler_ok r_ok d_ok h \<Longrightarrow> represents_all (r_view (in_memory_torrent_repository h)) S \<Longrightarrow>
   handler_ok r_ok d_ok (run_tracker R D config ops h) \<and>
   represents_all (r_view (in_memory_torrent_repository (run_tracker R D config ops h))) (run_swarms config ops S)"
proof (induction ops arbitrary: h S)
  case (Cons op ops)
  then show ?case
    using step_refines [of h S config op] Cons.IH [of "tracker_step R D config op h" "swarms_step config op S"]
    by (simp add: run_tracker_def run_swarms_def)
qed (simp add: run_tracker_def run_swarms_def)

text \<open>From the empty repository.\<close>

lemma run_from_empty:
  assumes "d_ok db" and "h = run_tracker R D config ops
      \<lparr>in_memory_torrent_repository = repo_default R, db_torrent_repository = db\<rparr>"
  shows "handler_ok r_ok d_ok h"
    and "represents_all (r_view (in_memory_torrent_repository h)) (run_swarms config ops (\<lambda>_. None))"
  using assms run_refines [of "\<lparr>in_memory_torrent_repository = repo_default R, db_torrent_repository = db\<rparr>" "\<lambda>_. None"]
  by (simp_all add: handler_ok_def repo.default represents_all_empty)

text \<open>The answer to an announce, from what the specification knows of the swarm.\<close>

lemma announce_response:
  fixes config ih p ip w h S
  assumes "handler_ok r_ok d_ok h" and "represents_all (r_view (in_memory_torrent_repository h)) S"
    and "announce R D config ih p ip w h = ((data, p'), h')"
  defines "s' \<equiv> spec_announce (announced_peer config ip p) (swarm_of S ih)"
  shows "p' = announced_peer config ip p" and "policy data = announce_policy config"
    and "stats data = swarm_stats s'"
    and "distinct (peers data)"
    and "set (peers data) \<subseteq> {q \<in> ran (known s'). peer_addr q \<noteq> peer_addr p'}"
    and "length (peers data) =
      min (max (PeersWanted_limit w) TORRENT_PEERS_LIMIT) (card {q \<in> ran (known s'). peer_addr q \<noteq> peer_addr p'})"
proof -
  note eff = announce_effect [OF assms(1), of config ih p ip w]
  let ?M = "spec_upsert ih (announced_peer config ip p) (r_view (in_memory_torrent_repository h))"
  have rep: "represents_all ?M (S(ih \<mapsto> s'))"
    using represents_all_upsert [OF assms(2)] by (simp add: s'_def)
  then have "represents (the (?M ih)) s'"
    using represents_all_get(1) [OF rep, of ih] by (simp add: spec_upsert_def)
  note client = represents_peers_for_client [OF this]
  from eff(3) assms(3) show p': "p' = announced_peer config ip p" and "policy data = announce_policy config"
    and "stats data = swarm_stats s'"
    using represents_all_view_stats [OF rep, of ih] by (simp_all add: swarm_of_def del: view_stats_upsert)
  from eff(3) assms(3) show "distinct (peers data)"
    and "set (peers data) \<subseteq> {q \<in> ran (known s'). peer_addr q \<noteq> peer_addr p'}"
    and "length (peers data) =
      min (max (PeersWanted_limit w) TORRENT_PEERS_LIMIT) (card {q \<in> ran (known s'). peer_addr q \<noteq> peer_addr p'})"
    using client by (simp_all add: p')
qed

lemma scrape_response:
  assumes "r_ok s" and "represents_all (r_view s) S"
  shows "files (scrape R config w ihs s) ih =
    (if ih \<in> set ihs
     then Some (if authorize config w ih = Inr () then swarm_stats (swarm_of S ih) else SwarmMetadata_zeroed)
     else None)"
proof -
  have "files (fold (\<lambda>info_hash scrape_data.
             let swarm_metadata =
                   (case authorize config w info_hash of
                      Inr _ \<Rightarrow> InMemoryTorrentRepository_get_swarm_metadata R info_hash s
                    | Inl _ \<Rightarrow> SwarmMetadata_zeroed)
             in add_file info_hash swarm_metadata scrape_data) ihs sd) ih =
    (if ih \<in> set ihs
     then Some (if authorize config w ih = Inr () then swarm_stats (swarm_of S ih) else SwarmMetadata_zeroed)
     else files sd ih)" for sd
    by (induction ihs arbitrary: sd)
       (auto simp: Let_def add_file_def get_stats [OF assms(1)] represents_all_view_stats [OF assms(2)]
         split: sum.split)
  then show ?thesis
    by (simp add: scrape_def ScrapeData_empty_def)
qed

text \<open>The listings of the API.\<close>

lemma page_listing:
  assumes "r_ok s" and "represents_all (r_view s) S"
  shows "get_torrents_page R pg s =
    map (\<lambda>ih. basic_info ih (swarm_stats (swarm_of S ih))) (paginate pg (sorted_list_of_set (dom S)))"
proof -
  have dom: "dom (r_view s) = dom S"
    using represents_all_get(2) [OF assms(2)] by (auto simp: dom_def)
  have push: "fold (\<lambda>(ih, t) bs. bs @ [basic_info ih (get_swarm_metadata t)]) es bs =
      bs @ map (\<lambda>(ih, t). basic_info ih (get_swarm_metadata t)) es" for es bs
    by (induction es arbitrary: bs) auto
  obtain es where "set es = {(k, t). r_view s k = Some t}"
    using repo.paginated [OF assms(1)] by blast
  then have "dom (r_view s) = fst ` set es"
    by force
  then have "finite (dom S)"
    using dom by simp
  moreover have "get_swarm_metadata (the (r_view s ih)) = swarm_stats (swarm_of S ih)" if "ih \<in> dom S" for ih
  proof -
    obtain t where "r_view s ih = Some t"
      using \<open>ih \<in> dom S\<close> dom by auto
    then show ?thesis
      using represents_all_get(1) [OF assms(2), of ih t] by (auto simp: swarm_of_def represents_swarm_stats)
  qed
  ultimately have "\<forall>ih \<in> set (sorted_list_of_set (dom S)).
      get_swarm_metadata (the (r_view s ih)) = swarm_stats (swarm_of S ih)"
    by simp
  moreover have "set (paginate pg xs) \<subseteq> set xs" for xs :: "InfoHash list"
    by (auto simp: paginate_def split: option.split dest: in_set_takeD in_set_dropD)
  ultimately have "\<forall>ih \<in> set (paginate pg (sorted_list_of_set (dom S))).
      get_swarm_metadata (the (r_view s ih)) = swarm_stats (swarm_of S ih)"
    by blast
  then show ?thesis
    by (simp add: get_torrents_page_def InMemoryTorrentRepository_get_paginated_def repo.ordered [OF assms(1)]
        spec_entries_def paginate_map push dom comp_def)
qed

lemma torrents_listing:
  assumes "r_ok s" and "represents_all (r_view s) S"
  shows "get_torrents R ihs s =
    map (\<lambda>ih. basic_info ih (swarm_stats (swarm_of S ih))) (filter (\<lambda>ih. ih \<in> dom S) ihs)"
proof -
  have "fold (\<lambda>ih bs. case map_option get_swarm_metadata (r_view s ih) of
               Some st \<Rightarrow> bs @ [basic_info ih st] | None \<Rightarrow> bs) ihs bs =
      bs @ map (\<lambda>ih. basic_info ih (swarm_stats (swarm_of S ih))) (filter (\<lambda>ih. ih \<in> dom S) ihs)" for bs
  proof (induction ihs arbitrary: bs)
    case (Cons ih ihs)
    then show ?case
      using represents_all_get [OF assms(2), of ih]
      by (cases "r_view s ih") (auto simp: swarm_of_def represents_swarm_stats)
  qed simp
  then show ?thesis
    by (simp add: get_torrents_def InMemoryTorrentRepository_get_def repo.get [OF assms(1)])
qed

lemma cleanup_get:
  assumes "r_ok s"
  shows "repo_get R ih (cleanup_torrents R config now s) =
    (case repo_get R ih s of
       None \<Rightarrow> None
     | Some t \<Rightarrow>
         (let t' = remove_inactive_peers (cleanup_cutoff config now) t
          in if remove_peerless_torrents (tracker_policy config) \<and> \<not> meets_retaining_policy (tracker_policy config) t'
             then None else Some t'))"
  using assms
  by (auto simp: cleanup_torrents_def Let_def tracker_simps repo.inactive repo.peerless repo.get
      spec_remove_peerless_def spec_remove_inactive_def split: option.split)

end

text \<open>The production repository over a database driver is such a tracker.\<close>

lemma production_tracker:
  "skip_map api sk_ok \<Longrightarrow> database D d_ok d_view storable \<Longrightarrow>
   tracker (TorrentsSkipMapMutexStd api) (skip_ok api sk_ok) (skip_view api) D d_ok d_view storable"
  by (simp add: tracker_def skip_map.mutex_std_contract)

end
