(* ===== verification/Sql_Tables.thy ===== *)
theory Sql_Tables
  imports Database_Contract
begin

text \<open>
  The tables of the tracker's SQL databases, shared by the two drivers: \<open>whitelist\<close>,
  \<open>torrents\<close> and \<open>keys\<close> as the lists of their rows, the effect of the statements the drivers
  execute, which rows are well formed, and what the tables mean.
\<close>

section \<open>Info-hashes as text (parameter)\<close>

record info_hash_api =
  ih_to_string :: "InfoHash \<Rightarrow> string"
  ih_to_hex_string :: "InfoHash \<Rightarrow> string"
  ih_from_str :: "string \<Rightarrow> InfoHash option"

locale info_hash_text =
  fixes H :: info_hash_api
  assumes from_to: "ih_from_str H (ih_to_string H ih) = Some ih"
    and hex: "ih_to_hex_string H ih = ih_to_string H ih"

text \<open>Two hexadecimal digits per byte.\<close>

definition hex_digit :: "nat \<Rightarrow> char" where
  "hex_digit d = (if d < 10 then char_of (48 + d) else char_of (87 + d))"

definition hex_value :: "char \<Rightarrow> nat option" where
  "hex_value c =
     (let n = (of_char c :: nat)
      in if 48 \<le> n \<and> n \<le> 57 then Some (n - 48)
         else if 97 \<le> n \<and> n \<le> 102 then Some (n - 87)
         else None)"

definition hex_byte :: "u8 \<Rightarrow> string" where
  "hex_byte b = [hex_digit (unat b div 16), hex_digit (unat b mod 16)]"

fun hex_decode :: "string \<Rightarrow> u8 list option" where
  "hex_decode [] = Some []"
| "hex_decode [c] = None"
| "hex_decode (c # d # s) =
     (case (hex_value c, hex_value d, hex_decode s) of
        (Some m, Some n, Some bs) \<Rightarrow> Some (of_nat (16 * m + n) # bs)
      | _ \<Rightarrow> None)"

definition hex_info_hash :: info_hash_api where
  "hex_info_hash =
     \<lparr>ih_to_string = (\<lambda>ih. concat (map hex_byte (info_hash_bytes ih))),
      ih_to_hex_string = (\<lambda>ih. concat (map hex_byte (info_hash_bytes ih))),
      ih_from_str = (\<lambda>s. map_option InfoHash (hex_decode s))\<rparr>"

lemma hex_value_digit: "d < 16 \<Longrightarrow> hex_value (hex_digit d) = Some d"
  by (auto simp: hex_value_def hex_digit_def)

lemma hex_decode_encode: "hex_decode (concat (map hex_byte bs)) = Some bs"
proof (induction bs)
  case (Cons b bs)
  have "unat b < 256"
    using unsigned_less [of b] by simp
  then show ?case
    using Cons by (simp add: hex_byte_def hex_value_digit)
qed simp

interpretation hex_text: info_hash_text hex_info_hash
  by unfold_locales (simp_all add: hex_info_hash_def hex_decode_encode)

section \<open>Tables\<close>

record sql_tables =
  wl_rows :: "string list"
  torrent_rows :: "(string \<times> int) list"
  key_rows :: "(string \<times> int option) list"

definition t_insert_whitelist :: "string \<Rightarrow> sql_tables \<Rightarrow> sql_tables" where
  "t_insert_whitelist h t = t\<lparr>wl_rows := wl_rows t @ [h]\<rparr>"

definition t_delete_whitelist :: "string \<Rightarrow> sql_tables \<Rightarrow> sql_tables" where
  "t_delete_whitelist h t = t\<lparr>wl_rows := filter (\<lambda>x. x \<noteq> h) (wl_rows t)\<rparr>"

definition t_upsert_torrent :: "string \<Rightarrow> int \<Rightarrow> sql_tables \<Rightarrow> sql_tables" where
  "t_upsert_torrent h n t =
     t\<lparr>torrent_rows :=
         (if h \<in> fst ` set (torrent_rows t)
          then map (\<lambda>(k, v). (k, if k = h then n else v)) (torrent_rows t)
          else torrent_rows t @ [(h, n)])\<rparr>"

definition t_insert_key :: "string \<Rightarrow> int option \<Rightarrow> sql_tables \<Rightarrow> sql_tables" where
  "t_insert_key k v t = t\<lparr>key_rows := key_rows t @ [(k, v)]\<rparr>"

definition t_delete_key :: "string \<Rightarrow> sql_tables \<Rightarrow> sql_tables" where
  "t_delete_key k t = t\<lparr>key_rows := filter (\<lambda>x. fst x \<noteq> k) (key_rows t)\<rparr>"

definition tables_empty :: sql_tables where
  "tables_empty = \<lparr>wl_rows = [], torrent_rows = [], key_rows = []\<rparr>"

text \<open>
  The result of executing a statement: an error that changes nothing, or, where the guard holds,
  the number of affected rows and the effect on the tables.
\<close>

definition executes_as ::
  "('db \<Rightarrow> bool) \<Rightarrow> ('db \<Rightarrow> sql_tables) \<Rightarrow> ('e, 'a) result \<times> 'db \<Rightarrow> 'db \<Rightarrow> bool \<Rightarrow> 'a \<Rightarrow>
   (sql_tables \<Rightarrow> sql_tables) \<Rightarrow> bool" where
  "executes_as db_ok tables res db guard n f =
     (db_ok (snd res) \<and>
      (case fst res of
         Inl _ \<Rightarrow> tables (snd res) = tables db
       | Inr m \<Rightarrow> guard \<and> m = n \<and> tables (snd res) = f (tables db)))"

text \<open>Reading a key from its row.\<close>

definition unsigned_abs :: "int \<Rightarrow> u64" where
  "unsigned_abs n = word_of_int \<bar>n\<bar>"

definition peer_key_of :: "string \<Rightarrow> int option \<Rightarrow> PeerKey option" where
  "peer_key_of key opt_valid_until =
     (case Key_from_str key of
        Inl _ \<Rightarrow> None
      | Inr k \<Rightarrow>
          Some
            (case opt_valid_until of
               Some n \<Rightarrow> \<lparr>pk_key = k, valid_until = Some (from_secs (unsigned_abs n))\<rparr>
             | None \<Rightarrow> \<lparr>pk_key = k, valid_until = None\<rparr>))"

section \<open>Meaning of the tables\<close>

definition tables_ok :: "info_hash_api \<Rightarrow> sql_tables \<Rightarrow> bool" where
  "tables_ok H t =
     (distinct (wl_rows t) \<and> set (wl_rows t) \<subseteq> range (ih_to_string H) \<and>
      distinct (map fst (torrent_rows t)) \<and>
      (\<forall>(h, n) \<in> set (torrent_rows t). h \<in> range (ih_to_string H) \<and> 0 \<le> n \<and> n < 2 ^ 32) \<and>
      distinct (map fst (key_rows t)) \<and>
      (\<forall>(k, v) \<in> set (key_rows t). key_valid (Key k) \<and> (\<forall>n. v = Some n \<longrightarrow> 0 \<le> n \<and> n < 2 ^ 63)))"

definition tables_view :: "info_hash_api \<Rightarrow> sql_tables \<Rightarrow> DbView" where
  "tables_view H t =
     \<lparr>v_whitelist = {ih. ih_to_string H ih \<in> set (wl_rows t)},
      v_keys = (\<lambda>k. map_option (map_option word_of_int) (map_of (key_rows t) (key_value k))),
      v_torrents = (\<lambda>ih. map_option word_of_int (map_of (torrent_rows t) (ih_to_string H ih)))\<rparr>"

lemma tables_empty_ok: "tables_ok H tables_empty"
  by (simp add: tables_ok_def tables_empty_def)

lemma tables_empty_view:
  "tables_view H tables_empty = \<lparr>v_whitelist = {}, v_keys = (\<lambda>_. None), v_torrents = (\<lambda>_. None)\<rparr>"
  by (simp add: tables_view_def tables_empty_def)

lemma delete_whitelist_count:
  assumes "tables_ok H t"
  shows "length (filter (\<lambda>x. x = h) (wl_rows t)) = (if h \<in> set (wl_rows t) then 1 else 0)"
    and "h \<notin> set (wl_rows t) \<Longrightarrow> t_delete_whitelist h t = t"
proof -
  have "distinct xs \<Longrightarrow> length (filter (\<lambda>x. x = h) xs) = (if h \<in> set xs then 1 else 0)" for xs
    by (induction xs) (auto simp: filter_empty_conv)
  then show "length (filter (\<lambda>x. x = h) (wl_rows t)) = (if h \<in> set (wl_rows t) then 1 else 0)"
    using assms by (simp add: tables_ok_def)
  show "h \<notin> set (wl_rows t) \<Longrightarrow> t_delete_whitelist h t = t"
    by (auto simp: t_delete_whitelist_def intro!: sql_tables.equality filter_True)
qed

lemma delete_key_count:
  assumes "tables_ok H t"
  shows "length (filter (\<lambda>x. fst x = k) (key_rows t)) = (if k \<in> fst ` set (key_rows t) then 1 else 0)"
    and "k \<notin> fst ` set (key_rows t) \<Longrightarrow> t_delete_key k t = t"
proof -
  have "distinct (map fst xs) \<Longrightarrow> length (filter (\<lambda>x. fst x = k) xs) = (if k \<in> fst ` set xs then 1 else 0)"
    for xs :: "(string \<times> int option) list"
    by (induction xs) (auto simp: filter_empty_conv, force)
  then show "length (filter (\<lambda>x. fst x = k) (key_rows t)) = (if k \<in> fst ` set (key_rows t) then 1 else 0)"
    using assms by (simp add: tables_ok_def)
  show "k \<notin> fst ` set (key_rows t) \<Longrightarrow> t_delete_key k t = t"
    by (auto simp: t_delete_key_def image_iff intro!: sql_tables.equality filter_True)
qed

lemma filter_whitelist_rows:
  assumes "tables_ok H t"
  shows "filter (\<lambda>x. x = h) (wl_rows t) = (if h \<in> set (wl_rows t) then [h] else [])"
proof -
  have "distinct xs \<Longrightarrow> filter (\<lambda>x. x = h) xs = (if h \<in> set xs then [h] else [])" for xs
    by (induction xs) (auto simp: filter_empty_conv)
  then show ?thesis
    using assms by (simp add: tables_ok_def)
qed

lemma filter_key_rows:
  assumes "tables_ok H t"
  shows "filter (\<lambda>x. fst x = k) (key_rows t) =
         (case map_of (key_rows t) k of None \<Rightarrow> [] | Some v \<Rightarrow> [(k, v)])"
proof -
  have "distinct (map fst xs) \<Longrightarrow>
      filter (\<lambda>x. fst x = k) xs = (case map_of xs k of None \<Rightarrow> [] | Some v \<Rightarrow> [(k, v)])"
    for xs :: "(string \<times> int option) list"
    by (induction xs) (auto simp: filter_empty_conv split: option.split, force dest: map_of_SomeD)
  then show ?thesis
    using assms by (simp add: tables_ok_def)
qed

lemma map_of_append_new: "k \<notin> fst ` set xs \<Longrightarrow> map_of (xs @ [(k, v)]) = (map_of xs)(k \<mapsto> v)"
proof -
  assume "k \<notin> fst ` set xs"
  then have "map_of xs k = None"
    by (simp add: map_of_eq_None_iff)
  then show ?thesis
    by (simp add: map_add_def fun_eq_iff split: option.split)
qed

lemma map_of_update_row:
  "k \<in> fst ` set xs \<Longrightarrow> map_of (map (\<lambda>(a, b). (a, if a = k then v else b)) xs) = (map_of xs)(k \<mapsto> v)"
proof -
  assume "k \<in> fst ` set xs"
  then have "map_of xs k \<noteq> None"
    by (simp add: map_of_eq_None_iff)
  moreover have "map_of (map (\<lambda>(a, b). (a, if a = k then v else b)) xs) x =
      (if x = k \<and> map_of xs k \<noteq> None then Some v else map_of xs x)" for x
    by (induction xs) auto
  ultimately show ?thesis
    by (simp add: fun_eq_iff)
qed

lemma map_of_delete_row: "map_of (filter (\<lambda>x. fst x \<noteq> k) xs) = (map_of xs)(k := None)"
  by (induction xs) (auto simp: fun_eq_iff)

context info_hash_text
begin

lemma to_string_inject [simp]: "ih_to_string H a = ih_to_string H b \<longleftrightarrow> a = b"
  by (metis from_to option.inject)

lemma insert_whitelist:
  assumes "tables_ok H t" and "ih_to_string H ih \<notin> set (wl_rows t)"
  shows "tables_ok H (t_insert_whitelist (ih_to_string H ih) t)"
    and "tables_view H (t_insert_whitelist (ih_to_string H ih) t) =
         (tables_view H t)\<lparr>v_whitelist := insert ih (v_whitelist (tables_view H t))\<rparr>"
  using assms by (auto simp: tables_ok_def tables_view_def t_insert_whitelist_def)

lemma delete_whitelist:
  assumes "tables_ok H t"
  shows "tables_ok H (t_delete_whitelist (ih_to_string H ih) t)"
    and "tables_view H (t_delete_whitelist (ih_to_string H ih) t) =
         (tables_view H t)\<lparr>v_whitelist := v_whitelist (tables_view H t) - {ih}\<rparr>"
  using assms by (auto simp: tables_ok_def tables_view_def t_delete_whitelist_def)

lemma upsert_torrent:
  fixes n :: u32
  assumes "tables_ok H t"
  shows "tables_ok H (t_upsert_torrent (ih_to_string H ih) (uint n) t)"
    and "tables_view H (t_upsert_torrent (ih_to_string H ih) (uint n) t) =
         (tables_view H t)\<lparr>v_torrents := (v_torrents (tables_view H t))(ih \<mapsto> n)\<rparr>"
proof -
  let ?h = "ih_to_string H ih" and ?rows = "torrent_rows t"
  have "uint n < 2 ^ LENGTH(32)"
    by (rule unsigned_less)
  then have bound: "0 \<le> uint n" "uint n < 2 ^ 32"
    by simp_all
  let ?up = "map (\<lambda>(k, v). (k, if k = ?h then uint n else v)) ?rows"
  have "fst \<circ> (\<lambda>(k, v). (k, if k = ?h then uint n else v)) = fst"
    by auto
  moreover have "\<forall>(h, v) \<in> set ?up. h \<in> range (ih_to_string H) \<and> 0 \<le> v \<and> v < 2 ^ 32"
    if "\<forall>(h, v) \<in> set ?rows. h \<in> range (ih_to_string H) \<and> 0 \<le> v \<and> v < 2 ^ 32"
    using that bound by fastforce
  ultimately show "tables_ok H (t_upsert_torrent ?h (uint n) t)"
    using assms bound by (simp add: tables_ok_def t_upsert_torrent_def)
  have "map_of (torrent_rows (t_upsert_torrent ?h (uint n) t)) = (map_of ?rows)(?h \<mapsto> uint n)"
    by (simp add: t_upsert_torrent_def map_of_append_new map_of_update_row del: map_of_append)
  then show "tables_view H (t_upsert_torrent ?h (uint n) t) =
         (tables_view H t)\<lparr>v_torrents := (v_torrents (tables_view H t))(ih \<mapsto> n)\<rparr>"
    by (auto simp: tables_view_def fun_eq_iff) (simp_all add: t_upsert_torrent_def)
qed

lemma insert_key:
  assumes "tables_ok H t" and "k \<notin> fst ` set (key_rows t)" and "key_valid (Key k)"
    and "\<forall>n. v = Some n \<longrightarrow> 0 \<le> n \<and> n < 2 ^ 63"
  shows "tables_ok H (t_insert_key k v t)"
    and "tables_view H (t_insert_key k v t) =
         (tables_view H t)\<lparr>v_keys := (v_keys (tables_view H t))(Key k \<mapsto> map_option word_of_int v)\<rparr>"
proof -
  show "tables_ok H (t_insert_key k v t)"
    using assms by (auto simp: tables_ok_def t_insert_key_def)
  have "key_value a = k \<longleftrightarrow> a = Key k" for a
    by (cases a) auto
  then show "tables_view H (t_insert_key k v t) =
         (tables_view H t)\<lparr>v_keys := (v_keys (tables_view H t))(Key k \<mapsto> map_option word_of_int v)\<rparr>"
    using assms(2)
    by (auto simp: tables_view_def t_insert_key_def map_of_append_new [OF assms(2)] fun_eq_iff
        simp del: map_of_append)
qed

lemma delete_key:
  assumes "tables_ok H t"
  shows "tables_ok H (t_delete_key (key_value key) t)"
    and "tables_view H (t_delete_key (key_value key) t) =
         (tables_view H t)\<lparr>v_keys := (v_keys (tables_view H t))(key := None)\<rparr>"
proof -
  show "tables_ok H (t_delete_key (key_value key) t)"
    using assms
    by (auto simp: tables_ok_def t_delete_key_def distinct_map_filter)
  have "key_value a = key_value key \<longleftrightarrow> a = key" for a
    by (metis Key.expand)
  then show "tables_view H (t_delete_key (key_value key) t) =
         (tables_view H t)\<lparr>v_keys := (v_keys (tables_view H t))(key := None)\<rparr>"
    by (auto simp: tables_view_def t_delete_key_def map_of_delete_row fun_eq_iff)
qed

text \<open>What the rows of well-formed tables mean when they are read back.\<close>

lemma from_str_rows:
  "h \<in> range (ih_to_string H) \<Longrightarrow> ih_from_str H h = Some (the (ih_from_str H h))"
  "h \<in> range (ih_to_string H) \<Longrightarrow> ih_to_string H (the (ih_from_str H h)) = h"
  by (auto simp: from_to)

lemma view_whitelist_rows:
  "tables_ok H t \<Longrightarrow> (\<lambda>h. the (ih_from_str H h)) ` set (wl_rows t) = v_whitelist (tables_view H t)"
  by (force simp: tables_ok_def tables_view_def from_to)

lemma view_torrent_rows:
  assumes "tables_ok H t"
  defines "ts \<equiv> map (\<lambda>(h, n). (the (ih_from_str H h), word_of_int n :: u32)) (torrent_rows t)"
  shows "bt_inv (fold (\<lambda>(ih, n). bt_put ih n) ts bt_empty)"
    and "bt_get (fold (\<lambda>(ih, n). bt_put ih n) ts bt_empty) = v_torrents (tables_view H t)"
proof -
  have rows: "distinct (map fst (torrent_rows t))" "\<forall>(h, n) \<in> set (torrent_rows t). h \<in> range (ih_to_string H)"
    using assms(1) by (auto simp: tables_ok_def)
  have "map fst ts = map (\<lambda>h. the (ih_from_str H h)) (map fst (torrent_rows t))"
    by (simp add: ts_def case_prod_unfold comp_def)
  moreover have "inj_on (\<lambda>h. the (ih_from_str H h)) (set (map fst (torrent_rows t)))"
    using rows(2) by (intro inj_on_inverseI [where g = "ih_to_string H"] from_str_rows(2)) auto
  ultimately have "distinct (map fst ts)"
    using rows(1) by (metis distinct_map)
  moreover have "\<forall>(h, n) \<in> set xs. h \<in> range (ih_to_string H) \<Longrightarrow>
      map_of (map (\<lambda>(h, n). (the (ih_from_str H h), word_of_int n :: u32)) xs) ih =
      map_option word_of_int (map_of xs (ih_to_string H ih))" for ih xs
    by (induction xs) (auto simp: from_to)
  then have "map_of ts ih = map_option word_of_int (map_of (torrent_rows t) (ih_to_string H ih))" for ih
    using rows(2) unfolding ts_def by blast
  ultimately show "bt_inv (fold (\<lambda>(ih, n). bt_put ih n) ts bt_empty)"
    and "bt_get (fold (\<lambda>(ih, n). bt_put ih n) ts bt_empty) = v_torrents (tables_view H t)"
    using bt_fold_put [of bt_empty ts] by (simp_all add: tables_view_def fun_eq_iff)
qed

lemma peer_key_of_row:
  "key_valid (Key k) \<Longrightarrow>
   peer_key_of k v = Some \<lparr>pk_key = Key k, valid_until = map_option (\<lambda>n. from_secs (unsigned_abs n)) v\<rparr>"
  by (simp add: peer_key_of_def key_valid_def split: option.split)

lemma view_key_rows:
  assumes "tables_ok H t"
  defines "ks \<equiv> map (\<lambda>(k, v). \<lparr>pk_key = Key k, valid_until = map_option (\<lambda>n. from_secs (unsigned_abs n)) v\<rparr>)
                  (key_rows t)"
  shows "distinct (map pk_key ks)"
    and "{(pk_key k, valid_until k) | k. k \<in> set ks} =
         {(key, map_option from_secs s) | key s. v_keys (tables_view H t) key = Some s}"
proof -
  have d: "distinct (map fst (key_rows t))"
    and pos: "(k, Some n) \<in> set (key_rows t) \<Longrightarrow> 0 \<le> n" for k n
    using assms(1) by (auto simp: tables_ok_def)
  have "map pk_key ks = map Key (map fst (key_rows t))"
    by (simp add: ks_def case_prod_unfold comp_def)
  then show "distinct (map pk_key ks)"
    using d by (simp add: distinct_map inj_on_def)
  have secs: "map_option (\<lambda>n. from_secs (unsigned_abs n)) v = map_option from_secs (map_option word_of_int v)"
    if "(k, v) \<in> set (key_rows t)" for k v
    using that pos by (cases v) (auto simp: unsigned_abs_def)
  have rows: "v_keys (tables_view H t) (Key k) = Some s \<longleftrightarrow>
        (\<exists>v. (k, v) \<in> set (key_rows t) \<and> s = map_option word_of_int v)" for k s
    using d by (auto simp: tables_view_def)
  then show "{(pk_key k, valid_until k) | k. k \<in> set ks} =
         {(key, map_option from_secs s) | key s. v_keys (tables_view H t) key = Some s}"
    (is "?L = ?R")
  proof -
    let ?S = "(\<lambda>(k, v). (Key k, map_option from_secs (map_option word_of_int v))) ` set (key_rows t)"
    have "?L = (\<lambda>k. (pk_key k, valid_until k)) ` set ks"
      by auto
    also have "\<dots> = ?S"
      unfolding ks_def set_map image_image using secs by (intro image_cong) auto
    also have "?S = {(Key k, map_option from_secs s) | k s. v_keys (tables_view H t) (Key k) = Some s}"
      unfolding rows by force
    also have "\<dots> = ?R"
      by (auto, metis Key.collapse)
    finally show ?thesis .
  qed
qed

end

end
