(* ===== verification/Database_Sqlite.thy ===== *)
theory Database_Sqlite
  imports Sql_Tables
begin

text \<open>
  The SQLite driver (\<open>packages/tracker-core/src/databases/driver/sqlite.rs\<close>). The connection pool
  and the SQL engine (\<open>r2d2\<close>, \<open>rusqlite\<close>) are a parameter: getting a connection, executing a
  statement, and querying rows; the locale \<open>sqlite_engine\<close> says what the statements the driver
  uses do to the three tables. The text form of an info-hash (\<open>bittorrent_primitives\<close>) is a
  parameter that must parse back. Under these laws the driver satisfies the database contract and
  never panics.
\<close>

section \<open>Parameters\<close>

datatype sql_value = SqlNull | SqlInteger int | SqlReal | SqlText string

datatype rusqlite_error = RusqliteQueryReturnedNoRows | RusqliteOther

record 'db rusqlite_api =
  rs_pool_get :: "'db \<Rightarrow> bool"
  rs_execute :: "string \<Rightarrow> sql_value list \<Rightarrow> 'db \<Rightarrow> (rusqlite_error, usize) result \<times> 'db"
  rs_query :: "string \<Rightarrow> sql_value list \<Rightarrow> 'db \<Rightarrow> (rusqlite_error, sql_value list list) result"

section \<open>Rows\<close>

text \<open>\<open>Row::get\<close> at a type: \<^const>\<open>None\<close> is the conversion error.\<close>

definition get_text :: "nat \<Rightarrow> sql_value list \<Rightarrow> string option" where
  "get_text i row =
     (if i < length row then (case row ! i of SqlText s \<Rightarrow> Some s | _ \<Rightarrow> None) else None)"

definition get_u32 :: "nat \<Rightarrow> sql_value list \<Rightarrow> u32 option" where
  "get_u32 i row =
     (if i < length row then
        (case row ! i of
           SqlInteger n \<Rightarrow> if 0 \<le> n \<and> n < 2 ^ 32 then Some (word_of_int n) else None
         | _ \<Rightarrow> None)
      else None)"

definition get_opt_i64 :: "nat \<Rightarrow> sql_value list \<Rightarrow> int option option" where
  "get_opt_i64 i row =
     (if i < length row then
        (case row ! i of SqlInteger n \<Rightarrow> Some (Some n) | SqlNull \<Rightarrow> Some None | _ \<Rightarrow> None)
      else None)"

text \<open>
  The closure given to \<open>query_map\<close> panics (outer \<^const>\<open>None\<close>), fails (inner \<^const>\<open>None\<close>, dropped
  by \<open>filter_map(Result::ok)\<close>) or maps the row.
\<close>

fun collect_rows :: "(sql_value list \<Rightarrow> 'a option option) \<Rightarrow> sql_value list list \<Rightarrow> 'a list option" where
  "collect_rows f [] = Some []"
| "collect_rows f (row # rows) =
     (case f row of
        None \<Rightarrow> None
      | Some x \<Rightarrow>
          map_option (\<lambda>xs. case x of Some y \<Rightarrow> y # xs | None \<Rightarrow> xs) (collect_rows f rows))"

definition torrent_row :: "info_hash_api \<Rightarrow> sql_value list \<Rightarrow> (InfoHash \<times> u32) option option" where
  "torrent_row H row =
     (case get_text 0 row of
        None \<Rightarrow> Some None
      | Some s \<Rightarrow>
          (case ih_from_str H s of
             None \<Rightarrow> None
           | Some ih \<Rightarrow>
               (case get_u32 1 row of
                  None \<Rightarrow> Some None
                | Some n \<Rightarrow> Some (Some (ih, n)))))"

definition key_row :: "sql_value list \<Rightarrow> PeerKey option option" where
  "key_row row =
     (case get_text 0 row of
        None \<Rightarrow> Some None
      | Some key \<Rightarrow>
          (case get_opt_i64 1 row of
             None \<Rightarrow> Some None
           | Some v \<Rightarrow> map_option Some (peer_key_of key v)))"

definition whitelist_row :: "info_hash_api \<Rightarrow> sql_value list \<Rightarrow> InfoHash option option" where
  "whitelist_row H row =
     (case get_text 0 row of
        None \<Rightarrow> Some None
      | Some s \<Rightarrow> map_option Some (ih_from_str H s))"

section \<open>Driver (sqlite.rs)\<close>

definition from_rusqlite :: "rusqlite_error \<Rightarrow> DbError" where
  "from_rusqlite err =
     (case err of
        RusqliteQueryReturnedNoRows \<Rightarrow> QueryReturnedNoRows Sqlite3
      | RusqliteOther \<Rightarrow> InvalidQuery Sqlite3)"

definition sql_select_torrents :: string where
  "sql_select_torrents = ''SELECT info_hash, completed FROM torrents''"

definition sql_select_keys :: string where
  "sql_select_keys = ''SELECT key, valid_until FROM keys''"

definition sql_select_whitelist :: string where
  "sql_select_whitelist = ''SELECT info_hash FROM whitelist''"

definition sql_upsert_torrent :: string where
  "sql_upsert_torrent =
     ''INSERT INTO torrents (info_hash, completed) VALUES (?1, ?2) ON CONFLICT(info_hash) DO UPDATE SET completed = ?2''"

definition sql_select_whitelist_where :: string where
  "sql_select_whitelist_where = ''SELECT info_hash FROM whitelist WHERE info_hash = ?''"

definition sql_insert_whitelist :: string where
  "sql_insert_whitelist = ''INSERT INTO whitelist (info_hash) VALUES (?)''"

definition sql_delete_whitelist :: string where
  "sql_delete_whitelist = ''DELETE FROM whitelist WHERE info_hash = ?''"

definition sql_select_key_where :: string where
  "sql_select_key_where = ''SELECT key, valid_until FROM keys WHERE key = ?''"

definition sql_insert_key :: string where
  "sql_insert_key = ''INSERT INTO keys (key, valid_until) VALUES (?1, ?2)''"

definition sql_delete_key :: string where
  "sql_delete_key = ''DELETE FROM keys WHERE key = ?''"

lemmas sqlite_statements =
  sql_select_torrents_def sql_select_keys_def sql_select_whitelist_def sql_upsert_torrent_def
  sql_select_whitelist_where_def sql_insert_whitelist_def sql_delete_whitelist_def
  sql_select_key_where_def sql_insert_key_def sql_delete_key_def

definition Sqlite_query ::
  "'db rusqlite_api \<Rightarrow> string \<Rightarrow> sql_value list \<Rightarrow> 'db \<Rightarrow> (DbError, sql_value list list) result" where
  "Sqlite_query A stmt params db =
     (if \<not> rs_pool_get A db then Inl (ConnectionPool Sqlite3)
      else case rs_query A stmt params db of Inl e \<Rightarrow> Inl (from_rusqlite e) | Inr rows \<Rightarrow> Inr rows)"

definition Sqlite_execute ::
  "'db rusqlite_api \<Rightarrow> string \<Rightarrow> sql_value list \<Rightarrow> 'db \<Rightarrow> (DbError, usize) result \<times> 'db" where
  "Sqlite_execute A stmt params db =
     (if \<not> rs_pool_get A db then (Inl (ConnectionPool Sqlite3), db)
      else case rs_execute A stmt params db of
             (Inl e, db') \<Rightarrow> (Inl (from_rusqlite e), db')
           | (Inr n, db') \<Rightarrow> (Inr n, db'))"

text \<open>The operations that read rows return \<^const>\<open>None\<close> where an \<open>unwrap\<close> panics.\<close>

definition Sqlite_load_persistent_torrents ::
  "'db rusqlite_api \<Rightarrow> info_hash_api \<Rightarrow> 'db \<Rightarrow> (DbError, PersistentTorrents) result option" where
  "Sqlite_load_persistent_torrents A H db =
     (case Sqlite_query A sql_select_torrents [] db of
        Inl e \<Rightarrow> Some (Inl e)
      | Inr rows \<Rightarrow>
          map_option (\<lambda>ts. Inr (fold (\<lambda>(ih, n). bt_put ih n) ts bt_empty))
            (collect_rows (torrent_row H) rows))"

definition Sqlite_load_keys :: "'db rusqlite_api \<Rightarrow> 'db \<Rightarrow> (DbError, PeerKey list) result option" where
  "Sqlite_load_keys A db =
     (case Sqlite_query A sql_select_keys [] db of
        Inl e \<Rightarrow> Some (Inl e)
      | Inr rows \<Rightarrow> map_option Inr (collect_rows key_row rows))"

definition Sqlite_load_whitelist ::
  "'db rusqlite_api \<Rightarrow> info_hash_api \<Rightarrow> 'db \<Rightarrow> (DbError, InfoHash list) result option" where
  "Sqlite_load_whitelist A H db =
     (case Sqlite_query A sql_select_whitelist [] db of
        Inl e \<Rightarrow> Some (Inl e)
      | Inr rows \<Rightarrow> map_option Inr (collect_rows (whitelist_row H) rows))"

definition Sqlite_save_persistent_torrent ::
  "'db rusqlite_api \<Rightarrow> info_hash_api \<Rightarrow> InfoHash \<Rightarrow> u32 \<Rightarrow> 'db \<Rightarrow> (DbError, unit) result \<times> 'db" where
  "Sqlite_save_persistent_torrent A H ih n db =
     (case Sqlite_execute A sql_upsert_torrent [SqlText (ih_to_string H ih), SqlText (nat_to_string (unat n))] db of
        (Inl e, db') \<Rightarrow> (Inl e, db')
      | (Inr ins, db') \<Rightarrow> if ins = 0 then (Inl (InsertFailed Sqlite3), db') else (Inr (), db'))"

definition Sqlite_get_info_hash_from_whitelist ::
  "'db rusqlite_api \<Rightarrow> info_hash_api \<Rightarrow> InfoHash \<Rightarrow> 'db \<Rightarrow> (DbError, InfoHash option) result option" where
  "Sqlite_get_info_hash_from_whitelist A H ih db =
     (case Sqlite_query A sql_select_whitelist_where [SqlText (ih_to_hex_string H ih)] db of
        Inl e \<Rightarrow> Some (Inl e)
      | Inr [] \<Rightarrow> Some (Inr None)
      | Inr (row # rows) \<Rightarrow>
          (case get_text 0 row of
             None \<Rightarrow> None
           | Some s \<Rightarrow> map_option (\<lambda>ih'. Inr (Some ih')) (ih_from_str H s)))"

definition Sqlite_add_info_hash_to_whitelist ::
  "'db rusqlite_api \<Rightarrow> info_hash_api \<Rightarrow> InfoHash \<Rightarrow> 'db \<Rightarrow> (DbError, usize) result \<times> 'db" where
  "Sqlite_add_info_hash_to_whitelist A H ih db =
     (case Sqlite_execute A sql_insert_whitelist [SqlText (ih_to_string H ih)] db of
        (Inl e, db') \<Rightarrow> (Inl e, db')
      | (Inr ins, db') \<Rightarrow> if ins = 0 then (Inl (InsertFailed Sqlite3), db') else (Inr ins, db'))"

definition Sqlite_remove_info_hash_from_whitelist ::
  "'db rusqlite_api \<Rightarrow> info_hash_api \<Rightarrow> InfoHash \<Rightarrow> 'db \<Rightarrow> (DbError, usize) result \<times> 'db" where
  "Sqlite_remove_info_hash_from_whitelist A H ih db =
     (case Sqlite_execute A sql_delete_whitelist [SqlText (ih_to_string H ih)] db of
        (Inl e, db') \<Rightarrow> (Inl e, db')
      | (Inr del, db') \<Rightarrow> if del = 1 then (Inr del, db') else (Inl (DeleteFailed del Sqlite3), db'))"

definition Sqlite_get_key_from_keys ::
  "'db rusqlite_api \<Rightarrow> Key \<Rightarrow> 'db \<Rightarrow> (DbError, PeerKey option) result option" where
  "Sqlite_get_key_from_keys A key db =
     (case Sqlite_query A sql_select_key_where [SqlText (key_value key)] db of
        Inl e \<Rightarrow> Some (Inl e)
      | Inr [] \<Rightarrow> Some (Inr None)
      | Inr (row # rows) \<Rightarrow>
          (case get_opt_i64 1 row of
             None \<Rightarrow> None
           | Some v \<Rightarrow>
               (case get_text 0 row of
                  None \<Rightarrow> None
                | Some k \<Rightarrow> map_option (\<lambda>pk. Inr (Some pk)) (peer_key_of k v))))"

definition Sqlite_add_key_to_keys ::
  "'db rusqlite_api \<Rightarrow> PeerKey \<Rightarrow> 'db \<Rightarrow> (DbError, usize) result \<times> 'db" where
  "Sqlite_add_key_to_keys A auth_key db =
     (case Sqlite_execute A sql_insert_key
             (case valid_until auth_key of
                Some t \<Rightarrow> [SqlText (key_value (pk_key auth_key)), SqlText (nat_to_string (unat (as_secs t)))]
              | None \<Rightarrow> [SqlText (key_value (pk_key auth_key)), SqlNull]) db of
        (Inl e, db') \<Rightarrow> (Inl e, db')
      | (Inr ins, db') \<Rightarrow> if ins = 0 then (Inl (InsertFailed Sqlite3), db') else (Inr ins, db'))"

definition Sqlite_remove_key_from_keys ::
  "'db rusqlite_api \<Rightarrow> Key \<Rightarrow> 'db \<Rightarrow> (DbError, usize) result \<times> 'db" where
  "Sqlite_remove_key_from_keys A key db =
     (case Sqlite_execute A sql_delete_key [SqlText (key_value key)] db of
        (Inl e, db') \<Rightarrow> (Inl e, db')
      | (Inr del, db') \<Rightarrow> if del = 1 then (Inr del, db') else (Inl (DeleteFailed del Sqlite3), db'))"

text \<open>The driver as a database; an operation that panics has no value.\<close>

definition Sqlite :: "'db rusqlite_api \<Rightarrow> info_hash_api \<Rightarrow> 'db DatabaseTrait" where
  "Sqlite A H =
     \<lparr>load_persistent_torrents = (\<lambda>db. the (Sqlite_load_persistent_torrents A H db)),
      save_persistent_torrent = Sqlite_save_persistent_torrent A H,
      load_whitelist = (\<lambda>db. the (Sqlite_load_whitelist A H db)),
      get_info_hash_from_whitelist = (\<lambda>ih db. the (Sqlite_get_info_hash_from_whitelist A H ih db)),
      add_info_hash_to_whitelist = Sqlite_add_info_hash_to_whitelist A H,
      remove_info_hash_from_whitelist = Sqlite_remove_info_hash_from_whitelist A H,
      load_keys = (\<lambda>db. the (Sqlite_load_keys A db)),
      get_key_from_keys = (\<lambda>key db. the (Sqlite_get_key_from_keys A key db)),
      add_key_to_keys = Sqlite_add_key_to_keys A,
      remove_key_from_keys = Sqlite_remove_key_from_keys A\<rparr>"

section \<open>The SQL engine\<close>

locale sqlite_engine = info_hash_text H for H :: info_hash_api +
  fixes A :: "'db rusqlite_api" and sq_ok :: "'db \<Rightarrow> bool" and tables :: "'db \<Rightarrow> sql_tables"
  assumes exec_insert_whitelist: "sq_ok db \<Longrightarrow>
      executes_as sq_ok tables (rs_execute A sql_insert_whitelist [SqlText h] db) db
        (h \<notin> set (wl_rows (tables db))) 1 (t_insert_whitelist h)"
    and exec_delete_whitelist: "sq_ok db \<Longrightarrow>
      executes_as sq_ok tables (rs_execute A sql_delete_whitelist [SqlText h] db) db
        True (length (filter (\<lambda>x. x = h) (wl_rows (tables db)))) (t_delete_whitelist h)"
    and exec_upsert_torrent: "sq_ok db \<Longrightarrow> n < 2 ^ 32 \<Longrightarrow>
      executes_as sq_ok tables (rs_execute A sql_upsert_torrent [SqlText h, SqlText (nat_to_string n)] db) db
        True 1 (t_upsert_torrent h (int n))"
    and exec_insert_key: "sq_ok db \<Longrightarrow> n < 2 ^ 63 \<Longrightarrow>
      executes_as sq_ok tables (rs_execute A sql_insert_key [SqlText k, SqlText (nat_to_string n)] db) db
        (k \<notin> fst ` set (key_rows (tables db))) 1 (t_insert_key k (Some (int n)))"
    and exec_insert_key_null: "sq_ok db \<Longrightarrow>
      executes_as sq_ok tables (rs_execute A sql_insert_key [SqlText k, SqlNull] db) db
        (k \<notin> fst ` set (key_rows (tables db))) 1 (t_insert_key k None)"
    and exec_delete_key: "sq_ok db \<Longrightarrow>
      executes_as sq_ok tables (rs_execute A sql_delete_key [SqlText k] db) db
        True (length (filter (\<lambda>x. fst x = k) (key_rows (tables db)))) (t_delete_key k)"
    and query_torrents: "sq_ok db \<Longrightarrow> rs_query A sql_select_torrents [] db = Inr rows \<Longrightarrow>
      rows = map (\<lambda>(h, n). [SqlText h, SqlInteger n]) (torrent_rows (tables db))"
    and query_keys: "sq_ok db \<Longrightarrow> rs_query A sql_select_keys [] db = Inr rows \<Longrightarrow>
      rows = map (\<lambda>(k, v). [SqlText k, case v of None \<Rightarrow> SqlNull | Some n \<Rightarrow> SqlInteger n]) (key_rows (tables db))"
    and query_whitelist: "sq_ok db \<Longrightarrow> rs_query A sql_select_whitelist [] db = Inr rows \<Longrightarrow>
      rows = map (\<lambda>h. [SqlText h]) (wl_rows (tables db))"
    and query_whitelist_where: "sq_ok db \<Longrightarrow> rs_query A sql_select_whitelist_where [SqlText h] db = Inr rows \<Longrightarrow>
      rows = map (\<lambda>h. [SqlText h]) (filter (\<lambda>x. x = h) (wl_rows (tables db)))"
    and query_key_where: "sq_ok db \<Longrightarrow> rs_query A sql_select_key_where [SqlText k] db = Inr rows \<Longrightarrow>
      rows = map (\<lambda>(k, v). [SqlText k, case v of None \<Rightarrow> SqlNull | Some n \<Rightarrow> SqlInteger n])
               (filter (\<lambda>x. fst x = k) (key_rows (tables db)))"

definition sqlite_ok ::
  "info_hash_api \<Rightarrow> ('db \<Rightarrow> bool) \<Rightarrow> ('db \<Rightarrow> sql_tables) \<Rightarrow> 'db \<Rightarrow> bool" where
  "sqlite_ok H sq_ok tables db = (sq_ok db \<and> tables_ok H (tables db))"

definition sqlite_storable :: "PeerKey \<Rightarrow> bool" where
  "sqlite_storable k =
     (key_valid (pk_key k) \<and> (\<forall>t. valid_until k = Some t \<longrightarrow> unat (as_secs t) < 2 ^ 63))"

lemma collect_rows_map:
  "\<forall>x \<in> set xs. f (r x) = Some (Some (g x)) \<Longrightarrow> collect_rows f (map r xs) = Some (map g xs)"
  by (induction xs) auto

lemma Sqlite_execute_as:
  assumes "executes_as sq_ok tables (rs_execute A stmt params db) db guard n f" and "sq_ok db"
  shows "executes_as sq_ok tables (Sqlite_execute A stmt params db) db guard n f"
  using assms by (auto simp: executes_as_def Sqlite_execute_def split: sum.splits prod.splits)

lemma Sqlite_query_ok:
  "Sqlite_query A stmt params db = Inr rows \<Longrightarrow> rs_query A stmt params db = Inr rows"
  by (auto simp: Sqlite_query_def split: if_splits sum.splits)

context sqlite_engine
begin

lemma load_torrents:
  assumes "sqlite_ok H sq_ok tables db"
  shows "\<exists>r. Sqlite_load_persistent_torrents A H db = Some r \<and>
     (\<forall>pts. r = Inr pts \<longrightarrow> bt_inv pts \<and> bt_get pts = v_torrents (tables_view H (tables db)))"
proof (cases "Sqlite_query A sql_select_torrents [] db")
  case (Inr rows)
  have ok: "sq_ok db" "tables_ok H (tables db)"
    using assms by (simp_all add: sqlite_ok_def)
  have rows: "rows = map (\<lambda>(h, n). [SqlText h, SqlInteger n]) (torrent_rows (tables db))"
    using Sqlite_query_ok [OF Inr] ok(1) by (simp add: query_torrents)
  have "collect_rows (torrent_row H) rows =
        Some (map (\<lambda>(h, n). (the (ih_from_str H h), word_of_int n)) (torrent_rows (tables db)))"
    unfolding rows
  proof (rule collect_rows_map, clarify)
    fix h n assume "(h, n) \<in> set (torrent_rows (tables db))"
    then have "h \<in> range (ih_to_string H)" "0 \<le> n" "n < 2 ^ 32"
      using ok(2) by (auto simp: tables_ok_def)
    then show "torrent_row H [SqlText h, SqlInteger n] = Some (Some (the (ih_from_str H h), word_of_int n))"
      by (auto simp: torrent_row_def get_text_def get_u32_def from_to)
  qed
  then show ?thesis
    using view_torrent_rows [OF ok(2)] by (simp add: Sqlite_load_persistent_torrents_def Inr)
qed (simp add: Sqlite_load_persistent_torrents_def)

lemma load_whitelist:
  assumes "sqlite_ok H sq_ok tables db"
  shows "\<exists>r. Sqlite_load_whitelist A H db = Some r \<and>
     (\<forall>ihs. r = Inr ihs \<longrightarrow> set ihs = v_whitelist (tables_view H (tables db)))"
proof (cases "Sqlite_query A sql_select_whitelist [] db")
  case (Inr rows)
  have ok: "sq_ok db" "tables_ok H (tables db)"
    using assms by (simp_all add: sqlite_ok_def)
  have rows: "rows = map (\<lambda>h. [SqlText h]) (wl_rows (tables db))"
    using Sqlite_query_ok [OF Inr] ok(1) by (simp add: query_whitelist)
  have "collect_rows (whitelist_row H) rows = Some (map (\<lambda>h. the (ih_from_str H h)) (wl_rows (tables db)))"
    unfolding rows using ok(2)
    by (intro collect_rows_map) (auto simp: tables_ok_def whitelist_row_def get_text_def from_to)
  then show ?thesis
    using view_whitelist_rows [OF ok(2)] by (simp add: Sqlite_load_whitelist_def Inr)
qed (simp add: Sqlite_load_whitelist_def)

lemma get_whitelist:
  assumes "sqlite_ok H sq_ok tables db"
  shows "\<exists>r. Sqlite_get_info_hash_from_whitelist A H ih db = Some r \<and>
     (\<forall>x. r = Inr x \<longrightarrow> x = (if ih \<in> v_whitelist (tables_view H (tables db)) then Some ih else None))"
proof (cases "Sqlite_query A sql_select_whitelist_where [SqlText (ih_to_hex_string H ih)] db")
  case (Inr rows)
  have ok: "sq_ok db" "tables_ok H (tables db)"
    using assms by (simp_all add: sqlite_ok_def)
  have "rows = map (\<lambda>h. [SqlText h]) (filter (\<lambda>x. x = ih_to_string H ih) (wl_rows (tables db)))"
    using Sqlite_query_ok [OF Inr] ok(1) by (simp add: query_whitelist_where hex)
  then have "rows = (if ih \<in> v_whitelist (tables_view H (tables db)) then [[SqlText (ih_to_string H ih)]] else [])"
    by (simp add: filter_whitelist_rows [OF ok(2)] tables_view_def)
  then show ?thesis
    by (simp add: Sqlite_get_info_hash_from_whitelist_def Inr get_text_def from_to)
qed (simp add: Sqlite_get_info_hash_from_whitelist_def)

lemma load_keys:
  assumes "sqlite_ok H sq_ok tables db"
  shows "\<exists>r. Sqlite_load_keys A db = Some r \<and>
     (\<forall>ks. r = Inr ks \<longrightarrow> distinct (map pk_key ks) \<and>
        {(pk_key k, valid_until k) | k. k \<in> set ks} =
        {(key, map_option from_secs s) | key s. v_keys (tables_view H (tables db)) key = Some s})"
proof (cases "Sqlite_query A sql_select_keys [] db")
  case (Inr rows)
  have ok: "sq_ok db" "tables_ok H (tables db)"
    using assms by (simp_all add: sqlite_ok_def)
  have rows: "rows = map (\<lambda>(k, v). [SqlText k, case v of None \<Rightarrow> SqlNull | Some n \<Rightarrow> SqlInteger n])
                       (key_rows (tables db))"
    using Sqlite_query_ok [OF Inr] ok(1) by (simp add: query_keys)
  have "collect_rows key_row rows =
        Some (map (\<lambda>(k, v). \<lparr>pk_key = Key k, valid_until = map_option (\<lambda>n. from_secs (unsigned_abs n)) v\<rparr>)
                (key_rows (tables db)))"
    unfolding rows using ok(2)
    by (intro collect_rows_map)
       (auto simp: tables_ok_def key_row_def get_text_def get_opt_i64_def peer_key_of_row split: option.splits)
  then show ?thesis
    using view_key_rows [OF ok(2)] by (simp add: Sqlite_load_keys_def Inr)
qed (simp add: Sqlite_load_keys_def)

lemma get_key:
  assumes "sqlite_ok H sq_ok tables db"
  shows "\<exists>r. Sqlite_get_key_from_keys A key db = Some r \<and>
     (\<forall>x. r = Inr x \<longrightarrow>
        x = map_option (\<lambda>s. \<lparr>pk_key = key, valid_until = map_option from_secs s\<rparr>)
              (v_keys (tables_view H (tables db)) key))"
proof (cases "Sqlite_query A sql_select_key_where [SqlText (key_value key)] db")
  case (Inr rows)
  have ok: "sq_ok db" "tables_ok H (tables db)"
    using assms by (simp_all add: sqlite_ok_def)
  have rows: "rows = map (\<lambda>(k, v). [SqlText k, case v of None \<Rightarrow> SqlNull | Some n \<Rightarrow> SqlInteger n])
               (case map_of (key_rows (tables db)) (key_value key) of None \<Rightarrow> [] | Some v \<Rightarrow> [(key_value key, v)])"
    using query_key_where [OF ok(1) Sqlite_query_ok [OF Inr]] filter_key_rows [OF ok(2), of "key_value key"]
    by simp
  show ?thesis
  proof (cases "map_of (key_rows (tables db)) (key_value key)")
    case None
    then show ?thesis
      using rows by (simp add: Sqlite_get_key_from_keys_def Inr tables_view_def)
  next
    case (Some v)
    then have "(key_value key, v) \<in> set (key_rows (tables db))"
      by (rule map_of_SomeD)
    then have "key_valid key" and "\<And>n. v = Some n \<Longrightarrow> 0 \<le> n"
      using ok(2) by (auto simp: tables_ok_def)
    then show ?thesis
      using rows Some peer_key_of_row [of "key_value key" v]
      by (cases v) (simp_all add: Sqlite_get_key_from_keys_def Inr tables_view_def get_text_def
          get_opt_i64_def unsigned_abs_def)
  qed
qed (simp add: Sqlite_get_key_from_keys_def)

end

text \<open>The contract holds, and no operation of the driver panics on well-formed tables.\<close>

lemma executes_as_cases:
  assumes "executes_as db_ok tables res db guard n f"
  obtains (failed) e db' where "res = (Inl e, db')" "db_ok db'" "tables db' = tables db"
  | (executed) db' where "res = (Inr n, db')" "guard" "db_ok db'" "tables db' = f (tables db)"
  using assms by (cases res; cases "fst res") (auto simp: executes_as_def)

context sqlite_engine
begin

lemma save_torrent:
  fixes db ih n
  assumes "sqlite_ok H sq_ok tables db"
  defines "res \<equiv> Sqlite_save_persistent_torrent A H ih n db"
  shows "sqlite_ok H sq_ok tables (snd res) \<and> tables_view H (tables (snd res)) =
    on_success (fst res) ((tables_view H (tables db))\<lparr>v_torrents := (v_torrents (tables_view H (tables db)))(ih \<mapsto> n)\<rparr>)
      (tables_view H (tables db))"
proof -
  have ok: "sq_ok db" "tables_ok H (tables db)"
    using assms(1) by (simp_all add: sqlite_ok_def)
  let ?ps = "[SqlText (ih_to_string H ih), SqlText (nat_to_string (unat n))]"
  have "unat n < 2 ^ LENGTH(32)"
    by (rule unsigned_less)
  then have "executes_as sq_ok tables (Sqlite_execute A sql_upsert_torrent ?ps db) db True 1
               (t_upsert_torrent (ih_to_string H ih) (uint n))"
    using Sqlite_execute_as [OF exec_upsert_torrent [OF ok(1), of "unat n" "ih_to_string H ih"] ok(1)] by simp
  then show ?thesis
    using ok upsert_torrent [OF ok(2), of ih n]
    by (cases rule: executes_as_cases)
       (simp_all add: res_def Sqlite_save_persistent_torrent_def sqlite_ok_def)
qed

lemma add_whitelist:
  fixes db ih
  assumes "sqlite_ok H sq_ok tables db"
  defines "res \<equiv> Sqlite_add_info_hash_to_whitelist A H ih db"
  shows "sqlite_ok H sq_ok tables (snd res) \<and> tables_view H (tables (snd res)) =
    on_success (fst res) ((tables_view H (tables db))\<lparr>v_whitelist := insert ih (v_whitelist (tables_view H (tables db)))\<rparr>)
      (tables_view H (tables db))"
proof -
  have ok: "sq_ok db" "tables_ok H (tables db)"
    using assms(1) by (simp_all add: sqlite_ok_def)
  from Sqlite_execute_as [OF exec_insert_whitelist [OF ok(1), of "ih_to_string H ih"] ok(1)] show ?thesis
    using ok insert_whitelist [OF ok(2), of ih]
    by (cases rule: executes_as_cases)
       (simp_all add: res_def Sqlite_add_info_hash_to_whitelist_def sqlite_ok_def)
qed

lemma remove_whitelist:
  fixes db ih
  assumes "sqlite_ok H sq_ok tables db"
  defines "res \<equiv> Sqlite_remove_info_hash_from_whitelist A H ih db"
  shows "sqlite_ok H sq_ok tables (snd res) \<and> tables_view H (tables (snd res)) =
    on_success (fst res) ((tables_view H (tables db))\<lparr>v_whitelist := v_whitelist (tables_view H (tables db)) - {ih}\<rparr>)
      (tables_view H (tables db))"
proof -
  have ok: "sq_ok db" "tables_ok H (tables db)"
    using assms(1) by (simp_all add: sqlite_ok_def)
  note exec = Sqlite_execute_as [OF exec_delete_whitelist [OF ok(1), of "ih_to_string H ih"] ok(1)]
  note count = delete_whitelist_count [OF ok(2), of "ih_to_string H ih"]
  show ?thesis
  proof (cases "ih_to_string H ih \<in> set (wl_rows (tables db))")
    case True
    from exec show ?thesis
      using ok delete_whitelist [OF ok(2), of ih] count(1) True
      by (cases rule: executes_as_cases)
         (simp_all add: res_def Sqlite_remove_info_hash_from_whitelist_def sqlite_ok_def)
  next
    case False
    from exec show ?thesis
      using ok count False
      by (cases rule: executes_as_cases)
         (simp_all add: res_def Sqlite_remove_info_hash_from_whitelist_def sqlite_ok_def)
  qed
qed

lemma add_key:
  fixes db k
  assumes "sqlite_ok H sq_ok tables db" and "sqlite_storable k"
  defines "res \<equiv> Sqlite_add_key_to_keys A k db"
  shows "sqlite_ok H sq_ok tables (snd res) \<and> tables_view H (tables (snd res)) =
    on_success (fst res)
      ((tables_view H (tables db))\<lparr>v_keys := (v_keys (tables_view H (tables db)))(pk_key k \<mapsto> stored_validity k)\<rparr>)
      (tables_view H (tables db))"
proof -
  have ok: "sq_ok db" "tables_ok H (tables db)"
    using assms(1) by (simp_all add: sqlite_ok_def)
  let ?v = "map_option (\<lambda>t. uint (as_secs t)) (valid_until k)"
  let ?ps = "case valid_until k of
        Some t \<Rightarrow> [SqlText (key_value (pk_key k)), SqlText (nat_to_string (unat (as_secs t)))]
      | None \<Rightarrow> [SqlText (key_value (pk_key k)), SqlNull]"
  have ins: "executes_as sq_ok tables (Sqlite_execute A sql_insert_key ?ps db) db
      (key_value (pk_key k) \<notin> fst ` set (key_rows (tables db))) 1 (t_insert_key (key_value (pk_key k)) ?v)"
  proof (cases "valid_until k")
    case None
    then show ?thesis
      using Sqlite_execute_as [OF exec_insert_key_null [OF ok(1)] ok(1)] by simp
  next
    case (Some t)
    then have "unat (as_secs t) < 2 ^ 63"
      using assms(2) by (simp add: sqlite_storable_def)
    from Sqlite_execute_as [OF exec_insert_key [OF ok(1) this, of "key_value (pk_key k)"] ok(1)] Some
    show ?thesis by simp
  qed
  have "uint x < 2 ^ 63" if "unat x < 2 ^ 63" for x :: u64
  proof -
    from that have "int (unat x) < int (2 ^ 63)"
      by (simp only: of_nat_less_iff)
    then show ?thesis by simp
  qed
  then have valid: "key_valid (Key (key_value (pk_key k)))" "\<forall>n. ?v = Some n \<longrightarrow> 0 \<le> n \<and> n < 2 ^ 63"
    using assms(2) by (auto simp: sqlite_storable_def)
  have v: "map_option word_of_int ?v = stored_validity k"
    by (simp add: stored_validity_def option.map_comp comp_def)
  from ins show ?thesis
    using ok insert_key [OF ok(2) _ valid] v
    by (cases rule: executes_as_cases)
       (simp_all add: res_def Sqlite_add_key_to_keys_def sqlite_ok_def)
qed

lemma remove_key:
  fixes db key
  assumes "sqlite_ok H sq_ok tables db"
  defines "res \<equiv> Sqlite_remove_key_from_keys A key db"
  shows "sqlite_ok H sq_ok tables (snd res) \<and> tables_view H (tables (snd res)) =
    on_success (fst res) ((tables_view H (tables db))\<lparr>v_keys := (v_keys (tables_view H (tables db)))(key := None)\<rparr>)
      (tables_view H (tables db))"
proof -
  have ok: "sq_ok db" "tables_ok H (tables db)"
    using assms(1) by (simp_all add: sqlite_ok_def)
  note exec = Sqlite_execute_as [OF exec_delete_key [OF ok(1), of "key_value key"] ok(1)]
  note count = delete_key_count [OF ok(2), of "key_value key"]
  show ?thesis
  proof (cases "key_value key \<in> fst ` set (key_rows (tables db))")
    case True
    from exec show ?thesis
      using ok delete_key [OF ok(2), of key] count(1) True
      by (cases rule: executes_as_cases)
         (simp_all add: res_def Sqlite_remove_key_from_keys_def sqlite_ok_def)
  next
    case False
    from exec show ?thesis
      using ok count False
      by (cases rule: executes_as_cases)
         (simp_all add: res_def Sqlite_remove_key_from_keys_def sqlite_ok_def)
  qed
qed

end

sublocale sqlite_engine \<subseteq> driver: database "Sqlite A H" "sqlite_ok H sq_ok tables"
  "\<lambda>db. tables_view H (tables db)" sqlite_storable
proof
  fix db assume ok: "sqlite_ok H sq_ok tables db"
  show "bt_inv pts" and "bt_get pts = v_torrents (tables_view H (tables db))"
    if "load_persistent_torrents (Sqlite A H) db = Inr pts" for pts
    using load_torrents [OF ok] that by (auto simp: Sqlite_def)
  show "set ihs = v_whitelist (tables_view H (tables db))"
    if "DatabaseTrait.load_whitelist (Sqlite A H) db = Inr ihs" for ihs
    using load_whitelist [OF ok] that by (auto simp: Sqlite_def)
  show "r = (if ih \<in> v_whitelist (tables_view H (tables db)) then Some ih else None)"
    if "get_info_hash_from_whitelist (Sqlite A H) ih db = Inr r" for ih r
    using get_whitelist [OF ok, of ih] that by (auto simp: Sqlite_def)
  show "distinct (map pk_key ks)" and "{(pk_key k, valid_until k) |k. k \<in> set ks} =
        {(key, map_option from_secs s) |key s. v_keys (tables_view H (tables db)) key = Some s}"
    if "DatabaseTrait.load_keys (Sqlite A H) db = Inr ks" for ks
    using load_keys [OF ok] that by (elim exE conjE; simp add: Sqlite_def)+
  show "pk = map_option (\<lambda>s. \<lparr>pk_key = key, valid_until = map_option from_secs s\<rparr>)
          (v_keys (tables_view H (tables db)) key)"
    if "get_key_from_keys (Sqlite A H) key db = Inr pk" for key pk
    using get_key [OF ok, of key] that by (auto simp: Sqlite_def)
qed (simp_all add: Sqlite_def save_torrent add_whitelist remove_whitelist add_key remove_key)

text \<open>The contract of the driver, for use outside the locale.\<close>

context sqlite_engine
begin

lemma driver_contract:
  "database (Sqlite A H) (sqlite_ok H sq_ok tables) (\<lambda>db. tables_view H (tables db)) sqlite_storable"
  by (rule driver.database_axioms)

lemma driver_never_panics:
  assumes "sqlite_ok H sq_ok tables db"
  shows "Sqlite_load_persistent_torrents A H db \<noteq> None \<and> Sqlite_load_whitelist A H db \<noteq> None \<and>
         Sqlite_load_keys A db \<noteq> None \<and> Sqlite_get_info_hash_from_whitelist A H ih db \<noteq> None \<and>
         Sqlite_get_key_from_keys A key db \<noteq> None"
  using load_torrents [OF assms] load_whitelist [OF assms] load_keys [OF assms]
    get_whitelist [OF assms, of ih] get_key [OF assms, of key]
  by (elim exE conjE) simp

end

section \<open>An engine in memory\<close>

text \<open>The statements executed on the tables themselves.\<close>

definition mem_sqlite_execute ::
  "string \<Rightarrow> sql_value list \<Rightarrow> sql_tables \<Rightarrow> (rusqlite_error, usize) result \<times> sql_tables" where
  "mem_sqlite_execute stmt params t =
     (case params of
        [SqlText a] \<Rightarrow>
          if stmt = sql_insert_whitelist then
            if a \<in> set (wl_rows t) then (Inl RusqliteOther, t) else (Inr 1, t_insert_whitelist a t)
          else if stmt = sql_delete_whitelist then
            (Inr (length (filter (\<lambda>x. x = a) (wl_rows t))), t_delete_whitelist a t)
          else if stmt = sql_delete_key then
            (Inr (length (filter (\<lambda>x. fst x = a) (key_rows t))), t_delete_key a t)
          else (Inl RusqliteOther, t)
      | [SqlText a, SqlText b] \<Rightarrow>
          if stmt = sql_upsert_torrent then (Inr 1, t_upsert_torrent a (int (digits_value b)) t)
          else if stmt = sql_insert_key then
            if a \<in> fst ` set (key_rows t) then (Inl RusqliteOther, t)
            else (Inr 1, t_insert_key a (Some (int (digits_value b))) t)
          else (Inl RusqliteOther, t)
      | [SqlText a, SqlNull] \<Rightarrow>
          if stmt = sql_insert_key \<and> a \<notin> fst ` set (key_rows t) then (Inr 1, t_insert_key a None t)
          else (Inl RusqliteOther, t)
      | _ \<Rightarrow> (Inl RusqliteOther, t))"

definition mem_key_row :: "string \<times> int option \<Rightarrow> sql_value list" where
  "mem_key_row r = [SqlText (fst r), case snd r of None \<Rightarrow> SqlNull | Some n \<Rightarrow> SqlInteger n]"

definition mem_sqlite_query ::
  "string \<Rightarrow> sql_value list \<Rightarrow> sql_tables \<Rightarrow> (rusqlite_error, sql_value list list) result" where
  "mem_sqlite_query stmt params t =
     (case params of
        [] \<Rightarrow>
          if stmt = sql_select_torrents then Inr (map (\<lambda>(h, n). [SqlText h, SqlInteger n]) (torrent_rows t))
          else if stmt = sql_select_keys then Inr (map mem_key_row (key_rows t))
          else if stmt = sql_select_whitelist then Inr (map (\<lambda>h. [SqlText h]) (wl_rows t))
          else Inl RusqliteOther
      | [SqlText a] \<Rightarrow>
          if stmt = sql_select_whitelist_where then
            Inr (map (\<lambda>h. [SqlText h]) (filter (\<lambda>x. x = a) (wl_rows t)))
          else if stmt = sql_select_key_where then
            Inr (map mem_key_row (filter (\<lambda>x. fst x = a) (key_rows t)))
          else Inl RusqliteOther
      | _ \<Rightarrow> Inl RusqliteOther)"

definition mem_sqlite :: "sql_tables rusqlite_api" where
  "mem_sqlite =
     \<lparr>rs_pool_get = (\<lambda>_. True), rs_execute = mem_sqlite_execute, rs_query = mem_sqlite_query\<rparr>"

lemma mem_key_row_eq:
  "mem_key_row = (\<lambda>(k, v). [SqlText k, case v of None \<Rightarrow> SqlNull | Some n \<Rightarrow> SqlInteger n])"
  by (auto simp: mem_key_row_def fun_eq_iff)

interpretation mem: sqlite_engine hex_info_hash mem_sqlite "\<lambda>_. True" "\<lambda>t. t"
  by unfold_locales
     (simp_all add: mem_sqlite_def mem_sqlite_execute_def mem_sqlite_query_def executes_as_def
       mem_key_row_eq sqlite_statements)

end
