(* ===== verification/Database_Mysql.thy ===== *)
theory Database_Mysql
  imports Database_Sqlite
begin

text \<open>
  The MySQL driver (\<open>packages/tracker-core/src/databases/driver/mysql.rs\<close>). The pool and the server
  (\<open>r2d2\<close>, \<open>mysql\<close>) are a parameter; the locale \<open>mysql_engine\<close> says what the statements do. The
  columns \<open>completed INTEGER\<close> and \<open>valid_until INT(10)\<close> are signed 32-bit numbers and the server
  refuses a value out of range. Text is compared with the collation of the table, which the tracker
  leaves at the default of the server. Where the collation distinguishes cases, the driver satisfies
  the database contract; with a collation that ignores case it does not.
\<close>

section \<open>Parameters\<close>

datatype mysql_error = MysqlError

type_synonym named_params = "(string \<times> sql_value) list"

record 'db mysql_api =
  my_pool_get :: "'db \<Rightarrow> bool"
  my_exec_drop :: "string \<Rightarrow> named_params \<Rightarrow> 'db \<Rightarrow> (mysql_error, unit) result \<times> 'db"
  my_query :: "string \<Rightarrow> named_params \<Rightarrow> 'db \<Rightarrow> (mysql_error, sql_value list list) result"

section \<open>Driver (mysql.rs)\<close>

definition from_mysql :: "mysql_error \<Rightarrow> DbError" where
  "from_mysql err = InvalidQuery MySQL"

definition my_select_torrents :: string where
  "my_select_torrents = ''SELECT info_hash, completed FROM torrents''"

definition my_select_keys :: string where
  "my_select_keys = ''SELECT `key`, valid_until FROM `keys`''"

definition my_select_whitelist :: string where
  "my_select_whitelist = ''SELECT info_hash FROM whitelist''"

definition my_upsert_torrent :: string where
  "my_upsert_torrent =
     ''INSERT INTO torrents (info_hash, completed) VALUES (:info_hash_str, :completed) ON DUPLICATE KEY UPDATE completed = VALUES(completed)''"

definition my_select_whitelist_where :: string where
  "my_select_whitelist_where = ''SELECT info_hash FROM whitelist WHERE info_hash = :info_hash''"

definition my_insert_whitelist :: string where
  "my_insert_whitelist = ''INSERT INTO whitelist (info_hash) VALUES (:info_hash_str)''"

definition my_delete_whitelist :: string where
  "my_delete_whitelist = ''DELETE FROM whitelist WHERE info_hash = :info_hash''"

definition my_select_key_where :: string where
  "my_select_key_where = ''SELECT `key`, valid_until FROM `keys` WHERE `key` = :key''"

definition my_insert_key :: string where
  "my_insert_key = ''INSERT INTO `keys` (`key`, valid_until) VALUES (:key, :valid_until)''"

definition my_insert_key_permanent :: string where
  "my_insert_key_permanent = ''INSERT INTO `keys` (`key`) VALUES (:key)''"

definition my_delete_key :: string where
  "my_delete_key = ''DELETE FROM `keys` WHERE `key` = :key''"

lemmas mysql_statements =
  my_select_torrents_def my_select_keys_def my_select_whitelist_def my_upsert_torrent_def
  my_select_whitelist_where_def my_insert_whitelist_def my_delete_whitelist_def
  my_select_key_where_def my_insert_key_def my_insert_key_permanent_def my_delete_key_def

definition Mysql_query ::
  "'db mysql_api \<Rightarrow> string \<Rightarrow> named_params \<Rightarrow> 'db \<Rightarrow> (DbError, sql_value list list) result" where
  "Mysql_query A stmt params db =
     (if \<not> my_pool_get A db then Inl (ConnectionPool MySQL)
      else case my_query A stmt params db of Inl e \<Rightarrow> Inl (from_mysql e) | Inr rows \<Rightarrow> Inr rows)"

definition Mysql_exec_drop ::
  "'db mysql_api \<Rightarrow> string \<Rightarrow> named_params \<Rightarrow> 'db \<Rightarrow> (DbError, unit) result \<times> 'db" where
  "Mysql_exec_drop A stmt params db =
     (if \<not> my_pool_get A db then (Inl (ConnectionPool MySQL), db)
      else case my_exec_drop A stmt params db of
             (Inl e, db') \<Rightarrow> (Inl (from_mysql e), db')
           | (Inr u, db') \<Rightarrow> (Inr u, db'))"

text \<open>
  Converting a row to the tuple type a closure expects panics when a column has another type
  (\<^const>\<open>None\<close>), as does the \<open>unwrap\<close> of a parse error.
\<close>

fun collect_all :: "('r \<Rightarrow> 'a option) \<Rightarrow> 'r list \<Rightarrow> 'a list option" where
  "collect_all f [] = Some []"
| "collect_all f (row # rows) =
     (case f row of None \<Rightarrow> None | Some x \<Rightarrow> map_option (\<lambda>xs. x # xs) (collect_all f rows))"

definition my_torrent_row :: "info_hash_api \<Rightarrow> sql_value list \<Rightarrow> (InfoHash \<times> u32) option" where
  "my_torrent_row H row =
     (case (get_text 0 row, get_u32 1 row) of
        (Some s, Some n) \<Rightarrow> map_option (\<lambda>ih. (ih, n)) (ih_from_str H s)
      | _ \<Rightarrow> None)"

definition my_key_row :: "sql_value list \<Rightarrow> PeerKey option" where
  "my_key_row row =
     (case (get_text 0 row, get_opt_i64 1 row) of
        (Some k, Some v) \<Rightarrow> peer_key_of k v
      | _ \<Rightarrow> None)"

definition my_whitelist_row :: "info_hash_api \<Rightarrow> sql_value list \<Rightarrow> InfoHash option" where
  "my_whitelist_row H row = (case get_text 0 row of Some s \<Rightarrow> ih_from_str H s | None \<Rightarrow> None)"

definition Mysql_load_persistent_torrents ::
  "'db mysql_api \<Rightarrow> info_hash_api \<Rightarrow> 'db \<Rightarrow> (DbError, PersistentTorrents) result option" where
  "Mysql_load_persistent_torrents A H db =
     (case Mysql_query A my_select_torrents [] db of
        Inl e \<Rightarrow> Some (Inl e)
      | Inr rows \<Rightarrow>
          map_option (\<lambda>ts. Inr (fold (\<lambda>(ih, n). bt_put ih n) ts bt_empty))
            (collect_all (my_torrent_row H) rows))"

definition Mysql_load_keys :: "'db mysql_api \<Rightarrow> 'db \<Rightarrow> (DbError, PeerKey list) result option" where
  "Mysql_load_keys A db =
     (case Mysql_query A my_select_keys [] db of
        Inl e \<Rightarrow> Some (Inl e)
      | Inr rows \<Rightarrow> map_option Inr (collect_all my_key_row rows))"

definition Mysql_load_whitelist ::
  "'db mysql_api \<Rightarrow> info_hash_api \<Rightarrow> 'db \<Rightarrow> (DbError, InfoHash list) result option" where
  "Mysql_load_whitelist A H db =
     (case Mysql_query A my_select_whitelist [] db of
        Inl e \<Rightarrow> Some (Inl e)
      | Inr rows \<Rightarrow> map_option Inr (collect_all (my_whitelist_row H) rows))"

definition Mysql_save_persistent_torrent ::
  "'db mysql_api \<Rightarrow> info_hash_api \<Rightarrow> InfoHash \<Rightarrow> u32 \<Rightarrow> 'db \<Rightarrow> (DbError, unit) result \<times> 'db" where
  "Mysql_save_persistent_torrent A H ih n db =
     Mysql_exec_drop A my_upsert_torrent
       [(''info_hash_str'', SqlText (ih_to_string H ih)), (''completed'', SqlInteger (uint n))] db"

definition Mysql_get_info_hash_from_whitelist ::
  "'db mysql_api \<Rightarrow> info_hash_api \<Rightarrow> InfoHash \<Rightarrow> 'db \<Rightarrow> (DbError, InfoHash option) result option" where
  "Mysql_get_info_hash_from_whitelist A H ih db =
     (case Mysql_query A my_select_whitelist_where [(''info_hash'', SqlText (ih_to_hex_string H ih))] db of
        Inl e \<Rightarrow> Some (Inl e)
      | Inr [] \<Rightarrow> Some (Inr None)
      | Inr (row # rows) \<Rightarrow> map_option (\<lambda>ih'. Inr (Some ih')) (my_whitelist_row H row))"

definition Mysql_add_info_hash_to_whitelist ::
  "'db mysql_api \<Rightarrow> info_hash_api \<Rightarrow> InfoHash \<Rightarrow> 'db \<Rightarrow> (DbError, usize) result \<times> 'db" where
  "Mysql_add_info_hash_to_whitelist A H ih db =
     (case Mysql_exec_drop A my_insert_whitelist [(''info_hash_str'', SqlText (ih_to_string H ih))] db of
        (Inl e, db') \<Rightarrow> (Inl e, db')
      | (Inr _, db') \<Rightarrow> (Inr 1, db'))"

definition Mysql_remove_info_hash_from_whitelist ::
  "'db mysql_api \<Rightarrow> info_hash_api \<Rightarrow> InfoHash \<Rightarrow> 'db \<Rightarrow> (DbError, usize) result \<times> 'db" where
  "Mysql_remove_info_hash_from_whitelist A H ih db =
     (case Mysql_exec_drop A my_delete_whitelist [(''info_hash'', SqlText (ih_to_string H ih))] db of
        (Inl e, db') \<Rightarrow> (Inl e, db')
      | (Inr _, db') \<Rightarrow> (Inr 1, db'))"

definition Mysql_get_key_from_keys ::
  "'db mysql_api \<Rightarrow> Key \<Rightarrow> 'db \<Rightarrow> (DbError, PeerKey option) result option" where
  "Mysql_get_key_from_keys A key db =
     (case Mysql_query A my_select_key_where [(''key'', SqlText (key_value key))] db of
        Inl e \<Rightarrow> Some (Inl e)
      | Inr [] \<Rightarrow> Some (Inr None)
      | Inr (row # rows) \<Rightarrow> map_option (\<lambda>pk. Inr (Some pk)) (my_key_row row))"

definition Mysql_add_key_to_keys ::
  "'db mysql_api \<Rightarrow> PeerKey \<Rightarrow> 'db \<Rightarrow> (DbError, usize) result \<times> 'db" where
  "Mysql_add_key_to_keys A auth_key db =
     (case (case valid_until auth_key of
              Some t \<Rightarrow>
                Mysql_exec_drop A my_insert_key
                  [(''key'', SqlText (key_value (pk_key auth_key))),
                   (''valid_until'', SqlText (nat_to_string (unat (as_secs t))))] db
            | None \<Rightarrow>
                Mysql_exec_drop A my_insert_key_permanent
                  [(''key'', SqlText (key_value (pk_key auth_key)))] db) of
        (Inl e, db') \<Rightarrow> (Inl e, db')
      | (Inr _, db') \<Rightarrow> (Inr 1, db'))"

definition Mysql_remove_key_from_keys ::
  "'db mysql_api \<Rightarrow> Key \<Rightarrow> 'db \<Rightarrow> (DbError, usize) result \<times> 'db" where
  "Mysql_remove_key_from_keys A key db =
     (case Mysql_exec_drop A my_delete_key [(''key'', SqlText (key_value key))] db of
        (Inl e, db') \<Rightarrow> (Inl e, db')
      | (Inr _, db') \<Rightarrow> (Inr 1, db'))"

definition Mysql :: "'db mysql_api \<Rightarrow> info_hash_api \<Rightarrow> 'db DatabaseTrait" where
  "Mysql A H =
     \<lparr>load_persistent_torrents = (\<lambda>db. the (Mysql_load_persistent_torrents A H db)),
      save_persistent_torrent = Mysql_save_persistent_torrent A H,
      load_whitelist = (\<lambda>db. the (Mysql_load_whitelist A H db)),
      get_info_hash_from_whitelist = (\<lambda>ih db. the (Mysql_get_info_hash_from_whitelist A H ih db)),
      add_info_hash_to_whitelist = Mysql_add_info_hash_to_whitelist A H,
      remove_info_hash_from_whitelist = Mysql_remove_info_hash_from_whitelist A H,
      load_keys = (\<lambda>db. the (Mysql_load_keys A db)),
      get_key_from_keys = (\<lambda>key db. the (Mysql_get_key_from_keys A key db)),
      add_key_to_keys = Mysql_add_key_to_keys A,
      remove_key_from_keys = Mysql_remove_key_from_keys A\<rparr>"

section \<open>The server\<close>

text \<open>
  The collation \<open>coll\<close> decides which stored keys a key matches. The columns of info-hashes hold
  hexadecimal text of one case only, on which every collation is equality.
\<close>

definition t_delete_keys_like :: "(string \<Rightarrow> string \<Rightarrow> bool) \<Rightarrow> string \<Rightarrow> sql_tables \<Rightarrow> sql_tables" where
  "t_delete_keys_like coll k t = t\<lparr>key_rows := filter (\<lambda>x. \<not> coll (fst x) k) (key_rows t)\<rparr>"

locale mysql_engine = info_hash_text H for H :: info_hash_api +
  fixes A :: "'db mysql_api" and coll :: "string \<Rightarrow> string \<Rightarrow> bool"
    and my_ok :: "'db \<Rightarrow> bool" and tables :: "'db \<Rightarrow> sql_tables"
  assumes exec_insert_whitelist: "my_ok db \<Longrightarrow> h = ih_to_string H ih \<Longrightarrow>
      executes_as my_ok tables (my_exec_drop A my_insert_whitelist [(''info_hash_str'', SqlText h)] db) db
        (h \<notin> set (wl_rows (tables db))) () (t_insert_whitelist h)"
    and exec_delete_whitelist: "my_ok db \<Longrightarrow> h = ih_to_string H ih \<Longrightarrow>
      executes_as my_ok tables (my_exec_drop A my_delete_whitelist [(''info_hash'', SqlText h)] db) db
        True () (t_delete_whitelist h)"
    and exec_upsert_torrent: "my_ok db \<Longrightarrow> h = ih_to_string H ih \<Longrightarrow>
      executes_as my_ok tables
        (my_exec_drop A my_upsert_torrent [(''info_hash_str'', SqlText h), (''completed'', SqlInteger i)] db) db
        (i < 2 ^ 31) () (t_upsert_torrent h i)"
    and exec_insert_key: "my_ok db \<Longrightarrow>
      executes_as my_ok tables
        (my_exec_drop A my_insert_key [(''key'', SqlText k), (''valid_until'', SqlText (nat_to_string n))] db) db
        ((\<forall>x \<in> set (key_rows (tables db)). \<not> coll (fst x) k) \<and> n < 2 ^ 31) () (t_insert_key k (Some (int n)))"
    and exec_insert_key_permanent: "my_ok db \<Longrightarrow>
      executes_as my_ok tables (my_exec_drop A my_insert_key_permanent [(''key'', SqlText k)] db) db
        (\<forall>x \<in> set (key_rows (tables db)). \<not> coll (fst x) k) () (t_insert_key k None)"
    and exec_delete_key: "my_ok db \<Longrightarrow>
      executes_as my_ok tables (my_exec_drop A my_delete_key [(''key'', SqlText k)] db) db
        True () (t_delete_keys_like coll k)"
    and query_torrents: "my_ok db \<Longrightarrow> my_query A my_select_torrents [] db = Inr rows \<Longrightarrow>
      rows = map (\<lambda>(h, n). [SqlText h, SqlInteger n]) (torrent_rows (tables db))"
    and query_keys: "my_ok db \<Longrightarrow> my_query A my_select_keys [] db = Inr rows \<Longrightarrow>
      rows = map mem_key_row (key_rows (tables db))"
    and query_whitelist: "my_ok db \<Longrightarrow> my_query A my_select_whitelist [] db = Inr rows \<Longrightarrow>
      rows = map (\<lambda>h. [SqlText h]) (wl_rows (tables db))"
    and query_whitelist_where: "my_ok db \<Longrightarrow> h = ih_to_string H ih \<Longrightarrow>
      my_query A my_select_whitelist_where [(''info_hash'', SqlText h)] db = Inr rows \<Longrightarrow>
      rows = map (\<lambda>h. [SqlText h]) (filter (\<lambda>x. x = h) (wl_rows (tables db)))"
    and query_key_where: "my_ok db \<Longrightarrow> my_query A my_select_key_where [(''key'', SqlText k)] db = Inr rows \<Longrightarrow>
      rows = map mem_key_row (filter (\<lambda>x. coll (fst x) k) (key_rows (tables db)))"
    and coll_refl: "coll k k"

locale mysql_case_sensitive = mysql_engine +
  assumes coll_eq: "coll a b \<Longrightarrow> a = b"

definition mysql_ok ::
  "info_hash_api \<Rightarrow> ('db \<Rightarrow> bool) \<Rightarrow> ('db \<Rightarrow> sql_tables) \<Rightarrow> 'db \<Rightarrow> bool" where
  "mysql_ok H my_ok tables db = (my_ok db \<and> tables_ok H (tables db))"

definition mysql_storable :: "PeerKey \<Rightarrow> bool" where
  "mysql_storable k = key_valid (pk_key k)"

lemma collect_all_map:
  "\<forall>x \<in> set xs. f (r x) = Some (g x) \<Longrightarrow> collect_all f (map r xs) = Some (map g xs)"
  by (induction xs) auto

lemma Mysql_exec_drop_as:
  assumes "executes_as my_ok tables (my_exec_drop A stmt params db) db guard n f" and "my_ok db"
  shows "executes_as my_ok tables (Mysql_exec_drop A stmt params db) db guard n f"
  using assms by (auto simp: executes_as_def Mysql_exec_drop_def split: sum.splits prod.splits)

lemma Mysql_query_ok:
  "Mysql_query A stmt params db = Inr rows \<Longrightarrow> my_query A stmt params db = Inr rows"
  by (auto simp: Mysql_query_def split: if_splits sum.splits)

context mysql_engine
begin

lemma load_torrents:
  assumes "mysql_ok H my_ok tables db"
  shows "\<exists>r. Mysql_load_persistent_torrents A H db = Some r \<and>
     (\<forall>pts. r = Inr pts \<longrightarrow> bt_inv pts \<and> bt_get pts = v_torrents (tables_view H (tables db)))"
proof (cases "Mysql_query A my_select_torrents [] db")
  case (Inr rows)
  have ok: "my_ok db" "tables_ok H (tables db)"
    using assms by (simp_all add: mysql_ok_def)
  have rows: "rows = map (\<lambda>(h, n). [SqlText h, SqlInteger n]) (torrent_rows (tables db))"
    using Mysql_query_ok [OF Inr] ok(1) by (simp add: query_torrents)
  have "collect_all (my_torrent_row H) rows =
        Some (map (\<lambda>(h, n). (the (ih_from_str H h), word_of_int n)) (torrent_rows (tables db)))"
    unfolding rows
  proof (rule collect_all_map, clarify)
    fix h n assume "(h, n) \<in> set (torrent_rows (tables db))"
    then have "h \<in> range (ih_to_string H)" "0 \<le> n" "n < 2 ^ 32"
      using ok(2) by (auto simp: tables_ok_def)
    then show "my_torrent_row H [SqlText h, SqlInteger n] = Some (the (ih_from_str H h), word_of_int n)"
      by (auto simp: my_torrent_row_def get_text_def get_u32_def from_to)
  qed
  then show ?thesis
    using view_torrent_rows [OF ok(2)] by (simp add: Mysql_load_persistent_torrents_def Inr)
qed (simp add: Mysql_load_persistent_torrents_def)

lemma load_whitelist:
  assumes "mysql_ok H my_ok tables db"
  shows "\<exists>r. Mysql_load_whitelist A H db = Some r \<and>
     (\<forall>ihs. r = Inr ihs \<longrightarrow> set ihs = v_whitelist (tables_view H (tables db)))"
proof (cases "Mysql_query A my_select_whitelist [] db")
  case (Inr rows)
  have ok: "my_ok db" "tables_ok H (tables db)"
    using assms by (simp_all add: mysql_ok_def)
  have rows: "rows = map (\<lambda>h. [SqlText h]) (wl_rows (tables db))"
    using Mysql_query_ok [OF Inr] ok(1) by (simp add: query_whitelist)
  have "collect_all (my_whitelist_row H) rows = Some (map (\<lambda>h. the (ih_from_str H h)) (wl_rows (tables db)))"
    unfolding rows using ok(2)
    by (intro collect_all_map) (auto simp: tables_ok_def my_whitelist_row_def get_text_def from_to)
  then show ?thesis
    using view_whitelist_rows [OF ok(2)] by (simp add: Mysql_load_whitelist_def Inr)
qed (simp add: Mysql_load_whitelist_def)

lemma get_whitelist:
  assumes "mysql_ok H my_ok tables db"
  shows "\<exists>r. Mysql_get_info_hash_from_whitelist A H ih db = Some r \<and>
     (\<forall>x. r = Inr x \<longrightarrow> x = (if ih \<in> v_whitelist (tables_view H (tables db)) then Some ih else None))"
proof (cases "Mysql_query A my_select_whitelist_where [(''info_hash'', SqlText (ih_to_hex_string H ih))] db")
  case (Inr rows)
  have ok: "my_ok db" "tables_ok H (tables db)"
    using assms by (simp_all add: mysql_ok_def)
  have "rows = map (\<lambda>h. [SqlText h]) (filter (\<lambda>x. x = ih_to_string H ih) (wl_rows (tables db)))"
    using query_whitelist_where [OF ok(1) refl] Mysql_query_ok [OF Inr] by (simp add: hex)
  then have "rows = (if ih \<in> v_whitelist (tables_view H (tables db)) then [[SqlText (ih_to_string H ih)]] else [])"
    by (simp add: filter_whitelist_rows [OF ok(2)] tables_view_def)
  then show ?thesis
    by (simp add: Mysql_get_info_hash_from_whitelist_def my_whitelist_row_def Inr get_text_def from_to)
qed (simp add: Mysql_get_info_hash_from_whitelist_def)

lemma load_keys:
  assumes "mysql_ok H my_ok tables db"
  shows "\<exists>r. Mysql_load_keys A db = Some r \<and>
     (\<forall>ks. r = Inr ks \<longrightarrow> distinct (map pk_key ks) \<and>
        {(pk_key k, valid_until k) | k. k \<in> set ks} =
        {(key, map_option from_secs s) | key s. v_keys (tables_view H (tables db)) key = Some s})"
proof (cases "Mysql_query A my_select_keys [] db")
  case (Inr rows)
  have ok: "my_ok db" "tables_ok H (tables db)"
    using assms by (simp_all add: mysql_ok_def)
  have rows: "rows = map (\<lambda>(k, v). [SqlText k, case v of None \<Rightarrow> SqlNull | Some n \<Rightarrow> SqlInteger n])
                       (key_rows (tables db))"
    using query_keys [OF ok(1) Mysql_query_ok [OF Inr]] by (simp add: mem_key_row_eq)
  have "collect_all my_key_row rows =
        Some (map (\<lambda>(k, v). \<lparr>pk_key = Key k, valid_until = map_option (\<lambda>n. from_secs (unsigned_abs n)) v\<rparr>)
                (key_rows (tables db)))"
    unfolding rows using ok(2)
    by (intro collect_all_map)
       (auto simp: tables_ok_def my_key_row_def get_text_def get_opt_i64_def peer_key_of_row split: option.splits)
  then show ?thesis
    using view_key_rows [OF ok(2)] by (simp add: Mysql_load_keys_def Inr)
qed (simp add: Mysql_load_keys_def)

lemma save_torrent:
  fixes db ih n
  assumes "mysql_ok H my_ok tables db"
  defines "res \<equiv> Mysql_save_persistent_torrent A H ih n db"
  shows "mysql_ok H my_ok tables (snd res) \<and> tables_view H (tables (snd res)) =
    on_success (fst res) ((tables_view H (tables db))\<lparr>v_torrents := (v_torrents (tables_view H (tables db)))(ih \<mapsto> n)\<rparr>)
      (tables_view H (tables db))"
proof -
  have ok: "my_ok db" "tables_ok H (tables db)"
    using assms(1) by (simp_all add: mysql_ok_def)
  from Mysql_exec_drop_as [OF exec_upsert_torrent [OF ok(1) refl, of ih "uint n"] ok(1)] show ?thesis
    using ok upsert_torrent [OF ok(2), of ih n]
    by (cases rule: executes_as_cases)
       (simp_all add: res_def Mysql_save_persistent_torrent_def mysql_ok_def)
qed

lemma add_whitelist:
  fixes db ih
  assumes "mysql_ok H my_ok tables db"
  defines "res \<equiv> Mysql_add_info_hash_to_whitelist A H ih db"
  shows "mysql_ok H my_ok tables (snd res) \<and> tables_view H (tables (snd res)) =
    on_success (fst res) ((tables_view H (tables db))\<lparr>v_whitelist := insert ih (v_whitelist (tables_view H (tables db)))\<rparr>)
      (tables_view H (tables db))"
proof -
  have ok: "my_ok db" "tables_ok H (tables db)"
    using assms(1) by (simp_all add: mysql_ok_def)
  from Mysql_exec_drop_as [OF exec_insert_whitelist [OF ok(1) refl, of ih] ok(1)] show ?thesis
    using ok insert_whitelist [OF ok(2), of ih]
    by (cases rule: executes_as_cases)
       (simp_all add: res_def Mysql_add_info_hash_to_whitelist_def mysql_ok_def)
qed

lemma remove_whitelist:
  fixes db ih
  assumes "mysql_ok H my_ok tables db"
  defines "res \<equiv> Mysql_remove_info_hash_from_whitelist A H ih db"
  shows "mysql_ok H my_ok tables (snd res) \<and> tables_view H (tables (snd res)) =
    on_success (fst res) ((tables_view H (tables db))\<lparr>v_whitelist := v_whitelist (tables_view H (tables db)) - {ih}\<rparr>)
      (tables_view H (tables db))"
proof -
  have ok: "my_ok db" "tables_ok H (tables db)"
    using assms(1) by (simp_all add: mysql_ok_def)
  from Mysql_exec_drop_as [OF exec_delete_whitelist [OF ok(1) refl, of ih] ok(1)] show ?thesis
    using ok delete_whitelist [OF ok(2), of ih]
    by (cases rule: executes_as_cases)
       (simp_all add: res_def Mysql_remove_info_hash_from_whitelist_def mysql_ok_def)
qed

text \<open>A key whose expiry does not fit the column is never stored.\<close>

lemma late_key_refused:
  assumes "my_ok db" and "valid_until k = Some t" and "2 ^ 31 \<le> unat (as_secs t)"
  shows "\<exists>e. fst (Mysql_add_key_to_keys A k db) = Inl e"
    and "tables (snd (Mysql_add_key_to_keys A k db)) = tables db"
proof -
  note exec = Mysql_exec_drop_as [OF exec_insert_key
      [OF assms(1), of "key_value (pk_key k)" "unat (as_secs t)"] assms(1)]
  from exec show "\<exists>e. fst (Mysql_add_key_to_keys A k db) = Inl e"
    using assms(2,3) by (cases rule: executes_as_cases) (simp_all add: Mysql_add_key_to_keys_def)
  from exec show "tables (snd (Mysql_add_key_to_keys A k db)) = tables db"
    using assms(2,3) by (cases rule: executes_as_cases) (simp_all add: Mysql_add_key_to_keys_def)
qed

end

context mysql_case_sensitive
begin

lemma coll_iff: "coll a b \<longleftrightarrow> a = b"
  using coll_eq coll_refl by auto

lemma get_key:
  assumes "mysql_ok H my_ok tables db"
  shows "\<exists>r. Mysql_get_key_from_keys A key db = Some r \<and>
     (\<forall>x. r = Inr x \<longrightarrow>
        x = map_option (\<lambda>s. \<lparr>pk_key = key, valid_until = map_option from_secs s\<rparr>)
              (v_keys (tables_view H (tables db)) key))"
proof (cases "Mysql_query A my_select_key_where [(''key'', SqlText (key_value key))] db")
  case (Inr rows)
  have ok: "my_ok db" "tables_ok H (tables db)"
    using assms by (simp_all add: mysql_ok_def)
  have rows: "rows = map (\<lambda>(k, v). [SqlText k, case v of None \<Rightarrow> SqlNull | Some n \<Rightarrow> SqlInteger n])
               (case map_of (key_rows (tables db)) (key_value key) of None \<Rightarrow> [] | Some v \<Rightarrow> [(key_value key, v)])"
    using query_key_where [OF ok(1) Mysql_query_ok [OF Inr]] filter_key_rows [OF ok(2), of "key_value key"]
    by (simp add: coll_iff mem_key_row_eq)
  show ?thesis
  proof (cases "map_of (key_rows (tables db)) (key_value key)")
    case None
    then show ?thesis
      using rows by (simp add: Mysql_get_key_from_keys_def Inr tables_view_def)
  next
    case (Some v)
    then have "(key_value key, v) \<in> set (key_rows (tables db))"
      by (rule map_of_SomeD)
    then have "key_valid key" and "\<And>n. v = Some n \<Longrightarrow> 0 \<le> n"
      using ok(2) by (auto simp: tables_ok_def)
    then show ?thesis
      using rows Some peer_key_of_row [of "key_value key" v]
      by (cases v) (simp_all add: Mysql_get_key_from_keys_def my_key_row_def Inr tables_view_def get_text_def
          get_opt_i64_def unsigned_abs_def)
  qed
qed (simp add: Mysql_get_key_from_keys_def)

lemma add_key:
  fixes db k
  assumes "mysql_ok H my_ok tables db" and "mysql_storable k"
  defines "res \<equiv> Mysql_add_key_to_keys A k db"
  shows "mysql_ok H my_ok tables (snd res) \<and> tables_view H (tables (snd res)) =
    on_success (fst res)
      ((tables_view H (tables db))\<lparr>v_keys := (v_keys (tables_view H (tables db)))(pk_key k \<mapsto> stored_validity k)\<rparr>)
      (tables_view H (tables db))"
proof -
  have ok: "my_ok db" "tables_ok H (tables db)"
    using assms(1) by (simp_all add: mysql_ok_def)
  let ?k = "key_value (pk_key k)"
  have valid: "key_valid (Key ?k)"
    using assms(2) by (simp add: mysql_storable_def)
  have fresh: "\<forall>x \<in> set (key_rows (tables db)). fst x \<noteq> ?k \<Longrightarrow> ?k \<notin> fst ` set (key_rows (tables db))"
    by auto
  show ?thesis
  proof (cases "valid_until k")
    case None
    from Mysql_exec_drop_as [OF exec_insert_key_permanent [OF ok(1), of ?k] ok(1)] show ?thesis
      using ok insert_key [OF ok(2) fresh valid, of None] None
      by (cases rule: executes_as_cases)
         (simp_all add: res_def Mysql_add_key_to_keys_def mysql_ok_def coll_iff stored_validity_def)
  next
    case (Some t)
    from Mysql_exec_drop_as [OF exec_insert_key [OF ok(1), of ?k "unat (as_secs t)"] ok(1)] show ?thesis
    proof (cases rule: executes_as_cases)
      case (executed db')
      then have "int (unat (as_secs t)) < int (2 ^ 31)"
        by (simp only: of_nat_less_iff)
      then have "\<forall>n. Some (uint (as_secs t)) = Some n \<longrightarrow> 0 \<le> n \<and> n < 2 ^ 63"
        by simp
      from insert_key [OF ok(2) fresh valid this] show ?thesis
        using executed Some by (simp add: res_def Mysql_add_key_to_keys_def mysql_ok_def coll_iff stored_validity_def)
    qed (use ok Some in \<open>simp add: res_def Mysql_add_key_to_keys_def mysql_ok_def\<close>)
  qed
qed

lemma remove_key:
  fixes db key
  assumes "mysql_ok H my_ok tables db"
  defines "res \<equiv> Mysql_remove_key_from_keys A key db"
  shows "mysql_ok H my_ok tables (snd res) \<and> tables_view H (tables (snd res)) =
    on_success (fst res) ((tables_view H (tables db))\<lparr>v_keys := (v_keys (tables_view H (tables db)))(key := None)\<rparr>)
      (tables_view H (tables db))"
proof -
  have ok: "my_ok db" "tables_ok H (tables db)"
    using assms(1) by (simp_all add: mysql_ok_def)
  have "t_delete_keys_like coll = t_delete_key"
    by (simp add: fun_eq_iff t_delete_keys_like_def t_delete_key_def coll_iff)
  with Mysql_exec_drop_as [OF exec_delete_key [OF ok(1), of "key_value key"] ok(1)]
  have "executes_as my_ok tables (Mysql_exec_drop A my_delete_key [(''key'', SqlText (key_value key))] db) db
          True () (t_delete_key (key_value key))"
    by simp
  then show ?thesis
    using ok delete_key [OF ok(2), of key]
    by (cases rule: executes_as_cases)
       (simp_all add: res_def Mysql_remove_key_from_keys_def mysql_ok_def)
qed

end

sublocale mysql_case_sensitive \<subseteq> driver: database "Mysql A H" "mysql_ok H my_ok tables"
  "\<lambda>db. tables_view H (tables db)" mysql_storable
proof
  fix db assume ok: "mysql_ok H my_ok tables db"
  show "bt_inv pts" and "bt_get pts = v_torrents (tables_view H (tables db))"
    if "load_persistent_torrents (Mysql A H) db = Inr pts" for pts
    using load_torrents [OF ok] that by (auto simp: Mysql_def)
  show "set ihs = v_whitelist (tables_view H (tables db))"
    if "DatabaseTrait.load_whitelist (Mysql A H) db = Inr ihs" for ihs
    using load_whitelist [OF ok] that by (auto simp: Mysql_def)
  show "r = (if ih \<in> v_whitelist (tables_view H (tables db)) then Some ih else None)"
    if "get_info_hash_from_whitelist (Mysql A H) ih db = Inr r" for ih r
    using get_whitelist [OF ok, of ih] that by (auto simp: Mysql_def)
  show "distinct (map pk_key ks)" and "{(pk_key k, valid_until k) |k. k \<in> set ks} =
        {(key, map_option from_secs s) |key s. v_keys (tables_view H (tables db)) key = Some s}"
    if "DatabaseTrait.load_keys (Mysql A H) db = Inr ks" for ks
    using load_keys [OF ok] that by (elim exE conjE; simp add: Mysql_def)+
  show "pk = map_option (\<lambda>s. \<lparr>pk_key = key, valid_until = map_option from_secs s\<rparr>)
          (v_keys (tables_view H (tables db)) key)"
    if "get_key_from_keys (Mysql A H) key db = Inr pk" for key pk
    using get_key [OF ok, of key] that by (auto simp: Mysql_def)
qed (simp_all add: Mysql_def save_torrent add_whitelist remove_whitelist add_key remove_key)

context mysql_case_sensitive
begin

lemma driver_contract:
  "database (Mysql A H) (mysql_ok H my_ok tables) (\<lambda>db. tables_view H (tables db)) mysql_storable"
  by (rule driver.database_axioms)

end

section \<open>A server in memory\<close>

definition mem_mysql_exec ::
  "(string \<Rightarrow> string \<Rightarrow> bool) \<Rightarrow> string \<Rightarrow> named_params \<Rightarrow> sql_tables \<Rightarrow> (mysql_error, unit) result \<times> sql_tables" where
  "mem_mysql_exec coll stmt params t =
     (case map snd params of
        [SqlText a] \<Rightarrow>
          if stmt = my_insert_whitelist then
            if a \<in> set (wl_rows t) then (Inl MysqlError, t) else (Inr (), t_insert_whitelist a t)
          else if stmt = my_delete_whitelist then (Inr (), t_delete_whitelist a t)
          else if stmt = my_insert_key_permanent then
            if \<exists>x \<in> set (key_rows t). coll (fst x) a then (Inl MysqlError, t) else (Inr (), t_insert_key a None t)
          else if stmt = my_delete_key then (Inr (), t_delete_keys_like coll a t)
          else (Inl MysqlError, t)
      | [SqlText a, SqlInteger n] \<Rightarrow>
          if stmt = my_upsert_torrent \<and> n < 2 ^ 31 then (Inr (), t_upsert_torrent a n t)
          else (Inl MysqlError, t)
      | [SqlText a, SqlText b] \<Rightarrow>
          if stmt = my_insert_key \<and> (\<forall>x \<in> set (key_rows t). \<not> coll (fst x) a) \<and> digits_value b < 2 ^ 31
          then (Inr (), t_insert_key a (Some (int (digits_value b))) t)
          else (Inl MysqlError, t)
      | _ \<Rightarrow> (Inl MysqlError, t))"

definition mem_mysql_query ::
  "(string \<Rightarrow> string \<Rightarrow> bool) \<Rightarrow> string \<Rightarrow> named_params \<Rightarrow> sql_tables \<Rightarrow> (mysql_error, sql_value list list) result" where
  "mem_mysql_query coll stmt params t =
     (case map snd params of
        [] \<Rightarrow>
          if stmt = my_select_torrents then Inr (map (\<lambda>(h, n). [SqlText h, SqlInteger n]) (torrent_rows t))
          else if stmt = my_select_keys then Inr (map mem_key_row (key_rows t))
          else if stmt = my_select_whitelist then Inr (map (\<lambda>h. [SqlText h]) (wl_rows t))
          else Inl MysqlError
      | [SqlText a] \<Rightarrow>
          if stmt = my_select_whitelist_where then
            Inr (map (\<lambda>h. [SqlText h]) (filter (\<lambda>x. x = a) (wl_rows t)))
          else if stmt = my_select_key_where then
            Inr (map mem_key_row (filter (\<lambda>x. coll (fst x) a) (key_rows t)))
          else Inl MysqlError
      | _ \<Rightarrow> Inl MysqlError)"

definition mem_mysql :: "(string \<Rightarrow> string \<Rightarrow> bool) \<Rightarrow> sql_tables mysql_api" where
  "mem_mysql coll =
     \<lparr>my_pool_get = (\<lambda>_. True), my_exec_drop = mem_mysql_exec coll, my_query = mem_mysql_query coll\<rparr>"

text \<open>The collation that ignores the case of letters.\<close>

definition to_ascii_lowercase :: "char \<Rightarrow> char" where
  "to_ascii_lowercase c =
     (if 65 \<le> (of_char c :: nat) \<and> (of_char c :: nat) \<le> 90 then char_of ((of_char c :: nat) + 32) else c)"

definition same_ignoring_case :: "string \<Rightarrow> string \<Rightarrow> bool" where
  "same_ignoring_case a b = (map to_ascii_lowercase a = map to_ascii_lowercase b)"

lemma mem_mysql_engine:
  assumes "\<And>k. coll k k"
  shows "mysql_engine hex_info_hash (mem_mysql coll) coll (\<lambda>_. True) (\<lambda>t. t)"
  using assms
  by unfold_locales
     (simp_all add: mem_mysql_def mem_mysql_exec_def mem_mysql_query_def executes_as_def mysql_statements)

interpretation mem_ci: mysql_engine hex_info_hash "mem_mysql same_ignoring_case" same_ignoring_case "\<lambda>_. True" "\<lambda>t. t"
  by (rule mem_mysql_engine) (simp add: same_ignoring_case_def)

interpretation mem_cs: mysql_case_sensitive hex_info_hash "mem_mysql (=)" "(=)" "\<lambda>_. True" "\<lambda>t. t"
  by (intro mysql_case_sensitive.intro mem_mysql_engine mysql_case_sensitive_axioms.intro) simp_all

end
