(* ===== verification/Persistence_Properties.thy ===== *)
theory Persistence_Properties
  imports Whitelist Authentication Database_Mysql
begin

text \<open>
  The whitelist and the keys over the two database drivers: memory and database agree after every
  history, what a restart loses, and where the MySQL driver departs from the contract.
\<close>

section \<open>Whitelist over SQLite\<close>

text \<open>The operations of a history that report success.\<close>

fun whitelist_log :: "'db DatabaseTrait \<Rightarrow> whitelist_op list \<Rightarrow> 'db WhitelistManager \<Rightarrow> whitelist_op list" where
  "whitelist_log D [] s = []"
| "whitelist_log D (op # ops) s =
     (case whitelist_step D op s of
        (Inl _, s') \<Rightarrow> whitelist_log D ops s'
      | (Inr _, s') \<Rightarrow> op # whitelist_log D ops s')"

context database
begin

lemma run_whitelist_log:
  "ok (database_whitelist s) \<Longrightarrow> whitelist_synced view s \<Longrightarrow>
   whitelist (in_memory_whitelist (run_whitelist D ops s)) =
     fold whitelist_effect (whitelist_log D ops s) (whitelist (in_memory_whitelist s))"
proof (induction ops arbitrary: s)
  case (Cons op ops)
  obtain r s' where step: "whitelist_step D op s = (r, s')"
    by fastforce
  then have "ok (database_whitelist s')" "whitelist_synced view s'"
    and "whitelist (in_memory_whitelist s') =
      (case r of Inr _ \<Rightarrow> whitelist_effect op (whitelist (in_memory_whitelist s))
               | Inl _ \<Rightarrow> whitelist (in_memory_whitelist s))"
    using whitelist_step_synced [OF Cons.prems, of op] by simp_all
  with Cons.IH [of s'] step show ?case
    by (cases r) (simp_all add: run_whitelist_def)
qed (simp add: run_whitelist_def)

end

text \<open>
  C15: With the SQLite driver, after any history of adding, removing and reloading that starts with
  memory and database in agreement, a torrent is authorized exactly when the tracker is not listed
  or the whitelist table has its row; and the table holds what the operations that reported success
  amount to, whatever statements failed in between.
\<close>
theorem whitelist_history:
  assumes "sqlite_engine H A sq_ok tables"
    and "sqlite_ok H sq_ok tables (database_whitelist s)"
    and "whitelist_synced (\<lambda>db. tables_view H (tables db)) s"
    and "s' = run_whitelist (Sqlite A H) ops s"
  shows "(authorize config (in_memory_whitelist s') ih = Inr () \<longleftrightarrow>
            \<not> listed config \<or> ih_to_string H ih \<in> set (wl_rows (tables (database_whitelist s')))) \<and>
         (ih_to_string H ih \<in> set (wl_rows (tables (database_whitelist s'))) \<longleftrightarrow>
            ih \<in> fold whitelist_effect (whitelist_log (Sqlite A H) ops s) (whitelist (in_memory_whitelist s)))"
proof -
  note D = sqlite_engine.driver_contract [OF assms(1)]
  have "whitelist (in_memory_whitelist s') = {ih. ih_to_string H ih \<in> set (wl_rows (tables (database_whitelist s')))}"
    using database.run_whitelist_synced [OF D assms(2,3), of ops]
    by (simp add: assms(4) whitelist_synced_def tables_view_def)
  then show ?thesis
    using database.run_whitelist_log [OF D assms(2,3), of ops]
    by (auto simp: assms(4) authorize_def is_listed_def InMemoryWhitelist_contains_def split: if_splits)
qed

definition sample_manager :: "sql_tables WhitelistManager" where
  "sample_manager = \<lparr>in_memory_whitelist = \<lparr>whitelist = {}\<rparr>, database_whitelist = tables_empty\<rparr>"

lemma sample_manager_ok:
  "sqlite_ok hex_info_hash (\<lambda>_. True) (\<lambda>t. t) (database_whitelist sample_manager) \<and>
   whitelist_synced (\<lambda>db. tables_view hex_info_hash db) sample_manager"
  by (simp add: sqlite_ok_def sample_manager_def tables_empty_ok whitelist_synced_def tables_empty_view)

theorem whitelist_history_witness:
  "let s' = run_whitelist (Sqlite mem_sqlite hex_info_hash)
              [AddTorrent (InfoHash [1]), AddTorrent (InfoHash [2]), RemoveTorrentWl (InfoHash [1]), LoadWhitelist]
              sample_manager
   in authorize (Core_default\<lparr>listed := True\<rparr>) (in_memory_whitelist s') (InfoHash [2]) = Inr () \<and>
      wl_rows (database_whitelist s') = [''02'']"
proof -
  let ?ops = "[AddTorrent (InfoHash [1]), AddTorrent (InfoHash [2]), RemoveTorrentWl (InfoHash [1]), LoadWhitelist]"
  have "wl_rows (database_whitelist (run_whitelist (Sqlite mem_sqlite hex_info_hash) ?ops sample_manager)) = [''02'']"
    by code_simp
  moreover have "ih_to_string hex_info_hash (InfoHash [2]) = ''02''"
    by code_simp
  ultimately show ?thesis
    using whitelist_history [OF mem.sqlite_engine_axioms sample_manager_ok [THEN conjunct1]
        sample_manager_ok [THEN conjunct2] refl, of "Core_default\<lparr>listed := True\<rparr>" ?ops "InfoHash [2]"]
    by (simp add: Let_def)
qed

section \<open>Keys over SQLite\<close>

text \<open>A key as the database gives it back: the moment of expiration loses its fraction of a second.\<close>

definition truncate_validity :: "PeerKey \<Rightarrow> PeerKey" where
  "truncate_validity pk = pk\<lparr>valid_until := map_option (\<lambda>t. from_secs (as_secs t)) (valid_until pk)\<rparr>"

lemma truncate_validity_eq:
  "pk_key pk = key \<Longrightarrow>
   truncate_validity pk = \<lparr>pk_key = key, valid_until = map_option from_secs (stored_validity pk)\<rparr>"
  by (cases pk) (simp add: truncate_validity_def stored_validity_def option.map_comp comp_def)

text \<open>
  C16: With the SQLite driver, after any history of adding, removing and reloading keys whose
  expirations are below \<open>2 ^ 63\<close> seconds, memory and database hold the same keys; and a tracker that is
  restarted and loads its keys has exactly the keys it had, each valid until the whole second below
  its former expiration.
\<close>
theorem keys_survive_restart:
  assumes "sqlite_engine H A sq_ok tables"
    and "sqlite_ok H sq_ok tables (db_key_repository s)"
    and "keys_synced (\<lambda>db. tables_view H (tables db)) s"
    and "\<forall>op \<in> set ops. op_storable sqlite_storable op"
    and "s' = run_keys (Sqlite A H) ops s"
    and "load_peer_keys_from_database (Sqlite A H) (s'\<lparr>in_memory_key_repository := \<lparr>keys = Map.empty\<rparr>\<rparr>) =
           (Inr (), restarted)"
  shows "keys_synced (\<lambda>db. tables_view H (tables db)) s' \<and>
         keys (in_memory_key_repository restarted) key =
           map_option truncate_validity (keys (in_memory_key_repository s') key)"
proof -
  note D = sqlite_engine.driver_contract [OF assms(1)]
  have run: "sqlite_ok H sq_ok tables (db_key_repository s')" "keys_synced (\<lambda>db. tables_view H (tables db)) s'"
    using database.run_keys_synced [OF D assms(2-4)] by (simp_all add: assms(5))
  have "v_keys (tables_view H (tables (db_key_repository s'))) key =
        map_option stored_validity (keys (in_memory_key_repository s') key)"
    using run(2) by (simp add: keys_synced_def)
  moreover have "keys (in_memory_key_repository restarted) key =
      map_option (\<lambda>sec. \<lparr>pk_key = key, valid_until = map_option from_secs sec\<rparr>)
        (v_keys (tables_view H (tables (db_key_repository s'))) key)"
    using database.load_peer_keys_effect(2) [OF D _ assms(6), of key] run(1) by simp
  moreover have "keys (in_memory_key_repository s') key = Some pk \<Longrightarrow> pk_key pk = key" for pk
    using run(2) by (simp add: keys_synced_def)
  ultimately show ?thesis
    using run(2) by (cases "keys (in_memory_key_repository s') key") (simp_all add: truncate_validity_eq)
qed

definition sample_handler :: "sql_tables KeysHandler" where
  "sample_handler = \<lparr>db_key_repository = tables_empty, in_memory_key_repository = \<lparr>keys = Map.empty\<rparr>\<rparr>"

lemma sample_handler_ok:
  "sqlite_ok hex_info_hash (\<lambda>_. True) (\<lambda>t. t) (db_key_repository sample_handler) \<and>
   keys_synced (\<lambda>db. tables_view hex_info_hash db) sample_handler"
  by (simp add: sqlite_ok_def sample_handler_def tables_empty_ok keys_synced_def tables_empty_view)

definition sample_add :: keys_op where
  "sample_add = AddKey (\<lambda>_. CHR ''x'') 1500000000 \<lparr>opt_key = Some (key_value sample_key), opt_seconds_valid = Some 60\<rparr>"

lemma sample_add_storable: "op_storable sqlite_storable sample_add"
proof -
  have "unat (as_secs (1500000000 + from_secs 60)) < 2 ^ 63"
    by (simp add: as_secs_def from_secs_def NANOS_PER_SEC_def)
  then show ?thesis
    by (simp add: sample_add_def sqlite_storable_def requested_validity_def)
qed

lemma sample_key_parses: "Key_from_str (key_value sample_key) = Inr sample_key"
  by code_simp

lemma sample_add_step:
  "keys_step (Sqlite mem_sqlite hex_info_hash) sample_add sample_handler =
   \<lparr>db_key_repository = tables_empty\<lparr>key_rows := [(key_value sample_key, Some 61)]\<rparr>,
    in_memory_key_repository =
      \<lparr>keys = [sample_key \<mapsto> \<lparr>pk_key = sample_key, valid_until = Some 61500000000\<rparr>]\<rparr>\<rparr>"
proof -
  have "now_add 1500000000 (from_secs 60) = Some 61500000000"
    by (simp add: now_add_def duration_checked_add_def from_secs_def NANOS_PER_SEC_def DURATION_MAX_def)
  moreover have "as_secs 61500000000 = 61"
    by (simp add: as_secs_def NANOS_PER_SEC_def)
  moreover have "sql_insert_key \<noteq> sql_upsert_torrent"
    by (simp add: sqlite_statements)
  ultimately show ?thesis
    by (simp add: sample_add_def add_peer_key_def sample_key_parses add_expiring_peer_key_def Let_def
        DatabaseKeyRepository_add_def Sqlite_def Sqlite_add_key_to_keys_def Sqlite_execute_def
        mem_sqlite_def mem_sqlite_execute_def sample_handler_def tables_empty_def t_insert_key_def
        map_database_error_def InMemoryKeyRepository_insert_def)
qed

theorem keys_survive_restart_witness:
  "let s' = run_keys (Sqlite mem_sqlite hex_info_hash) [sample_add] sample_handler;
       restarted = snd (load_peer_keys_from_database (Sqlite mem_sqlite hex_info_hash)
                          (s'\<lparr>in_memory_key_repository := \<lparr>keys = Map.empty\<rparr>\<rparr>))
   in valid_until (the (keys (in_memory_key_repository s') sample_key)) = Some 61500000000 \<and>
      keys (in_memory_key_repository restarted) sample_key =
        Some \<lparr>pk_key = sample_key, valid_until = Some 61000000000\<rparr>"
proof -
  let ?D = "Sqlite mem_sqlite hex_info_hash"
  let ?s' = "run_keys ?D [sample_add] sample_handler"
  have s': "?s' = keys_step ?D sample_add sample_handler"
    by (simp add: run_keys_def)
  let ?l = "load_peer_keys_from_database ?D (?s'\<lparr>in_memory_key_repository := \<lparr>keys = Map.empty\<rparr>\<rparr>)"
  have "fst ?l = Inr ()"
    unfolding s' sample_add_step
    by (simp add: load_peer_keys_from_database_def DatabaseKeyRepository_load_keys_def Sqlite_def
        Sqlite_load_keys_def Sqlite_query_def mem_sqlite_def mem_sqlite_query_def sqlite_statements
        mem_key_row_def key_row_def get_text_def get_opt_i64_def peer_key_of_def sample_key_parses)
  then have load: "?l = (Inr (), snd ?l)"
    by (metis prod.collapse)
  have "from_secs (as_secs 61500000000) = 61000000000"
    by (simp add: as_secs_def from_secs_def NANOS_PER_SEC_def)
  then show ?thesis
    using keys_survive_restart [OF mem.sqlite_engine_axioms sample_handler_ok [THEN conjunct1]
        sample_handler_ok [THEN conjunct2], of "[sample_add]", OF _ refl load, of sample_key]
    by (simp add: Let_def truncate_validity_def sample_add_storable s' sample_add_step)
qed

section \<open>Keys over MySQL\<close>



text \<open>
  C35: With the MySQL driver and a collation that does not tell two keys apart, removing one of them
  also deletes the row of the other, which stays in memory: it is accepted until the tracker
  restarts and is lost then.
\<close>
theorem mysql_remove_matches_collation:
  assumes "mysql_engine H A coll my_ok tables"
    and "my_ok (db_key_repository s)"
    and "coll (key_value other) (key_value key)" and "other \<noteq> key"
    and "keys (in_memory_key_repository s) other = Some pk"
    and "remove_peer_key (Mysql A H) key s = (Inr (), s')"
  shows "keys (in_memory_key_repository s') other = Some pk \<and>
         v_keys (tables_view H (tables (db_key_repository s'))) other = None"
proof -
  from Mysql_exec_drop_as [OF mysql_engine.exec_delete_key [OF assms(1,2), of "key_value key"] assms(2)]
  show ?thesis
  proof (cases rule: executes_as_cases)
    case (executed db')
    then have "s' = remove_in_memory_auth_key key (s\<lparr>db_key_repository := db'\<rparr>)"
      using assms(6)
      by (simp add: remove_peer_key_def DatabaseKeyRepository_remove_def Mysql_def Mysql_remove_key_from_keys_def)
    moreover have "map_of (key_rows (tables db')) (key_value other) = None"
      using assms(3) executed by (auto simp: t_delete_keys_like_def map_of_eq_None_iff)
    ultimately show ?thesis
      using assms(4,5)
      by (simp add: remove_in_memory_auth_key_def InMemoryKeyRepository_remove_def tables_view_def)
  qed (use assms(6) in \<open>simp add: remove_peer_key_def DatabaseKeyRepository_remove_def Mysql_def
        Mysql_remove_key_from_keys_def\<close>)
qed

definition sample_upper_key :: Key where
  "sample_upper_key = Key (replicate 32 CHR ''K'')"

definition sample_stored :: "sql_tables KeysHandler" where
  "sample_stored =
     \<lparr>db_key_repository = tables_empty\<lparr>key_rows := [(key_value sample_key, None)]\<rparr>,
      in_memory_key_repository = \<lparr>keys = [sample_key \<mapsto> \<lparr>pk_key = sample_key, valid_until = None\<rparr>]\<rparr>\<rparr>"

theorem mysql_remove_matches_collation_witness:
  "let s' = snd (remove_peer_key (Mysql (mem_mysql same_ignoring_case) hex_info_hash) sample_upper_key sample_stored)
   in keys (in_memory_key_repository s') sample_key = Some \<lparr>pk_key = sample_key, valid_until = None\<rparr> \<and>
      v_keys (tables_view hex_info_hash (db_key_repository s')) sample_key = None"
proof -
  let ?rm = "remove_peer_key (Mysql (mem_mysql same_ignoring_case) hex_info_hash) sample_upper_key sample_stored"
  have "fst ?rm = Inr ()"
    by (simp add: remove_peer_key_def DatabaseKeyRepository_remove_def Mysql_def Mysql_remove_key_from_keys_def
        Mysql_exec_drop_def mem_mysql_def mem_mysql_exec_def mysql_statements)
  then have rm: "?rm = (Inr (), snd ?rm)"
    by (metis prod.collapse)
  have "same_ignoring_case (key_value sample_key) (key_value sample_upper_key)" "sample_key \<noteq> sample_upper_key"
    by code_simp+
  from mysql_remove_matches_collation [OF mem_ci.mysql_engine_axioms TrueI this _ rm] show ?thesis
    by (simp add: Let_def sample_stored_def)
qed



end
