(* ===== verification/Repository_DashMap.thy ===== *)
theory Repository_DashMap
  imports Repository_SkipMap
begin

text \<open>
  The repository over the concurrent hash map of the \<open>dashmap\<close> crate
  (\<open>dash_map_mutex_std.rs\<close>). The hash map is a parameter with its documented behaviour as the
  locale \<open>dash_map\<close>: it iterates over its entries in some order, so the repository satisfies the
  contract without the order of pages.

  The theory ends with the properties of the repositories.
\<close>

section \<open>The hash map (parameter)\<close>

record 'm dash_map_api =
  dm_new :: 'm
  dm_get :: "'m \<Rightarrow> InfoHash \<Rightarrow> handle option"
  dm_insert :: "InfoHash \<Rightarrow> handle \<Rightarrow> 'm \<Rightarrow> 'm"
  dm_contains_key :: "'m \<Rightarrow> InfoHash \<Rightarrow> bool"
  dm_remove :: "InfoHash \<Rightarrow> 'm \<Rightarrow> handle option \<times> 'm"
  dm_iter :: "'m \<Rightarrow> (InfoHash \<times> handle) list"
  dm_retain :: "(InfoHash \<Rightarrow> handle \<Rightarrow> bool) \<Rightarrow> 'm \<Rightarrow> 'm"

locale dash_map =
  fixes api :: "'m dash_map_api" and dm_ok :: "'m \<Rightarrow> bool"
  assumes new: "dm_ok (dm_new api)" "dm_get api (dm_new api) k = None"
    and insert: "dm_ok m \<Longrightarrow> dm_ok (dm_insert api k r m)"
      "dm_ok m \<Longrightarrow> dm_get api (dm_insert api k r m) = (dm_get api m)(k \<mapsto> r)"
    and contains_key: "dm_ok m \<Longrightarrow> dm_contains_key api m k \<longleftrightarrow> dm_get api m k \<noteq> None"
    and remove: "dm_ok m \<Longrightarrow> dm_ok (snd (dm_remove api k m))"
      "dm_ok m \<Longrightarrow> fst (dm_remove api k m) = dm_get api m k"
      "dm_ok m \<Longrightarrow> dm_get api (snd (dm_remove api k m)) = (dm_get api m)(k := None)"
    and retain: "dm_ok m \<Longrightarrow> dm_ok (dm_retain api P m)"
      "dm_ok m \<Longrightarrow> dm_get api (dm_retain api P m) k =
        (case dm_get api m k of None \<Rightarrow> None | Some r \<Rightarrow> if P k r then Some r else None)"
    and iter: "dm_ok m \<Longrightarrow> distinct (map fst (dm_iter api m))"
      "dm_ok m \<Longrightarrow> set (dm_iter api m) = {(k, r). dm_get api m k = Some r}"

text \<open>An ordered map, iterated backwards, as hash map.\<close>

definition bt_dash_map :: "(InfoHash, handle) btree_map dash_map_api" where
  "bt_dash_map =
     \<lparr>dm_new = bt_empty, dm_get = bt_get, dm_insert = bt_put, dm_contains_key = bt_contains_key,
      dm_remove = bt_remove, dm_iter = rev, dm_retain = bt_retain\<rparr>"

interpretation bt_dash: dash_map bt_dash_map bt_inv
proof
  fix m :: "(InfoHash, handle) btree_map" assume inv: "bt_inv m"
  show "distinct (map fst (dm_iter bt_dash_map m))"
    using inv by (simp add: bt_dash_map_def bt_inv_distinct rev_map [symmetric])
  show "set (dm_iter bt_dash_map m) = {(k, r). dm_get bt_dash_map m k = Some r}"
    using inv by (auto simp: bt_dash_map_def bt_get_mem)
qed (auto simp: bt_dash_map_def bt_contains_key_def bt_remove_def bt_get_put bt_get_retain tracker_inv)

section \<open>TorrentsDashMapMutexStd (dash\_map\_mutex\_std.rs)\<close>

definition TorrentsDashMapMutexStd_default :: "'m dash_map_api \<Rightarrow> 'm SharedTorrents" where
  "TorrentsDashMapMutexStd_default api = \<lparr>torrents = dm_new api, heap = heap_empty\<rparr>"

definition TorrentsDashMapMutexStd_upsert_peer :: "'m dash_map_api \<Rightarrow> InfoHash \<Rightarrow> Peer \<Rightarrow> 'm SharedTorrents \<Rightarrow> 'm SharedTorrents" where
  "TorrentsDashMapMutexStd_upsert_peer api info_hash p s =
     (case dm_get api (torrents s) info_hash of
        Some entry \<Rightarrow> s\<lparr>heap := snd (EntryMutexStd_upsert_peer p entry (heap s))\<rparr>
      | None \<Rightarrow>
          (let (new, h) = arc_new Torrent_default (heap s);
               s' = s\<lparr>torrents := dm_insert api info_hash new (torrents s), heap := h\<rparr>
           in case dm_get api (torrents s') info_hash of
                Some entry \<Rightarrow> s'\<lparr>heap := snd (EntryMutexStd_upsert_peer p entry (heap s'))\<rparr>
              | None \<Rightarrow> s'))"

definition TorrentsDashMapMutexStd_get_swarm_metadata :: "'m dash_map_api \<Rightarrow> InfoHash \<Rightarrow> 'm SharedTorrents \<Rightarrow> SwarmMetadata option" where
  "TorrentsDashMapMutexStd_get_swarm_metadata api info_hash s =
     map_option (\<lambda>entry. EntryMutexStd_get_swarm_metadata entry (heap s)) (dm_get api (torrents s) info_hash)"

definition TorrentsDashMapMutexStd_get :: "'m dash_map_api \<Rightarrow> InfoHash \<Rightarrow> 'm SharedTorrents \<Rightarrow> handle option" where
  "TorrentsDashMapMutexStd_get api key s = dm_get api (torrents s) key"

definition TorrentsDashMapMutexStd_get_metrics :: "'m dash_map_api \<Rightarrow> 'm SharedTorrents \<Rightarrow> TorrentsMetrics" where
  "TorrentsDashMapMutexStd_get_metrics api s =
     fold (\<lambda>entry. metrics_step (with_lock get_swarm_metadata (snd entry) (heap s)))
       (dm_iter api (torrents s)) TorrentsMetrics_default"

definition TorrentsDashMapMutexStd_get_paginated ::
  "'m dash_map_api \<Rightarrow> Pagination option \<Rightarrow> 'm SharedTorrents \<Rightarrow> (InfoHash \<times> handle) list" where
  "TorrentsDashMapMutexStd_get_paginated api pagination s = paginate pagination (dm_iter api (torrents s))"

definition TorrentsDashMapMutexStd_import_persistent ::
  "'m dash_map_api \<Rightarrow> PersistentTorrents \<Rightarrow> 'm SharedTorrents \<Rightarrow> 'm SharedTorrents" where
  "TorrentsDashMapMutexStd_import_persistent api persistent_torrents s =
     fold (\<lambda>(info_hash, n) s.
             if dm_contains_key api (torrents s) info_hash then s
             else
               (let (entry, h) = arc_new \<lparr>swarm = PeerList_default, t_downloaded = n\<rparr> (heap s)
                in s\<lparr>torrents := dm_insert api info_hash entry (torrents s), heap := h\<rparr>))
       persistent_torrents s"

definition TorrentsDashMapMutexStd_remove :: "'m dash_map_api \<Rightarrow> InfoHash \<Rightarrow> 'm SharedTorrents \<Rightarrow> handle option \<times> 'm SharedTorrents" where
  "TorrentsDashMapMutexStd_remove api key s =
     (let (entry, m) = dm_remove api key (torrents s) in (entry, s\<lparr>torrents := m\<rparr>))"

definition TorrentsDashMapMutexStd_remove_inactive_peers ::
  "'m dash_map_api \<Rightarrow> DurationSinceUnixEpoch \<Rightarrow> 'm SharedTorrents \<Rightarrow> 'm SharedTorrents" where
  "TorrentsDashMapMutexStd_remove_inactive_peers api current_cutoff s =
     s\<lparr>heap := fold (\<lambda>entry. EntryMutexStd_remove_inactive_peers current_cutoff (snd entry))
                 (dm_iter api (torrents s)) (heap s)\<rparr>"

definition TorrentsDashMapMutexStd_remove_peerless_torrents ::
  "'m dash_map_api \<Rightarrow> TrackerPolicy \<Rightarrow> 'm SharedTorrents \<Rightarrow> 'm SharedTorrents" where
  "TorrentsDashMapMutexStd_remove_peerless_torrents api pol s =
     s\<lparr>torrents := dm_retain api (\<lambda>_ entry. EntryMutexStd_meets_retaining_policy pol entry (heap s)) (torrents s)\<rparr>"

definition TorrentsDashMapMutexStd :: "'m dash_map_api \<Rightarrow> 'm SharedTorrents Repository" where
  "TorrentsDashMapMutexStd api =
     \<lparr>repo_default = TorrentsDashMapMutexStd_default api,
      repo_get = (\<lambda>key s. map_option (cells (heap s)) (TorrentsDashMapMutexStd_get api key s)),
      repo_get_metrics = TorrentsDashMapMutexStd_get_metrics api,
      repo_get_paginated = (\<lambda>pg s. map (\<lambda>(a, b). (a, cells (heap s) b)) (TorrentsDashMapMutexStd_get_paginated api pg s)),
      repo_import_persistent = TorrentsDashMapMutexStd_import_persistent api,
      repo_remove = (\<lambda>key s. apfst (map_option (cells (heap s))) (TorrentsDashMapMutexStd_remove api key s)),
      repo_remove_inactive_peers = TorrentsDashMapMutexStd_remove_inactive_peers api,
      repo_remove_peerless_torrents = TorrentsDashMapMutexStd_remove_peerless_torrents api,
      repo_upsert_peer = TorrentsDashMapMutexStd_upsert_peer api,
      repo_get_swarm_metadata = TorrentsDashMapMutexStd_get_swarm_metadata api\<rparr>"

section \<open>The contract holds\<close>

definition dash_ok :: "'m dash_map_api \<Rightarrow> ('m \<Rightarrow> bool) \<Rightarrow> 'm SharedTorrents \<Rightarrow> bool" where
  "dash_ok api dm_ok s = (dm_ok (torrents s) \<and> handles_ok (dm_get api (torrents s)) (heap s))"

definition dash_view :: "'m dash_map_api \<Rightarrow> 'm SharedTorrents \<Rightarrow> torrents_view" where
  "dash_view api s = heap_view (dm_get api (torrents s)) (heap s)"

context dash_map
begin

lemma dash_initial: "dash_ok api dm_ok (TorrentsDashMapMutexStd_default api)" "dash_view api (TorrentsDashMapMutexStd_default api) = (\<lambda>_. None)"
proof -
  have "dm_get api (dm_new api) = (\<lambda>_. None)"
    using new(2) by (simp add: fun_eq_iff)
  then show "dash_ok api dm_ok (TorrentsDashMapMutexStd_default api)" "dash_view api (TorrentsDashMapMutexStd_default api) = (\<lambda>_. None)"
    by (simp_all add: TorrentsDashMapMutexStd_default_def dash_ok_def dash_view_def new(1))
qed

lemma dash_upsert:
  assumes "dash_ok api dm_ok s"
  shows "dash_ok api dm_ok (TorrentsDashMapMutexStd_upsert_peer api ih p s) \<and>
         dash_view api (TorrentsDashMapMutexStd_upsert_peer api ih p s) = spec_upsert ih p (dash_view api s)"
proof -
  let ?ix = "dm_get api (torrents s)"
  have dm: "dm_ok (torrents s)" and ok: "handles_ok ?ix (heap s)"
    using assms by (simp_all add: dash_ok_def)
  show ?thesis
  proof (cases "?ix ih")
    case None
    let ?n = "fst (arc_new Torrent_default (heap s))" and ?h = "snd (arc_new Torrent_default (heap s))"
    have s': "TorrentsDashMapMutexStd_upsert_peer api ih p s =
              s\<lparr>torrents := dm_insert api ih ?n (torrents s), heap := snd (with_lock_mut (upsert_peer p) ?n ?h)\<rparr>"
      by (simp add: TorrentsDashMapMutexStd_upsert_peer_def lock_defs None insert(2) dm case_prod_unfold Let_def)
    have ok': "handles_ok (?ix(ih \<mapsto> ?n)) ?h"
      using ok by (rule handles_ok_insert)
    show ?thesis
      using dm None heap_view_update [OF ok', of ih ?n "upsert_peer p"]
      by (simp add: s' dash_ok_def dash_view_def insert handles_ok_update [OF ok']
          heap_view_insert [OF ok] spec_upsert_def entry_or_default_def heap_view_lookup)
         (simp add: arc_new_def)
  next
    case (Some r)
    then have "TorrentsDashMapMutexStd_upsert_peer api ih p s = s\<lparr>heap := snd (with_lock_mut (upsert_peer p) r (heap s))\<rparr>"
      by (simp add: TorrentsDashMapMutexStd_upsert_peer_def lock_defs)
    then show ?thesis
      using dm Some
      by (simp add: handles_ok_update [OF ok] heap_view_update [OF ok Some] dash_ok_def
          dash_view_def spec_upsert_def entry_or_default_def heap_view_lookup)
  qed
qed

lemma dash_import:
  assumes "dash_ok api dm_ok s"
  shows "dash_ok api dm_ok (TorrentsDashMapMutexStd_import_persistent api pts s) \<and>
         dash_view api (TorrentsDashMapMutexStd_import_persistent api pts s) = spec_import pts (dash_view api s)"
  unfolding TorrentsDashMapMutexStd_import_persistent_def
  using assms
  by (rule import_loop [where ok = "dash_ok api dm_ok" and view = "dash_view api"])
     (auto simp: import_one_def dash_ok_def dash_view_def contains_key insert
       handles_ok_insert heap_view_insert heap_view_lookup case_prod_unfold Let_def)

lemma dash_inactive:
  assumes "dash_ok api dm_ok s"
  shows "dash_ok api dm_ok (TorrentsDashMapMutexStd_remove_inactive_peers api cutoff s)"
    and "dash_view api (TorrentsDashMapMutexStd_remove_inactive_peers api cutoff s) = spec_remove_inactive cutoff (dash_view api s)"
proof -
  let ?h = "fold (\<lambda>r h. snd (with_lock_mut (\<lambda>t. ((), remove_inactive_peers cutoff t)) r h))
              (map snd (dm_iter api (torrents s))) (heap s)"
  have eq: "TorrentsDashMapMutexStd_remove_inactive_peers api cutoff s = s\<lparr>heap := ?h\<rparr>"
    by (simp add: TorrentsDashMapMutexStd_remove_inactive_peers_def lock_loop fold_map comp_def)
  show "dash_ok api dm_ok (TorrentsDashMapMutexStd_remove_inactive_peers api cutoff s)"
    and "dash_view api (TorrentsDashMapMutexStd_remove_inactive_peers api cutoff s) = spec_remove_inactive cutoff (dash_view api s)"
    unfolding eq using assms heap_view_loop [OF _ iter, of "torrents s" "heap s" cutoff]
    by (simp_all add: dash_ok_def dash_view_def handles_ok_loop)
qed

lemma dash_peerless:
  assumes "dash_ok api dm_ok s"
  shows "dash_ok api dm_ok (TorrentsDashMapMutexStd_remove_peerless_torrents api pol s)"
    and "dash_view api (TorrentsDashMapMutexStd_remove_peerless_torrents api pol s) = spec_remove_peerless pol (dash_view api s)"
proof -
  let ?s = "TorrentsDashMapMutexStd_remove_peerless_torrents api pol s" and ?ix = "dm_get api (torrents s)"
  have dm: "dm_ok (torrents s)" and ok: "handles_ok ?ix (heap s)"
    using assms by (simp_all add: dash_ok_def)
  have r: "heap ?s = heap s" "dm_ok (torrents ?s)"
    "\<And>k. dm_get api (torrents ?s) k =
          (case ?ix k of None \<Rightarrow> None
           | Some r \<Rightarrow> if meets_retaining_policy pol (cells (heap s) r) then Some r else None)"
    using dm by (simp_all add: TorrentsDashMapMutexStd_remove_peerless_torrents_def retain lock_defs with_lock_def)
  show "dash_ok api dm_ok ?s" and "dash_view api ?s = spec_remove_peerless pol (dash_view api s)"
    using handles_ok_prune [OF ok r(3)] heap_view_prune [OF r(3)] r(1, 2)
    by (simp_all add: dash_ok_def dash_view_def)
qed

lemma dash_remove:
  assumes "dash_ok api dm_ok s"
  shows "dash_ok api dm_ok (snd (TorrentsDashMapMutexStd_remove api ih s))"
    and "dash_view api (snd (TorrentsDashMapMutexStd_remove api ih s)) = (dash_view api s)(ih := None)"
    and "map_option (cells (heap s)) (fst (TorrentsDashMapMutexStd_remove api ih s)) = dash_view api s ih"
  using assms
  by (simp_all add: dash_ok_def dash_view_def TorrentsDashMapMutexStd_remove_def remove case_prod_unfold
      handles_ok_delete heap_view_delete heap_view_lookup)

lemma dash_reads:
  assumes "dash_ok api dm_ok s"
  shows "TorrentsDashMapMutexStd_get_metrics api s = spec_metrics (dash_view api s)"
    and "map_option (cells (heap s)) (TorrentsDashMapMutexStd_get api ih s) = dash_view api s ih"
    and "TorrentsDashMapMutexStd_get_swarm_metadata api ih s = map_option get_swarm_metadata (dash_view api s ih)"
proof -
  have dm: "dm_ok (torrents s)"
    using assms by (simp add: dash_ok_def)
  show "TorrentsDashMapMutexStd_get_metrics api s = spec_metrics (dash_view api s)"
    using heap_metrics_loop [OF iter [OF dm]]
    by (simp add: TorrentsDashMapMutexStd_get_metrics_def fold_map comp_def dash_view_def)
  show "map_option (cells (heap s)) (TorrentsDashMapMutexStd_get api ih s) = dash_view api s ih"
    by (simp add: TorrentsDashMapMutexStd_get_def dash_view_def heap_view_lookup)
  show "TorrentsDashMapMutexStd_get_swarm_metadata api ih s = map_option get_swarm_metadata (dash_view api s ih)"
    by (simp add: TorrentsDashMapMutexStd_get_swarm_metadata_def lock_defs with_lock_def dash_view_def heap_view_lookup
        option.map_comp comp_def)
qed

lemma dash_entries:
  assumes "dash_ok api dm_ok s"
  shows "\<exists>es. distinct (map fst es) \<and> set es = {(k, t). dash_view api s k = Some t} \<and>
              (\<forall>pg. map (\<lambda>(a, b). (a, cells (heap s) b)) (TorrentsDashMapMutexStd_get_paginated api pg s) = paginate pg es)"
proof (intro exI conjI)
  let ?es = "map (\<lambda>(a, b). (a, cells (heap s) b)) (dm_iter api (torrents s))"
  have dm: "dm_ok (torrents s)"
    using assms by (simp add: dash_ok_def)
  show "distinct (map fst ?es)"
    using iter(1) [OF dm] by (simp add: comp_def case_prod_unfold)
  show "set ?es = {(k, t). dash_view api s k = Some t}"
    using iter(2) [OF dm] by (auto simp: dash_view_def heap_view_def image_iff)
  show "\<forall>pg. map (\<lambda>(a, b). (a, cells (heap s) b)) (TorrentsDashMapMutexStd_get_paginated api pg s) = paginate pg ?es"
    by (simp add: TorrentsDashMapMutexStd_get_paginated_def paginate_map)
qed

lemmas dash_repository_laws =
  dash_initial dash_upsert dash_import dash_inactive dash_peerless dash_remove dash_reads dash_entries

end

sublocale dash_map \<subseteq> mutex_std: torrent_repository "TorrentsDashMapMutexStd api" "dash_ok api dm_ok" "dash_view api"
proof
  fix s op assume ok: "dash_ok api dm_ok s"
  then show "dash_ok api dm_ok (repo_step (TorrentsDashMapMutexStd api) op s)"
    by (cases op) (simp_all add: TorrentsDashMapMutexStd_def dash_repository_laws)
  from ok show "dash_view api (repo_step (TorrentsDashMapMutexStd api) op s) = spec_step op (dash_view api s)"
    by (cases op) (simp_all add: TorrentsDashMapMutexStd_def dash_repository_laws)
qed (simp_all add: TorrentsDashMapMutexStd_def dash_repository_laws)

context dash_map
begin

lemma mutex_std_contract: "torrent_repository (TorrentsDashMapMutexStd api) (dash_ok api dm_ok) (dash_view api)"
  by (rule mutex_std.torrent_repository_axioms)

end

end
