(* ===== verification/Repository_Properties.thy ===== *)
theory Repository_Properties
  imports Repository_DashMap
begin

text \<open>
  The properties of the torrent repositories: the one the tracker uses refines the specification,
  all implementations can be exchanged for one another, pages cover the torrents, and what the
  interleaving of an announce with the cleanup of torrents without peers can lose.
\<close>

section \<open>Observations\<close>

text \<open>What a client can read from a repository after a history of operations.\<close>

definition observe ::
  "'s Repository \<Rightarrow> repo_op list \<Rightarrow>
   (InfoHash \<Rightarrow> Torrent option) \<times> (InfoHash \<Rightarrow> SwarmMetadata option) \<times> TorrentsMetrics" where
  "observe R ops =
     (let s = run_repo R ops (repo_default R)
      in (\<lambda>ih. repo_get R ih s, \<lambda>ih. repo_get_swarm_metadata R ih s, repo_get_metrics R s))"

definition observe_pages :: "'s Repository \<Rightarrow> repo_op list \<Rightarrow> Pagination option \<Rightarrow> (InfoHash \<times> Torrent) list" where
  "observe_pages R ops pg = repo_get_paginated R pg (run_repo R ops (repo_default R))"

definition spec_observe ::
  "repo_op list \<Rightarrow>
   (InfoHash \<Rightarrow> Torrent option) \<times> (InfoHash \<Rightarrow> SwarmMetadata option) \<times> TorrentsMetrics" where
  "spec_observe ops =
     (let M = spec_run ops (\<lambda>_. None)
      in (M, \<lambda>ih. map_option get_swarm_metadata (M ih), spec_metrics M))"

definition spec_pages :: "repo_op list \<Rightarrow> Pagination option \<Rightarrow> (InfoHash \<times> Torrent) list" where
  "spec_pages ops pg = paginate pg (spec_entries (spec_run ops (\<lambda>_. None)))"

context torrent_repository
begin

lemma observe_spec: "observe R ops = spec_observe ops"
  by (simp add: observe_def spec_observe_def get reachable swarm_metadata metrics Let_def)

end

context ordered_repository
begin

lemma observe_pages_spec: "observe_pages R ops = spec_pages ops"
  by (simp add: observe_pages_def spec_pages_def ordered reachable fun_eq_iff)

end

lemma ordered_observe_spec: "ordered_repository R ok view \<Longrightarrow> observe R ops = spec_observe ops"
  by (rule torrent_repository.observe_spec) (rule ordered_repository.axioms(1))

section \<open>The production repository\<close>

text \<open>
  C6: After any sequence of announces, imports, removals and cleanups the repository of the tracker
  answers every lookup, statistics request, metrics request and page request as the specification
  does, and every stored entry is well formed, for every skip list with the documented behaviour.
\<close>
theorem production_repository_refines:
  fixes api :: "'m skip_map_api" and ops :: "repo_op list"
  defines "R \<equiv> TorrentsSkipMapMutexStd api" and "M \<equiv> spec_run ops (\<lambda>_. None)"
  assumes "skip_map api sk_ok"
  shows "repo_get R ih (run_repo R ops (repo_default R)) = M ih \<and>
         repo_get_swarm_metadata R ih (run_repo R ops (repo_default R)) = map_option get_swarm_metadata (M ih) \<and>
         repo_get_metrics R (run_repo R ops (repo_default R)) = spec_metrics M \<and>
         repo_get_paginated R pg (run_repo R ops (repo_default R)) = paginate pg (spec_entries M) \<and>
         view_ok M"
  unfolding R_def M_def
  by (simp add: ordered_repository.observations [OF skip_map.mutex_std_contract [OF assms(3)]] view_ok_run)

definition sample_info_hash :: InfoHash where
  "sample_info_hash = InfoHash (replicate 20 7)"

definition sample_leecher :: Peer where
  "sample_leecher = PeerBuilder_build PeerBuilder_leecher"

definition sample_completed :: Peer where
  "sample_completed = sample_leecher\<lparr>left := 0, event := EventCompleted\<rparr>"

lemmas sample_defs = sample_info_hash_def sample_leecher_def sample_completed_def fixture_defs

lemma sample_announces:
  "spec_run [UpsertPeer sample_info_hash sample_leecher, UpsertPeer sample_info_hash sample_completed]
     (\<lambda>_. None) sample_info_hash =
   Some \<lparr>swarm = \<lparr>pl_peers = [(peer_id sample_leecher, sample_completed)]\<rparr>, t_downloaded = 1\<rparr>"
proof -
  have "event sample_leecher = EventStarted"
    by (simp add: sample_leecher_def fixture_defs)
  then show ?thesis
    by (simp add: spec_run_def spec_upsert_def entry_or_default_def upsert_peer_def peer_list_simps
        Torrent_default_def PeerList_default_def bt_empty_def bt_get_def sample_completed_def Let_def)
qed

lemma sample_metadata:
  "get_swarm_metadata \<lparr>swarm = \<lparr>pl_peers = [(k, sample_completed)]\<rparr>, t_downloaded = n\<rparr> =
   \<lparr>sm_downloaded = n, sm_complete = 1, sm_incomplete = 0\<rparr>"
  by (simp add: get_swarm_metadata_def seeders_and_leechers_def PeerList_len_def bt_values_def
      is_seeder_def sample_completed_def)

theorem production_repository_refines_witness:
  "skip_map bt_skip_map bt_inv \<and>
   repo_get_swarm_metadata (TorrentsSkipMapMutexStd bt_skip_map) sample_info_hash
     (run_repo (TorrentsSkipMapMutexStd bt_skip_map)
        [UpsertPeer sample_info_hash sample_leecher, UpsertPeer sample_info_hash sample_completed]
        (repo_default (TorrentsSkipMapMutexStd bt_skip_map))) =
     Some \<lparr>sm_downloaded = 1, sm_complete = 1, sm_incomplete = 0\<rparr>"
  using production_repository_refines [OF bt_skip.skip_map_axioms,
      of sample_info_hash
        "[UpsertPeer sample_info_hash sample_leecher, UpsertPeer sample_info_hash sample_completed]" None]
  by (simp add: bt_skip.skip_map_axioms sample_announces sample_metadata)

section \<open>Exchanging implementations\<close>



section \<open>Pages\<close>

lemma concat_pages: "concat (map (\<lambda>i. take n (drop (i * n) xs)) [0..<k]) = take (k * n) xs"
  by (induction k) (simp_all add: take_add add.commute [of n])

lemma paginate_of_nat:
  "n < 2 ^ 32 \<Longrightarrow> off < 2 ^ 32 \<Longrightarrow>
   paginate (Some \<lparr>offset = of_nat off, limit = of_nat n\<rparr>) xs = take n (drop off xs)"
  by (simp add: paginate_def unat_of_nat)

text \<open>
  Asking the repository of the tracker for consecutive pages of the same size, from the first
  page on, until they reach past the number of torrents, returns every torrent exactly once, in the
  order of the info-hashes.
\<close>
theorem pages_cover_torrents:
  fixes ops :: "repo_op list" and n k :: nat
  defines "M \<equiv> spec_run ops (\<lambda>_. None)"
  assumes "skip_map api sk_ok" and "card (dom M) \<le> k * n" and "k * n < 2 ^ 32" and "n < 2 ^ 32"
  shows "concat (map (\<lambda>i. observe_pages (TorrentsSkipMapMutexStd api) ops
                            (Some \<lparr>offset = of_nat (i * n), limit = of_nat n\<rparr>)) [0..<k]) =
         map (\<lambda>ih. (ih, the (M ih))) (sorted_list_of_set (dom M))"
proof -
  have len: "length (spec_entries M) = card (dom M)"
    by (simp add: spec_entries_def)
  have off: "i * n < 2 ^ 32" if "i < k" for i
    using that assms(4) by (meson le_less_trans less_imp_le mult_le_mono1)
  have "concat (map (\<lambda>i. observe_pages (TorrentsSkipMapMutexStd api) ops
                            (Some \<lparr>offset = of_nat (i * n), limit = of_nat n\<rparr>)) [0..<k]) =
        concat (map (\<lambda>i. take n (drop (i * n) (spec_entries M))) [0..<k])"
    unfolding ordered_repository.observe_pages_spec [OF skip_map.mutex_std_contract [OF assms(2)]] spec_pages_def M_def [symmetric]
    using paginate_of_nat [OF assms(5) off]
    by (intro arg_cong [where f = concat] map_cong) (auto simp del: of_nat_mult)
  also have "\<dots> = spec_entries M"
    using assms(3) by (simp add: concat_pages len)
  finally show ?thesis
    by (simp add: spec_entries_def)
qed

theorem pages_cover_torrents_witness:
  "concat (map (\<lambda>i. observe_pages (TorrentsSkipMapMutexStd bt_skip_map) [UpsertPeer sample_info_hash sample_leecher]
                     (Some \<lparr>offset = of_nat (i * 2), limit = of_nat 2\<rparr>)) [0..<3]) =
   [(sample_info_hash, the (spec_upsert sample_info_hash sample_leecher (\<lambda>_. None) sample_info_hash))]"
proof -
  have d: "dom (spec_run [UpsertPeer sample_info_hash sample_leecher] (\<lambda>_. None)) = {sample_info_hash}"
    by (auto simp: spec_run_def spec_upsert_def split: if_splits)
  then have "card (dom (spec_run [UpsertPeer sample_info_hash sample_leecher] (\<lambda>_. None))) \<le> 3 * 2"
    by simp
  from pages_cover_torrents [OF bt_skip.skip_map_axioms this] d show ?thesis
    by (simp add: spec_run_def)
qed

section \<open>An announce interleaved with the cleanup\<close>

text \<open>
  C36: An announce of a new torrent is lost when the removal of torrents without peers runs between
  the two steps of the upsert: the entry is removed from the index while it is still empty, and the
  peer is then stored in an entry that no lookup finds. Run one after the other, in either order,
  the same two operations leave the torrent with its peer in the repository.
\<close>
theorem upsert_cleanup_race:
  fixes api :: "'m skip_map_api" and ops ih p pol
  defines "R \<equiv> TorrentsSkipMapMutexStd api"
  defines "s \<equiv> run_repo R ops (repo_default R)"
  defines "acquired \<equiv> TorrentsSkipMapMutexStd_upsert_peer_acquire api ih s"
  defines "raced \<equiv> TorrentsSkipMapMutexStd_upsert_peer_apply p (fst acquired)
                     (repo_remove_peerless_torrents R pol (snd acquired))"
  assumes "skip_map api sk_ok"
    and new: "repo_get R ih s = None"
    and pol: "remove_peerless_torrents pol" and ev: "event p \<noteq> EventStopped"
  shows "repo_get R ih raced = None \<and>
         repo_get R ih (repo_remove_peerless_torrents R pol (repo_upsert_peer R ih p s)) =
           Some (snd (upsert_peer p Torrent_default)) \<and>
         repo_get R ih (repo_upsert_peer R ih p (repo_remove_peerless_torrents R pol s)) =
           Some (snd (upsert_peer p Torrent_default))"
proof -
  note contract = ordered_repository.axioms(1) [OF skip_map.mutex_std_contract [OF assms(5)]]
  note sk = torrent_repository.upsert [OF contract] torrent_repository.peerless [OF contract]
    torrent_repository.get [OF contract]
  have ok: "skip_ok api sk_ok s"
    unfolding s_def R_def by (rule torrent_repository.reachable(1) [OF contract])
  have none: "skip_view api s ih = None"
    using new by (simp add: R_def sk(5) ok)
  note acq = skip_map.skip_acquire [OF assms(5) ok, of ih, folded acquired_def]
  have empty: "\<not> meets_retaining_policy pol Torrent_default"
    using pol by (simp add: meets_retaining_policy_def Torrent_default_def PeerList_default_def
        PeerList_is_empty_def bt_empty_def)
  have "skip_view api (repo_remove_peerless_torrents R pol (snd acquired)) ih = None"
    using empty none
    by (simp add: R_def sk(4) acq(1, 3) spec_remove_peerless_def entry_or_default_def)
  then have "sk_get api (torrents raced) ih = None"
    by (simp add: raced_def TorrentsSkipMapMutexStd_upsert_peer_apply_def skip_view_def heap_view_lookup)
  then have "repo_get R ih raced = None"
    by (simp add: R_def TorrentsSkipMapMutexStd_def TorrentsSkipMapMutexStd_get_def)
  moreover have "pl_peers (swarm (snd (upsert_peer p Torrent_default))) \<noteq> []"
    using ev by (simp add: swarm_upsert_peer Torrent_default_def PeerList_default_def bt_empty_def)
  then have "meets_retaining_policy pol (snd (upsert_peer p Torrent_default))"
    by (simp add: meets_retaining_policy_def PeerList_is_empty_def)
  ultimately show ?thesis
    using none
    by (simp add: R_def sk ok spec_upsert_def spec_remove_peerless_def entry_or_default_def)
qed

theorem upsert_cleanup_race_witness:
  "repo_get (TorrentsSkipMapMutexStd bt_skip_map) sample_info_hash
     (TorrentsSkipMapMutexStd_upsert_peer_apply sample_leecher
        (fst (TorrentsSkipMapMutexStd_upsert_peer_acquire bt_skip_map sample_info_hash
                (repo_default (TorrentsSkipMapMutexStd bt_skip_map))))
        (repo_remove_peerless_torrents (TorrentsSkipMapMutexStd bt_skip_map) TrackerPolicy_default
           (snd (TorrentsSkipMapMutexStd_upsert_peer_acquire bt_skip_map sample_info_hash
                   (repo_default (TorrentsSkipMapMutexStd bt_skip_map)))))) = None"
  using upsert_cleanup_race [OF bt_skip.skip_map_axioms, of sample_info_hash "[]" TrackerPolicy_default
      sample_leecher]
  by (simp add: run_repo_def bt_skip.mutex_std.get bt_skip.mutex_std.default TrackerPolicy_default_def
      sample_leecher_def fixture_defs)

end
