(* ===== verification/Tracker_Properties.thy ===== *)
theory Tracker_Properties
  imports Tracker_Spec Persistence_Properties Repository_Properties
begin

text \<open>
  The properties of the tracker as it runs: the production repository over a skip list and the
  SQLite driver.
\<close>

interpretation mem_tracker: tracker "TorrentsSkipMapMutexStd bt_skip_map" "skip_ok bt_skip_map bt_inv"
  "skip_view bt_skip_map" "Sqlite mem_sqlite hex_info_hash" "sqlite_ok hex_info_hash (\<lambda>_. True) (\<lambda>t. t)"
  "\<lambda>t. tables_view hex_info_hash t" sqlite_storable
  by (rule production_tracker [OF bt_skip.skip_map_axioms mem.driver_contract])

lemma sqlite_tracker:
  "skip_map api sk_ok \<Longrightarrow> sqlite_engine H A sq_ok tables \<Longrightarrow>
   tracker (TorrentsSkipMapMutexStd api) (skip_ok api sk_ok) (skip_view api)
     (Sqlite A H) (sqlite_ok H sq_ok tables) (\<lambda>db. tables_view H (tables db)) sqlite_storable"
  by (rule production_tracker [OF _ sqlite_engine.driver_contract])

section \<open>Announce and scrape\<close>

text \<open>
  C2: After any history of announces and cleanups, an announce is answered from the swarm that the
  history and this announce leave: the numbers of seeders, leechers and completed downloads of that
  swarm, the configured policy, and distinct peers of that swarm at other addresses than the
  announced one, as many as there are up to the limit.
\<close>
theorem announce_history:
  fixes api :: "'m skip_map_api" and A :: "'db rusqlite_api"
  assumes "skip_map api sk_ok" and "sqlite_engine H A sq_ok tables" and "sqlite_ok H sq_ok tables db"
    and "h = run_tracker (TorrentsSkipMapMutexStd api) (Sqlite A H) config ops
          \<lparr>in_memory_torrent_repository = repo_default (TorrentsSkipMapMutexStd api), db_torrent_repository = db\<rparr>"
    and "announce (TorrentsSkipMapMutexStd api) (Sqlite A H) config ih p ip w h = ((data, p'), h')"
    and "s' = spec_announce (announced_peer config ip p) (swarm_of (run_swarms config ops (\<lambda>_. None)) ih)"
  shows "p' = announced_peer config ip p \<and> policy data = announce_policy config \<and> stats data = swarm_stats s' \<and>
         distinct (peers data) \<and> set (peers data) \<subseteq> {q \<in> ran (known s'). peer_addr q \<noteq> peer_addr p'} \<and>
         length (peers data) =
           min (max (PeersWanted_limit w) TORRENT_PEERS_LIMIT) (card {q \<in> ran (known s'). peer_addr q \<noteq> peer_addr p'})"
proof -
  note T = sqlite_tracker [OF assms(1,2)]
  note h = tracker.run_from_empty [OF T assms(3,4)]
  from tracker.announce_response [OF T h assms(5)] show ?thesis
    by (simp add: assms(6))
qed

text \<open>
  C9: After any history, a scrape answers for exactly the requested torrents: with the numbers of
  the swarm for a torrent that the tracker may serve, all zero for an unknown one, and all zero for
  a torrent that is not on the whitelist of a listed tracker.
\<close>
theorem scrape_history:
  fixes api :: "'m skip_map_api" and A :: "'db rusqlite_api"
  assumes "skip_map api sk_ok" and "sqlite_engine H A sq_ok tables" and "sqlite_ok H sq_ok tables db"
    and "h = run_tracker (TorrentsSkipMapMutexStd api) (Sqlite A H) config ops
          \<lparr>in_memory_torrent_repository = repo_default (TorrentsSkipMapMutexStd api), db_torrent_repository = db\<rparr>"
  shows "files (scrape (TorrentsSkipMapMutexStd api) config wl ihs (in_memory_torrent_repository h)) ih =
    (if ih \<in> set ihs
     then Some (if listed config \<and> ih \<notin> whitelist wl then SwarmMetadata_zeroed
                else swarm_stats (swarm_of (run_swarms config ops (\<lambda>_. None)) ih))
     else None)"
proof -
  note T = sqlite_tracker [OF assms(1,2)]
  note h = tracker.run_from_empty [OF T assms(3,4)]
  have "skip_ok api sk_ok (in_memory_torrent_repository h)"
    using h(1) by (simp add: handler_ok_def)
  from tracker.scrape_response [OF T this h(2)] show ?thesis
    by (simp add: authorize_def is_listed_def InMemoryWhitelist_contains_def)
qed

lemma swarm_stats_single:
  "swarm_stats \<lparr>known = [k \<mapsto> p], completed = n\<rparr> =
   \<lparr>sm_downloaded = of_nat n, sm_complete = (if sint (left p) \<le> 0 then 1 else 0),
    sm_incomplete = (if sint (left p) \<le> 0 then 0 else 1)\<rparr>"
proof -
  have "{q \<in> {p}. P q} = (if P p then {p} else {})" for P
    by auto
  then show ?thesis
    by (simp add: swarm_stats_def)
qed

text \<open>Two peers announcing to one torrent.\<close>

definition sample_first :: Peer where
  "sample_first = sample_leecher\<lparr>peer_id := PeerId [1]\<rparr>"

definition sample_second :: Peer where
  "sample_second = sample_leecher\<lparr>peer_id := PeerId [2], left := 0\<rparr>"

definition sample_ops :: "tracker_op list" where
  "sample_ops = [OpAnnounce sample_info_hash sample_first (ipv4 10 0 0 1) AsManyAsPossible]"

lemma sample_addresses:
  "\<not> is_loopback (ipv4 10 0 0 1)" "\<not> is_loopback (ipv4 10 0 0 2)" "ipv4 10 0 0 1 \<noteq> ipv4 10 0 0 2"
  by code_simp+

lemma sample_peers:
  "announced_peer Core_default (ipv4 10 0 0 1) p = p\<lparr>peer_addr := SocketAddr (ipv4 10 0 0 1) (sa_port (peer_addr p))\<rparr>"
  "announced_peer Core_default (ipv4 10 0 0 2) p = p\<lparr>peer_addr := SocketAddr (ipv4 10 0 0 2) (sa_port (peer_addr p))\<rparr>"
  by (simp_all add: announced_peer_def assign_ip_address_to_peer_def change_ip_def sample_addresses split: option.split)

lemma sample_swarm:
  "swarm_of (run_swarms Core_default sample_ops (\<lambda>_. None)) sample_info_hash =
     \<lparr>known = [PeerId [1] \<mapsto> announced_peer Core_default (ipv4 10 0 0 1) sample_first], completed = 0\<rparr>"
proof -
  have "event sample_leecher = EventStarted"
    by (simp add: sample_leecher_def fixture_defs)
  then show ?thesis
    by (simp add: run_swarms_def sample_ops_def swarms_announce_def swarm_of_def spec_announce_def
        spec_completes_def spec_empty_def sample_first_def sample_peers)
qed

lemma sample_swarm_second:
  fixes s'
  defines "s' \<equiv> spec_announce (announced_peer Core_default (ipv4 10 0 0 2) sample_second)
      (swarm_of (run_swarms Core_default sample_ops (\<lambda>_. None)) sample_info_hash)"
  shows "swarm_stats s' = \<lparr>sm_downloaded = 0, sm_complete = 1, sm_incomplete = 1\<rparr>"
    and "{q \<in> ran (known s'). peer_addr q \<noteq> peer_addr (announced_peer Core_default (ipv4 10 0 0 2) sample_second)} =
         {announced_peer Core_default (ipv4 10 0 0 1) sample_first}"
proof -
  let ?p = "announced_peer Core_default (ipv4 10 0 0 1) sample_first"
  let ?q = "announced_peer Core_default (ipv4 10 0 0 2) sample_second"
  have ev: "event sample_leecher = EventStarted" "left sample_leecher = 10"
    by (simp_all add: sample_leecher_def fixture_defs)
  have known: "known s' = [PeerId [1] \<mapsto> ?p, PeerId [2] \<mapsto> ?q]" and done0: "completed s' = 0"
    by (simp_all add: s'_def sample_swarm spec_announce_def spec_completes_def sample_second_def sample_peers ev)
  have ran: "ran (known s') = {?p, ?q}"
    unfolding known by (subst ran_map_upd) auto
  have "sint (left ?p) = 10" "sint (left ?q) = 0"
    by (simp_all add: sample_peers sample_first_def sample_second_def ev)
  then have "{p \<in> ran (known s'). sint (left p) \<le> 0} = {?q}" "{p \<in> ran (known s'). 0 < sint (left p)} = {?p}"
    unfolding ran by auto
  then show "swarm_stats s' = \<lparr>sm_downloaded = 0, sm_complete = 1, sm_incomplete = 1\<rparr>"
    by (simp add: swarm_stats_def done0)
  show "{q \<in> ran (known s'). peer_addr q \<noteq> peer_addr ?q} = {?p}"
    unfolding ran by (auto simp: sample_peers sample_addresses)
qed

definition sample_tracker :: "((InfoHash, handle) btree_map SharedTorrents, sql_tables) AnnounceHandler" where
  "sample_tracker =
     run_tracker (TorrentsSkipMapMutexStd bt_skip_map) (Sqlite mem_sqlite hex_info_hash) Core_default sample_ops
       \<lparr>in_memory_torrent_repository = repo_default (TorrentsSkipMapMutexStd bt_skip_map),
        db_torrent_repository = tables_empty\<rparr>"

lemma sample_tables_ok: "sqlite_ok hex_info_hash (\<lambda>_. True) (\<lambda>t. t) tables_empty"
  by (simp add: sqlite_ok_def tables_empty_ok)

theorem announce_history_witness:
  "let data = fst (fst (announce (TorrentsSkipMapMutexStd bt_skip_map) (Sqlite mem_sqlite hex_info_hash) Core_default
                          sample_info_hash sample_second (ipv4 10 0 0 2) AsManyAsPossible sample_tracker))
   in stats data = \<lparr>sm_downloaded = 0, sm_complete = 1, sm_incomplete = 1\<rparr> \<and> length (peers data) = 1"
proof -
  obtain data p' h' where a: "announce (TorrentsSkipMapMutexStd bt_skip_map) (Sqlite mem_sqlite hex_info_hash)
      Core_default sample_info_hash sample_second (ipv4 10 0 0 2) AsManyAsPossible sample_tracker = ((data, p'), h')"
    by (metis prod.collapse)
  from announce_history [OF bt_skip.skip_map_axioms mem.sqlite_engine_axioms sample_tables_ok
      sample_tracker_def a refl]
  show ?thesis
    by (simp add: a sample_swarm_second TORRENT_PEERS_LIMIT_def)
qed

theorem scrape_history_witness:
  "files (scrape (TorrentsSkipMapMutexStd bt_skip_map) Core_default \<lparr>whitelist = {}\<rparr> [sample_info_hash]
            (in_memory_torrent_repository sample_tracker)) sample_info_hash =
     Some \<lparr>sm_downloaded = 0, sm_complete = 0, sm_incomplete = 1\<rparr>"
proof -
  let ?p = "announced_peer Core_default (ipv4 10 0 0 1) sample_first"
  have "sint (left ?p) = 10"
    by (simp add: sample_peers sample_first_def sample_leecher_def fixture_defs)
  then have "swarm_stats (swarm_of (run_swarms Core_default sample_ops (\<lambda>_. None)) sample_info_hash) =
      \<lparr>sm_downloaded = 0, sm_complete = 0, sm_incomplete = 1\<rparr>"
    by (simp add: sample_swarm swarm_stats_single)
  moreover have "\<not> listed Core_default"
    by (simp add: Core_default_def)
  ultimately show ?thesis
    using scrape_history [OF bt_skip.skip_map_axioms mem.sqlite_engine_axioms sample_tables_ok sample_tracker_def,
        of "\<lparr>whitelist = {}\<rparr>" "[sample_info_hash]" sample_info_hash]
    by simp
qed

section \<open>Number of peers wanted\<close>

lemma limit_of_request:
  "max (PeersWanted_limit AsManyAsPossible) TORRENT_PEERS_LIMIT = TORRENT_PEERS_LIMIT"
  "max (PeersWanted_limit (PeersWanted_from_i32 n)) TORRENT_PEERS_LIMIT = TORRENT_PEERS_LIMIT"
  "max (PeersWanted_limit (PeersWanted_from_u32 m)) TORRENT_PEERS_LIMIT = TORRENT_PEERS_LIMIT"
  by (simp_all add: PeersWanted_from_i32_def PeersWanted_from_u32_def PeersWanted_limit_def)

text \<open>
  C38: The number of peers a client asks for has no influence on the answer: whatever the request of
  the UDP or HTTP protocol, the announce is the one for as many peers as possible.
\<close>
theorem peers_wanted_ignored:
  "announce R D config ih p ip (PeersWanted_from_i32 n) h = announce R D config ih p ip AsManyAsPossible h \<and>
   announce R D config ih p ip (PeersWanted_from_u32 m) h = announce R D config ih p ip AsManyAsPossible h"
  unfolding announce_def InMemoryTorrentRepository_get_peers_for_def limit_of_request by simp

section \<open>Completed downloads in the database\<close>

text \<open>
  C29: An announce changes the stored number of completed downloads only of its own torrent, only
  when it is configured to, and only when the statistics of the torrent change; then, if the
  database accepts the statement, the stored number is the one the announce reports.
\<close>
theorem announce_persists_completed:
  fixes api :: "'m skip_map_api" and A :: "'db rusqlite_api"
  assumes "skip_map api sk_ok" and "sqlite_engine H A sq_ok tables" and "sqlite_ok H sq_ok tables db"
    and "h = run_tracker (TorrentsSkipMapMutexStd api) (Sqlite A H) config ops
          \<lparr>in_memory_torrent_repository = repo_default (TorrentsSkipMapMutexStd api), db_torrent_repository = db\<rparr>"
    and "announce (TorrentsSkipMapMutexStd api) (Sqlite A H) config ih p ip w h = ((data, p'), h')"
    and "old = v_torrents (tables_view H (tables (db_torrent_repository h)))"
    and "new = v_torrents (tables_view H (tables (db_torrent_repository h')))"
  shows "(new = old \<or> new = old(ih \<mapsto> sm_downloaded (stats data))) \<and>
         (\<not> persistent_torrent_completed_stat (tracker_policy config) \<longrightarrow> new = old) \<and>
         (stats data = swarm_stats (swarm_of (run_swarms config ops (\<lambda>_. None)) ih) \<longrightarrow> new = old) \<and>
         (persistent_torrent_completed_stat (tracker_policy config) \<longrightarrow>
          stats data \<noteq> swarm_stats (swarm_of (run_swarms config ops (\<lambda>_. None)) ih) \<longrightarrow>
          fst (Sqlite_save_persistent_torrent A H ih (sm_downloaded (stats data)) (db_torrent_repository h)) = Inr () \<longrightarrow>
          new = old(ih \<mapsto> sm_downloaded (stats data)))"
proof -
  note T = sqlite_tracker [OF assms(1,2)]
  note h = tracker.run_from_empty [OF T assms(3,4)]
  note eff = tracker.announce_effect [OF T h(1), of config ih p ip w, unfolded assms(5)]
  have before: "view_stats (skip_view api (in_memory_torrent_repository h)) ih =
      swarm_stats (swarm_of (run_swarms config ops (\<lambda>_. None)) ih)"
    by (rule represents_all_view_stats [OF h(2)])
  have after: "stats data =
      view_stats (spec_upsert ih (announced_peer config ip p) (skip_view api (in_memory_torrent_repository h))) ih"
    using eff(3) by simp
  let ?saved = "fst (Sqlite_save_persistent_torrent A H ih (sm_downloaded (stats data)) (db_torrent_repository h))"
  have save: "save_persistent_torrent (Sqlite A H) = Sqlite_save_persistent_torrent A H"
    by (simp add: Sqlite_def)
  have "new = (if persistent_torrent_completed_stat (tracker_policy config) \<and>
                  swarm_stats (swarm_of (run_swarms config ops (\<lambda>_. None)) ih) \<noteq> stats data \<and> (\<exists>u. ?saved = Inr u)
               then old(ih \<mapsto> sm_downloaded (stats data)) else old)"
    using eff(4) before after save
    by (cases ?saved) (simp_all add: assms(6,7) del: view_stats_upsert)
  then show ?thesis
    by auto
qed


definition sample_persistent :: Core where
  "sample_persistent = Core_default\<lparr>tracker_policy := TrackerPolicy_default\<lparr>persistent_torrent_completed_stat := True\<rparr>\<rparr>"

definition sample_finished :: Peer where
  "sample_finished = sample_first\<lparr>left := 0, event := EventCompleted\<rparr>"

definition sample_stored_tracker :: "((InfoHash, handle) btree_map SharedTorrents, sql_tables) AnnounceHandler" where
  "sample_stored_tracker =
     run_tracker (TorrentsSkipMapMutexStd bt_skip_map) (Sqlite mem_sqlite hex_info_hash) sample_persistent sample_ops
       \<lparr>in_memory_torrent_repository = repo_default (TorrentsSkipMapMutexStd bt_skip_map),
        db_torrent_repository = tables_empty\<rparr>"

lemma mem_save_ok: "fst (Sqlite_save_persistent_torrent mem_sqlite hex_info_hash ih n db) = Inr ()"
  by (simp add: Sqlite_save_persistent_torrent_def Sqlite_execute_def mem_sqlite_def mem_sqlite_execute_def
      sqlite_statements)

lemma sample_persistent_simps:
  "persistent_torrent_completed_stat (tracker_policy sample_persistent)"
  "announced_peer sample_persistent = announced_peer Core_default"
  by (simp_all add: sample_persistent_def announced_peer_def fun_eq_iff)

lemma sample_finished_swarm:
  "swarm_of (run_swarms sample_persistent sample_ops (\<lambda>_. None)) sample_info_hash =
     \<lparr>known = [PeerId [1] \<mapsto> announced_peer Core_default (ipv4 10 0 0 1) sample_first], completed = 0\<rparr>"
  "spec_announce (announced_peer sample_persistent (ipv4 10 0 0 1) sample_finished)
     \<lparr>known = [PeerId [1] \<mapsto> announced_peer Core_default (ipv4 10 0 0 1) sample_first], completed = 0\<rparr> =
     \<lparr>known = [PeerId [1] \<mapsto> announced_peer Core_default (ipv4 10 0 0 1) sample_finished], completed = 1\<rparr>"
proof -
  have ev: "event sample_leecher = EventStarted"
    by (simp add: sample_leecher_def fixture_defs)
  then show "swarm_of (run_swarms sample_persistent sample_ops (\<lambda>_. None)) sample_info_hash =
     \<lparr>known = [PeerId [1] \<mapsto> announced_peer Core_default (ipv4 10 0 0 1) sample_first], completed = 0\<rparr>"
    by (simp add: run_swarms_def sample_ops_def swarms_announce_def swarm_of_def spec_announce_def
        spec_completes_def spec_empty_def sample_first_def sample_peers sample_persistent_simps)
  show "spec_announce (announced_peer sample_persistent (ipv4 10 0 0 1) sample_finished)
     \<lparr>known = [PeerId [1] \<mapsto> announced_peer Core_default (ipv4 10 0 0 1) sample_first], completed = 0\<rparr> =
     \<lparr>known = [PeerId [1] \<mapsto> announced_peer Core_default (ipv4 10 0 0 1) sample_finished], completed = 1\<rparr>"
    using ev
    by (simp add: spec_announce_def spec_completes_def sample_finished_def sample_first_def sample_peers
        sample_persistent_simps)
qed

theorem announce_persists_completed_witness:
  "let h' = snd (announce (TorrentsSkipMapMutexStd bt_skip_map) (Sqlite mem_sqlite hex_info_hash) sample_persistent
                   sample_info_hash sample_finished (ipv4 10 0 0 1) AsManyAsPossible sample_stored_tracker)
   in v_torrents (tables_view hex_info_hash (db_torrent_repository h')) sample_info_hash = Some 1"
proof -
  obtain data p' h' where a: "announce (TorrentsSkipMapMutexStd bt_skip_map) (Sqlite mem_sqlite hex_info_hash)
      sample_persistent sample_info_hash sample_finished (ipv4 10 0 0 1) AsManyAsPossible sample_stored_tracker =
      ((data, p'), h')"
    by (metis prod.collapse)
  have "handler_ok (skip_ok bt_skip_map bt_inv) (sqlite_ok hex_info_hash (\<lambda>_. True) (\<lambda>t. t)) sample_stored_tracker"
    "represents_all (skip_view bt_skip_map (in_memory_torrent_repository sample_stored_tracker))
       (run_swarms sample_persistent sample_ops (\<lambda>_. None))"
    using mem_tracker.run_from_empty [OF sample_tables_ok sample_stored_tracker_def] by simp_all
  from mem_tracker.announce_response(3) [OF this a]
  have st: "stats data = \<lparr>sm_downloaded = 1, sm_complete = 1, sm_incomplete = 0\<rparr>"
    by (simp add: sample_finished_swarm swarm_stats_single)
       (simp add: sample_peers sample_finished_def)
  then have "stats data \<noteq> swarm_stats (swarm_of (run_swarms sample_persistent sample_ops (\<lambda>_. None)) sample_info_hash)"
    by (simp add: sample_finished_swarm swarm_stats_single)
  then show ?thesis
    using announce_persists_completed [OF bt_skip.skip_map_axioms mem.sqlite_engine_axioms sample_tables_ok
        sample_stored_tracker_def a refl refl]
    by (simp add: a st sample_persistent_simps mem_save_ok)
qed

definition sample_counted :: sql_tables where
  "sample_counted = t_upsert_torrent (ih_to_string hex_info_hash sample_info_hash) 5 tables_empty"


section \<open>Cleanup\<close>

text \<open>
  C22: After any history, a cleanup keeps of each torrent exactly the peers that announced later than
  the timeout before the present moment, in the same order and with the same completed count, and
  drops a torrent exactly when it is configured to drop torrents without peers, none of its peers is
  left, and it has no completed download that must be kept.
\<close>
theorem cleanup_exact:
  fixes api :: "'m skip_map_api" and A :: "'db rusqlite_api"
  defines "R \<equiv> TorrentsSkipMapMutexStd api"
  assumes "skip_map api sk_ok" and "sqlite_engine H A sq_ok tables" and "sqlite_ok H sq_ok tables db"
    and "h = run_tracker R (Sqlite A H) config ops
          \<lparr>in_memory_torrent_repository = repo_default R, db_torrent_repository = db\<rparr>"
    and "repo_get R ih (in_memory_torrent_repository h) = Some t"
    and "active = filter (\<lambda>p. now - from_secs (ucast (max_peer_timeout (tracker_policy config))) < updated p)
          (get_peers None t)"
  shows "case repo_get R ih (cleanup_torrents R config now (in_memory_torrent_repository h)) of
           None \<Rightarrow> remove_peerless_torrents (tracker_policy config) \<and> active = [] \<and>
                   \<not> (persistent_torrent_completed_stat (tracker_policy config) \<and> 0 < t_downloaded t)
         | Some t' \<Rightarrow>
             get_peers None t' = active \<and> t_downloaded t' = t_downloaded t \<and>
             (remove_peerless_torrents (tracker_policy config) \<longrightarrow> active = [] \<longrightarrow>
              persistent_torrent_completed_stat (tracker_policy config) \<and> 0 < t_downloaded t)"
proof -
  note T = sqlite_tracker [OF assms(2,3)]
  have h: "handler_ok (skip_ok api sk_ok) (sqlite_ok H sq_ok tables) h"
    using tracker.run_from_empty(1) [OF T assms(4)] assms(5) by (simp add: R_def)
  have cutoff: "cleanup_cutoff config now = now - from_secs (ucast (max_peer_timeout (tracker_policy config)))"
    by (simp add: cleanup_cutoff_def now_sub_def duration_checked_sub_def split: option.split)
  let ?t = "remove_inactive_peers (cleanup_cutoff config now) t"
  have active: "get_peers None ?t = active"
    by (simp add: get_peers_remove_inactive cutoff assms(7))
  then have empty: "PeerList_is_empty (swarm ?t) \<longleftrightarrow> active = []"
    by (auto simp: get_peers_def PeerList_get_all_def PeerList_is_empty_def bt_values_def)
  have n: "t_downloaded ?t = t_downloaded t"
    by (simp add: remove_inactive_peers_def)
  have "repo_get R ih (cleanup_torrents R config now (in_memory_torrent_repository h)) =
     (if remove_peerless_torrents (tracker_policy config) \<and> \<not> meets_retaining_policy (tracker_policy config) ?t
      then None else Some ?t)"
    using tracker.cleanup_get [OF T, of "in_memory_torrent_repository h" ih config now] h assms(6)
    by (simp add: R_def handler_ok_def Let_def)
  then show ?thesis
    by (auto simp: meets_retaining_policy_def empty n active)
qed

theorem cleanup_exact_witness:
  "repo_get (TorrentsSkipMapMutexStd bt_skip_map) sample_info_hash
     (cleanup_torrents (TorrentsSkipMapMutexStd bt_skip_map) Core_default DURATION_MAX
        (in_memory_torrent_repository sample_tracker)) = None"
proof -
  let ?R = "TorrentsSkipMapMutexStd bt_skip_map"
  let ?p = "announced_peer Core_default (ipv4 10 0 0 1) sample_first"
  have h: "handler_ok (skip_ok bt_skip_map bt_inv) (sqlite_ok hex_info_hash (\<lambda>_. True) (\<lambda>t. t)) sample_tracker"
    and rep: "represents_all (skip_view bt_skip_map (in_memory_torrent_repository sample_tracker))
       (run_swarms Core_default sample_ops (\<lambda>_. None))"
    using mem_tracker.run_from_empty [OF sample_tables_ok sample_tracker_def] by simp_all
  have "run_swarms Core_default sample_ops (\<lambda>_. None) sample_info_hash \<noteq> None"
    by (simp add: run_swarms_def sample_ops_def swarms_announce_def)
  then obtain t where t: "skip_view bt_skip_map (in_memory_torrent_repository sample_tracker) sample_info_hash = Some t"
    using represents_all_get(2) [OF rep, of sample_info_hash] by auto
  then have "represents t \<lparr>known = [PeerId [1] \<mapsto> ?p], completed = 0\<rparr>"
    using represents_all_entry [OF rep, of sample_info_hash] by (simp add: sample_swarm entry_or_default_def)
  then have down: "t_downloaded t = 0" and "set (get_peers None t) \<subseteq> {?p}"
    by (auto simp: represents_def get_peers_def PeerList_get_all_def torrent_inv_bt_inv bt_values_mem
        split: if_splits)
  moreover have "updated ?p \<le> DURATION_MAX - from_secs (ucast (max_peer_timeout (tracker_policy Core_default)))"
  proof -
    have "updated ?p = 1669397478934000000000"
      by (simp add: sample_peers sample_first_def sample_leecher_def fixture_defs duration_new_def NANOS_PER_SEC_def)
    then show ?thesis
      by (simp add: Core_default_def TrackerPolicy_default_def DURATION_MAX_def from_secs_def NANOS_PER_SEC_def)
  qed
  ultimately have none: "filter (\<lambda>p. DURATION_MAX - from_secs (ucast (max_peer_timeout (tracker_policy Core_default))) < updated p)
      (get_peers None t) = []"
    by (auto simp: filter_empty_conv)
  have get: "repo_get ?R sample_info_hash (in_memory_torrent_repository sample_tracker) = Some t"
    using t h torrent_repository.get [OF ordered_repository.axioms(1) [OF bt_skip.mutex_std_contract]]
    by (simp add: handler_ok_def)
  have "remove_peerless_torrents (tracker_policy Core_default)"
    by (simp add: Core_default_def TrackerPolicy_default_def)
  then show ?thesis
    using cleanup_exact [OF bt_skip.skip_map_axioms mem.sqlite_engine_axioms sample_tables_ok sample_tracker_def
        get refl, of DURATION_MAX] none down
    by (simp split: option.splits)
qed

section \<open>Listings\<close>

text \<open>
  After any history, the pages of the API list the torrents of the tracker in the order of their
  info-hashes with the numbers of their swarms, and a request for given torrents lists those of them
  that the tracker knows, in the order of the request.
\<close>
theorem listings_exact:
  fixes api :: "'m skip_map_api" and A :: "'db rusqlite_api"
  defines "R \<equiv> TorrentsSkipMapMutexStd api"
  assumes "skip_map api sk_ok" and "sqlite_engine H A sq_ok tables" and "sqlite_ok H sq_ok tables db"
    and "h = run_tracker R (Sqlite A H) config ops
          \<lparr>in_memory_torrent_repository = repo_default R, db_torrent_repository = db\<rparr>"
    and "S = run_swarms config ops (\<lambda>_. None)"
  shows "get_torrents_page R pg (in_memory_torrent_repository h) =
           map (\<lambda>ih. basic_info ih (swarm_stats (swarm_of S ih))) (paginate pg (sorted_list_of_set (dom S))) \<and>
         get_torrents R ihs (in_memory_torrent_repository h) =
           map (\<lambda>ih. basic_info ih (swarm_stats (swarm_of S ih))) (filter (\<lambda>ih. ih \<in> dom S) ihs)"
proof -
  note T = sqlite_tracker [OF assms(2,3)]
  have h: "handler_ok (skip_ok api sk_ok) (sqlite_ok H sq_ok tables) h"
    "represents_all (skip_view api (in_memory_torrent_repository h)) S"
    using tracker.run_from_empty [OF T assms(4)] assms(5,6) by (simp_all add: R_def)
  show ?thesis
    using tracker.page_listing [OF T _ h(2)] tracker.torrents_listing [OF T _ h(2)] h(1)
    by (simp add: R_def handler_ok_def)
qed

theorem listings_exact_witness:
  "get_torrents (TorrentsSkipMapMutexStd bt_skip_map) [InfoHash [], sample_info_hash]
     (in_memory_torrent_repository sample_tracker) =
   [\<lparr>bi_info_hash = sample_info_hash, bi_seeders = 0, bi_completed = 0, bi_leechers = 1\<rparr>]"
proof -
  let ?p = "announced_peer Core_default (ipv4 10 0 0 1) sample_first"
  have "dom (run_swarms Core_default sample_ops (\<lambda>_. None)) = {sample_info_hash}"
    by (simp add: run_swarms_def sample_ops_def swarms_announce_def)
  moreover have "InfoHash [] \<noteq> sample_info_hash"
    by (simp add: sample_info_hash_def)
  moreover have "sint (left ?p) = 10"
    by (simp add: sample_peers sample_first_def sample_leecher_def fixture_defs)
  ultimately show ?thesis
    using listings_exact [OF bt_skip.skip_map_axioms mem.sqlite_engine_axioms sample_tables_ok sample_tracker_def refl,
        where ihs = "[InfoHash [], sample_info_hash]"]
    by (simp add: sample_swarm swarm_stats_single basic_info_def)
qed

end
