(* ===== verification/Udp_Properties.thy ===== *)
theory Udp_Properties
  imports Udp_Server Tracker_Properties "HOL-Library.Multiset"
begin

text \<open>
  The properties of the UDP tracker as a whole: a session of a client, what forged packets do, what
  a scrape answers, and how the statistics account for the requests of a running server.
\<close>

section \<open>A session\<close>

definition udp_tracker_ok ::
  "('s \<Rightarrow> bool) \<Rightarrow> ('s \<Rightarrow> torrents_view) \<Rightarrow> ('db \<Rightarrow> bool) \<Rightarrow> swarms \<Rightarrow> ('s, 'db, 'b) UdpTrackerContainer \<Rightarrow> bool" where
  "udp_tracker_ok r_ok r_view d_ok S c =
     (handler_ok r_ok d_ok (announce_handler c) \<and>
      represents_all (r_view (in_memory_torrent_repository (announce_handler c))) S)"

lemma as_i32_id [simp]: "as_i32 n = n"
  by (rule bit_word_eqI) (simp add: as_i32_def bit_unsigned_iff)

lemma handle_packet_connect:
  assumes "handle_packet E now req v c = Some (ResponseConnect tid cid, c')"
  shows "cookie_make (env_cipher E) (gen_remote_fingerprint E (raw_from req)) (issue_time v) = Inr cid"
proof -
  have err: "handle_error E a vr e t c0 \<noteq> Some (ResponseConnect tid cid, c')" for a vr e t c0
    by (auto simp: handle_error_def split: option.splits)
  obtain r c1 where r: "parse_bytes E (payload req) MAX_SCRAPE_TORRENTS = Inr r"
    "handle_request E now r (raw_from req) v c = Some (Inr (ResponseConnect tid cid), c1)"
    using assms err by (auto simp: handle_packet_def Let_def split: sum.splits option.splits prod.splits)
  then show ?thesis
    by (cases r) (auto simp: handle_connect_def handle_announce_def handle_scrape_def announce_response_of_def Let_def
        split: sum.splits option.splits prod.splits if_splits)
qed

lemma ipv4_peers:
  "(i, n) \<in> set (List.map_filter ipv4_peer qs) \<Longrightarrow> \<exists>q \<in> set qs. peer_addr q = SocketAddr (V4 i) n"
  by (induction qs) (auto simp: map_filter_simps SocketAddr.expand split: option.splits IpAddr.splits)

lemma handle_packet_announce:
  assumes "parse_bytes E (payload req) MAX_SCRAPE_TORRENTS = Inr (RequestAnnounce r)"
    and "cookie_check (env_cipher E) (ar_connection_id r) (gen_remote_fingerprint E (raw_from req)) (valid_range v) =
      Some (Inr t)"
    and "authorize (core_config c) (tracker_whitelist c) (ar_info_hash r) = Inr ()"
    and "announce (env_repository E) (env_database E) (core_config c) (ar_info_hash r)
           (from_request E now r (sa_ip (raw_from req))) (sa_ip (raw_from req))
           (PeersWanted_from_i32 (ar_peers_wanted r)) (announce_handler c) = ((data, p'), h)"
  shows "handle_packet E now req v c =
    Some (announce_response_of (core_config c) (raw_from req) (ar_transaction_id r) data,
          send_event (per_version (sa_ip (raw_from req)) Udp4Announce Udp6Announce) (c\<lparr>announce_handler := h\<rparr>))"
  using assms by (simp add: handle_packet_def handle_announce_def Let_def)

text \<open>
  C5: A client that connects and then announces from the same address within the lifetime of the
  cookie is served: the response carries its transaction id, the numbers of seeders and leechers of
  the swarm after its announce, and IPv4 addresses of other peers of that swarm; the tracker then
  represents the swarms after the announce.
\<close>
theorem udp_session:
  assumes "tracker (env_repository E) r_ok r_view (env_database E) d_ok d_view storable"
    and "block_cipher (env_cipher E)"
    and "handle_packet E now1 req1 (CookieTimeValues_new issued1 lifetime) c1 = Some (ResponseConnect tid cid, c1')"
    and "f64_is_finite (as_secs_f64 issued2)" and "f64_is_finite lifetime"
    and "f64_scaled (as_secs_f64 issued1) \<le> f64_scaled (as_secs_f64 issued2)"
    and "f64_scaled (as_secs_f64 issued2) \<le> f64_scaled (as_secs_f64 issued1) + f64_scaled lifetime"
    and "parse_bytes E (payload req2) MAX_SCRAPE_TORRENTS = Inr (RequestAnnounce r)" and "ar_connection_id r = cid"
    and "raw_from req2 = raw_from req1" and "sa_ip (raw_from req2) = V4 ip"
    and "authorize (core_config c) (tracker_whitelist c) (ar_info_hash r) = Inr ()"
    and "udp_tracker_ok r_ok r_view d_ok S c"
    and "p = announced_peer (core_config c) (V4 ip) (from_request E now2 r (V4 ip))"
    and "s' = spec_announce p (swarm_of S (ar_info_hash r))"
  shows "\<exists>fixed ps c'.
    handle_packet E now2 req2 (CookieTimeValues_new issued2 lifetime) c = Some (ResponseAnnounceIpv4 fixed ps, c') \<and>
    af_transaction_id fixed = ar_transaction_id r \<and>
    af_announce_interval fixed = interval (announce_policy (core_config c)) \<and>
    af_seeders fixed = sm_complete (swarm_stats s') \<and> af_leechers fixed = sm_incomplete (swarm_stats s') \<and>
    set ps \<subseteq> {(i, n). \<exists>q \<in> ran (known s'). peer_addr q = SocketAddr (V4 i) n \<and> peer_addr q \<noteq> peer_addr p} \<and>
    udp_tracker_ok r_ok r_view d_ok (S(ar_info_hash r \<mapsto> s')) c'"
proof -
  let ?v1 = "CookieTimeValues_new issued1 lifetime" and ?v2 = "CookieTimeValues_new issued2 lifetime"
  have times: "issue_time ?v1 = as_secs_f64 issued1" "issue_time ?v2 = as_secs_f64 issued2"
    by (simp_all add: CookieTimeValues_new_def Let_def)
  note made = handle_packet_connect [OF assms(3)]
  have check: "cookie_check (env_cipher E) (ar_connection_id r) (gen_remote_fingerprint E (raw_from req2))
      (valid_range ?v2) = Some (Inr (issue_time ?v1))"
    unfolding assms(9,10) using assms(4-7)
    by (intro block_cipher.valid_for_lifetime [OF assms(2) refl refl made]) (simp_all add: times)
  let ?w = "PeersWanted_from_i32 (ar_peers_wanted r)"
  obtain data p' h where a: "announce (env_repository E) (env_database E) (core_config c) (ar_info_hash r)
      (from_request E now2 r (V4 ip)) (V4 ip) ?w (announce_handler c) = ((data, p'), h)"
    by (metis prod.collapse)
  have ok: "handler_ok r_ok d_ok (announce_handler c)"
    "represents_all (r_view (in_memory_torrent_repository (announce_handler c))) S"
    using assms(13) by (simp_all add: udp_tracker_ok_def)
  note answer = tracker.announce_response [OF assms(1) ok a, folded assms(14), folded assms(15)]
  note effect = tracker.announce_effect [OF assms(1) ok(1), of "core_config c" "ar_info_hash r"
      "from_request E now2 r (V4 ip)" "V4 ip" ?w, unfolded a snd_conv, folded assms(14)]
  have rep: "represents_all (r_view (in_memory_torrent_repository h)) (S(ar_info_hash r \<mapsto> s'))"
    using represents_all_upsert [OF ok(2)] by (simp add: effect(2) assms(15))
  have ps: "set (List.map_filter ipv4_peer (peers data)) \<subseteq>
      {(i, n). \<exists>q \<in> ran (known s'). peer_addr q = SocketAddr (V4 i) n \<and> peer_addr q \<noteq> peer_addr p}"
    using answer(1,5) ipv4_peers by fastforce
  note handled = handle_packet_announce [OF assms(8) check assms(12), of now2 data p' h, unfolded assms(11), OF a]
  show ?thesis
    unfolding handled using effect(1) rep ps answer
    by (simp add: announce_response_of_def Let_def assms(11) udp_tracker_ok_def)
qed

section \<open>Forged packets\<close>

text \<open>A packet whose connection id was not issued to its sender within the lifetime.\<close>

definition forged_packet :: "('s, 'db, 'b) udp_env \<Rightarrow> RawRequest \<Rightarrow> CookieTimeValues \<Rightarrow> bool" where
  "forged_packet E req v =
     (let wrong = (\<lambda>cid. case cookie_check (env_cipher E) cid (gen_remote_fingerprint E (raw_from req)) (valid_range v) of
                           Some (Inl _) \<Rightarrow> True
                         | _ \<Rightarrow> False)
      in case parse_bytes E (payload req) MAX_SCRAPE_TORRENTS of
           Inr (RequestAnnounce r) \<Rightarrow> wrong (ar_connection_id r)
         | Inr (RequestScrape r) \<Rightarrow> wrong (sr_connection_id r)
         | _ \<Rightarrow> False)"

type_synonym packet = "DurationSinceUnixEpoch \<times> RawRequest \<times> CookieTimeValues"

fun run_packets ::
  "('s, 'db, 'b) udp_env \<Rightarrow> packet list \<Rightarrow> ('s, 'db, 'b) UdpTrackerContainer \<Rightarrow>
   ('s, 'db, 'b) UdpTrackerContainer option" where
  "run_packets E [] c = Some c"
| "run_packets E ((now, req, v) # ps) c =
     (case handle_packet E now req v c of None \<Rightarrow> None | Some (_, c') \<Rightarrow> run_packets E ps c')"

text \<open>Containers that serve the same tracker.\<close>

definition same_tracker ::
  "('s, 'db, 'b) UdpTrackerContainer \<Rightarrow> ('s, 'db, 'b) UdpTrackerContainer \<Rightarrow> bool" where
  "same_tracker c d =
     (core_config c = core_config d \<and> announce_handler c = announce_handler d \<and>
      tracker_whitelist c = tracker_whitelist d)"

lemma handle_error_ban:
  "handle_error E a v e tid c = Some (r, c') \<Longrightarrow> ban_service c' = ban_service c \<and> same_tracker c c'"
  by (auto simp: handle_error_def same_tracker_def split: option.splits if_splits)

lemma handle_request_ban:
  "handle_request E now r a v c = Some (Inr response, c') \<Longrightarrow> ban_service c' = ban_service c"
  by (cases r) (auto simp: handle_connect_def handle_announce_def handle_scrape_def Let_def
      split: sum.splits option.splits prod.splits)

lemma forged_request:
  assumes "parse_bytes E (payload req) MAX_SCRAPE_TORRENTS = Inr r"
  shows "forged_packet E req v \<longleftrightarrow>
    (\<exists>e tid. is_cookie_error e \<and> handle_request E now r (raw_from req) v c = Some (Inl (e, tid), c))"
proof (cases r)
  case (RequestConnect q)
  then show ?thesis
    using assms by (auto simp: forged_packet_def)
next
  case (RequestAnnounce q)
  then show ?thesis
    using assms cookie_check_error
    by (auto simp: forged_packet_def handle_announce_def Let_def split: option.splits sum.splits prod.splits)
next
  case (RequestScrape q)
  then show ?thesis
    using assms cookie_check_error
    by (auto simp: forged_packet_def handle_scrape_def Let_def split: option.splits sum.splits)
qed

lemma handle_packet_ban:
  assumes "handle_packet E now req v c = Some (response, c')"
  shows "ban_service c' = (if forged_packet E req v
           then increase_counter (env_filter E) (sa_ip (raw_from req)) (ban_service c) else ban_service c) \<and>
         (forged_packet E req v \<longrightarrow> same_tracker c c')"
proof (cases "parse_bytes E (payload req) MAX_SCRAPE_TORRENTS")
  case (Inl e)
  then show ?thesis
    using assms by (auto simp: handle_packet_def forged_packet_def dest: handle_error_ban)
next
  case parsed: (Inr r)
  then obtain result c1 where r: "handle_request E now r (raw_from req) v c = Some (result, c1)"
    using assms by (auto simp: handle_packet_def split: option.splits)
  show ?thesis
  proof (cases result)
    case (Inl p)
    obtain e tid where p: "p = (e, tid)"
      by (cases p)
    have "c1 = c"
      using r Inl p handle_request_error(1) by blast
    then have "forged_packet E req v \<longleftrightarrow> is_cookie_error e"
      using forged_request [OF parsed, of v now c] r Inl p by auto
    moreover have "handle_error E (raw_from req) (valid_range v) e (Some tid)
        (if is_cookie_error e
         then c\<lparr>ban_service := increase_counter (env_filter E) (sa_ip (raw_from req)) (ban_service c)\<rparr> else c) =
        Some (response, c')"
      using assms parsed r Inl p \<open>c1 = c\<close> by (simp add: handle_packet_def Let_def)
    ultimately show ?thesis
      using handle_error_ban [of E "raw_from req" "valid_range v" e "Some tid"]
      by (fastforce simp: same_tracker_def split: if_splits)
  next
    case (Inr response')
    then have "\<not> forged_packet E req v"
      using forged_request [OF parsed, of v now c] r by auto
    then show ?thesis
      using assms parsed r Inr handle_request_ban by (auto simp: handle_packet_def)
  qed
qed

lemma handle_request_same:
  assumes "handle_request E now r a v c = Some (result, c')" and "same_tracker c d"
  shows "\<exists>d'. handle_request E now r a v d = Some (result, d') \<and> same_tracker c' d'"
  using assms by (cases r) (auto simp: handle_connect_def handle_announce_def handle_scrape_def same_tracker_def Let_def
      split: sum.splits option.splits prod.splits)

lemma handle_error_same:
  assumes "handle_error E a v e tid c = Some (response, c')" and "same_tracker c d"
  shows "\<exists>d'. handle_error E a v e tid d = Some (response, d') \<and> same_tracker c' d'"
  using assms by (auto simp: handle_error_def same_tracker_def split: option.splits if_splits)

lemma handle_packet_same:
  assumes "handle_packet E now req v c = Some (response, c')" and "same_tracker c d"
  shows "\<exists>d'. handle_packet E now req v d = Some (response, d') \<and> same_tracker c' d'"
proof (cases "parse_bytes E (payload req) MAX_SCRAPE_TORRENTS")
  case (Inl e)
  then show ?thesis
    using assms by (auto simp: handle_packet_def intro: handle_error_same)
next
  case (Inr r)
  obtain result c1 where c1: "handle_request E now r (raw_from req) v c = Some (result, c1)"
    using assms Inr by (auto simp: handle_packet_def split: option.splits)
  obtain d1 where d1: "handle_request E now r (raw_from req) v d = Some (result, d1)" "same_tracker c1 d1"
    using handle_request_same [OF c1 assms(2)] by blast
  have "same_tracker (c1\<lparr>ban_service := b\<rparr>) (d1\<lparr>ban_service := b'\<rparr>)" for b b'
    using d1(2) by (simp add: same_tracker_def)
  then show ?thesis
    using assms(1) Inr c1 d1
    by (auto simp: handle_packet_def Let_def elim!: handle_error_same split: sum.splits if_splits)
qed

definition cookie_errors :: "('s, 'db, 'b) udp_env \<Rightarrow> packet list \<Rightarrow> ban_op list" where
  "cookie_errors E ps =
     map (\<lambda>(now, req, v). CookieError (sa_ip (raw_from req))) (filter (\<lambda>(now, req, v). forged_packet E req v) ps)"

lemma run_packets_ban:
  "run_packets E ps c = Some c' \<Longrightarrow> ban_service c' = run_bans (env_filter E) (cookie_errors E ps) (ban_service c)"
proof (induction ps arbitrary: c)
  case Nil
  then show ?case
    by (simp add: cookie_errors_def run_bans_def)
next
  case (Cons p ps)
  obtain now req v where p: "p = (now, req, v)"
    by (cases p)
  obtain response c1 where c1: "handle_packet E now req v c = Some (response, c1)" "run_packets E ps c1 = Some c'"
    using Cons.prems by (auto simp: p split: option.splits)
  then show ?case
    using Cons.IH [OF c1(2)] handle_packet_ban [OF c1(1)] by (simp add: p cookie_errors_def run_bans_def)
qed

lemma errors_since_reset_cookie_errors:
  "errors_since_reset (cookie_errors E ps) ip =
   length (filter (\<lambda>(now, req, v). sa_ip (raw_from req) = ip \<and> forged_packet E req v) ps)"
proof (induction ps rule: rev_induct)
  case Nil
  then show ?case
    by (simp add: cookie_errors_def errors_since_reset_Nil)
next
  case (snoc p ps)
  obtain now req v where p: "p = (now, req, v)"
    by (cases p)
  have "cookie_errors E (ps @ [p]) =
      cookie_errors E ps @ (if forged_packet E req v then [CookieError (sa_ip (raw_from req))] else [])"
    by (simp add: cookie_errors_def p)
  then show ?case
    using snoc by (simp add: p errors_since_reset_snoc)
qed

lemma run_packets_same:
  assumes "run_packets E ps c = Some c'" and "same_tracker c d"
  shows "\<exists>d'. run_packets E (filter (\<lambda>(now, req, v). \<not> forged_packet E req v) ps) d = Some d' \<and> same_tracker c' d'"
  using assms
proof (induction ps arbitrary: c d)
  case (Cons p ps)
  obtain now req v where p: "p = (now, req, v)"
    by (cases p)
  obtain response c1 where c1: "handle_packet E now req v c = Some (response, c1)" "run_packets E ps c1 = Some c'"
    using Cons.prems by (auto simp: p split: option.splits)
  show ?case
  proof (cases "forged_packet E req v")
    case True
    then have "same_tracker c1 d"
      using handle_packet_ban [OF c1(1)] Cons.prems(2) by (simp add: same_tracker_def)
    from Cons.IH [OF c1(2) this] True show ?thesis
      by (simp add: p)
  next
    case False
    obtain d1 where d1: "handle_packet E now req v d = Some (response, d1)" "same_tracker c1 d1"
      using handle_packet_same [OF c1(1) Cons.prems(2)] by blast
    from Cons.IH [OF c1(2) d1(2)] False show ?thesis
      by (simp add: p d1(1))
  qed
qed simp

text \<open>
  C12: Forged packets do not touch the tracker and get their sender banned: after any sequence of
  packets from any addresses the torrents are those that the packets with valid connection ids
  alone leave, and an address is banned exactly when more than ten packets from it were forged.
\<close>
theorem forged_packets:
  assumes "counting_filter (env_filter E) inserted"
    and "ban_service c = BanService_new (env_filter E) MAX_CONNECTION_ID_ERRORS_PER_IP start"
    and "run_packets E ps c = Some c'" and "length ps < 2 ^ 32"
  shows "(\<exists>d. run_packets E (filter (\<lambda>(now, req, v). \<not> forged_packet E req v) ps) c = Some d \<and>
              announce_handler d = announce_handler c') \<and>
         (is_banned (env_filter E) ip (ban_service c') \<longleftrightarrow>
          10 < length (filter (\<lambda>(now, req, v). sa_ip (raw_from req) = ip \<and> forged_packet E req v) ps))"
proof -
  let ?ops = "cookie_errors E ps"
  have "errors_since_reset ?ops ip \<le> length ps"
    by (simp add: errors_since_reset_cookie_errors)
  then have small: "errors_since_reset ?ops ip < 2 ^ 32"
    using assms(4) by simp
  have "counts_errors inserted ?ops (ban_service c') \<and>
      max_connection_id_errors_per_ip (ban_service c') = MAX_CONNECTION_ID_ERRORS_PER_IP"
    using counting_filter.run_counts_errors [OF assms(1)] run_packets_ban [OF assms(3)] assms(2) by simp
  then have "is_banned (env_filter E) ip (ban_service c') \<longleftrightarrow> 10 < errors_since_reset ?ops ip"
    using counting_filter.is_banned_iff [OF assms(1) _ _ small] by (simp add: MAX_CONNECTION_ID_ERRORS_PER_IP_def)
  moreover have "same_tracker c c"
    by (simp add: same_tracker_def)
  ultimately show ?thesis
    using run_packets_same [OF assms(3), of c]
    by (auto simp: errors_since_reset_cookie_errors same_tracker_def)
qed

section \<open>Scrapes\<close>

text \<open>Reading a hash map yields each entry once, in an order that is not specified.\<close>

definition reads_hash_map :: "(('k \<rightharpoonup> 'v) \<Rightarrow> ('k \<times> 'v) list) \<Rightarrow> bool" where
  "reads_hash_map order = (\<forall>m. finite (dom m) \<longrightarrow> map_of (order m) = m \<and> distinct (map fst (order m)))"

lemma reads_hash_map_mset:
  assumes "reads_hash_map order" and "finite (dom m)"
  shows "mset (map (\<lambda>kv. f (snd kv)) (order m)) = image_mset (\<lambda>k. f (the (m k))) (mset_set (dom m))"
proof -
  have m: "map_of (order m) = m" "distinct (map fst (order m))"
    using assms by (simp_all add: reads_hash_map_def)
  have "m (fst kv) = Some (snd kv)" if "kv \<in> set (order m)" for kv
    using m that map_of_is_SomeI [of "order m" "fst kv" "snd kv"] by simp
  then have "map (\<lambda>kv. f (snd kv)) (order m) = map (\<lambda>k. f (the (m k))) (map fst (order m))"
    by simp
  moreover have "mset (map fst (order m)) = mset_set (dom m)"
    using mset_set_set [OF m(2)] dom_map_of_conv_image_fst [of "order m"] by (simp add: m(1))
  ultimately show ?thesis
    by (simp only: mset_map)
qed

text \<open>
  C31: A scrape with a valid connection id is answered with one entry for each distinct torrent
  requested: its numbers, or zeros for a torrent the tracker does not know or may not serve. The
  order of the entries is the order in which a hash map is read, not the order of the request.
\<close>
theorem udp_scrape_entries:
  assumes "tracker (env_repository E) r_ok r_view (env_database E) d_ok d_view storable"
    and "reads_hash_map (files_order E)"
    and "parse_bytes E (payload req) MAX_SCRAPE_TORRENTS = Inr (RequestScrape r)"
    and "cookie_check (env_cipher E) (sr_connection_id r) (gen_remote_fingerprint E (raw_from req)) (valid_range v) =
      Some (Inr t)"
    and "udp_tracker_ok r_ok r_view d_ok S c"
  shows "\<exists>entries c'.
    handle_packet E now req v c = Some (ResponseScrape (sr_transaction_id r) entries, c') \<and>
    announce_handler c' = announce_handler c \<and>
    mset entries =
      image_mset (\<lambda>ih. scrape_entry (if authorize (core_config c) (tracker_whitelist c) ih = Inr ()
                                      then swarm_stats (swarm_of S ih) else SwarmMetadata_zeroed))
        (mset_set (set (sr_info_hashes r)))"
proof -
  let ?sd = "scrape (env_repository E) (core_config c) (tracker_whitelist c) (sr_info_hashes r)
    (in_memory_torrent_repository (announce_handler c))"
  have "r_ok (in_memory_torrent_repository (announce_handler c))"
    and rep: "represents_all (r_view (in_memory_torrent_repository (announce_handler c))) S"
    using assms(5) by (simp_all add: udp_tracker_ok_def handler_ok_def)
  note fs = tracker.scrape_response [OF assms(1) this]
  then have dom: "dom (files ?sd) = set (sr_info_hashes r)"
    by (auto simp: dom_def)
  have "mset (map (\<lambda>file. scrape_entry (snd file)) (files_order E (files ?sd))) =
      image_mset (\<lambda>ih. scrape_entry (the (files ?sd ih))) (mset_set (set (sr_info_hashes r)))"
    using reads_hash_map_mset [OF assms(2), of "files ?sd"] by (simp add: dom)
  also have "\<dots> = image_mset (\<lambda>ih. scrape_entry (if authorize (core_config c) (tracker_whitelist c) ih = Inr ()
                                      then swarm_stats (swarm_of S ih) else SwarmMetadata_zeroed))
        (mset_set (set (sr_info_hashes r)))"
    by (intro image_mset_cong) (simp add: fs)
  finally show ?thesis
    using assms(3,4) by (simp add: handle_packet_def handle_scrape_def Let_def)
qed

section \<open>A running server\<close>

lemma count_small:
  assumes "length es < 2 ^ 52"
  shows "unat (of_nat (length (filter P es)) :: u64) = length (filter P es)"
proof -
  have "length (filter P es) < 2 ^ 64"
    by (rule le_less_trans [OF length_filter_le less_trans [OF assms]]) simp
  then show ?thesis
    by (simp add: unat_of_nat)
qed

lemma tally_events:
  "tally is_outcome es =
     length (filter (\<lambda>x. x = UdpRequestBanned) es) + length (filter (\<lambda>x. x = UdpRequestAborted) es) +
     length (filter is_udp4_response es) + length (filter is_udp6_response es)"
  "tally is_request es =
     length (filter (\<lambda>x. x = Udp4Request) es) + length (filter (\<lambda>x. x = Udp6Request) es)"
proof (induction es)
  case (Cons e es)
  {
    case 1
    show ?case using Cons by (cases e) (simp_all add: tally_def)
  next
    case 2
    show ?case using Cons by (cases e) (simp_all add: tally_def)
  }
qed simp_all


text \<open>
  C27: In every reachable state of a server that started with empty statistics, the average
  processing times do not exceed the longest processing time of a response, as long as that is
  below \<open>2 ^ 53\<close> nanoseconds and fewer than \<open>2 ^ 52\<close> events were sent: whatever the interleaving of
  the tasks, the floating point computation neither overflows nor divides by zero.
\<close>
theorem udp_averages_bounded:
  assumes "ring_buffer B contents" and "stats_events c = []" and "udp_reachable E B lifetime c s"
    and "length (stats_events (container s)) < 2 ^ 52"
    and "list_all (within T) (stats_events (container s))" and "T < 2 ^ 53"
    and "m = udp_dispatch_events (stats_events (container s)) UdpMetrics_default"
  shows "unat (udp_avg_connect_processing_time_ns m) \<le> T \<and> unat (udp_avg_announce_processing_time_ns m) \<le> T \<and>
         unat (udp_avg_scrape_processing_time_ns m) \<le> T"
proof -
  have "server_ok contents s"
    using udp_buffer.reachable_ok [OF udp_buffer.intro [OF assms(1)] assms(3,2)] .
  then have "requests_first [] (stats_events (container s))"
    by (cases "stats_enabled (container s)") (auto simp: server_ok_def events_ok_def)
  then show ?thesis
    unfolding assms(7) by (rule averages_le [OF _ assms(4-6)])
qed

section \<open>A sample server\<close>

definition sample_client :: SocketAddr where
  "sample_client = SocketAddr (ipv4 10 0 0 2) 6881"

definition sample_cookie :: "f64 \<Rightarrow> ConnectionId" where
  "sample_cookie t = xor (t + 7) 12345"

definition sample_announce_request :: "ConnectionId \<Rightarrow> AnnounceRequest" where
  "sample_announce_request cid =
     \<lparr>ar_connection_id = cid, ar_transaction_id = 9, ar_info_hash = sample_info_hash,
      ar_peer_id = peer_id sample_second, ar_bytes_downloaded = downloaded sample_second,
      ar_bytes_uploaded = uploaded sample_second, ar_bytes_left = left sample_second, ar_event = 2,
      ar_peers_wanted = 0, ar_port = sa_port (peer_addr sample_second)\<rparr>"

fun sample_parse :: "u8 list \<Rightarrow> u8 \<Rightarrow> (RequestParseError, UdpRequest) result" where
  "sample_parse [b] n =
     (if b = 0 then Inr (RequestConnect \<lparr>cr_transaction_id = 5\<rparr>)
      else if b = 1 then Inr (RequestAnnounce (sample_announce_request (sample_cookie (as_secs_f64 (from_secs 1000)))))
      else if b = 2 then Inr (RequestAnnounce (sample_announce_request (sample_cookie 0)))
      else Inr (RequestScrape \<lparr>sr_connection_id = sample_cookie F64_ONE, sr_transaction_id = 4,
                               sr_info_hashes = [sample_info_hash, sample_info_hash]\<rparr>))"
| "sample_parse _ n = Inl (Unsendable ''Couldn't parse action'')"

definition sample_env ::
  "((InfoHash, handle) btree_map SharedTorrents, sql_tables, IpAddr \<Rightarrow> nat) udp_env" where
  "sample_env =
     \<lparr>env_repository = TorrentsSkipMapMutexStd bt_skip_map, env_database = Sqlite mem_sqlite hex_info_hash,
      env_filter = exact_filter, env_cipher = xor_cipher 12345, default_hash = (\<lambda>_. 7),
      files_order = (\<lambda>m. map (\<lambda>ih. (ih, the (m ih))) (sorted_list_of_set (dom m))),
      parse_bytes = sample_parse, write_bytes = (\<lambda>_. Some []),
      event_from_bytes = (\<lambda>_. event sample_second), error_text = (\<lambda>_. ''cookie value is not normal'')\<rparr>"

definition sample_container ::
  "((InfoHash, handle) btree_map SharedTorrents, sql_tables, IpAddr \<Rightarrow> nat) UdpTrackerContainer" where
  "sample_container =
     \<lparr>core_config = Core_default, announce_handler = sample_tracker, tracker_whitelist = \<lparr>whitelist = {}\<rparr>,
      stats_enabled = True, stats_events = [],
      ban_service = BanService_new exact_filter MAX_CONNECTION_ID_ERRORS_PER_IP 0\<rparr>"

definition sample_packet :: "u8 \<Rightarrow> RawRequest" where
  "sample_packet b = \<lparr>payload = [b], raw_from = sample_client\<rparr>"

lemmas sample_env_simps = sample_env_def gen_remote_fingerprint_def sample_packet_def sample_client_def sample_container_def

lemma sample_ok:
  "udp_tracker_ok (skip_ok bt_skip_map bt_inv) (skip_view bt_skip_map) (sqlite_ok hex_info_hash (\<lambda>_. True) (\<lambda>t. t))
     (run_swarms Core_default sample_ops (\<lambda>_. None)) sample_container"
  using tracker.run_from_empty [OF mem_tracker.tracker_axioms sample_tables_ok sample_tracker_def]
  by (simp add: udp_tracker_ok_def sample_container_def)

lemma sample_authorized: "authorize Core_default w ih = Inr ()"
  by (simp add: authorize_def is_listed_def Core_default_def)

lemma sample_announced:
  "announced_peer Core_default (ipv4 10 0 0 2)
     (from_request sample_env (updated sample_second) (sample_announce_request cid) (ipv4 10 0 0 2)) =
   announced_peer Core_default (ipv4 10 0 0 2) sample_second"
  by (simp add: sample_peers from_request_def sample_announce_request_def sample_env_def)

lemma sample_connect:
  "handle_packet sample_env now (sample_packet 0) (CookieTimeValues_new (from_secs 1000) lifetime) c =
     Some (ResponseConnect 5 (sample_cookie (as_secs_f64 (from_secs 1000))), send_event Udp4Connect c)"
proof -
  have "f64_is_normal (as_secs_f64 (from_secs 1000))"
    by (rule as_secs_f64_normal) simp_all
  then show ?thesis
    by (simp add: handle_packet_def handle_connect_def sample_env_simps CookieTimeValues_new_def Let_def cookie_make_def
        cookie_encode_def assemble_def xor_cipher_def sample_cookie_def per_version_def ipv4_def)
qed

lemma seconds_exact:
  "f64_is_finite (as_secs_f64 (from_secs 1100))" "f64_is_finite (as_secs_f64 (from_secs 120))"
  "f64_scaled (as_secs_f64 (from_secs 1000)) = 1000 * 2 ^ 1074"
  "f64_scaled (as_secs_f64 (from_secs 1100)) = 1100 * 2 ^ 1074"
  "f64_scaled (as_secs_f64 (from_secs 120)) = 120 * 2 ^ 1074"
  using as_secs_f64_whole [of 1000] as_secs_f64_whole [of 1100] as_secs_f64_whole [of 120] by simp_all

theorem udp_session_witness:
  "\<exists>fixed ps c'.
    handle_packet sample_env (updated sample_second) (sample_packet 1)
      (CookieTimeValues_new (from_secs 1100) (as_secs_f64 (from_secs 120))) sample_container =
      Some (ResponseAnnounceIpv4 fixed ps, c') \<and>
    af_transaction_id fixed = 9 \<and> af_seeders fixed = 1 \<and> af_leechers fixed = 1"
proof -
  obtain ip where ip: "ipv4 10 0 0 2 = V4 ip"
    by (simp add: ipv4_def)
  let ?r = "sample_announce_request (sample_cookie (as_secs_f64 (from_secs 1000)))"
  have T: "tracker (env_repository sample_env) (skip_ok bt_skip_map bt_inv) (skip_view bt_skip_map)
      (env_database sample_env) (sqlite_ok hex_info_hash (\<lambda>_. True) (\<lambda>t. t)) (\<lambda>t. tables_view hex_info_hash t) sqlite_storable"
    using mem_tracker.tracker_axioms by (simp add: sample_env_def)
  have C: "block_cipher (env_cipher sample_env)"
    by (simp add: sample_env_def xor_block.block_cipher_axioms)
  have parse: "parse_bytes sample_env (payload (sample_packet 1)) MAX_SCRAPE_TORRENTS = Inr (RequestAnnounce ?r)"
    by (simp add: sample_env_simps)
  have cid: "ar_connection_id ?r = sample_cookie (as_secs_f64 (from_secs 1000))"
    by (simp add: sample_announce_request_def)
  have source: "raw_from (sample_packet 1) = raw_from (sample_packet 0)" "sa_ip (raw_from (sample_packet 1)) = V4 ip"
    by (simp_all add: sample_env_simps ip)
  have auth: "authorize (core_config sample_container) (tracker_whitelist sample_container) (ar_info_hash ?r) = Inr ()"
    by (simp add: sample_container_def sample_authorized)
  have config: "core_config sample_container = Core_default" "ar_info_hash ?r = sample_info_hash" "ar_transaction_id ?r = 9"
    by (simp_all add: sample_container_def sample_announce_request_def)
  from udp_session [OF T C sample_connect seconds_exact(1,2) _ _ parse cid source auth sample_ok refl refl, of "updated sample_second"]
  show ?thesis
    unfolding ip [symmetric] config sample_announced sample_swarm_second by (force simp: seconds_exact)
qed

lemma sample_forged:
  fixes v
  defines "v \<equiv> \<lparr>issue_time = 0, valid_range = (0, 0)\<rparr>"
  shows "forged_packet sample_env (sample_packet 2) v"
    and "\<exists>r c'. handle_packet sample_env now (sample_packet 2) v c = Some (r, c')"
proof -
  have "f64_le 0 0" "\<not> f64_is_normal 0"
    by (simp_all add: f64_le_def f64_is_nan_def f64_is_normal_def f64_mag_def)
  then have "cookie_check (xor_cipher 12345) (sample_cookie 0) 7 (0, 0) = Some (Inl (CookieValueNotNormal 0))"
    by (simp add: cookie_check_def Let_def cookie_decode_def disassemble_def sample_cookie_def xor_cipher_def xor.assoc)
  then show "forged_packet sample_env (sample_packet 2) v"
    and "\<exists>r c'. handle_packet sample_env now (sample_packet 2) v c = Some (r, c')"
    by (simp_all add: forged_packet_def handle_packet_def handle_announce_def handle_error_def sample_env_simps
        sample_announce_request_def v_def)
qed

theorem forged_packets_witness:
  "\<exists>c'. run_packets sample_env (replicate 11 (0, sample_packet 2, \<lparr>issue_time = 0, valid_range = (0, 0)\<rparr>))
           sample_container = Some c' \<and>
        announce_handler c' = sample_tracker \<and> is_banned exact_filter (ipv4 10 0 0 2) (ban_service c')"
proof -
  let ?p = "(0, sample_packet 2, \<lparr>issue_time = 0, valid_range = (0, 0)\<rparr>)"
  have "\<exists>c'. run_packets sample_env (replicate n ?p) c = Some c'" for n c
  proof (induction n arbitrary: c)
    case (Suc n)
    then show ?case
      using sample_forged(2) [of 0 c] by (auto simp: split: option.split)
  qed simp
  then obtain c' where c': "run_packets sample_env (replicate 11 ?p) sample_container = Some c'"
    by blast
  have F: "counting_filter (env_filter sample_env) (\<lambda>b. b)"
    by (simp add: sample_env_def exact.counting_filter_axioms)
  have ban: "ban_service sample_container = BanService_new (env_filter sample_env) MAX_CONNECTION_ID_ERRORS_PER_IP 0"
    and env: "env_filter sample_env = exact_filter" and tracker: "announce_handler sample_container = sample_tracker"
    by (simp_all add: sample_env_simps)
  have valid: "filter (\<lambda>(now, req, v). \<not> forged_packet sample_env req v) (replicate n ?p) = []"
    and forged: "filter (\<lambda>(now, req, v). sa_ip (raw_from req) = ipv4 10 0 0 2 \<and> forged_packet sample_env req v)
      (replicate n ?p) = replicate n ?p" for n
    using sample_forged(1) by (induction n) (simp_all add: sample_packet_def sample_client_def)
  have "length (replicate 11 ?p) < 2 ^ 32"
    by simp
  from forged_packets [OF F ban c' this, of "ipv4 10 0 0 2"] show ?thesis
    unfolding valid forged env using c' tracker by simp
qed

theorem udp_scrape_entries_witness:
  "\<exists>c'. handle_packet sample_env 0 (sample_packet 3) \<lparr>issue_time = 0, valid_range = (0, F64_ONE)\<rparr> sample_container =
          Some (ResponseScrape 4 [\<lparr>ts_seeders = 0, ts_completed = 0, ts_leechers = 1\<rparr>], c')"
proof -
  let ?r = "\<lparr>sr_connection_id = sample_cookie F64_ONE, sr_transaction_id = 4,
             sr_info_hashes = [sample_info_hash, sample_info_hash]\<rparr>"
  let ?v = "\<lparr>issue_time = 0, valid_range = (0, F64_ONE)\<rparr>"
  let ?S = "run_swarms Core_default sample_ops (\<lambda>_. None)"
  have T: "tracker (env_repository sample_env) (skip_ok bt_skip_map bt_inv) (skip_view bt_skip_map)
      (env_database sample_env) (sqlite_ok hex_info_hash (\<lambda>_. True) (\<lambda>t. t)) (\<lambda>t. tables_view hex_info_hash t) sqlite_storable"
    using mem_tracker.tracker_axioms by (simp add: sample_env_def)
  have order: "reads_hash_map (files_order sample_env)"
    by (auto simp: reads_hash_map_def sample_env_def map_of_map_keys comp_def domIff fun_eq_iff)
  have parse: "parse_bytes sample_env (payload (sample_packet 3)) MAX_SCRAPE_TORRENTS = Inr (RequestScrape ?r)"
    by (simp add: sample_env_simps)
  have check: "cookie_check (env_cipher sample_env) (sr_connection_id ?r)
      (gen_remote_fingerprint sample_env (raw_from (sample_packet 3))) (valid_range ?v) = Some (Inr F64_ONE)"
    using block_cipher.check_iff [OF xor_block.block_cipher_axioms, of 0 F64_ONE 12345 "sample_cookie F64_ONE" 7 F64_ONE]
    by (simp add: sample_env_simps F64_ONE_range cookie_make_def cookie_encode_def assemble_def xor_cipher_def sample_cookie_def)
  have "sint (left (announced_peer Core_default (ipv4 10 0 0 1) sample_first)) = 10"
    by (simp add: sample_peers sample_first_def sample_leecher_def fixture_defs)
  then have "swarm_stats (swarm_of ?S sample_info_hash) = \<lparr>sm_downloaded = 0, sm_complete = 0, sm_incomplete = 1\<rparr>"
    by (simp add: sample_swarm swarm_stats_single)
  with udp_scrape_entries [OF T order parse check sample_ok, of 0] show ?thesis
    by (auto simp: sample_container_def sample_authorized scrape_entry_def)
qed

lemma sample_reachable:
  obtains s where "udp_reachable sample_env list_ring lifetime sample_container s"
    and "stats_events (container s) = [Udp4Request, Udp4Connect, Udp4Response KindConnect 700]"
proof -
  let ?c = "request_received sample_client sample_container"
  let ?cid = "sample_cookie (as_secs_f64 (from_secs 1000))"
  define s0 where "s0 = run_udp_server_start list_ring sample_container"
  define s1 where "s1 = s0\<lparr>container := ?c, tasks := (tasks s0)(next_task s0 \<mapsto> Spawned (sample_packet 0)),
      next_task := next_task s0 + 1, main_loop := Pushing (next_task s0)\<rparr>"
  define s2 where "s2 = s1\<lparr>container := send_event Udp4Connect (container s1),
      tasks := (tasks s1)(0 \<mapsto> Handled (raw_from (sample_packet 0)) (ResponseConnect 5 ?cid))\<rparr>"
  define s3 where "s3 = s2\<lparr>container := send_response sample_env (\<lambda>_ _. True) sample_client (ResponseConnect 5 ?cid) 700
      (container s2), tasks := (tasks s2)(0 := None)\<rparr>"
  have "raw_from (sample_packet 0) = sample_client"
    by (simp add: sample_packet_def)
  have "udp_step sample_env list_ring lifetime s0 s1"
    unfolding s1_def
    by (rule udp_step.spawn) (simp_all add: s0_def run_udp_server_start_def sample_packet_def request_received_def
        is_banned_def sample_env_def sample_container_def BanService_new_def exact_filter_def)
  moreover have "udp_step sample_env list_ring lifetime s1 s2"
    unfolding s2_def using sample_connect
    by (intro udp_step.handle) (simp_all add: s1_def s0_def run_udp_server_start_def)
  moreover have "udp_step sample_env list_ring lifetime s2 s3"
    unfolding s3_def by (rule udp_step.respond) (simp add: s2_def sample_packet_def)
  ultimately have "udp_reachable sample_env list_ring lifetime sample_container s3"
    using udp_reachable.intros unfolding s0_def by metis
  moreover have "stats_events (container s3) = [Udp4Request, Udp4Connect, Udp4Response KindConnect 700]"
    by (simp add: s3_def s2_def s1_def s0_def run_udp_server_start_def send_response_def request_received_def
        response_event_def per_version_def sample_env_simps ipv4_def)
  ultimately show ?thesis
    using that by blast
qed


theorem udp_averages_bounded_witness:
  "\<exists>s. udp_reachable sample_env list_ring 0 sample_container s \<and> stats_events (container s) \<noteq> [] \<and>
       unat (udp_avg_connect_processing_time_ns
         (udp_dispatch_events (stats_events (container s)) UdpMetrics_default)) \<le> 700"
proof -
  obtain s where s: "udp_reachable sample_env list_ring 0 sample_container s"
    "stats_events (container s) = [Udp4Request, Udp4Connect, Udp4Response KindConnect 700]"
    by (rule sample_reachable)
  have "stats_events sample_container = []"
    by (simp add: sample_container_def)
  from udp_averages_bounded [OF list_ring.ring_buffer_axioms this s(1), of 700] s show ?thesis
    by auto
qed

end
