(* ===== verification/Http_Properties.thy ===== *)
theory Http_Properties
  imports Http_Handlers Http_Client Udp_Properties
begin

text \<open>
  The HTTP tracker as a whole: who is served and who is refused, what a client reads from the bytes
  of the responses, and what a client without a key learns from a private tracker.
\<close>

section \<open>Peers in the compact form\<close>

lemma encode_peers_v4_concat: "encode_peers_v4 ps = concat (map (\<lambda>(ip, port). be_parts 4 ip @ be_parts 2 port) ps)"
proof -
  have "fold (\<lambda>(ip, port) bytes. bytes @ be_parts 4 ip @ be_parts 2 port) ps bytes =
      bytes @ concat (map (\<lambda>(ip, port). be_parts 4 ip @ be_parts 2 port) ps)" for bytes :: "u8 list"
    by (induction ps arbitrary: bytes) auto
  then show ?thesis
    by (simp add: encode_peers_v4_def)
qed

lemma chunks_exact_concat:
  "0 < n \<Longrightarrow> \<forall>x \<in> set xs. length (f x) = n \<Longrightarrow> chunks_exact n (concat (map f xs)) = map f xs"
  by (induction xs) (simp_all add: chunks_exact.simps)

lemma CompactPeer_read: "CompactPeer_new_from_bytes (be_parts 4 ip @ be_parts 2 port) = Some (ip, port)"
proof -
  have "[xs ! 0, xs ! 1, xs ! 2, xs ! 3] = xs" if "length xs = 4" for xs :: "u8 list"
    using that by (auto simp: list_eq_iff_nth_eq numeral_eq_Suc less_Suc_eq)
  moreover have "[xs ! 0, xs ! 1] = xs" if "length xs = 2" for xs :: "u8 list"
    using that by (auto simp: list_eq_iff_nth_eq numeral_eq_Suc less_Suc_eq)
  ultimately show ?thesis
    using word_rcat_be_parts [of 4 ip, where 'b = 8] word_rcat_be_parts [of 2 port, where 'b = 8]
    by (simp add: CompactPeer_new_from_bytes_def nth_append)
qed

lemma read_encoded_peers: "read_compact_peers (encode_peers_v4 ps) = Some ps"
proof -
  have "those (map Some xs) = Some xs" for xs :: "(u32 \<times> u16) list"
    by (induction xs) auto
  then show ?thesis
    by (simp add: read_compact_peers_def encode_peers_v4_concat chunks_exact_concat case_prod_unfold CompactPeer_read comp_def)
qed

lemma partition_compact:
  "partition_peers (map CompactPeer_from ps) (v4, v6) =
   (v4 @ List.map_filter ipv4_peer ps, v6 @ List.map_filter ipv6_peer ps)"
  by (induction ps arbitrary: v4 v6)
     (auto simp: CompactPeer_from_def List.map_filter_def split: IpAddr.split)

lemma read_compact_announce: "read_compact_peers (cp_peers (Compact_from data)) = Some (List.map_filter ipv4_peer (peers data))"
  by (simp add: Compact_from_def partition_compact read_encoded_peers)

text \<open>
  The two protocols tell an IPv4 client the same: what the client reads from the peers of a compact
  HTTP response are the peers of the UDP response to the same announce, in the same order, and the
  numbers of seeders and leechers and the interval are the same 32-bit values.
\<close>
theorem http_udp_agree:
  "let data = fst (fst (announce R D config info_hash peer (V4 ip) peers_wanted h))
   in \<exists>ps. read_compact_peers (cp_peers (Compact_from data)) = Some ps \<and>
        announce_response_of config (SocketAddr (V4 ip) port) tid data =
          ResponseAnnounceIpv4
            \<lparr>af_transaction_id = tid, af_announce_interval = ucast (cp_interval (Compact_from data)),
             af_leechers = ucast (cp_incomplete (Compact_from data)),
             af_seeders = ucast (cp_complete (Compact_from data))\<rparr> ps"
proof -
  have "policy (fst (fst (announce R D config info_hash peer (V4 ip) peers_wanted h))) = announce_policy config"
    by (simp add: announce_def Let_def case_prod_unfold)
  then show ?thesis
    by (simp add: read_compact_announce announce_response_of_def Let_def Compact_from_def partition_compact
        as_i32_def [symmetric] read_encoded_peers)
qed

section \<open>What the decoder reads from the bodies\<close>

lemma body_decodes:
  "encodable 50 v \<Longrightarrow> \<exists>r. BencodeRef_decode (BencodeMut_encode v) BDecodeOpt_default = Some (Decoded r) \<and> strip_buffers r = v"
  using decode_encode [of BDecodeOpt_default v] by (auto simp: BDecodeOpt_default_def)

lemma encodable_mono: "encodable d v \<Longrightarrow> encodable (d + k) v"
  by (induction d v rule: encodable.induct) (auto simp: list_all_iff)

lemma length_number: "length (nat_to_string n) \<le> n + 1"
proof (induction n rule: nat_to_string.induct)
  case (1 n)
  then show ?case
    by (subst nat_to_string.simps) (auto simp: le_Suc_eq intro: order_trans)
qed

lemma length_hex: "length (nat_to_hex n) \<le> n + 1"
proof (induction n rule: nat_to_hex.induct)
  case (1 n)
  then show ?case
    by (subst nat_to_hex.simps) (auto simp: le_Suc_eq intro: order_trans)
qed

lemma length_join: "\<forall>s \<in> set ss. length s \<le> k \<Longrightarrow> length (join sep ss) \<le> length ss * (k + length sep)"
  by (induction sep ss rule: join.induct) auto

lemma length_ipv4: "length (ipv4_to_string a) \<le> 1028"
proof -
  have "length (nat_to_string (unat octet)) \<le> 256" for octet :: u8
    using length_number [of "unat octet"] byte_lt [of octet] by simp
  then show ?thesis
    using length_join [of "map (\<lambda>octet. nat_to_string (unat octet)) (be_parts 4 a :: u8 list)" 256 "''.''"]
    by (simp add: ipv4_to_string_def)
qed

lemma length_fmt_subslice: "length (fmt_subslice segments) \<le> length segments * 65537"
proof -
  have "length (nat_to_hex (unat segment)) \<le> 65536" for segment :: u16
    using length_hex [of "unat segment"] unsigned_less [of segment, where 'a = nat] by simp
  then show ?thesis
    using length_join [of "map (\<lambda>segment. nat_to_hex (unat segment)) segments" 65536 "'':''"]
    by (simp add: fmt_subslice_def)
qed

lemma length_ip: "length (ip_to_string ip) < 2 ^ 63"
proof (cases ip)
  case (V4 a)
  then show ?thesis
    using length_ipv4 [of a] by simp
next
  case (V6 a)
  let ?segments = "be_parts 8 a :: u16 list"
  have "length (fmt_subslice (take n ?segments)) \<le> 524296" "length (fmt_subslice (drop n ?segments)) \<le> 524296" for n
    using length_fmt_subslice [of "take n ?segments"] length_fmt_subslice [of "drop n ?segments"]
    by (simp_all add: min_def split: if_splits)
  note parts = this this(1) [of 8, simplified]
  show ?thesis
    using length_ipv4 [of "ucast a"] parts(1) [of "span_start (zeroes ?segments)"]
      parts(2) [of "span_start (zeroes ?segments) + span_len (zeroes ?segments)"] parts(3)
    by (simp add: V6 ipv6_to_string_def Let_def)
qed

lemma normal_encodable:
  assumes "\<forall>p \<in> set ps. length (np_peer_id p) < 2 ^ 63"
  shows "encodable 50 (ben_map [(''complete'', MutInt a), (''incomplete'', MutInt b), (''interval'', MutInt c),
      (''min interval'', MutInt d), (''peers'', MutList (map NormalPeer_bencode ps))])"
proof -
  have "encodable (Suc 1) (NormalPeer_bencode p)" if "p \<in> set ps" for p
    unfolding NormalPeer_bencode_def
    by (rule ben_map_encodable) (use assms that length_ip in \<open>simp add: as_bytes_def\<close>)
  then have "encodable (Suc (Suc (Suc 1))) (ben_map [(''complete'', MutInt a), (''incomplete'', MutInt b),
      (''interval'', MutInt c), (''min interval'', MutInt d), (''peers'', MutList (map NormalPeer_bencode ps))])"
    by (intro ben_map_encodable) (simp add: list_all_iff)
  from encodable_mono [OF this, of 46] show ?thesis
    by simp
qed

lemma compact_encodable:
  assumes "length xs < 2 ^ 63" and "length ys < 2 ^ 63"
  shows "encodable 50 (ben_map [(''complete'', MutInt a), (''incomplete'', MutInt b), (''interval'', MutInt c),
      (''min interval'', MutInt d), (''peers'', MutBytes xs), (''peers6'', MutBytes ys)])"
proof -
  have "encodable (Suc (Suc 0)) (ben_map [(''complete'', MutInt a), (''incomplete'', MutInt b), (''interval'', MutInt c),
      (''min interval'', MutInt d), (''peers'', MutBytes xs), (''peers6'', MutBytes ys)])"
    by (rule ben_map_encodable) (use assms in simp)
  from encodable_mono [OF this, of 48] show ?thesis
    by simp
qed

text \<open>The body of a response to an announce, as a client reads it.\<close>

definition announce_reply :: "Compact option \<Rightarrow> u8 list \<Rightarrow> AnnounceData \<Rightarrow> bool" where
  "announce_reply compact body data \<longleftrightarrow>
     (\<exists>r. BencodeRef_decode body BDecodeOpt_default = Some (Decoded r) \<and>
        field (strip_buffers r) ''complete'' = Some (MutInt (ucast (sm_complete (stats data)))) \<and>
        field (strip_buffers r) ''incomplete'' = Some (MutInt (ucast (sm_incomplete (stats data)))) \<and>
        field (strip_buffers r) ''interval'' = Some (MutInt (ucast (interval (policy data)))) \<and>
        field (strip_buffers r) ''min interval'' = Some (MutInt (ucast (interval_min (policy data)))) \<and>
        (if compact = Some Accepted
         then \<exists>bytes. field (strip_buffers r) ''peers'' = Some (MutBytes bytes) \<and>
                read_compact_peers bytes = Some (List.map_filter ipv4_peer (peers data))
         else field (strip_buffers r) ''peers'' = Some (MutList (map (\<lambda>p. NormalPeer_bencode (NormalPeer_from p)) (peers data)))))"

lemma length_encode_v4: "length (encode_peers_v4 ps) = 6 * length ps"
  by (simp add: encode_peers_v4_concat length_concat comp_def case_prod_unfold sum_list_triv)

lemma length_encode_v6: "length (encode_peers_v6 ps) = 18 * length ps"
proof -
  have "length (fold (\<lambda>(ip, port) bytes. bytes @ be_parts 16 ip @ be_parts 2 port) ps bytes) = length bytes + 18 * length ps"
    for bytes :: "u8 list"
    by (induction ps arbitrary: bytes) auto
  then show ?thesis
    by (simp add: encode_peers_v6_def)
qed

lemma length_map_filter: "length (List.map_filter f xs) \<le> length xs"
  by (simp add: List.map_filter_def)

lemma announce_reply_sent:
  assumes "length (peers data) \<le> 74" and "\<forall>p \<in> set (peers data). length (peer_id_bytes (peer_id p)) = 20"
  shows "announce_reply (aq_compact request) (response_body (build_announce_response request data)) data"
proof (cases "aq_compact request = Some Accepted")
  case True
  let ?c = "Compact_from data"
  have "length (cp_peers ?c) < 2 ^ 63" "length (cp_peers6 ?c) < 2 ^ 63"
    using assms(1) length_map_filter [of ipv4_peer "peers data"] length_map_filter [of ipv6_peer "peers data"]
    by (simp_all add: Compact_from_def partition_compact length_encode_v4 length_encode_v6)
  from body_decodes [OF compact_encodable [OF this]] True show ?thesis
    using read_compact_announce [of data]
    by (fastforce simp: announce_reply_def build_announce_response_def Compact_into_def field_ben_map Compact_from_def
        partition_compact)
next
  case False
  have "\<forall>p \<in> set (na_peers (Normal_from data)). length (np_peer_id p) < 2 ^ 63"
    using assms(2) by (auto simp: Normal_from_def NormalPeer_from_def)
  from body_decodes [OF normal_encodable [OF this]] False show ?thesis
    by (fastforce simp: announce_reply_def build_announce_response_def Normal_into_def field_ben_map Normal_from_def comp_def)
qed

section \<open>Announces\<close>

lemma announced_ids:
  assumes "\<forall>s \<in> ran S. \<forall>q \<in> ran (known s). length (peer_id_bytes (peer_id q)) = 20"
    and "length (peer_id_bytes (peer_id p)) = 20" and "q \<in> ran (known (spec_announce p (swarm_of S ih)))"
  shows "length (peer_id_bytes (peer_id q)) = 20"
proof -
  have "ran (known (spec_announce p (swarm_of S ih))) \<subseteq> insert p (ran (known (swarm_of S ih)))"
    by (auto simp: spec_announce_def ran_def split: if_splits)
  moreover have "ran (known (swarm_of S ih)) \<subseteq> (\<Union>s \<in> ran S. ran (known s))"
    by (auto simp: swarm_of_def spec_empty_def ran_def split: option.splits)
  ultimately show ?thesis
    using assms by blast
qed

lemma extract_announce_id: "extract_announce_from E raw_query = Inr request \<Longrightarrow> length (peer_id_bytes (aq_peer_id request)) = 20"
proof -
  have id: "Id_try_from bytes = Inr pid \<Longrightarrow> length (peer_id_bytes pid) = 20" for bytes pid
    by (auto simp: Id_try_from_def PEER_ID_BYTES_LEN_def split: if_splits)
  have inr: "try_bind r f = Inr y \<Longrightarrow> \<exists>x. r = Inr x \<and> f x = Inr y" for r :: "(ParseAnnounceQueryError, 'x) result" and f and y :: AnnounceQuery
    by (cases r) auto
  assume "extract_announce_from E raw_query = Inr request"
  then obtain query where "Announce_try_from (he_multimap E) (he_url E) query = Inr request"
    by (auto simp: extract_announce_from_def split: option.splits sum.splits elim!: map_err.elims)
  then have "extract_peer_id (he_multimap E) (he_url E) query = Inr (aq_peer_id request)"
    unfolding Announce_try_from_def by (auto dest!: inr)
  then show ?thesis
    by (auto simp: extract_peer_id_def percent_decode_peer_id_def id split: option.splits elim!: map_err.elims)
qed

text \<open>
  Who may announce: without a key on a tracker that is not private, or with a well-formed key that is
  accepted; for a torrent that is authorized, from an address that can be resolved.
\<close>

definition key_admitted :: "DurationSinceUnixEpoch \<Rightarrow> HttpRoute \<Rightarrow> ('s, 'db) HttpTrackerContainer \<Rightarrow> bool" where
  "key_admitted now route c =
     (case route of
        AnnounceRoute \<Rightarrow> \<not> core_private (ht_core_config c)
      | AnnounceKeyRoute (Inr path) \<Rightarrow>
          (\<exists>key. Key_from_str path = Inr key \<and> authenticate (ht_core_config c) (ht_keys c) now key = Inr ())
      | _ \<Rightarrow> False)"

definition announce_admitted ::
  "DurationSinceUnixEpoch \<Rightarrow> HttpRoute \<Rightarrow> ClientIpSources \<Rightarrow> AnnounceQuery \<Rightarrow> IpAddr \<Rightarrow>
   ('s, 'db) HttpTrackerContainer \<Rightarrow> bool" where
  "announce_admitted now route sources request ip c \<longleftrightarrow>
     key_admitted now route c \<and>
     authorize (ht_core_config c) (ht_whitelist c) (aq_info_hash request) = Inr () \<and>
     peer_ip_resolver_invoke (on_reverse_proxy (net (ht_core_config c))) sources = Inr ip"

definition wanted :: "AnnounceQuery \<Rightarrow> PeersWanted" where
  "wanted request = (case aq_numwant request of Some numwant \<Rightarrow> PeersWanted_only numwant | None \<Rightarrow> AsManyAsPossible)"

lemma authenticate_public: "\<not> core_private config \<Longrightarrow> authenticate config ks now key = Inr ()"
  by (simp add: authenticate_def tracker_is_private_def)

lemma router_announce_served:
  assumes "extract_announce_from E raw_query = Inr request" and "announce_admitted now route sources request ip c"
  shows "http_router E now route raw_query sources c =
    (let (data, c') = announce_invoke E (aq_info_hash request) (peer_from_request now request ip) (wanted request) c
     in (build_announce_response request data, c'))"
proof -
  have handle: "announce_handle E now request sources maybe_key c =
      (let (data, c') = announce_invoke E (aq_info_hash request) (peer_from_request now request ip) (wanted request) c
       in (build_announce_response request data, c'))"
    if "core_private (ht_core_config c) \<longrightarrow>
        (\<exists>key. maybe_key = Some key \<and> authenticate (ht_core_config c) (ht_keys c) now key = Inr ())" for maybe_key
    using that assms(2)
    by (auto simp: announce_handle_def http_handle_announce_def announce_admitted_def wanted_def Let_def split: prod.split)
  show ?thesis
    using assms handle
    by (cases route)
       (auto simp: announce_admitted_def key_admitted_def announce_handle_without_key_def announce_handle_with_key_def
         extract_key_def parse_key_def split: sum.splits)
qed

text \<open>The handler refuses when one of the three checks fails, and changes nothing.\<close>

lemma announce_handle_refused:
  assumes "\<not> (\<exists>ip. (core_private (ht_core_config c) \<longrightarrow>
        (\<exists>key. maybe_key = Some key \<and> authenticate (ht_core_config c) (ht_keys c) now key = Inr ())) \<and>
      authorize (ht_core_config c) (ht_whitelist c) (aq_info_hash request) = Inr () \<and>
      peer_ip_resolver_invoke (on_reverse_proxy (net (ht_core_config c))) sources = Inr ip)"
  shows "\<exists>e. announce_handle E now request sources maybe_key c = (error_response E e, c)"
proof -
  let ?auth = "if core_private (ht_core_config c)
      then (case maybe_key of
              Some key \<Rightarrow> map_err (map_auth_error_to_error_response (he_texts E)) (authenticate (ht_core_config c) (ht_keys c) now key)
            | None \<Rightarrow> Inl (error_from_auth (he_texts E) MissingAuthKey))
      else Inr ()"
  have "?auth = Inr () \<longleftrightarrow> (core_private (ht_core_config c) \<longrightarrow>
      (\<exists>key. maybe_key = Some key \<and> authenticate (ht_core_config c) (ht_keys c) now key = Inr ()))"
    by (cases maybe_key) (auto elim: map_err.elims)
  then have "(\<exists>e. ?auth = Inl e) \<or> (\<exists>e. authorize (ht_core_config c) (ht_whitelist c) (aq_info_hash request) = Inl e) \<or>
      (\<exists>e. peer_ip_resolver_invoke (on_reverse_proxy (net (ht_core_config c))) sources = Inl e)"
    using assms by (metis (full_types) old.unit.exhaust sumE)
  then show ?thesis
    unfolding announce_handle_def http_handle_announce_def
    by (cases ?auth; cases "authorize (ht_core_config c) (ht_whitelist c) (aq_info_hash request)";
        cases "peer_ip_resolver_invoke (on_reverse_proxy (net (ht_core_config c))) sources") fastforce+
qed

lemma router_announce_refused:
  assumes "route = AnnounceRoute \<or> (\<exists>path. route = AnnounceKeyRoute path)"
    and "\<nexists>request ip. extract_announce_from E raw_query = Inr request \<and> announce_admitted now route sources request ip c"
  shows "\<exists>e. http_router E now route raw_query sources c = (error_response E e, c)"
proof (cases "extract_announce_from E raw_query")
  case (Inl e)
  then show ?thesis
    using assms(1) by (auto simp: announce_handle_without_key_def announce_handle_with_key_def)
next
  case (Inr request)
  then have not: "\<not> announce_admitted now route sources request ip c" for ip
    using assms(2) by blast
  show ?thesis
  proof (cases "\<exists>path. route = AnnounceKeyRoute path")
    case True
    then obtain path where route: "route = AnnounceKeyRoute path" by blast
    show ?thesis
    proof (cases "extract_key (he_texts E) path")
      case (Inr key)
      then obtain given where "path = Inr given" "Key_from_str given = Inr key"
        by (auto simp: extract_key_def parse_key_def split: sum.splits elim!: map_err.elims)
      then have "\<exists>e. announce_handle E now request sources (Some key) c = (error_response E e, c)"
        using not authenticate_public [of "ht_core_config c" "ht_keys c" now key]
        by (intro announce_handle_refused) (auto simp: announce_admitted_def key_admitted_def route)
      then show ?thesis
        using Inr \<open>extract_announce_from E raw_query = Inr request\<close> by (simp add: route announce_handle_with_key_def)
    qed (use Inr in \<open>auto simp: route announce_handle_with_key_def\<close>)
  next
    case False
    then have route: "route = AnnounceRoute"
      using assms(1) by blast
    have "\<exists>e. announce_handle E now request sources None c = (error_response E e, c)"
      using not by (intro announce_handle_refused) (auto simp: announce_admitted_def key_admitted_def route)
    then show ?thesis
      using Inr by (simp add: route announce_handle_without_key_def)
  qed
qed

text \<open>
  C4: An announce that the HTTP tracker admits is served: the response decodes to the numbers of
  seeders and leechers of the swarm after the announce, the intervals of the policy, and distinct
  peers of the swarm at other addresses, 74 of them or all; in the compact form the client reads their
  IPv4 addresses. The tracker then represents the swarms after the announce, and the statistics
  receive one event.
\<close>
theorem http_announce_served:
  assumes "tracker (he_repository E) r_ok r_view (he_database E) d_ok d_view storable"
    and "handler_ok r_ok d_ok (ht_announce_handler c)"
    and "represents_all (r_view (in_memory_torrent_repository (ht_announce_handler c))) S"
    and "\<forall>s \<in> ran S. \<forall>q \<in> ran (known s). length (peer_id_bytes (peer_id q)) = 20"
    and "extract_announce_from E raw_query = Inr request"
    and "announce_admitted now route sources request ip c"
    and "p = announced_peer (ht_core_config c) ip (peer_from_request now request ip)"
    and "s' = spec_announce p (swarm_of S (aq_info_hash request))"
  shows "\<exists>body c' data.
    http_router E now route raw_query sources c = (\<lparr>response_status = 200, response_body = body\<rparr>, c') \<and>
    announce_reply (aq_compact request) body data \<and>
    stats data = swarm_stats s' \<and> policy data = announce_policy (ht_core_config c) \<and>
    distinct (peers data) \<and> set (peers data) \<subseteq> {q \<in> ran (known s'). peer_addr q \<noteq> peer_addr p} \<and>
    length (peers data) = min 74 (card {q \<in> ran (known s'). peer_addr q \<noteq> peer_addr p}) \<and>
    handler_ok r_ok d_ok (ht_announce_handler c') \<and>
    represents_all (r_view (in_memory_torrent_repository (ht_announce_handler c'))) (S(aq_info_hash request \<mapsto> s')) \<and>
    ht_events c' = ht_events c @ (if ht_stats_enabled c then [per_version ip Tcp4Announce Tcp6Announce] else [])"
proof -
  let ?peer = "peer_from_request now request ip"
  have ip: "sa_ip (peer_addr ?peer) = ip"
    by (simp add: peer_from_request_def Let_def)
  obtain data p' h where a: "announce (he_repository E) (he_database E) (ht_core_config c) (aq_info_hash request) ?peer ip
      (wanted request) (ht_announce_handler c) = ((data, p'), h)"
    by (metis prod.collapse)
  note answer = tracker.announce_response [OF assms(1-3) a, folded assms(7), folded assms(8)]
  note effect = tracker.announce_effect [OF assms(1,2), of "ht_core_config c" "aq_info_hash request" ?peer ip "wanted request",
      unfolded a snd_conv, folded assms(7)]
  have limit: "max (PeersWanted_limit (wanted request)) TORRENT_PEERS_LIMIT = 74"
    by (simp add: wanted_def PeersWanted_limit_def PeersWanted_only_def PeersWanted_from_u32_def TORRENT_PEERS_LIMIT_def
        split: option.split)
  have "length (peer_id_bytes (peer_id p)) = 20"
    using extract_announce_id [OF assms(5)]
    by (simp add: assms(7) announced_peer_def change_ip_def peer_from_request_def Let_def)
  note ids = announced_ids [OF assms(4) this]
  have "length (peer_id_bytes (peer_id q)) = 20" if "q \<in> set (peers data)" for q
    using ids [of q "aq_info_hash request"] answer(5) that by (auto simp: assms(8))
  then have reply: "announce_reply (aq_compact request) (response_body (build_announce_response request data)) data"
    using answer(6) by (intro announce_reply_sent) (simp_all add: limit)
  have "represents_all (r_view (in_memory_torrent_repository h)) (S(aq_info_hash request \<mapsto> s'))"
    using represents_all_upsert [OF assms(3)] by (simp add: effect(2) assms(8))
  moreover have "http_router E now route raw_query sources c =
      (\<lparr>response_status = 200, response_body = response_body (build_announce_response request data)\<rparr>,
       http_send_event (per_version ip Tcp4Announce Tcp6Announce) (c\<lparr>ht_announce_handler := h\<rparr>))"
    by (simp add: router_announce_served [OF assms(5,6)] announce_invoke_def Let_def ip a build_announce_response_def)
  moreover have "length (peers data) = min 74 (card {q \<in> ran (known s'). peer_addr q \<noteq> peer_addr p})"
    using answer(1,6) by (simp add: limit)
  moreover have "set (peers data) \<subseteq> {q \<in> ran (known s'). peer_addr q \<noteq> peer_addr p}"
    using answer(1,5) by simp
  ultimately show ?thesis
    using reply answer(2,3,4) effect(1)
    by (intro exI [of _ "response_body (build_announce_response request data)"]
        exI [of _ "http_send_event (per_version ip Tcp4Announce Tcp6Announce) (c\<lparr>ht_announce_handler := h\<rparr>)"] exI [of _ data])
       (simp add: http_send_event_def)
qed

text \<open>
  C11: An announce that the HTTP tracker does not admit is refused with a failure reason and changes
  nothing: neither the swarms, nor the database, nor the statistics. This covers queries that do not
  parse, missing, malformed, unknown and expired keys on a private tracker, torrents that are not
  whitelisted and clients whose address cannot be resolved.
\<close>
theorem http_announce_refused:
  assumes "route = AnnounceRoute \<or> (\<exists>path. route = AnnounceKeyRoute path)"
    and "\<nexists>request ip. extract_announce_from E raw_query = Inr request \<and> announce_admitted now route sources request ip c"
  shows "\<exists>reason. http_router E now route raw_query sources c =
    (\<lparr>response_status = 200, response_body = to_bencode_string E \<lparr>failure_reason = reason\<rparr>\<rparr>, c)"
proof -
  obtain e where "http_router E now route raw_query sources c = (error_response E e, c)"
    using router_announce_refused [OF assms] by blast
  then show ?thesis
    by (cases e) (auto simp: error_response_def)
qed

section \<open>Scrapes\<close>

definition scrape_key_accepted :: "DurationSinceUnixEpoch \<Rightarrow> HttpRoute \<Rightarrow> ('s, 'db) HttpTrackerContainer \<Rightarrow> bool" where
  "scrape_key_accepted now route c =
     (case route of
        ScrapeKeyRoute (Inr path) \<Rightarrow>
          (\<exists>key. Key_from_str path = Inr key \<and> authenticate (ht_core_config c) (ht_keys c) now key = Inr ())
      | _ \<Rightarrow> False)"

lemma scrape_handle_fake:
  assumes "core_private (ht_core_config c)"
    and "\<forall>key. maybe_key = Some key \<longrightarrow> authenticate (ht_core_config c) (ht_keys c) now key \<noteq> Inr ()"
  shows "scrape_handle E now request sources maybe_key c =
    (case peer_ip_resolver_invoke (on_reverse_proxy (net (ht_core_config c))) sources of
       Inl e \<Rightarrow> (error_response E (error_from_ip (he_texts E) e), c)
     | Inr ip \<Rightarrow> (build_scrape_response E (ScrapeData_zeroed (sq_info_hashes request)), send_scrape_event ip c))"
proof -
  have "(case authenticate (ht_core_config c) (ht_keys c) now key of Inr _ \<Rightarrow> True | Inl _ \<Rightarrow> False) = False"
    if "maybe_key = Some key" for key
    using assms(2) that by (cases "authenticate (ht_core_config c) (ht_keys c) now key") auto
  then show ?thesis
    using assms(1)
    by (cases maybe_key) (simp_all add: scrape_handle_def http_handle_scrape_def scrape_fake_def split: sum.split)
qed

text \<open>The answer to a scrape without an accepted key, and the address the statistics count.\<close>

definition private_scrape ::
  "('s, 'db, 'm) http_env \<Rightarrow> Core \<Rightarrow> HttpRoute \<Rightarrow> string option \<Rightarrow> ClientIpSources \<Rightarrow> HttpResponse \<times> IpAddr option" where
  "private_scrape E config route raw_query sources =
     (case extract_scrape_from E raw_query of
        Inl e \<Rightarrow> (error_response E e, None)
      | Inr request \<Rightarrow>
          (case (case route of ScrapeKeyRoute path \<Rightarrow> extract_key (he_texts E) path | _ \<Rightarrow> Inr (Key [])) of
             Inl e \<Rightarrow> (error_response E e, None)
           | Inr _ \<Rightarrow>
               (case peer_ip_resolver_invoke (on_reverse_proxy (net config)) sources of
                  Inl e \<Rightarrow> (error_response E (error_from_ip (he_texts E) e), None)
                | Inr ip \<Rightarrow> (build_scrape_response E (ScrapeData_zeroed (sq_info_hashes request)), Some ip))))"

lemma router_private_scrape:
  assumes "route = ScrapeRoute \<or> (\<exists>path. route = ScrapeKeyRoute path)"
    and "core_private (ht_core_config c)" and "\<not> scrape_key_accepted now route c"
  shows "http_router E now route raw_query sources c =
    (let (response, counted) = private_scrape E (ht_core_config c) route raw_query sources
     in (response, case counted of None \<Rightarrow> c | Some ip \<Rightarrow> send_scrape_event ip c))"
  using assms(1)
proof
  assume "route = ScrapeRoute"
  then show ?thesis
    using assms(2) by (simp add: scrape_handle_without_key_def private_scrape_def scrape_handle_fake split: sum.split)
next
  assume "\<exists>path. route = ScrapeKeyRoute path"
  then obtain path where route: "route = ScrapeKeyRoute path" by blast
  have "\<forall>key. extract_key (he_texts E) path = Inr key \<longrightarrow> authenticate (ht_core_config c) (ht_keys c) now key \<noteq> Inr ()"
    using assms(3) by (auto simp: scrape_key_accepted_def route extract_key_def parse_key_def split: sum.splits elim!: map_err.elims)
  then show ?thesis
    using assms(2)
    by (auto simp: route scrape_handle_with_key_def private_scrape_def scrape_handle_fake split: sum.split)
qed


section \<open>Witnesses\<close>

text \<open>An empty public tracker over concrete instances of the parameters, and a client behind no proxy.\<close>

definition http_sample_env ::
  "((InfoHash, handle) btree_map SharedTorrents, sql_tables, (string \<times> NameValuePair list) list) http_env" where
  "http_sample_env =
     \<lparr>he_repository = TorrentsSkipMapMutexStd bt_skip_map, he_database = Sqlite mem_sqlite hex_info_hash,
      he_multimap = alist_multimap, he_url = url_codec, he_order = files_order sample_env,
      he_texts = \<lparr>show_query_error = (\<lambda>_. []), show_announce_error = (\<lambda>_. []), show_scrape_error = (\<lambda>_. []),
        show_ip_error = (\<lambda>_. []), show_whitelist_error = (\<lambda>_. []), show_auth_error = (\<lambda>_. []), show_key_error = (\<lambda>_. [])\<rparr>,
      to_bencode_string = (\<lambda>e. BencodeMut_encode (ben_map [(''failure reason'', MutBytes (as_bytes (failure_reason e)))]))\<rparr>"

definition http_sample ::
  "((InfoHash, handle) btree_map SharedTorrents, sql_tables) HttpTrackerContainer" where
  "http_sample =
     \<lparr>ht_core_config = Core_default,
      ht_announce_handler = \<lparr>in_memory_torrent_repository = repo_default (TorrentsSkipMapMutexStd bt_skip_map),
                             db_torrent_repository = tables_empty\<rparr>,
      ht_keys = \<lparr>keys = (\<lambda>_. None)\<rparr>, ht_whitelist = \<lparr>whitelist = {}\<rparr>, ht_stats_enabled = True, ht_events = []\<rparr>"

definition sample_sources :: ClientIpSources where
  "sample_sources = \<lparr>right_most_x_forwarded_for = None, connection_info_ip = Some (ipv4 10 0 0 2)\<rparr>"

lemma http_sample_tracker:
  "tracker (he_repository http_sample_env) (skip_ok bt_skip_map bt_inv) (skip_view bt_skip_map)
     (he_database http_sample_env) (sqlite_ok hex_info_hash (\<lambda>_. True) (\<lambda>t. t)) (\<lambda>t. tables_view hex_info_hash t) sqlite_storable"
  using mem_tracker.tracker_axioms by (simp add: http_sample_env_def)

lemma http_sample_ok:
  "handler_ok (skip_ok bt_skip_map bt_inv) (sqlite_ok hex_info_hash (\<lambda>_. True) (\<lambda>t. t)) (ht_announce_handler http_sample)"
  "represents_all (skip_view bt_skip_map (in_memory_torrent_repository (ht_announce_handler http_sample))) (\<lambda>_. None)"
  using tracker.run_from_empty [OF mem_tracker.tracker_axioms sample_tables_ok, of "ht_announce_handler http_sample" Core_default "[]"]
  by (simp_all add: http_sample_def run_tracker_def run_swarms_def)

lemma http_sample_extract:
  "extract_announce_from http_sample_env (Some (ClientAnnounce_build pct_encode sample_announce)) = Inr (received sample_announce)"
  using pct.announce_received [of sample_announce]
  by (auto simp: extract_announce_from_def http_sample_env_def sample_announce_def first_overflow_def)

theorem http_announce_served_witness:
  "\<exists>body c' data.
    http_router http_sample_env 5 AnnounceRoute (Some (ClientAnnounce_build pct_encode sample_announce)) sample_sources http_sample =
      (\<lparr>response_status = 200, response_body = body\<rparr>, c') \<and>
    announce_reply (Some NotAccepted) body data \<and> sm_complete (stats data) = 1 \<and> peers data = [] \<and>
    ht_events c' = [Tcp4Announce]"
proof -
  let ?request = "received sample_announce"
  let ?p = "announced_peer Core_default (ipv4 10 0 0 2) (peer_from_request 5 ?request (ipv4 10 0 0 2))"
  let ?s = "spec_announce ?p (swarm_of (\<lambda>_. None) (aq_info_hash ?request))"
  have public: "\<not> core_private Core_default" "\<not> on_reverse_proxy (net Core_default)"
    by (simp_all add: Core_default_def Core_default_private_def Network_default_def)
  then have admitted: "announce_admitted 5 AnnounceRoute sample_sources ?request (ipv4 10 0 0 2) http_sample"
    by (simp add: announce_admitted_def key_admitted_def http_sample_def sample_authorized sample_sources_def
        peer_ip_resolver_invoke_def resolve_peer_ip_without_reverse_proxy_def)
  have config: "ht_core_config http_sample = Core_default" "ht_events http_sample = []" "ht_stats_enabled http_sample"
    by (simp_all add: http_sample_def)
  have known: "known ?s = [peer_id ?p \<mapsto> ?p]" and left: "sint (left ?p) = 0" and compact: "aq_compact ?request = Some NotAccepted"
    by (simp_all add: spec_announce_def swarm_of_def spec_empty_def announced_peer_def change_ip_def peer_from_request_def
        received_def sample_announce_def Let_def)
  then obtain n where s: "?s = \<lparr>known = [peer_id ?p \<mapsto> ?p], completed = n\<rparr>"
    by (metis SwarmSpec.surjective old.unit.exhaust)
  have seeders: "sm_complete (swarm_stats ?s) = 1"
    unfolding s using left by (simp add: swarm_stats_single)
  have none: "{q \<in> ran (known ?s). peer_addr q \<noteq> peer_addr ?p} = {}"
    unfolding known by auto
  have version: "per_version (ipv4 10 0 0 2) Tcp4Announce Tcp6Announce = Tcp4Announce"
    by (simp add: per_version_def ipv4_def)
  have ids: "\<forall>s \<in> ran (\<lambda>_. None :: SwarmSpec option). \<forall>q \<in> ran (known s). length (peer_id_bytes (peer_id q)) = 20"
    by (simp add: ran_def)
  from http_announce_served [OF http_sample_tracker http_sample_ok ids http_sample_extract admitted refl refl]
  obtain body c' data where
    "http_router http_sample_env 5 AnnounceRoute (Some (ClientAnnounce_build pct_encode sample_announce)) sample_sources http_sample =
      (\<lparr>response_status = 200, response_body = body\<rparr>, c')"
    "announce_reply (Some NotAccepted) body data" "stats data = swarm_stats ?s" "length (peers data) = min 74 (card {})"
    "ht_events c' = [] @ [Tcp4Announce]"
    unfolding config(1,2) none compact version using config(3) by auto
  then show ?thesis
    using seeders by (intro exI [of _ body] exI [of _ c'] exI [of _ data]) auto
qed

theorem http_announce_refused_witness:
  "\<exists>reason. http_router http_sample_env 5 AnnounceRoute None sample_sources http_sample =
     (\<lparr>response_status = 200, response_body = to_bencode_string http_sample_env \<lparr>failure_reason = reason\<rparr>\<rparr>, http_sample)"
  by (rule http_announce_refused) (simp_all add: extract_announce_from_def)


end
