(* ===== verification/Http_Scrape_Session.thy ===== *)
theory Http_Scrape_Session
  imports Http_Properties
begin

text \<open>
  A scrape from one end to the other: the client builds the query, the server answers, and the client
  reads the response. The client reads bencode with another crate, whose values keep a dictionary in
  a hash map with an order of its own; the locale \<open>bencode_reader\<close> says that it reads what was
  encoded.
\<close>

section \<open>The reader of the client\<close>

fun value_of :: "((u8 list \<times> Value) list \<Rightarrow> (u8 list \<times> Value) list) \<Rightarrow> BencodeMut \<Rightarrow> Value" where
  "value_of order (MutInt n) = ValueInt n"
| "value_of order (MutBytes bytes) = ValueBytes bytes"
| "value_of order (MutList xs) = ValueList (map (value_of order) xs)"
| "value_of order (MutDict es) = ValueDict (order (map (\<lambda>(k, v). (k, value_of order v)) es))"

locale bencode_reader =
  fixes read_files :: "u8 list \<Rightarrow> Value option" and order :: "(u8 list \<times> Value) list \<Rightarrow> (u8 list \<times> Value) list"
  assumes reads: "encodable 40 v \<Longrightarrow> read_files (BencodeMut_encode (ben_map [(''files'', v)])) = Some (value_of order v)"
    and order: "mset (order es) = mset es"

text \<open>The decoder of the repository is such a reader.\<close>

definition decoder_read_files :: "u8 list \<Rightarrow> Value option" where
  "decoder_read_files bytes =
     (case BencodeRef_decode bytes BDecodeOpt_default of
        Some (Decoded r) \<Rightarrow> map_option (value_of (\<lambda>es. es)) (field (strip_buffers r) ''files'')
      | _ \<Rightarrow> None)"

interpretation decoder: bencode_reader decoder_read_files "\<lambda>es. es"
proof
  fix v
  assume "encodable 40 v"
  then have "encodable (Suc 40) (ben_map [(''files'', v)])"
    by (intro ben_map_encodable) simp
  then have "encodable (Suc 40 + 9) (ben_map [(''files'', v)])"
    by (rule encodable_mono)
  then show "decoder_read_files (BencodeMut_encode (ben_map [(''files'', v)])) = Some (value_of (\<lambda>es. es) v)"
    using body_decodes [of "ben_map [(''files'', v)]"] by (auto simp: decoder_read_files_def field_ben_map)
qed simp

section \<open>Reading a file\<close>

definition file_of :: "SwarmMetadata \<Rightarrow> File" where
  "file_of m =
     \<lparr>file_complete = ucast (sm_complete m), file_downloaded = ucast (sm_downloaded m),
      file_incomplete = ucast (sm_incomplete m)\<rparr>"

text \<open>The fields are read in any order.\<close>

lemma parse_file_fields_ints:
  assumes "distinct (map fst es)"
    and "set es \<subseteq> {(as_bytes ''complete'', ValueInt a), (as_bytes ''downloaded'', ValueInt b), (as_bytes ''incomplete'', ValueInt e)}"
  shows "parse_file_fields es (c, d, i) =
    Inr (if as_bytes ''complete'' \<in> fst ` set es then Some a else c,
         if as_bytes ''downloaded'' \<in> fst ` set es then Some b else d,
         if as_bytes ''incomplete'' \<in> fst ` set es then Some e else i)"
  using assms
proof (induction es arbitrary: c d i)
  case (Cons x es)
  have fresh: "fst x \<notin> fst ` set es"
    using Cons.prems(1) by simp
  have IH: "parse_file_fields es (c', d', i') =
    Inr (if as_bytes ''complete'' \<in> fst ` set es then Some a else c',
         if as_bytes ''downloaded'' \<in> fst ` set es then Some b else d',
         if as_bytes ''incomplete'' \<in> fst ` set es then Some e else i')" for c' d' i'
    using Cons.prems by (intro Cons.IH) simp_all
  have names: "as_bytes ''complete'' \<noteq> as_bytes ''downloaded''" "as_bytes ''complete'' \<noteq> as_bytes ''incomplete''"
    "as_bytes ''downloaded'' \<noteq> as_bytes ''incomplete''"
    by (simp_all add: as_bytes_inject)
  consider "x = (as_bytes ''complete'', ValueInt a)" | "x = (as_bytes ''downloaded'', ValueInt b)"
    | "x = (as_bytes ''incomplete'', ValueInt e)"
    using Cons.prems(2) by auto
  then show ?case
    by cases (use fresh names names [symmetric] in \<open>simp_all add: IH\<close>)
qed simp

lemma scrape_file_entries:
  "scrape_file m = MutDict [(as_bytes ''complete'', MutInt (ucast (sm_complete m))),
     (as_bytes ''downloaded'', MutInt (ucast (sm_downloaded m))), (as_bytes ''incomplete'', MutInt (ucast (sm_incomplete m)))]"
  by (simp add: scrape_file_def ben_map_def as_bytes_def byte_of_def)

lemma collect_files_all:
  "\<forall>(k, v) \<in> set L. parse_bencoded_file v = Inr (F k) \<and> length k = 20 \<Longrightarrow>
   collect_files L fs = Some (\<lambda>k. if k \<in> fst ` set L then Some (F k) else fs k)"
  by (induction L arbitrary: fs) (auto simp: InfoHash_new_def fun_eq_iff)

context bencode_reader
begin

lemma file_read: "parse_bencoded_file (value_of order (scrape_file m)) = Inr (file_of m)"
proof -
  let ?es = "[(as_bytes ''complete'', ValueInt (ucast (sm_complete m))), (as_bytes ''downloaded'', ValueInt (ucast (sm_downloaded m))),
     (as_bytes ''incomplete'', ValueInt (ucast (sm_incomplete m)))]"
  have set: "set (order ?es) = set ?es"
    using order [of ?es] by (metis set_mset_mset)
  have "mset (map fst (order ?es)) = mset (map fst ?es)"
    using order [of ?es] by (simp only: mset_map)
  moreover have "distinct (map fst ?es)"
    by (simp add: as_bytes_inject)
  ultimately have "distinct (map fst (order ?es))"
    by (metis mset_eq_imp_distinct_iff)
  then show ?thesis
    using parse_file_fields_ints [of "order ?es" "ucast (sm_complete m)" "ucast (sm_downloaded m)" "ucast (sm_incomplete m)" None None None]
    by (simp add: scrape_file_entries parse_bencoded_file_def set file_of_def)
qed

text \<open>A response is read back as the files that were sent.\<close>

lemma response_read:
  assumes "encodable 40 (MutDict es)"
    and "\<And>k v. (k, v) \<in> set es \<longleftrightarrow> (\<exists>m. F k = Some m \<and> v = scrape_file m)"
    and "\<And>k. k \<in> dom F \<Longrightarrow> length k = 20"
  shows "Response_try_from_bencoded read_files (BencodeMut_encode (ben_map [(''files'', MutDict es)])) =
    Some (Inr (\<lambda>k. map_option file_of (F k)))"
proof -
  let ?L = "order (map (\<lambda>(k, v). (k, value_of order v)) es)"
  have set: "set ?L = (\<lambda>(k, v). (k, value_of order v)) ` set es"
    using arg_cong [OF order [of "map (\<lambda>(k, v). (k, value_of order v)) es"], of set_mset] by simp
  have "parse_bencoded_file v = Inr (file_of (the (F k))) \<and> length k = 20" if mem: "(k, v) \<in> set ?L" for k v
  proof -
    obtain v' where "(k, v') \<in> set es" "v = value_of order v'"
      using mem unfolding set by auto
    then show ?thesis
      using assms(2) [of k v'] assms(3) [of k] file_read by auto
  qed
  then have "collect_files ?L (\<lambda>_. None) = Some (\<lambda>k. if k \<in> fst ` set ?L then Some (file_of (the (F k))) else None)"
    by (intro collect_files_all) blast
  moreover have "k \<in> fst ` set ?L \<longleftrightarrow> k \<in> dom F" for k
  proof -
    have "k \<in> fst ` set ?L \<longleftrightarrow> (\<exists>v. (k, v) \<in> set es)"
      unfolding set by force
    then show ?thesis
      by (auto simp: assms(2))
  qed
  then have "(\<lambda>k. if k \<in> fst ` set ?L then Some (file_of (the (F k))) else None) = (\<lambda>k. map_option file_of (F k))"
    by (auto simp: fun_eq_iff dom_def)
  ultimately show ?thesis
    by (simp add: Response_try_from_bencoded_def reads [OF assms(1)] parse_bencoded_response_def)
qed

end

section \<open>The dictionary of the server\<close>

lemma scrape_list_entries:
  assumes "reads_hash_map order" and "finite (dom fs)"
  shows "(k, v) \<in> set (fold (\<lambda>(info_hash, value). bt_put (info_hash_bytes info_hash) (scrape_file value)) (order fs) []) \<longleftrightarrow>
    (\<exists>m. fs (InfoHash k) = Some m \<and> v = scrape_file m)"
proof -
  let ?es = "map (\<lambda>(ih, m). (info_hash_bytes ih, scrape_file m)) (order fs)"
  have m: "map_of (order fs) = fs" "distinct (map fst (order fs))"
    using assms by (simp_all add: reads_hash_map_def)
  have "map_of (map (\<lambda>(ih, m). (info_hash_bytes ih, scrape_file m)) xs) k = map_option scrape_file (map_of xs (InfoHash k))"
    for xs :: "(InfoHash \<times> SwarmMetadata) list"
    by (induction xs) (auto simp: InfoHash.expand)
  moreover have "distinct (map fst ?es)"
    using m(2) by (auto simp: distinct_map comp_def case_prod_unfold inj_on_def InfoHash.expand)
  ultimately have "bt_inv (fold (\<lambda>(k, v). bt_put k v) ?es []) \<and>
      bt_get (fold (\<lambda>(k, v). bt_put k v) ?es []) k = map_option scrape_file (fs (InfoHash k))"
    using bt_fold_put [of "[]" ?es] by (simp add: m(1) bt_get_def [of "[]"] map_add_def split: option.split)
  moreover have "fold (\<lambda>(info_hash, value). bt_put (info_hash_bytes info_hash) (scrape_file value)) (order fs) [] =
      fold (\<lambda>(k, v). bt_put k v) ?es []"
    by (simp add: fold_map comp_def case_prod_unfold)
  ultimately show ?thesis
    using bt_get_mem [of "fold (\<lambda>(k, v). bt_put k v) ?es []" k v] by auto
qed

lemma scrape_list_encodable:
  assumes "\<forall>ih \<in> dom fs. length (info_hash_bytes ih) = 20" and "reads_hash_map order" and "finite (dom fs)"
  shows "encodable 40 (MutDict (fold (\<lambda>(info_hash, value). bt_put (info_hash_bytes info_hash) (scrape_file value)) (order fs) []))"
proof -
  let ?es = "map (\<lambda>(ih, m). (info_hash_bytes ih, scrape_file m)) (order fs)"
  have "fst ` set (order fs) = dom fs"
    using assms(2,3) by (metis dom_map_of_conv_image_fst reads_hash_map_def)
  then have keys: "length (info_hash_bytes ih) = 20" if "(ih, m) \<in> set (order fs)" for ih m
    using that assms(1) by (metis fst_conv image_eqI)
  have "encodable (Suc 1) (scrape_file m)" for m
    unfolding scrape_file_def by (rule ben_map_encodable) simp
  then have "encodable (Suc (Suc 1)) (MutDict (fold (\<lambda>(k, v). bt_put k v) ?es []))"
    by (intro dict_encodable) (auto simp: list_all_iff dest!: keys)
  from encodable_mono [OF this, of 37] show ?thesis
    by (simp add: fold_map comp_def case_prod_unfold)
qed

section \<open>The session\<close>

lemma scrape_handle_real:
  assumes "\<not> core_private (ht_core_config c) \<or>
      (\<exists>key. maybe_key = Some key \<and> authenticate (ht_core_config c) (ht_keys c) now key = Inr ())"
    and "peer_ip_resolver_invoke (on_reverse_proxy (net (ht_core_config c))) sources = Inr ip"
  shows "scrape_handle E now request sources maybe_key c =
    (build_scrape_response E (scrape (he_repository E) (ht_core_config c) (ht_whitelist c) (sq_info_hashes request)
       (in_memory_torrent_repository (ht_announce_handler c))), send_scrape_event ip c)"
  using assms by (auto simp: scrape_handle_def http_handle_scrape_def scrape_invoke_def Let_def)

text \<open>
  C10: A scrape works from one end to the other: the query that the client builds is answered, and what
  the client reads from the response are exactly the torrents it asked for, each with the numbers of
  its swarm, or zeros when the torrent is not authorized, whatever the order in which the hash maps on
  both sides are read. On a private tracker this holds for a client with an accepted key.
\<close>
theorem http_scrape_session:
  assumes "tracker (he_repository E) r_ok r_view (he_database E) d_ok d_view storable"
    and "percent_codec (he_url E) percent_encode" and "multimap (he_multimap E) contents"
    and "bencode_reader read_files order" and "reads_hash_map (he_order E)"
    and "r_ok (in_memory_torrent_repository (ht_announce_handler c))"
    and "represents_all (r_view (in_memory_torrent_repository (ht_announce_handler c))) S"
    and "cs_info_hash q \<noteq> []" and "list_all (\<lambda>bytes. length bytes = 20) (cs_info_hash q)"
    and "\<not> core_private (ht_core_config c) \<and> route = ScrapeRoute \<or> scrape_key_accepted now route c"
    and "peer_ip_resolver_invoke (on_reverse_proxy (net (ht_core_config c))) sources = Inr ip"
  shows "\<exists>body fs.
    http_router E now route (Some (ClientScrape_build percent_encode q)) sources c =
      (\<lparr>response_status = 200, response_body = body\<rparr>, send_scrape_event ip c) \<and>
    Response_try_from_bencoded read_files body = Some (Inr fs) \<and>
    (\<forall>bytes. fs bytes =
       (if bytes \<in> set (cs_info_hash q)
        then Some (file_of (if authorize (ht_core_config c) (ht_whitelist c) (InfoHash bytes) = Inr ()
                            then swarm_stats (swarm_of S (InfoHash bytes)) else SwarmMetadata_zeroed))
        else None))"
proof -
  let ?request = "\<lparr>sq_info_hashes = map InfoHash (cs_info_hash q)\<rparr>"
  define data where "data = scrape (he_repository E) (ht_core_config c) (ht_whitelist c) (map InfoHash (cs_info_hash q))
      (in_memory_torrent_repository (ht_announce_handler c))"
  obtain query where "Query_from_str (he_multimap E) (ClientScrape_build percent_encode q) = Inr query"
    "Scrape_try_from (he_multimap E) (he_url E) query = Inr ?request"
    using client_server.scrape_received [OF client_server.intro [OF assms(2,3)] assms(8,9)] by blast
  then have extracted: "extract_scrape_from E (Some (ClientScrape_build percent_encode q)) = Inr ?request"
    by (simp add: extract_scrape_from_def)
  have routed: "http_router E now route (Some (ClientScrape_build percent_encode q)) sources c =
      (build_scrape_response E data, send_scrape_event ip c)"
    using assms(10)
    by (auto simp: scrape_key_accepted_def extracted scrape_handle_without_key_def scrape_handle_with_key_def
        extract_key_def parse_key_def scrape_handle_real [OF _ assms(11)] data_def split: HttpRoute.splits sum.splits)
  have entry: "files data (InfoHash bytes) =
       (if bytes \<in> set (cs_info_hash q)
        then Some (if authorize (ht_core_config c) (ht_whitelist c) (InfoHash bytes) = Inr ()
                   then swarm_stats (swarm_of S (InfoHash bytes)) else SwarmMetadata_zeroed)
        else None)" for bytes
    unfolding data_def tracker.scrape_response [OF assms(1,6,7)] by auto
  have dom: "dom (files data) = InfoHash ` set (cs_info_hash q)"
    unfolding data_def tracker.scrape_response [OF assms(1,6,7)] by (auto simp: dom_def)
  then have fin: "finite (dom (files data))"
    by simp
  have keys: "\<forall>ih \<in> dom (files data). length (info_hash_bytes ih) = 20"
    using assms(9) by (auto simp: dom list_all_iff)
  have "Response_try_from_bencoded read_files (response_body (build_scrape_response E data)) =
      Some (Inr (\<lambda>k. map_option file_of (files data (InfoHash k))))"
    unfolding build_scrape_response_def Bencoded_body_def HttpResponse.simps Let_def
    by (rule bencode_reader.response_read [OF assms(4) scrape_list_encodable [OF keys assms(5) fin]
          scrape_list_entries [OF assms(5) fin]])
       (use keys in force)
  then show ?thesis
    unfolding routed by (auto simp: build_scrape_response_def entry)
qed

theorem http_scrape_session_witness:
  "\<exists>body fs.
    http_router http_sample_env 5 ScrapeRoute (Some (ClientScrape_build pct_encode \<lparr>cs_info_hash = [replicate 20 7, replicate 20 8]\<rparr>))
      sample_sources (http_sample\<lparr>ht_announce_handler := sample_tracker\<rparr>) =
      (\<lparr>response_status = 200, response_body = body\<rparr>,
       http_sample\<lparr>ht_announce_handler := sample_tracker, ht_events := [Tcp4Scrape]\<rparr>) \<and>
    Response_try_from_bencoded decoder_read_files body = Some (Inr fs) \<and>
    fs (replicate 20 7) = Some \<lparr>file_complete = 0, file_downloaded = 0, file_incomplete = 1\<rparr> \<and>
    fs (replicate 20 8) = Some \<lparr>file_complete = 0, file_downloaded = 0, file_incomplete = 0\<rparr> \<and> fs [] = None"
proof -
  let ?c = "http_sample\<lparr>ht_announce_handler := sample_tracker\<rparr>"
  let ?q = "\<lparr>cs_info_hash = [replicate 20 7, replicate 20 8]\<rparr> :: ClientScrape"
  let ?S = "run_swarms Core_default sample_ops (\<lambda>_. None)"
  have codec: "percent_codec (he_url http_sample_env) pct_encode" "multimap (he_multimap http_sample_env) map_of"
    by (simp_all add: http_sample_env_def pct.percent_codec_axioms alist.multimap_axioms)
  have order: "reads_hash_map (he_order http_sample_env)"
    by (auto simp: reads_hash_map_def http_sample_env_def sample_env_def map_of_map_keys comp_def domIff fun_eq_iff)
  have ok: "skip_ok bt_skip_map bt_inv (in_memory_torrent_repository (ht_announce_handler ?c))"
    "represents_all (skip_view bt_skip_map (in_memory_torrent_repository (ht_announce_handler ?c))) ?S"
    using sample_ok by (simp_all add: udp_tracker_ok_def sample_container_def handler_ok_def)
  have q: "cs_info_hash ?q \<noteq> []" "list_all (\<lambda>bytes. length bytes = 20) (cs_info_hash ?q)"
    by simp_all
  have public: "\<not> core_private Core_default" "\<not> on_reverse_proxy (net Core_default)"
    by (simp_all add: Core_default_def Core_default_private_def Network_default_def)
  then have route: "\<not> core_private (ht_core_config ?c) \<and> ScrapeRoute = ScrapeRoute \<or> scrape_key_accepted 5 ScrapeRoute ?c"
    and ip: "peer_ip_resolver_invoke (on_reverse_proxy (net (ht_core_config ?c))) sample_sources = Inr (ipv4 10 0 0 2)"
    by (simp_all add: http_sample_def sample_sources_def peer_ip_resolver_invoke_def resolve_peer_ip_without_reverse_proxy_def)
  have "sint (left (announced_peer Core_default (ipv4 10 0 0 1) sample_first)) = 10"
    by (simp add: sample_peers sample_first_def sample_leecher_def fixture_defs)
  then have first: "swarm_stats (swarm_of ?S (InfoHash (replicate 20 7))) = \<lparr>sm_downloaded = 0, sm_complete = 0, sm_incomplete = 1\<rparr>"
    unfolding sample_info_hash_def [symmetric] by (simp add: sample_swarm swarm_stats_single)
  have "?S (InfoHash (replicate 20 8)) = None"
    by (simp add: run_swarms_def sample_ops_def swarms_announce_def sample_info_hash_def numeral_eq_Suc)
  then have second: "swarm_stats (swarm_of ?S (InfoHash (replicate 20 8))) = \<lparr>sm_downloaded = 0, sm_complete = 0, sm_incomplete = 0\<rparr>"
    by (simp add: swarm_of_def spec_empty_def swarm_stats_def)
  have event: "send_scrape_event (ipv4 10 0 0 2) ?c = http_sample\<lparr>ht_announce_handler := sample_tracker, ht_events := [Tcp4Scrape]\<rparr>"
    by (simp add: send_scrape_event_def http_send_event_def http_sample_def per_version_def ipv4_def)
  have config: "ht_core_config ?c = Core_default"
    by (simp add: http_sample_def)
  from http_scrape_session [OF http_sample_tracker codec decoder.bencode_reader_axioms order ok q route ip]
  show ?thesis
    unfolding event config sample_authorized by (auto simp: first second file_of_def)
qed

end
