(* ===== verification/Api_Resources.thy ===== *)
theory Api_Resources
  imports Ip_Text Statistics Authentication Sql_Tables Utf8
begin

text \<open>
  The resources of the REST API (\<open>src/servers/apis/v1/context/*/resources\<close>): what the API shows of
  keys, torrents, peers and statistics. The calendar, the text of info-hashes and events, the binary to
  hexadecimal conversion and the registry of client names belong to other crates and are parameters.
\<close>

section \<open>Peer identifiers (packages/primitives/src/peer.rs)\<close>

text \<open>
  What other crates give: \<open>binascii::bin2hex\<close> fills an output buffer of the given length, or fails;
  the registry of clients; the text of an event in the debug format.
\<close>

record peer_api =
  bin2hex :: "u8 list \<Rightarrow> nat \<Rightarrow> u8 list option"
  client_name :: "PeerId \<Rightarrow> string option"
  debug_event :: "AnnounceEvent \<Rightarrow> string"

text \<open>A panic of \<open>unwrap\<close> is \<^const>\<open>None\<close>.\<close>

definition to_hex_string :: "peer_api \<Rightarrow> PeerId \<Rightarrow> string option option" where
  "to_hex_string P ident =
     (case bin2hex P (peer_id_bytes ident) (length (peer_id_bytes ident) * 2) of
        None \<Rightarrow> None
      | Some tmp \<Rightarrow> Some (map_option (\<lambda>hex. ''0x'' @ hex) (from_utf8 tmp)))"

section \<open>Peers (torrent/resources/peer.rs)\<close>

record ApiId =
  api_id :: "string option"
  api_client :: "string option"

definition ApiId_from :: "peer_api \<Rightarrow> PeerId \<Rightarrow> ApiId option" where
  "ApiId_from P ident =
     map_option (\<lambda>hex. \<lparr>api_id = hex, api_client = client_name P ident\<rparr>) (to_hex_string P ident)"

record ApiPeer =
  api_peer_id :: ApiId
  api_peer_addr :: string
  api_updated :: u128
  api_updated_milliseconds_ago :: u128
  api_uploaded :: i64
  api_downloaded :: i64
  api_left :: i64
  api_event :: string

definition as_millis :: "Duration \<Rightarrow> u128" where
  "as_millis d = of_nat (d div 1000000)"

fun socket_addr_to_string :: "SocketAddr \<Rightarrow> string" where
  "socket_addr_to_string (SocketAddr (V4 a) port) = ipv4_to_string a @ '':'' @ nat_to_string (unat port)"
| "socket_addr_to_string (SocketAddr (V6 a) port) =
     ''['' @ ipv6_to_string a @ '']:'' @ nat_to_string (unat port)"

definition ApiPeer_from :: "peer_api \<Rightarrow> Peer \<Rightarrow> ApiPeer option" where
  "ApiPeer_from P value =
     (case ApiId_from P (peer_id value) of
        None \<Rightarrow> None
      | Some ident \<Rightarrow>
          Some \<lparr>api_peer_id = ident, api_peer_addr = socket_addr_to_string (peer_addr value),
                api_updated = as_millis (updated value), api_updated_milliseconds_ago = as_millis (updated value),
                api_uploaded = uploaded value, api_downloaded = downloaded value, api_left = left value,
                api_event = debug_event P (event value)\<rparr>)"

fun Vector_from_iter :: "peer_api \<Rightarrow> Peer list \<Rightarrow> ApiPeer list \<Rightarrow> ApiPeer list option" where
  "Vector_from_iter P [] ps = Some ps"
| "Vector_from_iter P (i # iter) ps =
     (case ApiPeer_from P i of None \<Rightarrow> None | Some p \<Rightarrow> Vector_from_iter P iter (ps @ [p]))"

section \<open>Torrents (torrent/resources/torrent.rs)\<close>

record ApiTorrent =
  at_info_hash :: string
  at_seeders :: u64
  at_completed :: u64
  at_leechers :: u64
  at_peers :: "ApiPeer list option"

record ListItem =
  li_info_hash :: string
  li_seeders :: u64
  li_completed :: u64
  li_leechers :: u64

definition ApiTorrent_from :: "info_hash_api \<Rightarrow> peer_api \<Rightarrow> TorrentInfo \<Rightarrow> ApiTorrent option" where
  "ApiTorrent_from H P info =
     (case (case ti_peers info of
              None \<Rightarrow> Some None
            | Some ps \<Rightarrow> map_option Some (Vector_from_iter P ps [])) of
        None \<Rightarrow> None
      | Some ps \<Rightarrow>
          Some \<lparr>at_info_hash = ih_to_string H (ti_info_hash info), at_seeders = ti_seeders info,
                at_completed = ti_completed info, at_leechers = ti_leechers info, at_peers = ps\<rparr>)"

definition ListItem_from :: "info_hash_api \<Rightarrow> BasicInfo \<Rightarrow> ListItem" where
  "ListItem_from H info =
     \<lparr>li_info_hash = ih_to_string H (bi_info_hash info), li_seeders = bi_seeders info,
      li_completed = bi_completed info, li_leechers = bi_leechers info\<rparr>"

definition ListItem_new_vec :: "info_hash_api \<Rightarrow> BasicInfo list \<Rightarrow> ListItem list" where
  "ListItem_new_vec H basic_info_vec = map (ListItem_from H) basic_info_vec"

section \<open>Keys (auth\_key/resources.rs)\<close>

text \<open>The calendar of the \<open>chrono\<close> crate.\<close>

record 'dt chrono_api =
  from_timestamp :: "i64 \<Rightarrow> u32 \<Rightarrow> 'dt option"
  timestamp :: "'dt \<Rightarrow> i64"
  parse_utc :: "string \<Rightarrow> 'dt option"
  show_utc :: "'dt \<Rightarrow> string"

record AuthKey =
  ak_key :: string
  ak_valid_until :: "u64 option"
  ak_expiry_time :: "string option"

definition AuthKey_from :: "'dt chrono_api \<Rightarrow> PeerKey \<Rightarrow> AuthKey option" where
  "AuthKey_from C auth_key =
     (case expiry_time (from_timestamp C) auth_key of
        None \<Rightarrow> None
      | Some expiry \<Rightarrow>
          Some (case (valid_until auth_key, expiry) of
                  (Some v, Some t) \<Rightarrow>
                    \<lparr>ak_key = key_value (pk_key auth_key), ak_valid_until = Some (as_secs v),
                     ak_expiry_time = Some (show_utc C t)\<rparr>
                | _ \<Rightarrow> \<lparr>ak_key = key_value (pk_key auth_key), ak_valid_until = None, ak_expiry_time = None\<rparr>))"

definition PeerKey_from :: "'dt chrono_api \<Rightarrow> AuthKey \<Rightarrow> PeerKey option" where
  "PeerKey_from C auth_key_resource =
     (case Key_from_str (ak_key auth_key_resource) of
        Inl _ \<Rightarrow> None
      | Inr key \<Rightarrow>
          (case ak_expiry_time auth_key_resource of
             None \<Rightarrow> Some \<lparr>pk_key = key, valid_until = None\<rparr>
           | Some t \<Rightarrow>
               map_option (\<lambda>d. \<lparr>pk_key = key, valid_until = Some d\<rparr>)
                 (convert_from_iso_8601_to_timestamp (timestamp C) (parse_utc C) t)))"

section \<open>Statistics (stats/resources.rs, stats/responses.rs)\<close>

record Stats =
  stats_torrents :: u64
  stats_seeders :: u64
  stats_completed :: u64
  stats_leechers :: u64
  stats_tcp4_connections_handled :: u64
  stats_tcp4_announces_handled :: u64
  stats_tcp4_scrapes_handled :: u64
  stats_tcp6_connections_handled :: u64
  stats_tcp6_announces_handled :: u64
  stats_tcp6_scrapes_handled :: u64
  stats_udp_requests_aborted :: u64
  stats_udp_requests_banned :: u64
  stats_udp_banned_ips_total :: u64
  stats_udp_avg_connect_processing_time_ns :: u64
  stats_udp_avg_announce_processing_time_ns :: u64
  stats_udp_avg_scrape_processing_time_ns :: u64
  stats_udp4_requests :: u64
  stats_udp4_connections_handled :: u64
  stats_udp4_announces_handled :: u64
  stats_udp4_scrapes_handled :: u64
  stats_udp4_responses :: u64
  stats_udp4_errors_handled :: u64
  stats_udp6_requests :: u64
  stats_udp6_connections_handled :: u64
  stats_udp6_announces_handled :: u64
  stats_udp6_scrapes_handled :: u64
  stats_udp6_responses :: u64
  stats_udp6_errors_handled :: u64

definition Stats_from :: "TrackerMetrics \<Rightarrow> Stats" where
  "Stats_from metrics =
     \<lparr>stats_torrents = tm_torrents (torrents_metrics metrics),
      stats_seeders = tm_complete (torrents_metrics metrics),
      stats_completed = tm_downloaded (torrents_metrics metrics),
      stats_leechers = tm_incomplete (torrents_metrics metrics),
      stats_tcp4_connections_handled = api_tcp4_connections_handled (protocol_metrics metrics),
      stats_tcp4_announces_handled = api_tcp4_announces_handled (protocol_metrics metrics),
      stats_tcp4_scrapes_handled = api_tcp4_scrapes_handled (protocol_metrics metrics),
      stats_tcp6_connections_handled = api_tcp6_connections_handled (protocol_metrics metrics),
      stats_tcp6_announces_handled = api_tcp6_announces_handled (protocol_metrics metrics),
      stats_tcp6_scrapes_handled = api_tcp6_scrapes_handled (protocol_metrics metrics),
      stats_udp_requests_aborted = api_udp_requests_aborted (protocol_metrics metrics),
      stats_udp_requests_banned = api_udp_requests_banned (protocol_metrics metrics),
      stats_udp_banned_ips_total = api_udp_banned_ips_total (protocol_metrics metrics),
      stats_udp_avg_connect_processing_time_ns = api_udp_avg_connect_processing_time_ns (protocol_metrics metrics),
      stats_udp_avg_announce_processing_time_ns = api_udp_avg_announce_processing_time_ns (protocol_metrics metrics),
      stats_udp_avg_scrape_processing_time_ns = api_udp_avg_scrape_processing_time_ns (protocol_metrics metrics),
      stats_udp4_requests = api_udp4_requests (protocol_metrics metrics),
      stats_udp4_connections_handled = api_udp4_connections_handled (protocol_metrics metrics),
      stats_udp4_announces_handled = api_udp4_announces_handled (protocol_metrics metrics),
      stats_udp4_scrapes_handled = api_udp4_scrapes_handled (protocol_metrics metrics),
      stats_udp4_responses = api_udp4_responses (protocol_metrics metrics),
      stats_udp4_errors_handled = api_udp4_errors_handled (protocol_metrics metrics),
      stats_udp6_requests = api_udp6_requests (protocol_metrics metrics),
      stats_udp6_connections_handled = api_udp6_connections_handled (protocol_metrics metrics),
      stats_udp6_announces_handled = api_udp6_announces_handled (protocol_metrics metrics),
      stats_udp6_scrapes_handled = api_udp6_scrapes_handled (protocol_metrics metrics),
      stats_udp6_responses = api_udp6_responses (protocol_metrics metrics),
      stats_udp6_errors_handled = api_udp6_errors_handled (protocol_metrics metrics)\<rparr>"

definition line :: "string \<Rightarrow> u64 \<Rightarrow> string" where
  "line metric_name n = metric_name @ '' '' @ nat_to_string (unat n)"

text \<open>The text of the Prometheus format.\<close>

definition metrics_text :: "TrackerMetrics \<Rightarrow> string" where
  "metrics_text tracker_metrics = join [CHR 0x0A]
     [line ''torrents'' (tm_torrents (torrents_metrics tracker_metrics)),
      line ''seeders'' (tm_complete (torrents_metrics tracker_metrics)),
      line ''completed'' (tm_downloaded (torrents_metrics tracker_metrics)),
      line ''leechers'' (tm_incomplete (torrents_metrics tracker_metrics)),
      line ''tcp4_connections_handled'' (api_tcp4_connections_handled (protocol_metrics tracker_metrics)),
      line ''tcp4_announces_handled'' (api_tcp4_announces_handled (protocol_metrics tracker_metrics)),
      line ''tcp4_scrapes_handled'' (api_tcp4_scrapes_handled (protocol_metrics tracker_metrics)),
      line ''tcp6_connections_handled'' (api_tcp6_connections_handled (protocol_metrics tracker_metrics)),
      line ''tcp6_announces_handled'' (api_tcp6_announces_handled (protocol_metrics tracker_metrics)),
      line ''tcp6_scrapes_handled'' (api_tcp6_scrapes_handled (protocol_metrics tracker_metrics)),
      line ''udp_requests_aborted'' (api_udp_requests_aborted (protocol_metrics tracker_metrics)),
      line ''udp_requests_banned'' (api_udp_requests_banned (protocol_metrics tracker_metrics)),
      line ''udp_banned_ips_total'' (api_udp_banned_ips_total (protocol_metrics tracker_metrics)),
      line ''udp_avg_connect_processing_time_ns'' (api_udp_avg_connect_processing_time_ns (protocol_metrics tracker_metrics)),
      line ''udp_avg_announce_processing_time_ns'' (api_udp_avg_announce_processing_time_ns (protocol_metrics tracker_metrics)),
      line ''udp_avg_scrape_processing_time_ns'' (api_udp_avg_scrape_processing_time_ns (protocol_metrics tracker_metrics)),
      line ''udp4_requests'' (api_udp4_requests (protocol_metrics tracker_metrics)),
      line ''udp4_connections_handled'' (api_udp4_connections_handled (protocol_metrics tracker_metrics)),
      line ''udp4_announces_handled'' (api_udp4_announces_handled (protocol_metrics tracker_metrics)),
      line ''udp4_scrapes_handled'' (api_udp4_scrapes_handled (protocol_metrics tracker_metrics)),
      line ''udp4_responses'' (api_udp4_responses (protocol_metrics tracker_metrics)),
      line ''udp4_errors_handled'' (api_udp4_errors_handled (protocol_metrics tracker_metrics)),
      line ''udp6_requests'' (api_udp6_requests (protocol_metrics tracker_metrics)),
      line ''udp6_connections_handled'' (api_udp6_connections_handled (protocol_metrics tracker_metrics)),
      line ''udp6_announces_handled'' (api_udp6_announces_handled (protocol_metrics tracker_metrics)),
      line ''udp6_scrapes_handled'' (api_udp6_scrapes_handled (protocol_metrics tracker_metrics)),
      line ''udp6_responses'' (api_udp6_responses (protocol_metrics tracker_metrics)),
      line ''udp6_errors_handled'' (api_udp6_errors_handled (protocol_metrics tracker_metrics))]"

end
