(* ===== verification/Api_Handlers.thy ===== *)
theory Api_Handlers
  imports Api_Resources Http_Requests
begin

text \<open>
  The REST API (\<open>src/servers/apis\<close>): the responses, the handlers of the routes and the middleware that
  asks for an access token. The web framework is a parameter as far as it takes a request apart: each
  route comes with the value that the extractor of its handler gives, or with the response by which
  the extractor rejects the request. The body of a response is the value that is serialized into it.
\<close>

section \<open>Responses (v1/responses.rs, v1/context/*/responses.rs)\<close>

datatype ActionStatus = ActionOk | ActionErr (reason: string)

datatype Status = StatusOk | StatusError

record Report =
  report_status :: Status

datatype ApiBody =
    JsonAction ActionStatus
  | JsonAuthKey AuthKey
  | JsonStats Stats
  | JsonTorrent ApiTorrent
  | JsonTorrents "ListItem list"
  | JsonText string
  | JsonReport Report
  | PlainText string
  | UnhandledRejection ActionStatus

record ApiResponse =
  api_status :: nat
  content_type :: string
  api_body :: ApiBody

definition ok_response :: ApiResponse where
  "ok_response = \<lparr>api_status = 200, content_type = ''application/json'', api_body = JsonAction ActionOk\<rparr>"

definition bad_request_response :: "string \<Rightarrow> ApiResponse" where
  "bad_request_response body =
     \<lparr>api_status = 400, content_type = ''text/plain; charset=utf-8'', api_body = PlainText body\<rparr>"

definition unhandled_rejection_response :: "string \<Rightarrow> ApiResponse" where
  "unhandled_rejection_response r =
     \<lparr>api_status = 500, content_type = ''text/plain; charset=utf-8'', api_body = UnhandledRejection (ActionErr r)\<rparr>"

definition invalid_info_hash_param_response :: "string \<Rightarrow> ApiResponse" where
  "invalid_info_hash_param_response info_hash =
     bad_request_response
       (''Invalid URL: invalid infohash param: string \"'' @ info_hash @ ''\", expected a 40 character long string'')"

definition invalid_auth_key_param_response :: "string \<Rightarrow> ApiResponse" where
  "invalid_auth_key_param_response invalid_key =
     bad_request_response (''Invalid auth key id param \"'' @ invalid_key @ ''\"'')"

definition auth_key_response :: "AuthKey \<Rightarrow> ApiResponse" where
  "auth_key_response auth_key =
     \<lparr>api_status = 200, content_type = ''application/json; charset=utf-8'', api_body = JsonAuthKey auth_key\<rparr>"

definition failed_to_generate_key_response :: "string \<Rightarrow> ApiResponse" where
  "failed_to_generate_key_response e = unhandled_rejection_response (''failed to generate key: '' @ e)"

definition failed_to_delete_key_response :: "string \<Rightarrow> ApiResponse" where
  "failed_to_delete_key_response e = unhandled_rejection_response (''failed to delete key: '' @ e)"

definition failed_to_reload_keys_response :: "string \<Rightarrow> ApiResponse" where
  "failed_to_reload_keys_response e = unhandled_rejection_response (''failed to reload keys: '' @ e)"

definition invalid_auth_key_response :: "string \<Rightarrow> string \<Rightarrow> ApiResponse" where
  "invalid_auth_key_response auth_key e =
     bad_request_response (''Invalid URL: invalid auth key: string \"'' @ auth_key @ ''\", '' @ e)"

definition invalid_auth_key_duration_response :: "u64 \<Rightarrow> ApiResponse" where
  "invalid_auth_key_duration_response duration =
     bad_request_response (''Invalid URL: invalid auth key duration: \"'' @ nat_to_string (unat duration) @ ''\"'')"

definition failed_to_remove_torrent_from_whitelist_response :: "string \<Rightarrow> ApiResponse" where
  "failed_to_remove_torrent_from_whitelist_response e =
     unhandled_rejection_response (''failed to remove torrent from whitelist: '' @ e)"

definition failed_to_whitelist_torrent_response :: "string \<Rightarrow> ApiResponse" where
  "failed_to_whitelist_torrent_response e = unhandled_rejection_response (''failed to whitelist torrent: '' @ e)"

definition failed_to_reload_whitelist_response :: "string \<Rightarrow> ApiResponse" where
  "failed_to_reload_whitelist_response e = unhandled_rejection_response (''failed to reload whitelist: '' @ e)"

definition json_response :: "ApiBody \<Rightarrow> ApiResponse" where
  "json_response body = \<lparr>api_status = 200, content_type = ''application/json'', api_body = body\<rparr>"

definition torrent_list_response :: "info_hash_api \<Rightarrow> BasicInfo list \<Rightarrow> ApiResponse" where
  "torrent_list_response H basic_infos = json_response (JsonTorrents (ListItem_new_vec H basic_infos))"

definition torrent_info_response :: "info_hash_api \<Rightarrow> peer_api \<Rightarrow> TorrentInfo \<Rightarrow> ApiResponse option" where
  "torrent_info_response H P info = map_option (\<lambda>t. json_response (JsonTorrent t)) (ApiTorrent_from H P info)"

definition torrent_not_known_response :: ApiResponse where
  "torrent_not_known_response = json_response (JsonText ''torrent not known'')"

definition stats_response :: "TrackerMetrics \<Rightarrow> ApiResponse" where
  "stats_response tracker_metrics = json_response (JsonStats (Stats_from tracker_metrics))"

definition metrics_response :: "TrackerMetrics \<Rightarrow> ApiResponse" where
  "metrics_response tracker_metrics =
     \<lparr>api_status = 200, content_type = ''text/plain; charset=utf-8'', api_body = PlainText (metrics_text tracker_metrics)\<rparr>"

section \<open>The environment and the state\<close>

record ('s, 'db, 'dt) api_env =
  ae_repository :: "'s Repository"
  ae_database :: "'db DatabaseTrait"
  ae_info_hash :: info_hash_api
  ae_peer :: peer_api
  ae_chrono :: "'dt chrono_api"
  show_db_error :: "DbError \<Rightarrow> string"
  show_parse_key_error :: "ParseKeyError \<Rightarrow> string"
  reject_query :: "string \<Rightarrow> ApiResponse"
  fallback_response :: ApiResponse

text \<open>
  The services of the API (\<open>HttpApiContainer\<close>). The handler of the keys and the manager of the
  whitelist share one database.
\<close>

record ('s, 'db, 'b) HttpApiContainer =
  api_torrents :: 's
  api_database :: 'db
  api_keys :: InMemoryKeyRepository
  api_whitelist :: InMemoryWhitelist
  api_ban_service :: "'b BanService"
  api_http_stats :: HttpMetrics
  api_udp_stats :: UdpMetrics

definition keys_handler :: "('s, 'db, 'b) HttpApiContainer \<Rightarrow> 'db KeysHandler" where
  "keys_handler c = \<lparr>db_key_repository = api_database c, in_memory_key_repository = api_keys c\<rparr>"

definition set_keys_handler :: "'db KeysHandler \<Rightarrow> ('s, 'db, 'b) HttpApiContainer \<Rightarrow> ('s, 'db, 'b) HttpApiContainer" where
  "set_keys_handler h c = c\<lparr>api_database := db_key_repository h, api_keys := in_memory_key_repository h\<rparr>"

definition whitelist_manager :: "('s, 'db, 'b) HttpApiContainer \<Rightarrow> 'db WhitelistManager" where
  "whitelist_manager c = \<lparr>in_memory_whitelist = api_whitelist c, database_whitelist = api_database c\<rparr>"

definition set_whitelist_manager ::
  "'db WhitelistManager \<Rightarrow> ('s, 'db, 'b) HttpApiContainer \<Rightarrow> ('s, 'db, 'b) HttpApiContainer" where
  "set_whitelist_manager m c = c\<lparr>api_whitelist := in_memory_whitelist m, api_database := database_whitelist m\<rparr>"

section \<open>Keys (auth\_key/handlers.rs, auth\_key/forms.rs)\<close>

text \<open>
  A handler gives no response (\<^const>\<open>None\<close>) when it panics; what it did to the shared state before
  is done. The moment of the request and the random characters it draws are arguments.
\<close>

record AddKeyForm =
  form_key :: "string option"
  form_seconds_valid :: "u64 option"

definition add_auth_key_handler ::
  "('s, 'db, 'dt) api_env \<Rightarrow> (nat \<Rightarrow> char) \<Rightarrow> DurationSinceUnixEpoch \<Rightarrow> AddKeyForm \<Rightarrow>
   ('s, 'db, 'b) HttpApiContainer \<Rightarrow> ApiResponse option \<times> ('s, 'db, 'b) HttpApiContainer" where
  "add_auth_key_handler E rng now add_key_form c =
     (case add_peer_key (ae_database E) rng now
             \<lparr>opt_key = form_key add_key_form, opt_seconds_valid = form_seconds_valid add_key_form\<rparr> (keys_handler c) of
        None \<Rightarrow> (None, c)
      | Some (r, h) \<Rightarrow>
          (case r of
             Inr auth_key \<Rightarrow> map_option auth_key_response (AuthKey_from (ae_chrono E) auth_key)
           | Inl (DurationOverflow seconds_valid) \<Rightarrow> Some (invalid_auth_key_duration_response seconds_valid)
           | Inl (InvalidKey key source) \<Rightarrow> Some (invalid_auth_key_response key (show_parse_key_error E source))
           | Inl (DatabaseError source) \<Rightarrow> Some (failed_to_generate_key_response (show_db_error E source)),
           set_keys_handler h c))"

definition generate_auth_key_handler ::
  "('s, 'db, 'dt) api_env \<Rightarrow> (nat \<Rightarrow> char) \<Rightarrow> DurationSinceUnixEpoch \<Rightarrow> u64 \<Rightarrow>
   ('s, 'db, 'b) HttpApiContainer \<Rightarrow> ApiResponse option \<times> ('s, 'db, 'b) HttpApiContainer" where
  "generate_auth_key_handler E rng now seconds_valid c =
     (case generate_expiring_peer_key (ae_database E) rng now (Some (from_secs seconds_valid)) (keys_handler c) of
        None \<Rightarrow> (None, c)
      | Some (r, h) \<Rightarrow>
          (case r of
             Inr auth_key \<Rightarrow> map_option auth_key_response (AuthKey_from (ae_chrono E) auth_key)
           | Inl e \<Rightarrow> Some (failed_to_generate_key_response (show_db_error E e)),
           set_keys_handler h c))"

definition delete_auth_key_handler ::
  "('s, 'db, 'dt) api_env \<Rightarrow> string \<Rightarrow> ('s, 'db, 'b) HttpApiContainer \<Rightarrow>
   ApiResponse option \<times> ('s, 'db, 'b) HttpApiContainer" where
  "delete_auth_key_handler E seconds_valid_or_key c =
     (case Key_from_str seconds_valid_or_key of
        Inl _ \<Rightarrow> (Some (invalid_auth_key_param_response seconds_valid_or_key), c)
      | Inr key \<Rightarrow>
          (case remove_peer_key (ae_database E) key (keys_handler c) of
             (Inr _, h) \<Rightarrow> (Some ok_response, set_keys_handler h c)
           | (Inl e, h) \<Rightarrow> (Some (failed_to_delete_key_response (show_db_error E e)), set_keys_handler h c)))"

definition reload_keys_handler ::
  "('s, 'db, 'dt) api_env \<Rightarrow> ('s, 'db, 'b) HttpApiContainer \<Rightarrow>
   ApiResponse option \<times> ('s, 'db, 'b) HttpApiContainer" where
  "reload_keys_handler E c =
     (case load_peer_keys_from_database (ae_database E) (keys_handler c) of
        (Inr _, h) \<Rightarrow> (Some ok_response, set_keys_handler h c)
      | (Inl e, h) \<Rightarrow> (Some (failed_to_reload_keys_response (show_db_error E e)), set_keys_handler h c))"

section \<open>Whitelist (whitelist/handlers.rs)\<close>

definition add_torrent_to_whitelist_handler ::
  "('s, 'db, 'dt) api_env \<Rightarrow> string \<Rightarrow> ('s, 'db, 'b) HttpApiContainer \<Rightarrow>
   ApiResponse option \<times> ('s, 'db, 'b) HttpApiContainer" where
  "add_torrent_to_whitelist_handler E info_hash c =
     (case ih_from_str (ae_info_hash E) info_hash of
        None \<Rightarrow> (Some (invalid_info_hash_param_response info_hash), c)
      | Some ih \<Rightarrow>
          (case add_torrent_to_whitelist (ae_database E) ih (whitelist_manager c) of
             (Inr _, m) \<Rightarrow> (Some ok_response, set_whitelist_manager m c)
           | (Inl e, m) \<Rightarrow> (Some (failed_to_whitelist_torrent_response (show_db_error E e)), set_whitelist_manager m c)))"

definition remove_torrent_from_whitelist_handler ::
  "('s, 'db, 'dt) api_env \<Rightarrow> string \<Rightarrow> ('s, 'db, 'b) HttpApiContainer \<Rightarrow>
   ApiResponse option \<times> ('s, 'db, 'b) HttpApiContainer" where
  "remove_torrent_from_whitelist_handler E info_hash c =
     (case ih_from_str (ae_info_hash E) info_hash of
        None \<Rightarrow> (Some (invalid_info_hash_param_response info_hash), c)
      | Some ih \<Rightarrow>
          (case remove_torrent_from_whitelist (ae_database E) ih (whitelist_manager c) of
             (Inr _, m) \<Rightarrow> (Some ok_response, set_whitelist_manager m c)
           | (Inl e, m) \<Rightarrow>
               (Some (failed_to_remove_torrent_from_whitelist_response (show_db_error E e)), set_whitelist_manager m c)))"

definition reload_whitelist_handler ::
  "('s, 'db, 'dt) api_env \<Rightarrow> ('s, 'db, 'b) HttpApiContainer \<Rightarrow>
   ApiResponse option \<times> ('s, 'db, 'b) HttpApiContainer" where
  "reload_whitelist_handler E c =
     (case load_whitelist_from_database (ae_database E) (whitelist_manager c) of
        (Inr _, m) \<Rightarrow> (Some ok_response, set_whitelist_manager m c)
      | (Inl e, m) \<Rightarrow> (Some (failed_to_reload_whitelist_response (show_db_error E e)), set_whitelist_manager m c))"

section \<open>Torrents (torrent/handlers.rs)\<close>

definition get_torrent_handler ::
  "('s, 'db, 'dt) api_env \<Rightarrow> string \<Rightarrow> ('s, 'db, 'b) HttpApiContainer \<Rightarrow> ApiResponse option" where
  "get_torrent_handler E info_hash c =
     (case ih_from_str (ae_info_hash E) info_hash of
        None \<Rightarrow> Some (invalid_info_hash_param_response info_hash)
      | Some ih \<Rightarrow>
          (case get_torrent_info (ae_repository E) ih (api_torrents c) of
             Some info \<Rightarrow> torrent_info_response (ae_info_hash E) (ae_peer E) info
           | None \<Rightarrow> Some torrent_not_known_response))"

record TorrentsQueryParams =
  qp_offset :: "u32 option"
  qp_limit :: "u32 option"
  qp_info_hashes :: "string list"

datatype QueryParamError = InvalidInfoHash string

fun parse_info_hashes ::
  "info_hash_api \<Rightarrow> string list \<Rightarrow> InfoHash list \<Rightarrow> (QueryParamError, InfoHash list) result" where
  "parse_info_hashes H [] info_hashes = Inr info_hashes"
| "parse_info_hashes H (info_hash_str # rest) info_hashes =
     (case ih_from_str H info_hash_str of
        Some info_hash \<Rightarrow> parse_info_hashes H rest (info_hashes @ [info_hash])
      | None \<Rightarrow> Inl (InvalidInfoHash info_hash_str))"

text \<open>The deserializer of an optional number; its error is the text that is not a number.\<close>

definition empty_string_as_none :: "(string \<Rightarrow> 'a option) \<Rightarrow> string option \<Rightarrow> (string, 'a option) result" where
  "empty_string_as_none from_str opt =
     (case opt of
        None \<Rightarrow> Inr None
      | Some s \<Rightarrow>
          if s = [] then Inr None
          else (case from_str s of Some x \<Rightarrow> Inr (Some x) | None \<Rightarrow> Inl s))"

text \<open>The parameters of the query as text, as the derived deserializer of the parameters finds them.\<close>

record RawTorrentsQuery =
  raw_offset :: "string option"
  raw_limit :: "string option"
  raw_info_hashes :: "string list"

definition deserialize_torrents_query :: "RawTorrentsQuery \<Rightarrow> (string, TorrentsQueryParams) result" where
  "deserialize_torrents_query raw =
     try_bind (empty_string_as_none u32_from_str (raw_offset raw)) (\<lambda>off.
     try_bind (empty_string_as_none u32_from_str (raw_limit raw)) (\<lambda>lim.
     Inr \<lparr>qp_offset = off, qp_limit = lim, qp_info_hashes = raw_info_hashes raw\<rparr>))"

definition get_torrents_handler ::
  "('s, 'db, 'dt) api_env \<Rightarrow> TorrentsQueryParams \<Rightarrow> ('s, 'db, 'b) HttpApiContainer \<Rightarrow> ApiResponse" where
  "get_torrents_handler E pagination c =
     (if qp_info_hashes pagination = []
      then torrent_list_response (ae_info_hash E)
             (get_torrents_page (ae_repository E)
                (Some (Pagination_new_with_options (qp_offset pagination) (qp_limit pagination))) (api_torrents c))
      else (case parse_info_hashes (ae_info_hash E) (qp_info_hashes pagination) [] of
              Inr info_hashes \<Rightarrow>
                torrent_list_response (ae_info_hash E) (get_torrents (ae_repository E) info_hashes (api_torrents c))
            | Inl (InvalidInfoHash info_hash) \<Rightarrow> invalid_info_hash_param_response info_hash))"

section \<open>Statistics and health check (stats/handlers.rs, health\_check/handlers.rs)\<close>

datatype Format = FormatJson | FormatPrometheus

definition get_stats_handler ::
  "('s, 'db, 'dt) api_env \<Rightarrow> Format option \<Rightarrow> ('s, 'db, 'b) HttpApiContainer \<Rightarrow> ApiResponse" where
  "get_stats_handler E format c =
     (let metrics = api_get_metrics (ae_repository E) (api_torrents c) (api_ban_service c) (api_http_stats c)
                      (api_udp_stats c)
      in case format of
           Some FormatJson \<Rightarrow> stats_response metrics
         | Some FormatPrometheus \<Rightarrow> metrics_response metrics
         | None \<Rightarrow> stats_response metrics)"

definition health_check_handler :: ApiResponse where
  "health_check_handler = json_response (JsonReport \<lparr>report_status = StatusOk\<rparr>)"

section \<open>Access tokens (v1/middlewares/auth.rs)\<close>

datatype AuthError = Unauthorized | TokenNotValid

definition unauthorized_response :: ApiResponse where
  "unauthorized_response = unhandled_rejection_response ''unauthorized''"

definition token_not_valid_response :: ApiResponse where
  "token_not_valid_response = unhandled_rejection_response ''token not valid''"

fun auth_error_response :: "AuthError \<Rightarrow> ApiResponse" where
  "auth_error_response Unauthorized = unauthorized_response"
| "auth_error_response TokenNotValid = token_not_valid_response"

definition token_authenticate :: "string \<Rightarrow> AccessTokens \<Rightarrow> bool" where
  "token_authenticate token tokens = (token \<in> ran tokens)"

text \<open>The token is the parameter of the query, unless the query is rejected by its extractor.\<close>

definition auth ::
  "AccessTokens \<Rightarrow> (ApiResponse, string option) result \<Rightarrow> ('c \<Rightarrow> ApiResponse option \<times> 'c) \<Rightarrow> 'c \<Rightarrow>
   ApiResponse option \<times> 'c" where
  "auth tokens params run_next c =
     (case params of
        Inl rejection \<Rightarrow> (Some rejection, c)
      | Inr None \<Rightarrow> (Some (auth_error_response Unauthorized), c)
      | Inr (Some token) \<Rightarrow>
          if \<not> token_authenticate token tokens then (Some (auth_error_response TokenNotValid), c)
          else run_next c)"

section \<open>Routes (routes.rs, v1/routes.rs, v1/context/*/routes.rs)\<close>

text \<open>
  The routes, each with what the extractor of its handler gives. \<open>UnknownRoute\<close> is a path or method
  without a handler: the framework answers it, below the layers of the router.
\<close>

datatype ApiRoute =
    GenerateKeyRoute "(ApiResponse, u64) result"
  | DeleteKeyRoute "(ApiResponse, string) result"
  | ReloadKeysRoute
  | AddKeyRoute "(ApiResponse, AddKeyForm) result"
  | StatsRoute "(ApiResponse, Format option) result"
  | WhitelistRoute "(ApiResponse, string) result"
  | UnlistRoute "(ApiResponse, string) result"
  | ReloadWhitelistRoute
  | TorrentRoute "(ApiResponse, string) result"
  | TorrentsRoute "(ApiResponse, RawTorrentsQuery) result"
  | HealthCheckRoute
  | UnknownRoute

definition extracted ::
  "(ApiResponse, 'a) result \<Rightarrow> ('a \<Rightarrow> 'c \<Rightarrow> ApiResponse option \<times> 'c) \<Rightarrow> 'c \<Rightarrow> ApiResponse option \<times> 'c" where
  "extracted x handler c = (case x of Inl rejection \<Rightarrow> (Some rejection, c) | Inr a \<Rightarrow> handler a c)"

fun keys_routes ::
  "('s, 'db, 'dt) api_env \<Rightarrow> (nat \<Rightarrow> char) \<Rightarrow> DurationSinceUnixEpoch \<Rightarrow> ApiRoute \<Rightarrow>
   ('s, 'db, 'b) HttpApiContainer \<Rightarrow> (ApiResponse option \<times> ('s, 'db, 'b) HttpApiContainer) option" where
  "keys_routes E rng now (GenerateKeyRoute x) c = Some (extracted x (generate_auth_key_handler E rng now) c)"
| "keys_routes E rng now (DeleteKeyRoute x) c = Some (extracted x (delete_auth_key_handler E) c)"
| "keys_routes E rng now ReloadKeysRoute c = Some (reload_keys_handler E c)"
| "keys_routes E rng now (AddKeyRoute x) c = Some (extracted x (add_auth_key_handler E rng now) c)"
| "keys_routes E rng now _ c = None"

fun stats_routes ::
  "('s, 'db, 'dt) api_env \<Rightarrow> ApiRoute \<Rightarrow>
   ('s, 'db, 'b) HttpApiContainer \<Rightarrow> (ApiResponse option \<times> ('s, 'db, 'b) HttpApiContainer) option" where
  "stats_routes E (StatsRoute x) c = Some (extracted x (\<lambda>format c. (Some (get_stats_handler E format c), c)) c)"
| "stats_routes E _ c = None"

fun whitelist_routes ::
  "('s, 'db, 'dt) api_env \<Rightarrow> ApiRoute \<Rightarrow>
   ('s, 'db, 'b) HttpApiContainer \<Rightarrow> (ApiResponse option \<times> ('s, 'db, 'b) HttpApiContainer) option" where
  "whitelist_routes E (WhitelistRoute x) c = Some (extracted x (add_torrent_to_whitelist_handler E) c)"
| "whitelist_routes E (UnlistRoute x) c = Some (extracted x (remove_torrent_from_whitelist_handler E) c)"
| "whitelist_routes E ReloadWhitelistRoute c = Some (reload_whitelist_handler E c)"
| "whitelist_routes E _ c = None"

fun torrent_routes ::
  "('s, 'db, 'dt) api_env \<Rightarrow> ApiRoute \<Rightarrow>
   ('s, 'db, 'b) HttpApiContainer \<Rightarrow> (ApiResponse option \<times> ('s, 'db, 'b) HttpApiContainer) option" where
  "torrent_routes E (TorrentRoute x) c = Some (extracted x (\<lambda>info_hash c. (get_torrent_handler E info_hash c, c)) c)"
| "torrent_routes E (TorrentsRoute x) c =
     Some (extracted x (\<lambda>raw c.
             case deserialize_torrents_query raw of
               Inl s \<Rightarrow> (Some (reject_query E s), c)
             | Inr params \<Rightarrow> (Some (get_torrents_handler E params c), c)) c)"
| "torrent_routes E _ c = None"

definition v1_routes ::
  "('s, 'db, 'dt) api_env \<Rightarrow> (nat \<Rightarrow> char) \<Rightarrow> DurationSinceUnixEpoch \<Rightarrow> ApiRoute \<Rightarrow>
   ('s, 'db, 'b) HttpApiContainer \<Rightarrow> (ApiResponse option \<times> ('s, 'db, 'b) HttpApiContainer) option" where
  "v1_routes E rng now route c =
     (case keys_routes E rng now route c of
        Some r \<Rightarrow> Some r
      | None \<Rightarrow>
          (case stats_routes E route c of
             Some r \<Rightarrow> Some r
           | None \<Rightarrow>
               (case whitelist_routes E route c of
                  Some r \<Rightarrow> Some r
                | None \<Rightarrow> torrent_routes E route c)))"

definition api_router ::
  "('s, 'db, 'dt) api_env \<Rightarrow> AccessTokens \<Rightarrow> (nat \<Rightarrow> char) \<Rightarrow> DurationSinceUnixEpoch \<Rightarrow>
   (ApiResponse, string option) result \<Rightarrow> ApiRoute \<Rightarrow> ('s, 'db, 'b) HttpApiContainer \<Rightarrow>
   ApiResponse option \<times> ('s, 'db, 'b) HttpApiContainer" where
  "api_router E tokens rng now params route c =
     (if route = HealthCheckRoute then (Some health_check_handler, c)
      else auth tokens params
             (\<lambda>c. case v1_routes E rng now route c of Some r \<Rightarrow> r | None \<Rightarrow> (Some (fallback_response E), c)) c)"

end
