(* ===== verification/Api_Properties.thy ===== *)
theory Api_Properties
  imports Api_Handlers Persistence_Properties Http_Properties
begin

text \<open>
  The REST API over the components it drives: the requests that change the state are operations of the
  keys handler and of the whitelist manager over one database, requests without an access token are
  without effect, and the keys and torrents the API shows are those the trackers work with.
\<close>

section \<open>Requests as operations\<close>

record ApiRequest =
  rq_rng :: "nat \<Rightarrow> char"
  rq_now :: DurationSinceUnixEpoch
  rq_params :: "(ApiResponse, string option) result"
  rq_route :: ApiRoute

definition api_respond ::
  "('s, 'db, 'dt) api_env \<Rightarrow> AccessTokens \<Rightarrow> ApiRequest \<Rightarrow> ('s, 'db, 'b) HttpApiContainer \<Rightarrow>
   ApiResponse option \<times> ('s, 'db, 'b) HttpApiContainer" where
  "api_respond E tokens rq c = api_router E tokens (rq_rng rq) (rq_now rq) (rq_params rq) (rq_route rq) c"

definition run_api ::
  "('s, 'db, 'dt) api_env \<Rightarrow> AccessTokens \<Rightarrow> ApiRequest list \<Rightarrow> ('s, 'db, 'b) HttpApiContainer \<Rightarrow>
   ('s, 'db, 'b) HttpApiContainer" where
  "run_api E tokens rqs c = fold (\<lambda>rq c. snd (api_respond E tokens rq c)) rqs c"

definition authorized_request :: "AccessTokens \<Rightarrow> ApiRequest \<Rightarrow> bool" where
  "authorized_request tokens rq = (\<exists>token \<in> ran tokens. rq_params rq = Inr (Some token))"

text \<open>The operation on the keys and on the whitelist that a request stands for.\<close>

fun keys_op_of :: "(nat \<Rightarrow> char) \<Rightarrow> DurationSinceUnixEpoch \<Rightarrow> ApiRoute \<Rightarrow> keys_op option" where
  "keys_op_of rng now (GenerateKeyRoute (Inr n)) =
     Some (AddKey rng now \<lparr>opt_key = None, opt_seconds_valid = Some n\<rparr>)"
| "keys_op_of rng now (AddKeyRoute (Inr form)) =
     Some (AddKey rng now \<lparr>opt_key = form_key form, opt_seconds_valid = form_seconds_valid form\<rparr>)"
| "keys_op_of rng now (DeleteKeyRoute (Inr s)) =
     (case Key_from_str s of Inr key \<Rightarrow> Some (RemoveKey key) | Inl _ \<Rightarrow> None)"
| "keys_op_of rng now ReloadKeysRoute = Some LoadKeys"
| "keys_op_of rng now _ = None"

fun whitelist_op_of :: "info_hash_api \<Rightarrow> ApiRoute \<Rightarrow> whitelist_op option" where
  "whitelist_op_of H (WhitelistRoute (Inr s)) = map_option AddTorrent (ih_from_str H s)"
| "whitelist_op_of H (UnlistRoute (Inr s)) = map_option RemoveTorrentWl (ih_from_str H s)"
| "whitelist_op_of H ReloadWhitelistRoute = Some LoadWhitelist"
| "whitelist_op_of H _ = None"

definition request_effect ::
  "('s, 'db, 'dt) api_env \<Rightarrow> ApiRequest \<Rightarrow> ('s, 'db, 'b) HttpApiContainer \<Rightarrow> ('s, 'db, 'b) HttpApiContainer" where
  "request_effect E rq c =
     (case keys_op_of (rq_rng rq) (rq_now rq) (rq_route rq) of
        Some op \<Rightarrow> set_keys_handler (keys_step (ae_database E) op (keys_handler c)) c
      | None \<Rightarrow>
          (case whitelist_op_of (ae_info_hash E) (rq_route rq) of
             Some op \<Rightarrow> set_whitelist_manager (snd (whitelist_step (ae_database E) op (whitelist_manager c))) c
           | None \<Rightarrow> c))"

lemma set_same_handler [simp]:
  "set_keys_handler (keys_handler c) c = c" "set_whitelist_manager (whitelist_manager c) c = c"
  by (simp_all add: set_keys_handler_def keys_handler_def set_whitelist_manager_def whitelist_manager_def)

lemma snd_add_auth_key_handler:
  "snd (add_auth_key_handler E rng now form c) =
     set_keys_handler (keys_step (ae_database E)
       (AddKey rng now \<lparr>opt_key = form_key form, opt_seconds_valid = form_seconds_valid form\<rparr>) (keys_handler c)) c"
  by (auto simp: add_auth_key_handler_def split: option.split)

lemma snd_generate_auth_key_handler:
  "snd (generate_auth_key_handler E rng now n c) =
     set_keys_handler (keys_step (ae_database E)
       (AddKey rng now \<lparr>opt_key = None, opt_seconds_valid = Some n\<rparr>) (keys_handler c)) c"
  by (auto simp: generate_auth_key_handler_def add_peer_key_def map_database_error_def
      split: option.split sum.splits prod.splits)

lemma snd_keys_handlers:
  "snd (delete_auth_key_handler E s c) =
     (case Key_from_str s of
        Inr key \<Rightarrow> set_keys_handler (keys_step (ae_database E) (RemoveKey key) (keys_handler c)) c
      | Inl _ \<Rightarrow> c)"
  "snd (reload_keys_handler E c) = set_keys_handler (keys_step (ae_database E) LoadKeys (keys_handler c)) c"
  by (auto simp: delete_auth_key_handler_def reload_keys_handler_def split: sum.split prod.split)

lemma snd_whitelist_handlers:
  "snd (add_torrent_to_whitelist_handler E s c) =
     (case ih_from_str (ae_info_hash E) s of
        Some ih \<Rightarrow> set_whitelist_manager (snd (whitelist_step (ae_database E) (AddTorrent ih) (whitelist_manager c))) c
      | None \<Rightarrow> c)"
  "snd (remove_torrent_from_whitelist_handler E s c) =
     (case ih_from_str (ae_info_hash E) s of
        Some ih \<Rightarrow> set_whitelist_manager (snd (whitelist_step (ae_database E) (RemoveTorrentWl ih) (whitelist_manager c))) c
      | None \<Rightarrow> c)"
  "snd (reload_whitelist_handler E c) =
     set_whitelist_manager (snd (whitelist_step (ae_database E) LoadWhitelist (whitelist_manager c))) c"
  by (auto simp: add_torrent_to_whitelist_handler_def remove_torrent_from_whitelist_handler_def
      reload_whitelist_handler_def split: option.split sum.split prod.split)

lemmas snd_api_handlers =
  snd_add_auth_key_handler snd_generate_auth_key_handler snd_keys_handlers snd_whitelist_handlers

lemma respond_unauthorized:
  assumes "\<not> authorized_request tokens rq" and "rq_route rq \<noteq> HealthCheckRoute"
  shows "api_respond E tokens rq c =
    (Some (case rq_params rq of
             Inl rejection \<Rightarrow> rejection
           | Inr None \<Rightarrow> unauthorized_response
           | Inr (Some _) \<Rightarrow> token_not_valid_response), c)"
  using assms
  by (auto simp: api_respond_def api_router_def auth_def token_authenticate_def authorized_request_def
      split: sum.split option.split)

lemma authorized_respond:
  assumes "authorized_request tokens rq" and "rq_route rq \<noteq> HealthCheckRoute"
  shows "api_respond E tokens rq c =
    (case v1_routes E (rq_rng rq) (rq_now rq) (rq_route rq) c of
       Some r \<Rightarrow> r | None \<Rightarrow> (Some (fallback_response E), c))"
  using assms by (auto simp: api_respond_def api_router_def auth_def token_authenticate_def authorized_request_def)

lemma snd_api_respond:
  "snd (api_respond E tokens rq c) = (if authorized_request tokens rq then request_effect E rq c else c)"
proof (cases "rq_route rq = HealthCheckRoute")
  case True
  then show ?thesis
    by (simp add: api_respond_def api_router_def request_effect_def)
next
  case False
  show ?thesis
  proof (cases "authorized_request tokens rq")
    case True
    show ?thesis
      unfolding authorized_respond [OF True False]
      using True False
      by (cases "rq_route rq")
         (auto simp: v1_routes_def request_effect_def extracted_def snd_api_handlers split: sum.split option.split)
  qed (use False in \<open>simp add: respond_unauthorized\<close>)
qed

section \<open>Memory and the shared database\<close>

definition api_synced :: "('db \<Rightarrow> DbView) \<Rightarrow> ('s, 'db, 'b) HttpApiContainer \<Rightarrow> bool" where
  "api_synced view c = (whitelist_synced view (whitelist_manager c) \<and> keys_synced view (keys_handler c))"

definition request_storable :: "(PeerKey \<Rightarrow> bool) \<Rightarrow> ApiRequest \<Rightarrow> bool" where
  "request_storable storable rq =
     (case keys_op_of (rq_rng rq) (rq_now rq) (rq_route rq) of Some op \<Rightarrow> op_storable storable op | None \<Rightarrow> True)"

lemma handlers_of_set [simp]:
  "keys_handler (set_keys_handler h c) = h"
  "whitelist_manager (set_whitelist_manager m c) = m"
  "whitelist_manager (set_keys_handler h c) = (whitelist_manager c)\<lparr>database_whitelist := db_key_repository h\<rparr>"
  "keys_handler (set_whitelist_manager m c) = (keys_handler c)\<lparr>db_key_repository := database_whitelist m\<rparr>"
  "api_database (set_keys_handler h c) = db_key_repository h"
  "api_database (set_whitelist_manager m c) = database_whitelist m"
  "db_key_repository (keys_handler c) = api_database c"
  "database_whitelist (whitelist_manager c) = api_database c"
  by (simp_all add: keys_handler_def set_keys_handler_def whitelist_manager_def set_whitelist_manager_def)

context database
begin

text \<open>The operations on the keys leave the whitelist of the database alone, and the other way round.\<close>

lemma add_expiring_peer_key_whitelist:
  assumes "ok (db_key_repository s)" and "storable \<lparr>pk_key = key, valid_until = t\<rparr>"
  shows "ok (db_key_repository (snd (add_expiring_peer_key D key t s))) \<and>
         v_whitelist (view (db_key_repository (snd (add_expiring_peer_key D key t s)))) =
         v_whitelist (view (db_key_repository s))"
proof -
  obtain r0 db' where add: "add_key_to_keys D \<lparr>pk_key = key, valid_until = t\<rparr> (db_key_repository s) = (r0, db')"
    by fastforce
  then show ?thesis
    using add_key [OF assms]
    by (cases r0) (simp_all add: add_expiring_peer_key_def DatabaseKeyRepository_add_def Let_def)
qed

lemma keys_step_whitelist:
  assumes "ok (db_key_repository s)" and "op_storable storable op"
  shows "ok (db_key_repository (keys_step D op s)) \<and>
         v_whitelist (view (db_key_repository (keys_step D op s))) = v_whitelist (view (db_key_repository s))"
proof (cases op)
  case (AddKey rng now req)
  show ?thesis
  proof (cases "add_peer_key D rng now req s")
    case (Some rs)
    then obtain r s' where rs: "add_peer_key D rng now req s = Some (r, s')"
      by (cases rs) auto
    from add_peer_key_cases [OF this] show ?thesis
    proof (elim disjE exE conjE)
      fix key t
      assume "key_valid key" "t = requested_validity now req"
        "(r, s') = map_database_error (add_expiring_peer_key D key t s)"
      then show ?thesis
        using AddKey rs assms(2) add_expiring_peer_key_whitelist [OF assms(1), of key t]
        by (auto simp: map_database_error_def split: prod.splits sum.splits)
    qed (use AddKey rs assms(1) in auto)
  qed (simp add: AddKey assms(1))
next
  case (RemoveKey key)
  obtain r db' where rm: "remove_key_from_keys D key (db_key_repository s) = (r, db')"
    by fastforce
  then show ?thesis
    using remove_key [OF assms(1), of key] RemoveKey
    by (cases r) (simp_all add: remove_peer_key_def DatabaseKeyRepository_remove_def remove_in_memory_auth_key_def)
next
  case LoadKeys
  then show ?thesis
    using assms(1) by (simp add: load_peer_keys_from_database_def split: sum.split)
qed

lemma keys_step_synced:
  assumes "ok (db_key_repository s)" and "keys_synced view s" and "op_storable storable op"
  shows "ok (db_key_repository (keys_step D op s))" and "keys_synced view (keys_step D op s)"
  using run_keys_synced [OF assms(1,2), of "[op]"] assms(3) by (simp_all add: run_keys_def)

lemma whitelist_step_keys:
  assumes "ok (database_whitelist s)"
  shows "ok (database_whitelist (snd (whitelist_step D op s))) \<and>
         v_keys (view (database_whitelist (snd (whitelist_step D op s)))) = v_keys (view (database_whitelist s))"
proof (cases op)
  case (AddTorrent ih)
  obtain r db' where "DatabaseWhitelist_add D ih (database_whitelist s) = (r, db')"
    by fastforce
  then show ?thesis
    using AddTorrent DatabaseWhitelist_add [OF assms, of ih]
    by (cases r) (simp_all add: add_torrent_to_whitelist_def)
next
  case (RemoveTorrentWl ih)
  obtain r db' where "DatabaseWhitelist_remove D ih (database_whitelist s) = (r, db')"
    by fastforce
  then show ?thesis
    using RemoveTorrentWl DatabaseWhitelist_remove [OF assms, of ih]
    by (cases r) (simp_all add: remove_torrent_from_whitelist_def)
next
  case LoadWhitelist
  then show ?thesis
    using assms by (simp add: load_whitelist_from_database_def split: sum.split)
qed

lemma request_effect_parts:
  assumes "ae_database E = D" and "ok (api_database c)" and "request_storable storable rq"
  shows "ok (api_database (request_effect E rq c)) \<and>
    (keys_synced view (keys_handler c) \<longrightarrow> keys_synced view (keys_handler (request_effect E rq c))) \<and>
    (whitelist_synced view (whitelist_manager c) \<longrightarrow> whitelist_synced view (whitelist_manager (request_effect E rq c)))"
proof (cases "keys_op_of (rq_rng rq) (rq_now rq) (rq_route rq)")
  case (Some op)
  then have op: "op_storable storable op"
    using assms(3) by (simp add: request_storable_def)
  show ?thesis
    using keys_step_synced [OF _ _ op, of "keys_handler c"] keys_step_whitelist [OF _ op, of "keys_handler c"] assms(1,2)
    by (simp add: request_effect_def Some whitelist_synced_def)
next
  case None
  show ?thesis
  proof (cases "whitelist_op_of (ae_info_hash E) (rq_route rq)")
    case (Some op)
    then show ?thesis
      using None whitelist_step_synced [of "whitelist_manager c" op] whitelist_step_keys [of "whitelist_manager c" op] assms(1,2)
      by (simp add: request_effect_def keys_synced_def)
  qed (use None assms in \<open>simp add: request_effect_def\<close>)
qed

lemma run_api_synced:
  assumes "ae_database E = D"
  shows "ok (api_database c) \<Longrightarrow> api_synced view c \<Longrightarrow> \<forall>rq \<in> set rqs. request_storable storable rq \<Longrightarrow>
    ok (api_database (run_api E tokens rqs c)) \<and> api_synced view (run_api E tokens rqs c)"
proof (induction rqs arbitrary: c)
  case (Cons rq rqs)
  then show ?case
    using request_effect_parts [OF assms, of c rq] by (simp add: run_api_def snd_api_respond api_synced_def)
qed (simp add: run_api_def)

end

lemma run_api_authorized:
  "run_api E tokens rqs c = fold (request_effect E) (filter (authorized_request tokens) rqs) c"
  by (induction rqs arbitrary: c) (simp_all add: run_api_def snd_api_respond)

text \<open>
  C13: After any sequence of requests to the API over the SQLite driver, started with memory and
  database in agreement, the whitelist in memory is the whitelist of the database and the keys in memory
  are the keys of the database, whatever statements failed and whatever handlers panicked in between;
  the torrents are as before, and the outcome is the same as if the requests without a valid token had
  not been made. Keys are added with expirations below \<open>2 ^ 63\<close> seconds.
\<close>
theorem api_history:
  assumes "sqlite_engine H A sq_ok tables" and "ae_database E = Sqlite A H"
    and "sqlite_ok H sq_ok tables (api_database c)" and "api_synced (\<lambda>db. tables_view H (tables db)) c"
    and "\<forall>rq \<in> set rqs. request_storable sqlite_storable rq"
    and "c' = run_api E tokens rqs c"
  shows "whitelist (api_whitelist c') = {ih. ih_to_string H ih \<in> set (wl_rows (tables (api_database c')))} \<and>
         (\<forall>key. map_option stored_validity (keys (api_keys c') key) =
                map_option (map_option word_of_int) (map_of (key_rows (tables (api_database c'))) (key_value key))) \<and>
         api_torrents c' = api_torrents c \<and>
         c' = run_api E tokens (filter (authorized_request tokens) rqs) c"
proof -
  note D = sqlite_engine.driver_contract [OF assms(1)]
  have "api_synced (\<lambda>db. tables_view H (tables db)) c'"
    using database.run_api_synced [OF D assms(2-5)] by (simp add: assms(6))
  moreover have "api_torrents (fold (request_effect E) rqs c) = api_torrents c" for rqs
    by (induction rqs arbitrary: c)
       (simp_all add: request_effect_def set_keys_handler_def set_whitelist_manager_def split: option.split)
  ultimately show ?thesis
    by (simp add: api_synced_def whitelist_synced_def keys_synced_def tables_view_def whitelist_manager_def
        keys_handler_def assms(6) run_api_authorized)
qed

section \<open>The life of a key\<close>

lemma key_from_str_Key: "Key_from_str s = Inr key \<Longrightarrow> key = Key s"
  by (auto simp: Key_from_str_def split: sum.splits)

lemma add_key_respond:
  assumes "authorized_request tokens rq"
    and "rq_route rq = AddKeyRoute (Inr \<lparr>form_key = Some k, form_seconds_valid = Some n\<rparr>)"
  shows "api_respond E tokens rq c =
    add_auth_key_handler E (rq_rng rq) (rq_now rq) \<lparr>form_key = Some k, form_seconds_valid = Some n\<rparr> c"
  using authorized_respond [OF assms(1)] assms(2) by (simp add: v1_routes_def extracted_def)

lemma error_responses_status [simp]:
  "api_status (invalid_auth_key_duration_response n) = 400" "api_status (invalid_auth_key_response k e) = 400"
  "api_status (failed_to_generate_key_response e) = 500" "api_status (failed_to_delete_key_response e) = 500"
  "api_status (invalid_auth_key_param_response k) = 400"
  by (simp_all add: invalid_auth_key_duration_response_def invalid_auth_key_response_def
      failed_to_generate_key_response_def failed_to_delete_key_response_def invalid_auth_key_param_response_def
      bad_request_response_def unhandled_rejection_response_def)

text \<open>A key that is added: what is stored, and the response, if the calendar reaches its expiration.\<close>

lemma add_key_effect:
  assumes "authorized_request tokens rq"
    and "rq_route rq = AddKeyRoute (Inr \<lparr>form_key = Some k, form_seconds_valid = Some n\<rparr>)"
    and "Key_from_str k = Inr (Key k)" and "rq_now rq + from_secs n \<le> DURATION_MAX"
    and "pk = \<lparr>pk_key = Key k, valid_until = Some (rq_now rq + from_secs n)\<rparr>"
    and "fst (add_key_to_keys (ae_database E) pk (api_database c)) = Inr m"
  shows "fst (api_respond E tokens rq c) = map_option auth_key_response (AuthKey_from (ae_chrono E) pk)"
    and "keys (api_keys (snd (api_respond E tokens rq c))) = (keys (api_keys c))(Key k \<mapsto> pk)"
proof -
  obtain db where add: "add_key_to_keys (ae_database E) pk (api_database c) = (Inr m, db)"
    using assms(6) by (metis prod.collapse)
  have "now_add (rq_now rq) (from_secs n) = Some (rq_now rq + from_secs n)"
    using assms(4) by (simp add: now_add_def duration_checked_add_def)
  then have "add_peer_key (ae_database E) (rq_rng rq) (rq_now rq) \<lparr>opt_key = Some k, opt_seconds_valid = Some n\<rparr> (keys_handler c) =
    Some (Inr pk, (keys_handler c)\<lparr>db_key_repository := db, in_memory_key_repository := InMemoryKeyRepository_insert pk (api_keys c)\<rparr>)"
    using add assms(3)
    by (simp add: add_peer_key_def add_expiring_peer_key_def DatabaseKeyRepository_add_def Let_def
        map_database_error_def keys_handler_def flip: assms(5))
  then show "fst (api_respond E tokens rq c) = map_option auth_key_response (AuthKey_from (ae_chrono E) pk)"
    and "keys (api_keys (snd (api_respond E tokens rq c))) = (keys (api_keys c))(Key k \<mapsto> pk)"
    by (simp_all add: add_key_respond [OF assms(1,2)] add_auth_key_handler_def set_keys_handler_def
        keys_handler_def InMemoryKeyRepository_insert_def assms(5))
qed

lemma add_key_accepted:
  assumes "authorized_request tokens rq"
    and "rq_route rq = AddKeyRoute (Inr \<lparr>form_key = Some k, form_seconds_valid = Some n\<rparr>)"
    and "api_respond E tokens rq c = (Some r, c1)" and "api_status r = 200"
  obtains m where "Key_from_str k = Inr (Key k)" and "rq_now rq + from_secs n \<le> DURATION_MAX"
    and "fst (add_key_to_keys (ae_database E) \<lparr>pk_key = Key k, valid_until = Some (rq_now rq + from_secs n)\<rparr>
           (api_database c)) = Inr m"
proof -
  have r: "fst (add_auth_key_handler E (rq_rng rq) (rq_now rq) \<lparr>form_key = Some k, form_seconds_valid = Some n\<rparr> c) = Some r"
    using assms(3) by (simp add: add_key_respond [OF assms(1,2)])
  obtain t where t: "now_add (rq_now rq) (from_secs n) = Some t"
    using r assms(4) by (cases "now_add (rq_now rq) (from_secs n)") (auto simp: add_auth_key_handler_def add_peer_key_def)
  obtain key where key: "Key_from_str k = Inr key"
    using r t assms(4) by (cases "Key_from_str k") (auto simp: add_auth_key_handler_def add_peer_key_def)
  then have "key = Key k"
    by (rule key_from_str_Key)
  obtain res db where res: "add_key_to_keys (ae_database E) \<lparr>pk_key = Key k, valid_until = Some t\<rparr> (api_database c) = (res, db)"
    by fastforce
  have "\<exists>m. res = Inr m"
    using r t key assms(4) res \<open>key = Key k\<close>
    by (cases res) (auto simp: add_auth_key_handler_def add_peer_key_def add_expiring_peer_key_def
        DatabaseKeyRepository_add_def map_database_error_def Let_def keys_handler_def)
  then show thesis
    using that t key \<open>key = Key k\<close> res by (auto simp: now_add_def duration_checked_add_def split: if_splits)
qed

lemma delete_key_accepted:
  assumes "authorized_request tokens rq" and "rq_route rq = DeleteKeyRoute (Inr k)"
    and "api_respond E tokens rq c = (Some r, c1)" and "api_status r = 200"
  shows "keys (api_keys c1) = (keys (api_keys c))(Key k := None)"
proof -
  have "delete_auth_key_handler E k c = (Some r, c1)"
    using authorized_respond [OF assms(1), of E c] assms(2,3) by (simp add: v1_routes_def extracted_def)
  then show ?thesis
    using assms(4)
    by (auto simp: delete_auth_key_handler_def remove_peer_key_def remove_in_memory_auth_key_def
        InMemoryKeyRepository_remove_def set_keys_handler_def keys_handler_def
        dest!: key_from_str_Key split: sum.splits prod.splits)
qed


text \<open>
  C33: A key whose expiration the calendar cannot represent is stored and opens a private tracker, but
  the handler panics while it builds the response, so that the client that asked for the key gets none.
\<close>
theorem api_key_response_lost:
  assumes "authorized_request tokens rq"
    and "rq_route rq = AddKeyRoute (Inr \<lparr>form_key = Some k, form_seconds_valid = Some n\<rparr>)"
    and "Key_from_str k = Inr (Key k)" and "rq_now rq + from_secs n \<le> DURATION_MAX"
    and "fst (add_key_to_keys (ae_database E) \<lparr>pk_key = Key k, valid_until = Some (rq_now rq + from_secs n)\<rparr>
           (api_database c)) = Inr m"
    and "\<forall>secs. i64_try_from_u64 (as_secs (rq_now rq + from_secs n)) = Some secs \<longrightarrow>
           from_timestamp (ae_chrono E) secs 0 = None"
  shows "fst (api_respond E tokens rq c) = None \<and>
         (authenticate config (api_keys (snd (api_respond E tokens rq c))) now (Key k) = Inr () \<longleftrightarrow>
            \<not> core_private config \<or> (expiration_checked config \<longrightarrow> now \<le> rq_now rq + from_secs n))"
proof -
  define pk where "pk = \<lparr>pk_key = Key k, valid_until = Some (rq_now rq + from_secs n)\<rparr>"
  have m: "fst (add_key_to_keys (ae_database E) pk (api_database c)) = Inr m"
    using assms(5) by (simp add: pk_def)
  have "as_secs (from_secs s) = s" "subsec_nanos (from_secs s) = 0" for s
    by (simp_all add: as_secs_def subsec_nanos_def from_secs_def NANOS_PER_SEC_def)
  then have "AuthKey_from (ae_chrono E) pk = None"
    using assms(6)
    by (cases "i64_try_from_u64 (as_secs (rq_now rq + from_secs n))")
       (simp_all add: AuthKey_from_def expiry_time_def pk_def convert_from_timestamp_to_datetime_utc_def)
  then show ?thesis
    using add_key_effect [OF assms(1-4) pk_def m]
    by (auto simp: authenticate_cases verify_key_expiration_def pk_def)
qed

section \<open>Torrents\<close>

lemma parse_info_hashes_printed:
  assumes "info_hash_text H"
  shows "parse_info_hashes H (map (ih_to_string H) ihs) acc = Inr (acc @ ihs)"
  by (induction ihs arbitrary: acc) (simp_all add: info_hash_text.from_to [OF assms])

lemma u32_option_printed:
  "empty_string_as_none u32_from_str (map_option (\<lambda>n :: u32. nat_to_string (unat n)) opt) = Inr opt"
proof (cases opt)
  case (Some n)
  have "unat n < 2 ^ 32"
    using unsigned_less [of n, where 'a = nat] by simp
  then show ?thesis
    using Some nat_to_string_not_Nil [of "unat n"]
    by (simp add: empty_string_as_none_def u32_from_str_def parse_unsigned_printed)
qed (simp add: empty_string_as_none_def)

text \<open>What the API shows of a swarm.\<close>

definition swarm_item :: "info_hash_api \<Rightarrow> swarms \<Rightarrow> InfoHash \<Rightarrow> ListItem" where
  "swarm_item H S ih =
     \<lparr>li_info_hash = ih_to_string H ih, li_seeders = ucast (sm_complete (swarm_stats (swarm_of S ih))),
      li_completed = ucast (sm_downloaded (swarm_stats (swarm_of S ih))),
      li_leechers = ucast (sm_incomplete (swarm_stats (swarm_of S ih)))\<rparr>"

lemma ListItem_new_vec_swarms:
  "ListItem_new_vec H (map (\<lambda>ih. basic_info ih (swarm_stats (swarm_of S ih))) ihs) = map (swarm_item H S) ihs"
  by (simp add: ListItem_new_vec_def ListItem_from_def basic_info_def swarm_item_def)

lemma torrents_respond:
  assumes "token \<in> ran tokens" and "route \<noteq> HealthCheckRoute"
  shows "api_router E tokens rng now (Inr (Some token)) route c =
    (case v1_routes E rng now route c of Some r \<Rightarrow> r | None \<Rightarrow> (Some (fallback_response E), c))"
  using assms by (simp add: api_router_def auth_def token_authenticate_def)

lemma torrents_page_respond:
  assumes "ae_repository E = R" and "ae_info_hash E = H" and "token \<in> ran tokens"
    and "get_torrents_page R (Some (Pagination_new_with_options off lim)) (api_torrents c) =
      map (\<lambda>ih. basic_info ih (swarm_stats (swarm_of S ih))) ihs"
  shows "api_router E tokens rng now (Inr (Some token))
      (TorrentsRoute (Inr \<lparr>raw_offset = map_option (\<lambda>n. nat_to_string (unat n)) off,
                            raw_limit = map_option (\<lambda>n. nat_to_string (unat n)) lim, raw_info_hashes = []\<rparr>)) c =
    (Some (json_response (JsonTorrents (map (swarm_item H S) ihs))), c)"
  using assms(1,2,4)
  by (simp add: torrents_respond [OF assms(3)] v1_routes_def extracted_def deserialize_torrents_query_def
      u32_option_printed get_torrents_handler_def torrent_list_response_def ListItem_new_vec_swarms json_response_def)

text \<open>
  C28: After any history of announces and clean-ups, the API lists the torrents of the tracker with the
  numbers of their swarms: for an offset and a limit, which may be left out, the page of the info-hashes
  in ascending order; for given info-hashes those that the tracker knows, in the order of the request;
  and a single torrent that is not known is answered with the status of success.
\<close>
theorem api_torrents_exact:
  fixes api :: "'m skip_map_api" and A :: "'db rusqlite_api"
  defines "R \<equiv> TorrentsSkipMapMutexStd api"
  assumes "skip_map api sk_ok" and "sqlite_engine H A sq_ok tables" and "sqlite_ok H sq_ok tables db"
    and "h = run_tracker R (Sqlite A H) config ops
          \<lparr>in_memory_torrent_repository = repo_default R, db_torrent_repository = db\<rparr>"
    and "S = run_swarms config ops (\<lambda>_. None)"
    and "ae_repository E = R" and "ae_info_hash E = H" and "api_torrents c = in_memory_torrent_repository h"
    and "token \<in> ran tokens" and "ihs \<noteq> []" and "unknown \<notin> dom S"
  shows "api_router E tokens rng now (Inr (Some token))
           (TorrentsRoute (Inr \<lparr>raw_offset = map_option (\<lambda>n. nat_to_string (unat n)) off,
                                 raw_limit = map_option (\<lambda>n. nat_to_string (unat n)) lim, raw_info_hashes = []\<rparr>)) c =
           (Some (json_response (JsonTorrents (map (swarm_item H S)
              (paginate (Some (Pagination_new_with_options off lim)) (sorted_list_of_set (dom S)))))), c) \<and>
         api_router E tokens rng now (Inr (Some token))
           (TorrentsRoute (Inr \<lparr>raw_offset = None, raw_limit = None, raw_info_hashes = map (ih_to_string H) ihs\<rparr>)) c =
           (Some (json_response (JsonTorrents (map (swarm_item H S) (filter (\<lambda>ih. ih \<in> dom S) ihs)))), c) \<and>
         api_router E tokens rng now (Inr (Some token)) (TorrentRoute (Inr (ih_to_string H unknown))) c =
           (Some \<lparr>api_status = 200, content_type = ''application/json'', api_body = JsonText ''torrent not known''\<rparr>, c)"
proof -
  note T = sqlite_tracker [OF assms(2,3)]
  note H = sqlite_engine.axioms(1) [OF assms(3)]
  have h: "handler_ok (skip_ok api sk_ok) (sqlite_ok H sq_ok tables) h"
    "represents_all (skip_view api (in_memory_torrent_repository h)) S"
    using tracker.run_from_empty [OF T assms(4)] assms(5,6) by (simp_all add: R_def)
  have page: "get_torrents_page R pg (api_torrents c) =
      map (\<lambda>ih. basic_info ih (swarm_stats (swarm_of S ih))) (paginate pg (sorted_list_of_set (dom S)))" for pg
    using tracker.page_listing [OF T _ h(2)] h(1) by (simp add: R_def handler_ok_def assms(9))
  have list: "get_torrents R xs (api_torrents c) =
      map (\<lambda>ih. basic_info ih (swarm_stats (swarm_of S ih))) (filter (\<lambda>ih. ih \<in> dom S) xs)" for xs
    using tracker.torrents_listing [OF T _ h(2)] h(1) by (simp add: R_def handler_ok_def assms(9))
  have none: "get_torrent_info R unknown (api_torrents c) = None"
    using list [of "[unknown]"] assms(12) by (auto simp: get_torrents_def get_torrent_info_def split: option.splits)
  note respond = torrents_respond [OF assms(10)]
  have no_number: "empty_string_as_none u32_from_str None = Inr None"
    by (simp add: empty_string_as_none_def)
  show ?thesis
    using assms(11)
    by (simp add: respond v1_routes_def extracted_def deserialize_torrents_query_def u32_option_printed no_number
        get_torrents_handler_def assms(7,8) page list torrent_list_response_def ListItem_new_vec_swarms
        parse_info_hashes_printed [OF H] get_torrent_handler_def info_hash_text.from_to [OF H] none
        torrent_not_known_response_def json_response_def)
qed

section \<open>Witnesses\<close>

text \<open>The calendar ends with the year 262142; the other parameters are the simplest ones.\<close>

definition api_sample_env :: "((InfoHash, handle) btree_map SharedTorrents, sql_tables, i64) api_env" where
  "api_sample_env =
     \<lparr>ae_repository = TorrentsSkipMapMutexStd bt_skip_map, ae_database = Sqlite mem_sqlite hex_info_hash,
      ae_info_hash = hex_info_hash,
      ae_peer = \<lparr>bin2hex = (\<lambda>bytes n. if n = 2 * length bytes then Some (as_bytes (concat (map hex_byte bytes))) else None),
                 client_name = (\<lambda>_. None), debug_event = (\<lambda>_. [])\<rparr>,
      ae_chrono = \<lparr>from_timestamp = (\<lambda>secs _. if sint secs \<le> 8210266876799 then Some secs else None),
                   timestamp = (\<lambda>t. t), parse_utc = (\<lambda>_. None), show_utc = i64_to_string\<rparr>,
      show_db_error = (\<lambda>_. []), show_parse_key_error = (\<lambda>_. []),
      reject_query = (\<lambda>_. bad_request_response []),
      fallback_response = \<lparr>api_status = 404, content_type = [], api_body = PlainText []\<rparr>\<rparr>"

definition api_sample :: "((InfoHash, handle) btree_map SharedTorrents, sql_tables, IpAddr \<Rightarrow> nat) HttpApiContainer" where
  "api_sample =
     \<lparr>api_torrents = in_memory_torrent_repository sample_tracker, api_database = tables_empty,
      api_keys = \<lparr>keys = (\<lambda>_. None)\<rparr>, api_whitelist = \<lparr>whitelist = {}\<rparr>,
      api_ban_service = BanService_new exact_filter 10 0,
      api_http_stats = HttpMetrics_default, api_udp_stats = UdpMetrics_default\<rparr>"

definition sample_tokens :: AccessTokens where
  "sample_tokens = [''admin'' \<mapsto> ''secret'']"

definition sample_request :: "string option \<Rightarrow> ApiRoute \<Rightarrow> ApiRequest" where
  "sample_request token route = \<lparr>rq_rng = (\<lambda>_. CHR ''x''), rq_now = 0, rq_params = Inr token, rq_route = route\<rparr>"

lemma sample_request_authorized [simp]:
  "authorized_request sample_tokens (sample_request token route) \<longleftrightarrow> token = Some ''secret''"
  by (auto simp: authorized_request_def sample_tokens_def sample_request_def)

lemma sample_request_simps [simp]:
  "rq_route (sample_request token route) = route" "rq_now (sample_request token route) = 0"
  by (simp_all add: sample_request_def)

lemma api_sample_synced: "api_synced (\<lambda>t. tables_view hex_info_hash t) api_sample"
  by (simp add: api_synced_def whitelist_synced_def keys_synced_def whitelist_manager_def keys_handler_def
      api_sample_def tables_empty_view)

lemma api_sample_simps [simp]:
  "ae_database api_sample_env = Sqlite mem_sqlite hex_info_hash" "ae_info_hash api_sample_env = hex_info_hash"
  "ae_repository api_sample_env = TorrentsSkipMapMutexStd bt_skip_map"
  "api_database api_sample = tables_empty" "whitelist_manager api_sample = sample_manager"
  "keys_handler api_sample = sample_handler" "api_torrents api_sample = in_memory_torrent_repository sample_tracker"
  by (simp_all add: api_sample_env_def api_sample_def whitelist_manager_def sample_manager_def keys_handler_def
      sample_handler_def)

lemma sample_whitelisted:
  "ih_from_str hex_info_hash ''02'' = Some (InfoHash [2])"
  "ih_to_string hex_info_hash (InfoHash [2]) = ''02''"
  "wl_rows (database_whitelist (snd (whitelist_step (Sqlite mem_sqlite hex_info_hash) (AddTorrent (InfoHash [2])) sample_manager))) = [''02'']"
  by code_simp+

theorem api_history_witness:
  "InfoHash [2] \<in> whitelist (api_whitelist (run_api api_sample_env sample_tokens
     [sample_request (Some ''secret'') (WhitelistRoute (Inr ''02'')), sample_request None (UnlistRoute (Inr ''02''))]
     api_sample))"
proof -
  let ?rqs = "[sample_request (Some ''secret'') (WhitelistRoute (Inr ''02'')), sample_request None (UnlistRoute (Inr ''02''))]"
  have run: "run_api api_sample_env sample_tokens ?rqs api_sample =
      set_whitelist_manager (snd (whitelist_step (Sqlite mem_sqlite hex_info_hash) (AddTorrent (InfoHash [2])) sample_manager)) api_sample"
    by (simp add: run_api_authorized request_effect_def sample_whitelisted(1) del: whitelist_step.simps)
  have storable: "\<forall>rq \<in> set ?rqs. request_storable sqlite_storable rq"
    by (simp add: request_storable_def)
  have "whitelist (api_whitelist (run_api api_sample_env sample_tokens ?rqs api_sample)) =
      {ih. ih_to_string hex_info_hash ih \<in> set (wl_rows (api_database (run_api api_sample_env sample_tokens ?rqs api_sample)))}"
    by (rule api_history [OF mem.sqlite_engine_axioms api_sample_simps(1) _ api_sample_synced storable refl, THEN conjunct1])
       (simp add: sample_tables_ok)
  then show ?thesis
    unfolding run using sample_whitelisted(2,3) by (simp del: whitelist_step.simps)
qed

definition sample_add_request :: "u64 \<Rightarrow> ApiRequest" where
  "sample_add_request n =
     sample_request (Some ''secret'') (AddKeyRoute (Inr \<lparr>form_key = Some (key_value sample_key), form_seconds_valid = Some n\<rparr>))"

lemma Key_sample [simp]: "Key (key_value sample_key) = sample_key"
  by (simp add: sample_key_def)

lemma sample_key_inserted:
  "fst (add_key_to_keys (Sqlite mem_sqlite hex_info_hash) \<lparr>pk_key = sample_key, valid_until = Some 60000000000\<rparr> tables_empty) = Inr 1"
  "fst (add_key_to_keys (Sqlite mem_sqlite hex_info_hash) \<lparr>pk_key = sample_key, valid_until = Some 10000000000000000000000\<rparr> tables_empty) = Inr 1"
  by (simp_all add: Sqlite_def Sqlite_add_key_to_keys_def Sqlite_execute_def mem_sqlite_def mem_sqlite_execute_def
      tables_empty_def t_insert_key_def sqlite_statements)

lemma sample_lifetimes:
  "from_secs 60 = 60000000000" "from_secs 10000000000000 = 10000000000000000000000"
  "as_secs 60000000000 = 60" "as_secs 10000000000000000000000 = 10000000000000"
  "(60000000000 :: nat) \<le> DURATION_MAX" "(10000000000000000000000 :: nat) \<le> DURATION_MAX"
  by (simp_all add: from_secs_def as_secs_def NANOS_PER_SEC_def DURATION_MAX_def)

theorem api_key_response_lost_witness:
  "fst (api_respond api_sample_env sample_tokens (sample_add_request 10000000000000) api_sample) = None \<and>
   authenticate (Core_default\<lparr>core_private := True\<rparr>)
     (api_keys (snd (api_respond api_sample_env sample_tokens (sample_add_request 10000000000000) api_sample))) 5 sample_key = Inr ()"
proof -
  have calendar: "\<forall>secs. i64_try_from_u64 10000000000000 = Some secs \<longrightarrow> from_timestamp (ae_chrono api_sample_env) secs 0 = None"
    by (simp add: i64_try_from_u64_def api_sample_env_def)
  show ?thesis
    using api_key_response_lost [of sample_tokens "sample_add_request 10000000000000" "key_value sample_key" 10000000000000
        api_sample_env api_sample 1 "Core_default\<lparr>core_private := True\<rparr>" 5]
      calendar sample_key_parses sample_key_inserted(2)
    by (simp add: sample_add_request_def sample_lifetimes)
qed

lemma sample_key_added:
  "api_respond api_sample_env sample_tokens (sample_add_request 60) api_sample =
     (Some (auth_key_response \<lparr>ak_key = key_value sample_key, ak_valid_until = Some 60, ak_expiry_time = Some (i64_to_string 60)\<rparr>),
      api_sample\<lparr>api_database := tables_empty\<lparr>key_rows := [(key_value sample_key, Some 60)]\<rparr>,
                 api_keys := \<lparr>keys = [sample_key \<mapsto> \<lparr>pk_key = sample_key, valid_until = Some 60000000000\<rparr>]\<rparr>\<rparr>)"
proof -
  have "now_add 0 60000000000 = Some 60000000000"
    by (simp add: now_add_def duration_checked_add_def sample_lifetimes)
  moreover have "AuthKey_from (ae_chrono api_sample_env) \<lparr>pk_key = sample_key, valid_until = Some 60000000000\<rparr> =
      Some \<lparr>ak_key = key_value sample_key, ak_valid_until = Some 60, ak_expiry_time = Some (i64_to_string 60)\<rparr>"
    by (simp add: AuthKey_from_def expiry_time_def convert_from_timestamp_to_datetime_utc_def sample_lifetimes
        i64_try_from_u64_def api_sample_env_def subsec_nanos_def NANOS_PER_SEC_def)
  ultimately show ?thesis
    by (simp add: sample_add_request_def add_key_respond add_auth_key_handler_def add_peer_key_def sample_key_parses
        add_expiring_peer_key_def sample_lifetimes Let_def DatabaseKeyRepository_add_def Sqlite_def
        Sqlite_add_key_to_keys_def Sqlite_execute_def mem_sqlite_def mem_sqlite_execute_def sample_handler_def
        tables_empty_def t_insert_key_def sqlite_statements map_database_error_def InMemoryKeyRepository_insert_def
        set_keys_handler_def)
qed


theorem api_torrents_exact_witness:
  "api_router api_sample_env sample_tokens (\<lambda>_. CHR ''x'') 0 (Inr (Some ''secret''))
     (TorrentsRoute (Inr \<lparr>raw_offset = None, raw_limit = None,
        raw_info_hashes = map (ih_to_string hex_info_hash) [InfoHash [], sample_info_hash]\<rparr>)) api_sample =
   (Some (json_response (JsonTorrents
      [\<lparr>li_info_hash = ih_to_string hex_info_hash sample_info_hash, li_seeders = 0, li_completed = 0, li_leechers = 1\<rparr>])),
    api_sample)"
proof -
  let ?S = "run_swarms Core_default sample_ops (\<lambda>_. None)"
  let ?p = "announced_peer Core_default (ipv4 10 0 0 1) sample_first"
  have dom: "dom ?S = {sample_info_hash}"
    by (simp add: run_swarms_def sample_ops_def swarms_announce_def)
  have other: "InfoHash [] \<noteq> sample_info_hash"
    by (simp add: sample_info_hash_def)
  have "sint (left ?p) = 10"
    by (simp add: sample_peers sample_first_def sample_leecher_def fixture_defs)
  then have "swarm_item hex_info_hash ?S sample_info_hash =
      \<lparr>li_info_hash = ih_to_string hex_info_hash sample_info_hash, li_seeders = 0, li_completed = 0, li_leechers = 1\<rparr>"
    by (simp add: swarm_item_def sample_swarm swarm_stats_single)
  moreover have "''secret'' \<in> ran sample_tokens"
    by (simp add: sample_tokens_def)
  ultimately show ?thesis
    using api_torrents_exact [OF bt_skip.skip_map_axioms mem.sqlite_engine_axioms sample_tables_ok sample_tracker_def refl
        api_sample_simps(3,2,7), of "''secret''" sample_tokens "[InfoHash [], sample_info_hash]" "InfoHash []"]
      dom other
    by simp
qed

end
