(* ===== verification/App_Container.thy ===== *)
theory App_Container
  imports Api_Properties Udp_Properties
begin

text \<open>
  The application (\<open>src/container.rs\<close>, \<open>src/bootstrap/app.rs\<close>, \<open>src/app.rs\<close>): the container of the shared
  services, its construction and the start of the jobs, and the steps that the jobs take on it. The
  HTTP trackers, the UDP trackers, the API and the cleanup job work on the same torrents, keys,
  whitelist and database.
\<close>

section \<open>The container (container.rs)\<close>

text \<open>
  The shared state behind the services of \<open>AppContainer\<close>: what its handlers, managers and repositories
  hold references to. There are event senders exactly when the statistics are enabled; the events that
  were sent and not yet received are kept in order.
\<close>

record ('s, 'db, 'b) AppContainer =
  app_core_config :: Core
  app_database :: 'db
  app_torrents :: 's
  app_keys :: InMemoryKeyRepository
  app_whitelist :: InMemoryWhitelist
  app_ban_service :: "'b BanService"
  app_stats_enabled :: bool
  app_http_events :: "HttpEvent list"
  app_udp_events :: "UdpEvent list"
  app_http_stats :: HttpMetrics
  app_udp_stats :: UdpMetrics

definition UdpTrackerContainer_from_app_container ::
  "('s, 'db, 'b) AppContainer \<Rightarrow> ('s, 'db, 'b) UdpTrackerContainer" where
  "UdpTrackerContainer_from_app_container app_container =
     \<lparr>core_config = app_core_config app_container,
      announce_handler = \<lparr>in_memory_torrent_repository = app_torrents app_container,
                          db_torrent_repository = app_database app_container\<rparr>,
      tracker_whitelist = app_whitelist app_container, stats_enabled = app_stats_enabled app_container,
      stats_events = app_udp_events app_container, ban_service = app_ban_service app_container\<rparr>"

definition HttpTrackerContainer_from_app_container ::
  "('s, 'db, 'b) AppContainer \<Rightarrow> ('s, 'db) HttpTrackerContainer" where
  "HttpTrackerContainer_from_app_container app_container =
     \<lparr>ht_core_config = app_core_config app_container,
      ht_announce_handler = \<lparr>in_memory_torrent_repository = app_torrents app_container,
                             db_torrent_repository = app_database app_container\<rparr>,
      ht_keys = app_keys app_container, ht_whitelist = app_whitelist app_container,
      ht_stats_enabled = app_stats_enabled app_container, ht_events = app_http_events app_container\<rparr>"

definition HttpApiContainer_from_app_container ::
  "('s, 'db, 'b) AppContainer \<Rightarrow> ('s, 'db, 'b) HttpApiContainer" where
  "HttpApiContainer_from_app_container app_container =
     \<lparr>api_torrents = app_torrents app_container, api_database = app_database app_container,
      api_keys = app_keys app_container, api_whitelist = app_whitelist app_container,
      api_ban_service = app_ban_service app_container, api_http_stats = app_http_stats app_container,
      api_udp_stats = app_udp_stats app_container\<rparr>"

text \<open>The references are shared: what a service changes through its container, all of them see.\<close>

definition shared_by_udp ::
  "('s, 'db, 'b) UdpTrackerContainer \<Rightarrow> ('s, 'db, 'b) AppContainer \<Rightarrow> ('s, 'db, 'b) AppContainer" where
  "shared_by_udp c a =
     a\<lparr>app_torrents := in_memory_torrent_repository (announce_handler c),
       app_database := db_torrent_repository (announce_handler c), app_whitelist := tracker_whitelist c,
       app_udp_events := stats_events c, app_ban_service := ban_service c\<rparr>"

definition shared_by_http ::
  "('s, 'db) HttpTrackerContainer \<Rightarrow> ('s, 'db, 'b) AppContainer \<Rightarrow> ('s, 'db, 'b) AppContainer" where
  "shared_by_http c a =
     a\<lparr>app_torrents := in_memory_torrent_repository (ht_announce_handler c),
       app_database := db_torrent_repository (ht_announce_handler c), app_keys := ht_keys c,
       app_whitelist := ht_whitelist c, app_http_events := ht_events c\<rparr>"

definition shared_by_api ::
  "('s, 'db, 'b) HttpApiContainer \<Rightarrow> ('s, 'db, 'b) AppContainer \<Rightarrow> ('s, 'db, 'b) AppContainer" where
  "shared_by_api c a =
     a\<lparr>app_torrents := api_torrents c, app_database := api_database c, app_keys := api_keys c,
       app_whitelist := api_whitelist c, app_ban_service := api_ban_service c,
       app_http_stats := api_http_stats c, app_udp_stats := api_udp_stats c\<rparr>"

section \<open>Setup (bootstrap/app.rs)\<close>

text \<open>The database is the one that the configured driver opens.\<close>

definition initialize_app_container ::
  "'s Repository \<Rightarrow> 'b bloom_api \<Rightarrow> Duration \<Rightarrow> 'db \<Rightarrow> Configuration \<Rightarrow> ('s, 'db, 'b) AppContainer" where
  "initialize_app_container R F now db configuration =
     \<lparr>app_core_config = core configuration, app_database = db, app_torrents = repo_default R,
      app_keys = \<lparr>keys = Map.empty\<rparr>, app_whitelist = \<lparr>whitelist = {}\<rparr>,
      app_ban_service = BanService_new F MAX_CONNECTION_ID_ERRORS_PER_IP now,
      app_stats_enabled = tracker_usage_statistics (core configuration),
      app_http_events = [], app_udp_events = [], app_http_stats = HttpMetrics_default,
      app_udp_stats = UdpMetrics_default\<rparr>"

definition setup_app ::
  "'s Repository \<Rightarrow> 'b bloom_api \<Rightarrow> Duration \<Rightarrow> 'db \<Rightarrow> Configuration \<Rightarrow> ('s, 'db, 'b) AppContainer option" where
  "setup_app R F now db configuration =
     (case Configuration_validate configuration of
        Inl _ \<Rightarrow> None
      | Inr _ \<Rightarrow> Some (initialize_app_container R F now db configuration))"

section \<open>Start (app.rs)\<close>

datatype AppJob =
    UdpTrackerJob UdpTracker
  | HttpTrackerJob HttpTracker
  | HttpApiJob HttpApi
  | TorrentCleanupJob u64
  | HealthCheckApiJob HealthCheckApi

definition load_keys_on_start ::
  "'db DatabaseTrait \<Rightarrow> Configuration \<Rightarrow> ('s, 'db, 'b) AppContainer \<Rightarrow> ('s, 'db, 'b) AppContainer option" where
  "load_keys_on_start D config a =
     (if core_private (core config)
      then (case load_peer_keys_from_database D (keys_handler (HttpApiContainer_from_app_container a)) of
              (Inl _, _) \<Rightarrow> None
            | (Inr _, h) \<Rightarrow> Some (a\<lparr>app_database := db_key_repository h, app_keys := in_memory_key_repository h\<rparr>))
      else Some a)"

definition load_whitelist_on_start ::
  "'db DatabaseTrait \<Rightarrow> Configuration \<Rightarrow> ('s, 'db, 'b) AppContainer \<Rightarrow> ('s, 'db, 'b) AppContainer option" where
  "load_whitelist_on_start D config a =
     (if listed (core config)
      then (case load_whitelist_from_database D (whitelist_manager (HttpApiContainer_from_app_container a)) of
              (Inl _, _) \<Rightarrow> None
            | (Inr _, m) \<Rightarrow> Some (a\<lparr>app_database := database_whitelist m, app_whitelist := in_memory_whitelist m\<rparr>))
      else Some a)"

text \<open>The jobs in the order in which they are started; no UDP tracker is started in private mode.\<close>

definition start_jobs :: "Configuration \<Rightarrow> AppJob list" where
  "start_jobs config =
     (case udp_trackers config of
        None \<Rightarrow> []
      | Some udps \<Rightarrow> if core_private (core config) then [] else map UdpTrackerJob udps) @
     (case http_trackers config of None \<Rightarrow> [] | Some https \<Rightarrow> map HttpTrackerJob https) @
     (case http_api config of None \<Rightarrow> [] | Some api \<Rightarrow> [HttpApiJob api]) @
     (if 0 < inactive_peer_cleanup_interval (core config)
      then [TorrentCleanupJob (inactive_peer_cleanup_interval (core config))] else []) @
     [HealthCheckApiJob (health_check_api config)]"

definition start_app ::
  "'db DatabaseTrait \<Rightarrow> Configuration \<Rightarrow> ('s, 'db, 'b) AppContainer \<Rightarrow> (AppJob list \<times> ('s, 'db, 'b) AppContainer) option" where
  "start_app D config app_container =
     (case load_keys_on_start D config app_container of
        None \<Rightarrow> None
      | Some a \<Rightarrow>
          (case load_whitelist_on_start D config a of
             None \<Rightarrow> None
           | Some a' \<Rightarrow> Some (start_jobs config, a')))"

text \<open>A tick of the cleanup job (\<open>bootstrap/jobs/torrent_cleanup.rs\<close>).\<close>

definition torrent_cleanup_tick ::
  "'s Repository \<Rightarrow> DurationSinceUnixEpoch \<Rightarrow> ('s, 'db, 'b) AppContainer \<Rightarrow> ('s, 'db, 'b) AppContainer" where
  "torrent_cleanup_tick R now a = a\<lparr>app_torrents := cleanup_torrents R (app_core_config a) now (app_torrents a)\<rparr>"

section \<open>The running application\<close>

text \<open>What the trackers and the API are built with; they share the repository and the database.\<close>

record ('s, 'db, 'b, 'm, 'dt) app_env =
  of_udp :: "('s, 'db, 'b) udp_env"
  of_http :: "('s, 'db, 'm) http_env"
  of_api :: "('s, 'db, 'dt) api_env"

definition one_tracker :: "'s Repository \<Rightarrow> 'db DatabaseTrait \<Rightarrow> ('s, 'db, 'b, 'm, 'dt) app_env \<Rightarrow> bool" where
  "one_tracker R D E \<longleftrightarrow>
     env_repository (of_udp E) = R \<and> he_repository (of_http E) = R \<and> ae_repository (of_api E) = R \<and>
     env_database (of_udp E) = D \<and> he_database (of_http E) = D \<and> ae_database (of_api E) = D"

datatype AppEvent =
    HttpRequest HttpTracker DurationSinceUnixEpoch HttpRoute "string option" ClientIpSources
  | UdpPacket UdpTracker DurationSinceUnixEpoch DurationSinceUnixEpoch RawRequest
  | ApiCall HttpApi ApiRequest
  | CleanupTick DurationSinceUnixEpoch
  | HttpStatsEvent
  | UdpStatsEvent

text \<open>
  One step of a job that was started: a request that a tracker or the API answers, a tick of the
  cleanup job, or an event that a listener of the statistics receives. The steps of different jobs
  interleave in any order. A UDP tracker drops the packets of banned addresses before this step, so that
  the packets here are any subset of those that arrive; a handler that panics leaves its packet without
  a step.
\<close>

inductive app_step ::
  "('s, 'db, 'b, 'm, 'dt) app_env \<Rightarrow> AppJob list \<Rightarrow> AppEvent \<Rightarrow> ('s, 'db, 'b) AppContainer \<Rightarrow>
   ('s, 'db, 'b) AppContainer \<Rightarrow> bool" for E jobs where
  http_request:
  "HttpTrackerJob tracker_config \<in> set jobs \<Longrightarrow>
   http_router (of_http E) now route raw_query sources (HttpTrackerContainer_from_app_container a) = (response, c) \<Longrightarrow>
   app_step E jobs (HttpRequest tracker_config now route raw_query sources) a (shared_by_http c a)"
| udp_packet:
  "UdpTrackerJob tracker_config \<in> set jobs \<Longrightarrow>
   handle_packet (of_udp E) now req (CookieTimeValues_new issued (as_secs_f64 (cookie_lifetime tracker_config)))
     (UdpTrackerContainer_from_app_container a) = Some (response, c) \<Longrightarrow>
   app_step E jobs (UdpPacket tracker_config issued now req) a (shared_by_udp c a)"
| api_call:
  "HttpApiJob api_config \<in> set jobs \<Longrightarrow>
   api_respond (of_api E) (access_tokens api_config) rq (HttpApiContainer_from_app_container a) = (response', c') \<Longrightarrow>
   app_step E jobs (ApiCall api_config rq) a (shared_by_api c' a)"
| cleanup_tick:
  "TorrentCleanupJob interval_secs \<in> set jobs \<Longrightarrow>
   app_step E jobs (CleanupTick now) a (torrent_cleanup_tick (he_repository (of_http E)) now a)"
| http_stats_event:
  "app_http_events a = e # es \<Longrightarrow>
   app_step E jobs HttpStatsEvent a (a\<lparr>app_http_events := es, app_http_stats := http_handle_event e (app_http_stats a)\<rparr>)"
| udp_stats_event:
  "app_udp_events a = e' # es' \<Longrightarrow>
   app_step E jobs UdpStatsEvent a (a\<lparr>app_udp_events := es', app_udp_stats := udp_handle_event e' (app_udp_stats a)\<rparr>)"

inductive app_reachable ::
  "('s, 'db, 'b, 'm, 'dt) app_env \<Rightarrow> Configuration \<Rightarrow> 'db \<Rightarrow> AppEvent list \<Rightarrow> AppJob list \<Rightarrow>
   ('s, 'db, 'b) AppContainer \<Rightarrow> bool" for E config db where
  started:
  "setup_app (he_repository (of_http E)) (env_filter (of_udp E)) now db config = Some a \<Longrightarrow>
   start_app (he_database (of_http E)) config a = Some (jobs, a') \<Longrightarrow>
   app_reachable E config db [] jobs a'"
| stepped:
  "app_reachable E config db events jobs a \<Longrightarrow> app_step E jobs ev a a' \<Longrightarrow>
   app_reachable E config db (events @ [ev]) jobs a'"

inductive_cases app_step_cases: "app_step E jobs ev a a'"

end
