(* ===== verification/App_Properties.thy ===== *)
theory App_Properties
  imports App_Container
begin

text \<open>
  The application as a whole: whatever the trackers, the API and the jobs do, and in whatever order, there
  is one set of swarms that all of them show, memory and database agree on the keys and on the whitelist
  the tracker goes by, and only announces that the configuration admits change the swarms.
\<close>

section \<open>What a request does to the tracker\<close>

definition admitted_op ::
  "Core \<Rightarrow> InMemoryWhitelist \<Rightarrow> tracker_op \<Rightarrow> bool" where
  "admitted_op config w op = (case op of OpAnnounce ih p ip n \<Rightarrow> authorize config w ih = Inr () | OpCleanup now \<Rightarrow> False)"

lemma http_send_event_fields [simp]:
  "ht_announce_handler (http_send_event e c) = ht_announce_handler c"
  "ht_keys (http_send_event e c) = ht_keys c" "ht_whitelist (http_send_event e c) = ht_whitelist c"
  by (simp_all add: http_send_event_def)

lemma http_scrape_effect:
  assumes "route = ScrapeRoute \<or> (\<exists>path. route = ScrapeKeyRoute path)"
    and "http_router E now route raw_query sources c = (response, c')"
  shows "ht_announce_handler c' = ht_announce_handler c \<and> ht_keys c' = ht_keys c \<and> ht_whitelist c' = ht_whitelist c"
proof -
  have "ht_announce_handler c' = ht_announce_handler c \<and> ht_keys c' = ht_keys c \<and> ht_whitelist c' = ht_whitelist c"
    if "scrape_handle E now request sources maybe_key c = (response, c')" for request maybe_key
    using that
    by (auto simp: scrape_handle_def http_handle_scrape_def scrape_invoke_def scrape_fake_def send_scrape_event_def Let_def
        split: sum.splits prod.splits if_splits)
  then show ?thesis
    using assms
    by (auto simp: scrape_handle_without_key_def scrape_handle_with_key_def split: sum.splits)
qed

lemma http_effect:
  assumes "http_router E now route raw_query sources c = (response, c')"
  shows "ht_keys c' = ht_keys c \<and> ht_whitelist c' = ht_whitelist c \<and>
    (ht_announce_handler c' = ht_announce_handler c \<or>
     (\<exists>op. admitted_op (ht_core_config c) (ht_whitelist c) op \<and> key_admitted now route c \<and>
           ht_announce_handler c' =
             tracker_step (he_repository E) (he_database E) (ht_core_config c) op (ht_announce_handler c)))"
proof (cases "route = ScrapeRoute \<or> (\<exists>path. route = ScrapeKeyRoute path)")
  case True
  then show ?thesis
    using http_scrape_effect [OF _ assms] by blast
next
  case False
  then have route: "route = AnnounceRoute \<or> (\<exists>path. route = AnnounceKeyRoute path)"
    by (cases route) auto
  show ?thesis
  proof (cases "\<exists>request ip. extract_announce_from E raw_query = Inr request \<and> announce_admitted now route sources request ip c")
    case True
    then obtain request ip where r: "extract_announce_from E raw_query = Inr request"
      "announce_admitted now route sources request ip c" by blast
    let ?p = "peer_from_request now request ip"
    have ip: "sa_ip (peer_addr ?p) = ip"
      by (simp add: peer_from_request_def Let_def)
    have "c' = snd (announce_invoke E (aq_info_hash request) ?p (wanted request) c)"
      using assms router_announce_served [OF r] by (simp split: prod.splits)
    then show ?thesis
      using r(2)
      by (intro conjI disjI2 exI [of _ "OpAnnounce (aq_info_hash request) ?p ip (wanted request)"])
         (simp_all add: announce_invoke_def Let_def ip announce_admitted_def admitted_op_def split: prod.splits)
  qed (use router_announce_refused [OF route] assms in fastforce)
qed

lemma udp_request_effect:
  assumes "handle_request E now r addr v c = Some (result, c')"
  shows "tracker_whitelist c' = tracker_whitelist c \<and>
    (announce_handler c' = announce_handler c \<or>
     (\<exists>op. admitted_op (core_config c) (tracker_whitelist c) op \<and>
           announce_handler c' =
             tracker_step (env_repository E) (env_database E) (core_config c) op (announce_handler c)))"
proof (cases r)
  case (RequestAnnounce q)
  let ?op = "OpAnnounce (ar_info_hash q) (from_request E now q (sa_ip addr)) (sa_ip addr) (PeersWanted_from_i32 (ar_peers_wanted q))"
  have "c' = c \<or> authorize (core_config c) (tracker_whitelist c) (ar_info_hash q) = Inr () \<and>
      tracker_whitelist c' = tracker_whitelist c \<and>
      announce_handler c' = tracker_step (env_repository E) (env_database E) (core_config c) ?op (announce_handler c)"
    using assms unfolding RequestAnnounce
    by (auto simp: handle_announce_def Let_def send_event_def split: option.splits sum.splits prod.splits if_splits)
  then show ?thesis
    by (auto simp: admitted_op_def intro!: exI [of _ ?op])
qed (use assms in \<open>auto simp: handle_connect_def handle_scrape_def Let_def send_event_def
      split: option.splits sum.splits prod.splits if_splits\<close>)

lemma udp_effect:
  assumes "handle_packet E now req v c = Some (response, c')"
  shows "tracker_whitelist c' = tracker_whitelist c \<and>
    (announce_handler c' = announce_handler c \<or>
     (\<exists>op. admitted_op (core_config c) (tracker_whitelist c) op \<and>
           announce_handler c' =
             tracker_step (env_repository E) (env_database E) (core_config c) op (announce_handler c)))"
proof (cases "parse_bytes E (payload req) MAX_SCRAPE_TORRENTS")
  case (Inl e)
  then show ?thesis
    using assms by (auto simp: handle_packet_def same_tracker_def dest: handle_error_ban)
next
  case (Inr r)
  then obtain result c1 where r: "handle_request E now r (raw_from req) v c = Some (result, c1)"
    using assms by (auto simp: handle_packet_def split: option.splits)
  have "announce_handler c' = announce_handler c1 \<and> tracker_whitelist c' = tracker_whitelist c1"
    using assms Inr r
    by (auto simp: handle_packet_def same_tracker_def Let_def dest!: handle_error_ban split: sum.splits if_splits)
  then show ?thesis
    using udp_request_effect [OF r] by simp
qed

section \<open>Invariant\<close>

text \<open>
  The keys in memory are those of the database on a private tracker, and the whitelist in memory is that
  of the database on a listed one; otherwise neither is loaded when the application starts.
\<close>

definition app_ok ::
  "('s \<Rightarrow> bool) \<Rightarrow> ('db \<Rightarrow> bool) \<Rightarrow> ('db \<Rightarrow> DbView) \<Rightarrow> Configuration \<Rightarrow> ('s, 'db, 'b) AppContainer \<Rightarrow> bool" where
  "app_ok r_ok d_ok d_view config a \<longleftrightarrow>
     app_core_config a = core config \<and> r_ok (app_torrents a) \<and> d_ok (app_database a) \<and>
     (core_private (core config) \<longrightarrow> keys_synced d_view (keys_handler (HttpApiContainer_from_app_container a))) \<and>
     (listed (core config) \<longrightarrow> whitelist_synced d_view (whitelist_manager (HttpApiContainer_from_app_container a)))"

fun event_storable :: "(PeerKey \<Rightarrow> bool) \<Rightarrow> AppEvent \<Rightarrow> bool" where
  "event_storable storable (ApiCall api rq) = request_storable storable rq"
| "event_storable storable _ = True"

lemmas app_container_defs =
  HttpTrackerContainer_from_app_container_def UdpTrackerContainer_from_app_container_def
  HttpApiContainer_from_app_container_def shared_by_http_def shared_by_udp_def shared_by_api_def

lemmas app_synced_defs = keys_synced_def whitelist_synced_def keys_handler_def whitelist_manager_def

text \<open>The torrents and the database that the trackers work on.\<close>

definition app_tracker :: "('s, 'db, 'b) AppContainer \<Rightarrow> ('s, 'db) AnnounceHandler" where
  "app_tracker a = \<lparr>in_memory_torrent_repository = app_torrents a, db_torrent_repository = app_database a\<rparr>"

lemma app_tracker_fields [simp]:
  "in_memory_torrent_repository (app_tracker a) = app_torrents a" "db_torrent_repository (app_tracker a) = app_database a"
  by (simp_all add: app_tracker_def)

lemma app_containers [simp]:
  "app_tracker (shared_by_http ch a) = ht_announce_handler ch" "app_tracker (shared_by_udp cu a) = announce_handler cu"
  "ht_announce_handler (HttpTrackerContainer_from_app_container a) = app_tracker a"
  "announce_handler (UdpTrackerContainer_from_app_container a) = app_tracker a"
  "ht_core_config (HttpTrackerContainer_from_app_container a) = app_core_config a"
  "core_config (UdpTrackerContainer_from_app_container a) = app_core_config a"
  "ht_keys (HttpTrackerContainer_from_app_container a) = app_keys a"
  "ht_whitelist (HttpTrackerContainer_from_app_container a) = app_whitelist a"
  "tracker_whitelist (UdpTrackerContainer_from_app_container a) = app_whitelist a"
  "api_database (HttpApiContainer_from_app_container a) = app_database a"
  by (simp_all add: app_tracker_def app_container_defs)

lemma shared_by_fields [simp]:
  "app_core_config (shared_by_http ch a) = app_core_config a" "app_core_config (shared_by_udp cu a) = app_core_config a"
  "app_keys (shared_by_http ch a) = ht_keys ch" "app_keys (shared_by_udp cu a) = app_keys a"
  "app_whitelist (shared_by_http ch a) = ht_whitelist ch" "app_whitelist (shared_by_udp cu a) = tracker_whitelist cu"
  by (simp_all add: app_container_defs)

text \<open>
  A step of a tracker or of the cleanup job is an operation of the core, or leaves the tracker as it is; the
  keys and the whitelist are left alone. Announces are admitted, and in private mode they come with a key.
\<close>

lemma tracker_event:
  assumes "one_tracker R D E" and "app_step E jobs ev a a'" and "\<And>api rq. ev \<noteq> ApiCall api rq"
  shows "app_core_config a' = app_core_config a \<and> app_keys a' = app_keys a \<and> app_whitelist a' = app_whitelist a \<and>
    (app_tracker a' = app_tracker a \<or>
     (\<exists>op. app_tracker a' = tracker_step R D (app_core_config a) op (app_tracker a) \<and>
           ((\<exists>now. ev = CleanupTick now) \<or>
            admitted_op (app_core_config a) (app_whitelist a) op \<and>
            ((\<exists>udp_config. UdpTrackerJob udp_config \<in> set jobs) \<or>
             (\<exists>http_config now route q src. ev = HttpRequest http_config now route q src \<and>
                key_admitted now route (HttpTrackerContainer_from_app_container a))))))"
  using assms(2)
proof cases
  case (http_request cfg now route q src response c)
  show ?thesis
    using http_effect [OF http_request(4)] assms(1) http_request(1)
    by (auto simp: http_request(2) one_tracker_def)
next
  case (udp_packet cfg now req issued response c)
  show ?thesis
    using udp_effect [OF udp_packet(4)] assms(1) udp_packet(3)
    by (auto simp: udp_packet(2) one_tracker_def)
next
  case (cleanup_tick n now)
  then show ?thesis
    using assms(1)
    by (auto simp: one_tracker_def app_tracker_def torrent_cleanup_tick_def intro!: exI [of _ "OpCleanup now"])
qed (use assms(3) in \<open>auto simp: app_tracker_def\<close>)

text \<open>The API does not change the torrents.\<close>

lemma api_call_torrents:
  assumes "app_step E jobs (ApiCall api rq) a a'"
  shows "app_torrents a' = app_torrents a"
proof -
  obtain r c where c: "api_respond (of_api E) (access_tokens api) rq (HttpApiContainer_from_app_container a) = (r, c)"
    and a': "a' = shared_by_api c a"
    using assms by (auto elim: app_step_cases)
  then show ?thesis
    using snd_api_respond [of "of_api E" "access_tokens api" rq "HttpApiContainer_from_app_container a"]
    by (simp add: shared_by_api_def request_effect_def set_keys_handler_def set_whitelist_manager_def
        HttpApiContainer_from_app_container_def split: option.splits if_splits)
qed

text \<open>Loading at the start makes memory agree with the database, whatever it held before.\<close>

context database
begin

lemma load_keys_on_start:
  assumes "ok (app_database a)" and "load_keys_on_start D config a = Some a'"
  shows "app_database a' = app_database a \<and> app_torrents a' = app_torrents a \<and> app_whitelist a' = app_whitelist a \<and>
    app_core_config a' = app_core_config a \<and>
    (core_private (core config) \<longrightarrow> keys_synced view (keys_handler (HttpApiContainer_from_app_container a')))"
proof (cases "core_private (core config)")
  case True
  let ?h = "keys_handler (HttpApiContainer_from_app_container a)"
  obtain u h where h: "load_peer_keys_from_database D ?h = (Inr u, h)"
    and a': "a' = a\<lparr>app_database := db_key_repository h, app_keys := in_memory_key_repository h\<rparr>"
    using assms(2) True by (auto simp: load_keys_on_start_def split: prod.splits sum.splits)
  have ok: "ok (db_key_repository ?h)"
    using assms(1) by simp
  note load = load_peer_keys_effect [OF ok h]
  have "keys_synced view h"
    by (auto simp: keys_synced_def load stored_validity_def option.map_comp comp_def option.map_ident)
  then have "keys_synced view (keys_handler (HttpApiContainer_from_app_container a'))"
    by (simp add: a' keys_handler_def HttpApiContainer_from_app_container_def keys_synced_def)
  then show ?thesis
    by (simp add: a' load(1))
qed (use assms(2) in \<open>simp add: load_keys_on_start_def\<close>)

lemma load_whitelist_on_start:
  assumes "ok (app_database a)" and "load_whitelist_on_start D config a = Some a'"
  shows "app_database a' = app_database a \<and> app_torrents a' = app_torrents a \<and> app_keys a' = app_keys a \<and>
    app_core_config a' = app_core_config a \<and>
    (listed (core config) \<longrightarrow> whitelist_synced view (whitelist_manager (HttpApiContainer_from_app_container a')))"
  using assms load_whitelist [OF assms(1)]
  by (auto simp: load_whitelist_on_start_def load_whitelist_from_database_def DatabaseWhitelist_load_from_database_def
      InMemoryWhitelist_clear_def whitelist_synced_def whitelist_manager_def whitelist_fold_add
      HttpApiContainer_from_app_container_def split: if_splits prod.splits sum.splits)

end

context tracker
begin

text \<open>The operations of the core leave the keys and the whitelist of the database alone.\<close>

lemma step_database:
  assumes "handler_ok r_ok d_ok h"
  shows "v_keys (d_view (db_torrent_repository (tracker_step R D config op h))) = v_keys (d_view (db_torrent_repository h))"
    and "v_whitelist (d_view (db_torrent_repository (tracker_step R D config op h))) =
         v_whitelist (d_view (db_torrent_repository h))"
  using announce_effect(4) [OF assms] by (cases op; simp add: on_success_def split: sum.split)+

lemma started_ok:
  assumes "d_ok db" and "setup_app R F now db config = Some a" and "start_app D config a = Some (jobs, a')"
  shows "jobs = start_jobs config \<and> app_ok r_ok d_ok d_view config a' \<and>
    represents_all (r_view (app_torrents a')) (\<lambda>_. None)"
proof -
  have a: "a = initialize_app_container R F now db config"
    using assms(2) by (simp add: setup_app_def split: sum.splits)
  obtain a1 where a1: "load_keys_on_start D config a = Some a1" "load_whitelist_on_start D config a1 = Some a'"
    and jobs: "jobs = start_jobs config"
    using assms(3) by (auto simp: start_app_def split: option.splits)
  have "d_ok (app_database a)"
    using assms(1) by (simp add: a initialize_app_container_def)
  note k = db.load_keys_on_start [OF this a1(1)]
  then have "d_ok (app_database a1)"
    using \<open>d_ok (app_database a)\<close> by simp
  note w = db.load_whitelist_on_start [OF this a1(2)]
  show ?thesis
    using k w \<open>d_ok (app_database a)\<close> jobs
    by (simp add: app_ok_def a initialize_app_container_def repo.default represents_all_empty app_synced_defs
        HttpApiContainer_from_app_container_def)
qed

lemma event_ok:
  assumes "one_tracker R D E" and "app_ok r_ok d_ok d_view config a"
    and "represents_all (r_view (app_torrents a)) S"
    and "app_step E jobs ev a a'" and "event_storable storable ev"
  shows "app_ok r_ok d_ok d_view config a' \<and>
    (\<exists>S'. represents_all (r_view (app_torrents a')) S' \<and> (S' = S \<or> (\<exists>op. S' = swarms_step (core config) op S)))"
proof (cases "\<exists>api rq. ev = ApiCall api rq")
  case True
  then obtain api rq where ev: "ev = ApiCall api rq" by blast
  obtain r c where c: "api_respond (of_api E) (access_tokens api) rq (HttpApiContainer_from_app_container a) = (r, c)"
    and a': "a' = shared_by_api c a"
    using assms(4) by (auto simp: ev elim: app_step_cases)
  have c': "c = (if authorized_request (access_tokens api) rq
      then request_effect (of_api E) rq (HttpApiContainer_from_app_container a) else HttpApiContainer_from_app_container a)"
    using snd_api_respond [of "of_api E" "access_tokens api" rq "HttpApiContainer_from_app_container a"] by (simp add: c)
  have "d_ok (api_database c) \<and>
      (core_private (core config) \<longrightarrow> keys_synced d_view (keys_handler c)) \<and>
      (listed (core config) \<longrightarrow> whitelist_synced d_view (whitelist_manager c))"
    using assms(1,2,5) db.request_effect_parts [of "of_api E" "HttpApiContainer_from_app_container a" rq]
    by (auto simp: app_ok_def c' ev one_tracker_def)
  moreover have "app_torrents a' = app_torrents a"
    using api_call_torrents assms(4) unfolding ev by blast
  moreover have "HttpApiContainer_from_app_container a' = c" "app_core_config a' = app_core_config a"
    "app_database a' = api_database c"
    by (simp_all add: a' app_container_defs)
  ultimately show ?thesis
    using assms(2,3) by (auto simp: app_ok_def)
next
  case False
  then have same: "app_core_config a' = app_core_config a" "app_keys a' = app_keys a" "app_whitelist a' = app_whitelist a"
    and "app_tracker a' = app_tracker a \<or> (\<exists>op. app_tracker a' = tracker_step R D (core config) op (app_tracker a))"
    using tracker_event [OF assms(1,4)] assms(2) by (auto simp: app_ok_def)
  moreover have h: "handler_ok r_ok d_ok (app_tracker a)"
    using assms(2) by (simp add: app_ok_def handler_ok_def)
  ultimately consider "app_tracker a' = app_tracker a" | op where "app_tracker a' = tracker_step R D (core config) op (app_tracker a)"
    by blast
  then have "handler_ok r_ok d_ok (app_tracker a') \<and>
      v_keys (d_view (app_database a')) = v_keys (d_view (app_database a)) \<and>
      v_whitelist (d_view (app_database a')) = v_whitelist (d_view (app_database a)) \<and>
      (\<exists>S'. represents_all (r_view (app_torrents a')) S' \<and> (S' = S \<or> (\<exists>op. S' = swarms_step (core config) op S)))"
  proof cases
    case 1
    then have "app_torrents a' = app_torrents a" "app_database a' = app_database a"
      by (simp_all add: app_tracker_def)
    then show ?thesis
      using 1 h assms(3) by (auto simp: handler_ok_def)
  next
    case (2 op)
    then show ?thesis
      using step_refines [OF h, of S "core config" op] step_database [OF h, of "core config" op] assms(3)
      by (metis app_tracker_fields)
  qed
  then show ?thesis
    using assms(2)
    by (simp add: app_ok_def same app_synced_defs handler_ok_def HttpApiContainer_from_app_container_def)
qed

lemma reachable_app_ok:
  assumes "one_tracker R D E" and "d_ok db" and "app_reachable E config db events jobs a"
    and "\<forall>ev \<in> set events. event_storable storable ev"
  shows "jobs = start_jobs config \<and> app_ok r_ok d_ok d_view config a \<and>
    (\<exists>ops. length ops \<le> length events \<and>
           represents_all (r_view (app_torrents a)) (run_swarms (core config) ops (\<lambda>_. None)))"
  using assms(3,4)
proof induction
  case (started now a jobs a')
  then show ?case
    using started_ok [OF assms(2), of "env_filter (of_udp E)" now config a jobs a'] assms(1)
    by (auto simp: one_tracker_def run_swarms_def)
next
  case (stepped events jobs a ev a')
  then obtain ops where ops: "jobs = start_jobs config" "app_ok r_ok d_ok d_view config a" "length ops \<le> length events"
    "represents_all (r_view (app_torrents a)) (run_swarms (core config) ops (\<lambda>_. None))"
    by auto
  obtain S' where S': "app_ok r_ok d_ok d_view config a'" "represents_all (r_view (app_torrents a')) S'"
    and or: "S' = run_swarms (core config) ops (\<lambda>_. None) \<or>
      (\<exists>op. S' = swarms_step (core config) op (run_swarms (core config) ops (\<lambda>_. None)))"
    using event_ok [OF assms(1) ops(2,4) stepped(2)] stepped.prems by auto
  have "run_swarms (core config) (ops @ [op]) S = swarms_step (core config) op (run_swarms (core config) ops S)" for op S
    by (simp add: run_swarms_def)
  with or have "\<exists>ops'. length ops' \<le> Suc (length events) \<and> S' = run_swarms (core config) ops' (\<lambda>_. None)"
    using ops(3) by (metis le_SucI length_append_singleton Suc_le_mono)
  then show ?case
    using S' ops(1) by auto
qed

end

section \<open>One tracker behind all services\<close>

text \<open>The numbers that a scrape shows: those of the swarm for an authorized torrent, else zeros.\<close>

definition shown :: "Core \<Rightarrow> InMemoryWhitelist \<Rightarrow> swarms \<Rightarrow> InfoHash list \<Rightarrow> InfoHash \<rightharpoonup> SwarmMetadata" where
  "shown config w S ihs = (\<lambda>ih.
     if ih \<in> set ihs
     then Some (if authorize config w ih = Inr () then swarm_stats (swarm_of S ih) else SwarmMetadata_zeroed)
     else None)"

text \<open>
  C1: In every state that the application reaches from its start over the production repository and the SQLite
  driver, whatever the HTTP trackers, the UDP trackers, the API and the cleanup job did and in whatever
  order, there is one history of announces and cleanups whose swarms all services show: a scrape over
  HTTP and a scrape over UDP give the numbers of those swarms, and the API lists those torrents. A
  private tracker goes by exactly the keys of the database, and a listed one by exactly the whitelist of
  the database. Keys are added with expirations below \<open>2 ^ 63\<close> seconds.
\<close>
theorem app_history:
  fixes api :: "'m skip_map_api" and A :: "'db rusqlite_api"
  defines "R \<equiv> TorrentsSkipMapMutexStd api"
  assumes "skip_map api sk_ok" and "sqlite_engine H A sq_ok tables" and "sqlite_ok H sq_ok tables db"
    and "one_tracker R (Sqlite A H) E" and "ae_info_hash (of_api E) = H"
    and "app_reachable E config db events jobs a" and "\<forall>ev \<in> set events. event_storable sqlite_storable ev"
    and "token \<in> ran tokens"
  shows "\<exists>ops S. length ops \<le> length events \<and> S = run_swarms (core config) ops (\<lambda>_. None) \<and>
    files (fst (scrape_invoke (of_http E) ihs ip (HttpTrackerContainer_from_app_container a))) =
      shown (core config) (app_whitelist a) S ihs \<and>
    (\<forall>addr r v t. cookie_check (env_cipher (of_udp E)) (sr_connection_id r) (gen_remote_fingerprint (of_udp E) addr) v =
         Some (Inr t) \<longrightarrow>
       map_option fst (handle_scrape (of_udp E) addr r v (UdpTrackerContainer_from_app_container a)) =
         Some (Inr (ResponseScrape (sr_transaction_id r) (map (\<lambda>file. scrape_entry (snd file))
           (files_order (of_udp E) (shown (core config) (app_whitelist a) S (sr_info_hashes r))))))) \<and>
    api_router (of_api E) tokens rng now (Inr (Some token))
      (TorrentsRoute (Inr \<lparr>raw_offset = map_option (\<lambda>n. nat_to_string (unat n)) off,
                            raw_limit = map_option (\<lambda>n. nat_to_string (unat n)) lim, raw_info_hashes = []\<rparr>))
      (HttpApiContainer_from_app_container a) =
      (Some (json_response (JsonTorrents (map (swarm_item H S)
         (paginate (Some (Pagination_new_with_options off lim)) (sorted_list_of_set (dom S)))))),
       HttpApiContainer_from_app_container a) \<and>
    (core_private (core config) \<longrightarrow>
       (\<forall>key. map_option stored_validity (keys (app_keys a) key) =
              map_option (map_option word_of_int) (map_of (key_rows (tables (app_database a))) (key_value key)))) \<and>
    (listed (core config) \<longrightarrow>
       whitelist (app_whitelist a) = {ih. ih_to_string H ih \<in> set (wl_rows (tables (app_database a)))})"
proof -
  note T = sqlite_tracker [OF assms(2,3)]
  let ?view = "\<lambda>db. tables_view H (tables db)"
  obtain ops where ops: "length ops \<le> length events"
    "represents_all (skip_view api (app_torrents a)) (run_swarms (core config) ops (\<lambda>_. None))"
    and ok: "app_ok (skip_ok api sk_ok) (sqlite_ok H sq_ok tables) ?view config a"
    using tracker.reachable_app_ok [OF T assms(5) [unfolded R_def] assms(4,7,8)] by blast
  let ?S = "run_swarms (core config) ops (\<lambda>_. None)"
  have config: "app_core_config a = core config" and r_ok: "skip_ok api sk_ok (app_torrents a)"
    using ok by (simp_all add: app_ok_def)
  have E: "he_repository (of_http E) = R" "env_repository (of_udp E) = R" "ae_repository (of_api E) = R"
    using assms(5) by (simp_all add: one_tracker_def)
  have scrape: "files (scrape R (core config) w xs (app_torrents a)) = shown (core config) w ?S xs" for w xs
    using tracker.scrape_response [OF T r_ok ops(2)] by (simp add: R_def shown_def fun_eq_iff)
  have "files (fst (scrape_invoke (of_http E) ihs ip (HttpTrackerContainer_from_app_container a))) =
      shown (core config) (app_whitelist a) ?S ihs"
    by (simp add: scrape_invoke_def E config scrape)
  moreover have "map_option fst (handle_scrape (of_udp E) addr r v (UdpTrackerContainer_from_app_container a)) =
      Some (Inr (ResponseScrape (sr_transaction_id r) (map (\<lambda>file. scrape_entry (snd file))
        (files_order (of_udp E) (shown (core config) (app_whitelist a) ?S (sr_info_hashes r))))))"
    if "cookie_check (env_cipher (of_udp E)) (sr_connection_id r) (gen_remote_fingerprint (of_udp E) addr) v = Some (Inr t)"
    for addr r v t
    by (simp add: handle_scrape_def that E config scrape Let_def)
  moreover have "get_torrents_page R pg (app_torrents a) =
      map (\<lambda>ih. basic_info ih (swarm_stats (swarm_of ?S ih))) (paginate pg (sorted_list_of_set (dom ?S)))" for pg
    using tracker.page_listing [OF T r_ok ops(2)] by (simp add: R_def)
  then have "api_router (of_api E) tokens rng now (Inr (Some token))
      (TorrentsRoute (Inr \<lparr>raw_offset = map_option (\<lambda>n. nat_to_string (unat n)) off,
                            raw_limit = map_option (\<lambda>n. nat_to_string (unat n)) lim, raw_info_hashes = []\<rparr>))
      (HttpApiContainer_from_app_container a) =
      (Some (json_response (JsonTorrents (map (swarm_item H ?S)
         (paginate (Some (Pagination_new_with_options off lim)) (sorted_list_of_set (dom ?S)))))),
       HttpApiContainer_from_app_container a)"
    by (intro torrents_page_respond [OF E(3) assms(6,9)]) (simp add: HttpApiContainer_from_app_container_def)
  moreover have "core_private (core config) \<longrightarrow>
       (\<forall>key. map_option stored_validity (keys (app_keys a) key) =
              map_option (map_option word_of_int) (map_of (key_rows (tables (app_database a))) (key_value key)))"
    and "listed (core config) \<longrightarrow>
       whitelist (app_whitelist a) = {ih. ih_to_string H ih \<in> set (wl_rows (tables (app_database a)))}"
    using ok by (simp_all add: app_ok_def app_synced_defs tables_view_def HttpApiContainer_from_app_container_def)
  ultimately show ?thesis
    using ops(1) by blast
qed

section \<open>Who changes the swarms\<close>

context tracker
begin

lemma step_writes:
  assumes "handler_ok r_ok d_ok h" and "admitted_op config w op"
    and "r_view (in_memory_torrent_repository (tracker_step R D config op h)) ih \<noteq> r_view (in_memory_torrent_repository h) ih"
  shows "authorize config w ih = Inr ()"
proof -
  obtain ih' p ip n where op: "op = OpAnnounce ih' p ip n" "authorize config w ih' = Inr ()"
    using assms(2) by (cases op) (auto simp: admitted_op_def)
  have "ih = ih'"
    using assms(3) announce_effect(2) [OF assms(1), of config ih' p ip n]
    by (cases "ih = ih'") (simp_all add: op(1) spec_upsert_def)
  then show ?thesis
    using op(2) by simp
qed

end

lemma no_udp_when_private: "core_private (core config) \<Longrightarrow> UdpTrackerJob udp_config \<notin> set (start_jobs config)"
  by (auto simp: start_jobs_def split: option.splits if_splits)

lemma private_key_admitted:
  assumes "key_admitted now route c" and "core_private (ht_core_config c)"
  shows "\<exists>path. route = AnnounceKeyRoute (Inr path) \<and> authenticate (ht_core_config c) (ht_keys c) now (Key path) = Inr ()"
proof (cases route)
  case (AnnounceKeyRoute path)
  then show ?thesis
    using assms(1) by (cases path) (auto simp: key_admitted_def dest: key_from_str_Key)
qed (use assms in \<open>simp_all add: key_admitted_def\<close>)

lemma as_secs_mono: "d \<le> d' \<Longrightarrow> d' \<le> DURATION_MAX \<Longrightarrow> as_secs d \<le> as_secs d'"
  by (simp add: word_le_nat_alt unat_as_secs div_le_mono)

text \<open>On a private tracker with its keys in memory as in the database, an accepted key is in the database.\<close>

lemma accepted_key_stored:
  assumes "core_private config" and "keys_synced (\<lambda>db. tables_view H (tables db)) h"
    and "authenticate config (in_memory_key_repository h) now key = Inr ()"
  shows "\<exists>row. map_of (key_rows (tables (db_key_repository h))) (key_value key) = Some row \<and>
    (expiration_checked config \<longrightarrow> (\<forall>secs. row = Some secs \<longrightarrow> as_secs now \<le> word_of_int secs))"
proof -
  obtain pk where pk: "keys (in_memory_key_repository h) key = Some pk"
    and valid: "expiration_checked config \<longrightarrow> (\<forall>t. valid_until pk = Some t \<longrightarrow> now \<le> t)"
    using assms(1,3)
    by (auto simp: authenticate_cases verify_key_expiration_def split: option.splits if_splits)
  have max: "\<forall>t. valid_until pk = Some t \<longrightarrow> t \<le> DURATION_MAX"
    using assms(2) pk by (simp add: keys_synced_def)
  have "map_option (map_option word_of_int) (map_of (key_rows (tables (db_key_repository h))) (key_value key)) =
      Some (stored_validity pk)"
    using assms(2) pk by (metis (no_types, lifting) DbView.select_convs(2) keys_synced_def option.simps(9) tables_view_def)
  then obtain row where row: "map_of (key_rows (tables (db_key_repository h))) (key_value key) = Some row"
    "map_option word_of_int row = map_option as_secs (valid_until pk)"
    by (auto simp: stored_validity_def)
  have "as_secs now \<le> word_of_int secs" if "expiration_checked config" "row = Some secs" for secs
    using that row(2) valid max as_secs_mono [of now] by (cases "valid_until pk") auto
  then show ?thesis
    using row(1) by blast
qed

text \<open>
  C3: Apart from the cleanup job, only announces change a swarm, and only those that the database admits: on
  a listed tracker the torrent is in the whitelist of the database, and on a private tracker the
  announce came over HTTP with a key of the database that has not expired, where expirations are
  checked. This holds in every state that the application reaches; a UDP tracker, which has no keys, is
  not started on a private tracker.
\<close>
theorem app_writes_admitted:
  fixes api :: "'m skip_map_api" and A :: "'db rusqlite_api"
  assumes "skip_map api sk_ok" and "sqlite_engine H A sq_ok tables" and "sqlite_ok H sq_ok tables db"
    and "one_tracker (TorrentsSkipMapMutexStd api) (Sqlite A H) E"
    and "app_reachable E config db events jobs a" and "\<forall>ev \<in> set events. event_storable sqlite_storable ev"
    and "app_step E jobs ev a a'" and "skip_view api (app_torrents a') ih \<noteq> skip_view api (app_torrents a) ih"
  shows "(\<exists>now. ev = CleanupTick now) \<or>
    ((listed (core config) \<longrightarrow> ih_to_string H ih \<in> set (wl_rows (tables (app_database a)))) \<and>
     (core_private (core config) \<longrightarrow>
        (\<exists>cfg now path q src row. ev = HttpRequest cfg now (AnnounceKeyRoute (Inr path)) q src \<and>
           map_of (key_rows (tables (app_database a))) path = Some row \<and>
           (expiration_checked (core config) \<longrightarrow> (\<forall>secs. row = Some secs \<longrightarrow> as_secs now \<le> word_of_int secs)))))"
proof (cases "\<exists>now. ev = CleanupTick now")
  case False
  note T = sqlite_tracker [OF assms(1,2)]
  let ?view = "\<lambda>db. tables_view H (tables db)" and ?h = "keys_handler (HttpApiContainer_from_app_container a)"
  have jobs: "jobs = start_jobs config" and ok: "app_ok (skip_ok api sk_ok) (sqlite_ok H sq_ok tables) ?view config a"
    using tracker.reachable_app_ok [OF T assms(4,3,5,6)] by blast+
  have config: "app_core_config a = core config"
    and h: "handler_ok (skip_ok api sk_ok) (sqlite_ok H sq_ok tables) (app_tracker a)"
    using ok by (simp_all add: app_ok_def handler_ok_def)
  have api: "ev \<noteq> ApiCall cfg rq" for cfg rq
    using assms(7,8) api_call_torrents [of E jobs cfg rq a a'] by auto
  have "app_tracker a' \<noteq> app_tracker a"
    using assms(8) by (metis app_tracker_fields(1))
  then obtain op where op: "app_tracker a' = tracker_step (TorrentsSkipMapMutexStd api) (Sqlite A H) (core config) op (app_tracker a)"
    and admitted: "admitted_op (core config) (app_whitelist a) op"
    and source: "core_private (core config) \<longrightarrow>
      (\<exists>cfg now route q src. ev = HttpRequest cfg now route q src \<and> key_admitted now route (HttpTrackerContainer_from_app_container a))"
    using tracker_event [OF assms(4,7) api] False no_udp_when_private [of config] unfolding config jobs by blast
  have "authorize (core config) (app_whitelist a) ih = Inr ()"
    using tracker.step_writes [OF T h admitted, of ih] assms(8) by (simp flip: op)
  then have "listed (core config) \<longrightarrow> ih_to_string H ih \<in> set (wl_rows (tables (app_database a)))"
    using ok by (auto simp: authorize_def is_listed_def InMemoryWhitelist_contains_def app_ok_def app_synced_defs
        tables_view_def HttpApiContainer_from_app_container_def split: if_splits)
  moreover have "\<exists>cfg now path q src row. ev = HttpRequest cfg now (AnnounceKeyRoute (Inr path)) q src \<and>
      map_of (key_rows (tables (app_database a))) path = Some row \<and>
      (expiration_checked (core config) \<longrightarrow> (\<forall>secs. row = Some secs \<longrightarrow> as_secs now \<le> word_of_int secs))"
    if priv: "core_private (core config)"
  proof -
    obtain cfg now path q src where ev: "ev = HttpRequest cfg now (AnnounceKeyRoute (Inr path)) q src"
      and key: "authenticate (core config) (app_keys a) now (Key path) = Inr ()"
      using source priv by (auto simp: config dest!: private_key_admitted)
    have "keys_synced ?view ?h" "db_key_repository ?h = app_database a" "in_memory_key_repository ?h = app_keys a"
      using ok priv by (simp_all add: app_ok_def keys_handler_def HttpApiContainer_from_app_container_def)
    then show ?thesis
      using accepted_key_stored [of "core config" H tables ?h now "Key path"] priv key ev by auto
  qed
  ultimately show ?thesis
    by blast
qed simp

section \<open>A private and listed application\<close>

definition app_sample_env ::
  "((InfoHash, handle) btree_map SharedTorrents, sql_tables, IpAddr \<Rightarrow> nat, (string \<times> NameValuePair list) list, i64) app_env" where
  "app_sample_env = \<lparr>of_udp = sample_env, of_http = http_sample_env, of_api = api_sample_env\<rparr>"

definition app_sample_config :: Configuration where
  "app_sample_config =
     Configuration_default\<lparr>core := Core_default\<lparr>core_private := True, listed := True\<rparr>,
       udp_trackers := Some [UdpTracker_default], http_trackers := Some [HttpTracker_default],
       http_api := Some (HttpApi_default\<lparr>access_tokens := sample_tokens\<rparr>)\<rparr>"

definition app_sample_torrent :: InfoHash where
  "app_sample_torrent = InfoHash (replicate 20 38)"

definition app_sample_db :: sql_tables where
  "app_sample_db =
     \<lparr>wl_rows = [ih_to_string hex_info_hash app_sample_torrent], torrent_rows = [], key_rows = [(key_value sample_key, Some 60)]\<rparr>"

definition app_sample ::
  "((InfoHash, handle) btree_map SharedTorrents, sql_tables, IpAddr \<Rightarrow> nat) AppContainer" where
  "app_sample =
     (initialize_app_container (TorrentsSkipMapMutexStd bt_skip_map) exact_filter 0 app_sample_db app_sample_config)
       \<lparr>app_keys := \<lparr>keys = [sample_key \<mapsto> \<lparr>pk_key = sample_key, valid_until = Some (from_secs 60)\<rparr>]\<rparr>,
        app_whitelist := \<lparr>whitelist = {app_sample_torrent}\<rparr>\<rparr>"

definition app_sample_event :: AppEvent where
  "app_sample_event = HttpRequest HttpTracker_default 5 (AnnounceKeyRoute (Inr (key_value sample_key)))
     (Some (ClientAnnounce_build pct_encode sample_announce)) sample_sources"

lemma app_sample_key_valid: "key_valid sample_key"
  using key_valid_from_str [OF sample_key_parses] .

lemma app_sample_db_ok: "sqlite_ok hex_info_hash (\<lambda>_. True) (\<lambda>t. t) app_sample_db"
  using app_sample_key_valid by (simp add: sqlite_ok_def tables_ok_def app_sample_db_def)

lemma app_sample_loads:
  "load_keys (Sqlite mem_sqlite hex_info_hash) app_sample_db = Inr [\<lparr>pk_key = sample_key, valid_until = Some (from_secs 60)\<rparr>]"
  "load_whitelist (Sqlite mem_sqlite hex_info_hash) app_sample_db = Inr [app_sample_torrent]"
proof -
  have different: "sql_select_keys \<noteq> sql_select_torrents" "sql_select_whitelist \<noteq> sql_select_torrents"
    "sql_select_whitelist \<noteq> sql_select_keys"
    by (simp_all add: sqlite_statements)
  note query = Sqlite_query_def mem_sqlite_def mem_sqlite_query_def different app_sample_db_def
  show "load_keys (Sqlite mem_sqlite hex_info_hash) app_sample_db = Inr [\<lparr>pk_key = sample_key, valid_until = Some (from_secs 60)\<rparr>]"
    by (simp add: Sqlite_def Sqlite_load_keys_def query mem_key_row_def key_row_def get_text_def get_opt_i64_def
        peer_key_of_def sample_key_parses unsigned_abs_def)
  show "load_whitelist (Sqlite mem_sqlite hex_info_hash) app_sample_db = Inr [app_sample_torrent]"
    by (simp add: Sqlite_def Sqlite_load_whitelist_def query whitelist_row_def get_text_def hex_text.from_to)
qed

lemma app_sample_one: "one_tracker (TorrentsSkipMapMutexStd bt_skip_map) (Sqlite mem_sqlite hex_info_hash) app_sample_env"
  by (simp add: one_tracker_def app_sample_env_def sample_env_def http_sample_env_def api_sample_env_def)

lemma app_sample_core:
  "core app_sample_config = Core_default\<lparr>core_private := True, listed := True\<rparr>"
  "private_mode Core_default = None" "\<not> on_reverse_proxy (net Core_default)"
  by (simp_all add: app_sample_config_def Core_default_def Core_default_private_mode_def Core_default_private_def Network_default_def)

lemma app_sample_started:
  "app_reachable app_sample_env app_sample_config app_sample_db [] (start_jobs app_sample_config) app_sample"
proof (rule app_reachable.started)
  show "setup_app (he_repository (of_http app_sample_env)) (env_filter (of_udp app_sample_env)) 0 app_sample_db app_sample_config =
      Some (initialize_app_container (TorrentsSkipMapMutexStd bt_skip_map) exact_filter 0 app_sample_db app_sample_config)"
    by (simp add: setup_app_def Configuration_validate_def Core_validate_def app_sample_core app_sample_env_def
        http_sample_env_def sample_env_def)
  show "start_app (he_database (of_http app_sample_env)) app_sample_config
      (initialize_app_container (TorrentsSkipMapMutexStd bt_skip_map) exact_filter 0 app_sample_db app_sample_config) =
      Some (start_jobs app_sample_config, app_sample)"
    using app_sample_loads
    by (simp add: start_app_def load_keys_on_start_def load_whitelist_on_start_def app_sample_core app_sample_env_def
        http_sample_env_def load_peer_keys_from_database_def DatabaseKeyRepository_load_keys_def keys_handler_def
        HttpApiContainer_from_app_container_def initialize_app_container_def InMemoryKeyRepository_reset_with_def
        load_whitelist_from_database_def DatabaseWhitelist_load_from_database_def whitelist_manager_def
        InMemoryWhitelist_clear_def InMemoryWhitelist_add_def InMemoryKeyRepository_insert_def app_sample_def)
qed

lemma app_sample_admitted:
  "announce_admitted 5 (AnnounceKeyRoute (Inr (key_value sample_key))) sample_sources (received sample_announce)
     (ipv4 10 0 0 2) (HttpTrackerContainer_from_app_container app_sample)"
proof -
  have "5 \<le> from_secs 60"
    by (simp add: from_secs_def NANOS_PER_SEC_def)
  moreover have "aq_info_hash (received sample_announce) = app_sample_torrent"
    by (simp add: received_def sample_announce_def app_sample_torrent_def)
  moreover have "app_core_config app_sample = Core_default\<lparr>core_private := True, listed := True\<rparr>"
    by (simp add: app_sample_def initialize_app_container_def app_sample_core)
  ultimately show ?thesis
    by (simp add: announce_admitted_def key_admitted_def sample_key_parses authenticate_cases verify_key_expiration_def
        app_sample_def authorize_def InMemoryWhitelist_contains_def sample_sources_def app_sample_core
        peer_ip_resolver_invoke_def resolve_peer_ip_without_reverse_proxy_def)
qed

definition app_sample_next ::
  "((InfoHash, handle) btree_map SharedTorrents, sql_tables, IpAddr \<Rightarrow> nat) AppContainer" where
  "app_sample_next =
     shared_by_http (snd (http_router http_sample_env 5 (AnnounceKeyRoute (Inr (key_value sample_key)))
       (Some (ClientAnnounce_build pct_encode sample_announce)) sample_sources
       (HttpTrackerContainer_from_app_container app_sample))) app_sample"

lemma app_sample_step: "app_step app_sample_env (start_jobs app_sample_config) app_sample_event app_sample app_sample_next"
  unfolding app_sample_next_def app_sample_event_def
  by (rule app_step.http_request [where response = "fst (http_router http_sample_env 5 (AnnounceKeyRoute (Inr (key_value sample_key)))
       (Some (ClientAnnounce_build pct_encode sample_announce)) sample_sources
       (HttpTrackerContainer_from_app_container app_sample))"])
     (simp_all add: start_jobs_def app_sample_config_def app_sample_env_def)

text \<open>The announce adds the torrent.\<close>

lemma app_sample_added:
  "skip_view bt_skip_map (app_torrents app_sample) app_sample_torrent = None"
  "skip_view bt_skip_map (app_torrents app_sample_next) app_sample_torrent \<noteq> None"
proof -
  have empty: "app_torrents app_sample = repo_default (TorrentsSkipMapMutexStd bt_skip_map)" "app_database app_sample = app_sample_db"
    by (simp_all add: app_sample_def initialize_app_container_def)
  have h: "handler_ok (skip_ok bt_skip_map bt_inv) (sqlite_ok hex_info_hash (\<lambda>_. True) (\<lambda>t. t)) (app_tracker app_sample)"
    and none: "represents_all (skip_view bt_skip_map (app_torrents app_sample)) (\<lambda>_. None)"
    using mem_tracker.run_from_empty [OF app_sample_db_ok, of "app_tracker app_sample" Core_default "[]"]
    by (simp_all add: app_tracker_def empty run_tracker_def run_swarms_def)
  show "skip_view bt_skip_map (app_torrents app_sample) app_sample_torrent = None"
    using represents_all_get(2) [OF none] by simp
  have torrent: "aq_info_hash (received sample_announce) = app_sample_torrent"
    by (simp add: received_def sample_announce_def app_sample_torrent_def)
  let ?p = "peer_from_request 5 (received sample_announce) (ipv4 10 0 0 2)"
  have ip: "sa_ip (peer_addr ?p) = ipv4 10 0 0 2"
    by (simp add: peer_from_request_def Let_def)
  have "app_tracker app_sample_next = snd (announce (TorrentsSkipMapMutexStd bt_skip_map) (Sqlite mem_sqlite hex_info_hash)
      (app_core_config app_sample) app_sample_torrent ?p (ipv4 10 0 0 2) (wanted (received sample_announce)) (app_tracker app_sample))"
    using router_announce_served [OF http_sample_extract app_sample_admitted]
    by (simp add: app_sample_next_def announce_invoke_def Let_def ip torrent http_sample_env_def split: prod.splits)
  then have "app_torrents app_sample_next = in_memory_torrent_repository (snd (announce (TorrentsSkipMapMutexStd bt_skip_map)
      (Sqlite mem_sqlite hex_info_hash) (app_core_config app_sample) app_sample_torrent ?p (ipv4 10 0 0 2)
      (wanted (received sample_announce)) (app_tracker app_sample)))"
    by (metis app_tracker_fields(1))
  then show "skip_view bt_skip_map (app_torrents app_sample_next) app_sample_torrent \<noteq> None"
    using mem_tracker.announce_effect(2) [OF h] by (simp add: spec_upsert_def)
qed

theorem app_writes_admitted_witness:
  "ih_to_string hex_info_hash app_sample_torrent \<in> set (wl_rows (app_database app_sample)) \<and>
   (\<exists>cfg now path q src row. app_sample_event = HttpRequest cfg now (AnnounceKeyRoute (Inr path)) q src \<and>
      map_of (key_rows (app_database app_sample)) path = Some row \<and>
      (\<forall>secs. row = Some secs \<longrightarrow> as_secs now \<le> word_of_int secs))"
proof -
  have "\<forall>now. app_sample_event \<noteq> CleanupTick now" "expiration_checked (core app_sample_config)"
    by (simp_all add: app_sample_event_def expiration_checked_def app_sample_core)
  moreover have "skip_view bt_skip_map (app_torrents app_sample_next) app_sample_torrent \<noteq>
      skip_view bt_skip_map (app_torrents app_sample) app_sample_torrent"
    using app_sample_added by simp
  ultimately show ?thesis
    using app_writes_admitted [OF bt_skip.skip_map_axioms mem.sqlite_engine_axioms app_sample_db_ok app_sample_one
        app_sample_started _ app_sample_step]
    by (simp add: app_sample_core)
qed

theorem app_history_witness:
  "\<exists>ops S. length ops \<le> 1 \<and> S = run_swarms (core app_sample_config) ops (\<lambda>_. None) \<and>
     files (fst (scrape_invoke http_sample_env [app_sample_torrent] (ipv4 10 0 0 2)
        (HttpTrackerContainer_from_app_container app_sample_next))) =
       shown (core app_sample_config) (app_whitelist app_sample_next) S [app_sample_torrent] \<and>
     fst (api_router api_sample_env sample_tokens (\<lambda>_. CHR ''x'') 0 (Inr (Some ''secret''))
        (TorrentsRoute (Inr \<lparr>raw_offset = None, raw_limit = None, raw_info_hashes = []\<rparr>))
        (HttpApiContainer_from_app_container app_sample_next)) =
       Some (json_response (JsonTorrents (map (swarm_item hex_info_hash S)
         (paginate (Some (Pagination_new_with_options None None)) (sorted_list_of_set (dom S)))))) \<and>
     whitelist (app_whitelist app_sample_next) =
       {ih. ih_to_string hex_info_hash ih \<in> set (wl_rows (app_database app_sample_next))}"
proof -
  have reached: "app_reachable app_sample_env app_sample_config app_sample_db ([] @ [app_sample_event])
      (start_jobs app_sample_config) app_sample_next"
    by (rule app_reachable.stepped [OF app_sample_started app_sample_step])
  have storable: "\<forall>ev \<in> set ([] @ [app_sample_event]). event_storable sqlite_storable ev"
    by (simp add: app_sample_event_def)
  have token: "''secret'' \<in> ran sample_tokens"
    by (simp add: sample_tokens_def)
  have texts: "ae_info_hash (of_api app_sample_env) = hex_info_hash" and listed: "listed (core app_sample_config)"
    by (simp_all add: app_sample_env_def api_sample_env_def app_sample_core)
  from app_history [OF bt_skip.skip_map_axioms mem.sqlite_engine_axioms app_sample_db_ok app_sample_one texts reached storable token,
      of "[app_sample_torrent]" "ipv4 10 0 0 2" "\<lambda>_. CHR ''x''" 0 None None]
  show ?thesis
  proof (elim exE conjE, goal_cases)
    case (1 ops S)
    then show ?case
      using listed by (intro exI [of _ ops] exI [of _ S] conjI) (simp_all add: app_sample_env_def)
  qed
qed

end
