(* ===== verification/Spec2Isabelle.thy ===== *)
theory Spec2Isabelle
  imports Bencode_Properties Http_Scrape_Session App_Properties
begin

text \<open>
  Torrust Tracker, a BitTorrent tracker: a verification development of the Rust sources under \<open>src\<close>.

  \<^bold>\<open>The program.\<close> Peers announce themselves over HTTP or UDP and learn of other peers of the same torrent;
  scrapes ask for the numbers of seeders and leechers. The core keeps the torrents in memory, each with
  its swarm of peers, and may persist completed downloads. A private tracker admits announces with a key,
  a listed tracker those for whitelisted torrents; keys and whitelist live in memory and in a SQLite or
  MySQL database and are managed over a REST API, which also lists torrents and shows statistics. A job
  removes peers that stopped announcing, and torrents without peers. All services share one container.

  \<^bold>\<open>How code becomes definitions.\<close> Structs are records, enums datatypes, functions definitions with the name of
  the source, prefixed by the type for methods whose names clash. A method on shared state takes the
  state last and returns it updated. \<open>Result\<close> is a sum with the error on the left, a panic the value
  \<^const>\<open>None\<close> of an outer option. Machine integers are words of their width, a \<open>Duration\<close> is its number of
  nanoseconds, a \<open>BTreeMap\<close> a sorted association list, a \<open>HashMap\<close> a map, a \<open>str\<close> its list of bytes or
  characters, \<open>f64\<close> its bits. Traits are records of operations. Time, randomness and code outside the
  repository are arguments: records of functions, whose documented laws are the assumptions of a locale
  with an interpretation on a concrete instance.

  \<^bold>\<open>Foundations.\<close>
  \<^item> \<open>Tracker_Prelude\<close>: integer types, results, durations, \<open>BTreeMap\<close>; collections of rewrite rules.
  \<^item> \<open>Clock\<close> (\<open>packages/clock\<close>), \<open>Configuration\<close> (\<open>packages/configuration\<close>), \<open>Primitives\<close>
    (\<open>packages/primitives\<close>): time arithmetic, sections with defaults, validation and loading, peers,
    statistics and pages.
  \<^item> \<open>Float64\<close>, \<open>Utf8\<close>, \<open>Ip_Text\<close>: what the code uses of the standard library, with binary64 rounding, the
    validity of UTF-8 and the texts of IP addresses.

  \<^bold>\<open>Torrents\<close> (\<open>packages/torrent-repository\<close>).
  \<^item> \<open>Torrent_Entry\<close>: the peer list and the entry (\<open>entry/peer_list.rs\<close>, \<open>entry/single.rs\<close>), which refine a
    specification of a swarm as a map from peer identifiers and a counter. \<open>Shared_Entry\<close>: entries behind
    locks, as cells of a heap.
  \<^item> \<open>Repository_Spec\<close>: the \<open>Repository\<close> trait and the contracts \<open>torrent_repository\<close> and
    \<open>ordered_repository\<close>. \<open>Repository_RwLock\<close>, \<open>Repository_Shared\<close>, \<open>Repository_SkipMap\<close> and
    \<open>Repository_DashMap\<close> model the implementations and interpret the contracts; the skip list and the
    hash map of other crates are the parameters of \<open>skip_map\<close> and \<open>dash_map\<close>.
  \<^item> \<open>Repository_Properties\<close>: the production repository refines the specification, all implementations
    agree, pages cover the torrents; an announce that interleaves with the cleanup can be lost.

  \<^bold>\<open>Keys, whitelist and databases\<close> (\<open>packages/tracker-core/src\<close>).
  \<^item> \<open>Authentication_Key\<close>, \<open>Authentication\<close>, \<open>Whitelist\<close>: keys and their expiration, the keys handler, the
    authentication service, the whitelist manager and the authorization.
  \<^item> \<open>Database_Contract\<close>: the \<open>Database\<close> trait and the locale \<open>database\<close>. \<open>Sql_Tables\<close>, \<open>Database_Sqlite\<close>,
    \<open>Database_Mysql\<close>: the drivers, with the engines as parameters of \<open>sqlite_engine\<close> and \<open>mysql_engine\<close>.
    The SQLite driver satisfies the contract; MySQL does with a case-sensitive collation.
  \<^item> \<open>Persistence_Properties\<close>: memory and database agree after every history, whatever statements fail;
    keys survive a restart up to fractions of a second; where MySQL departs from the contract.

  \<^bold>\<open>Core\<close> (\<open>packages/tracker-core/src\<close>).
  \<^item> \<open>Tracker_Core\<close>: torrents in memory and persisted, announce and scrape handlers, torrents manager, listings.
  \<^item> \<open>Tracker_Spec\<close>: a specification as a map of swarms and the locale \<open>tracker\<close>, which combines the contracts
    of repository and database and proves that the core implements the specification.
  \<^item> \<open>Tracker_Properties\<close>: the answers to announces and scrapes after every history, the exact effect of
    cleanups, the persistence of completed downloads and its loss at a restart.

  \<^bold>\<open>UDP tracker\<close> (\<open>src/servers/udp\<close>).
  \<^item> \<open>Connection_Cookie\<close>: connection identifiers that encrypt the time of issue for one client
    (\<open>connection_cookie.rs\<close>); accepted exactly by that client within their lifetime.
  \<^item> \<open>Udp_Banning\<close> and \<open>Udp_Request_Buffer\<close> (\<open>server/banning.rs\<close>, \<open>server/request_buffer.rs\<close>): the counters
    of cookie errors, and the buffer of running tasks with what it aborts and what it forgets.
  \<^item> \<open>Statistics\<close>: events, metrics and moving averages of both trackers
    (\<open>src/packages/udp_tracker_core\<close>, \<open>src/packages/http_tracker_core\<close>).
  \<^item> \<open>Udp_Handlers\<close> (\<open>handlers.rs\<close>) and \<open>Udp_Server\<close> (\<open>server/launcher.rs\<close>, \<open>server/processor.rs\<close>): the handlers
    as functions on the container, the loop with its tasks as a step relation.
  \<^item> \<open>Udp_Properties\<close>: a client that connects is served, forged packets change nothing but the counters of
    errors, scrapes answer per torrent, every request is accounted for in the statistics.

  \<^bold>\<open>Bencode\<close> (\<open>contrib/bencode\<close>). \<open>Bencode\<close>: encoding and decoding with every error; \<open>Bencode_Properties\<close>:
  decoding returns and does not panic; \<open>Bencode_Roundtrip\<close>: it inverts encoding; \<open>Bencode_Access\<close>: typed
  access, the same on decoded and on built values.

  \<^bold>\<open>HTTP tracker\<close> (\<open>packages/http-protocol\<close>, \<open>packages/tracker-client\<close>, \<open>src/servers/http\<close>).
  \<^item> \<open>Http_Query\<close>, \<open>Http_Requests\<close>, \<open>Http_Responses\<close>: queries, typed requests with their errors, the bodies of
    responses. \<open>Http_Client\<close>: the requests the client builds, which the server reads back.
  \<^item> \<open>Http_Handlers\<close>: extractors, services, handlers and routes. \<open>Http_Properties\<close>: who is served and what the
    bytes of the response say, who is refused without effect, what a private tracker reveals.
    \<open>Http_Scrape_Session\<close>: a scrape from the query of the client to what the client reads.

  \<^bold>\<open>REST API\<close> (\<open>src/servers/apis\<close>). \<open>Api_Resources\<close> and \<open>Api_Handlers\<close>: resources, handlers, access tokens and
  routes. \<open>Api_Properties\<close>: requests without a token have no effect, keys and whitelist stay in agreement
  with the database, the life of a key, the listings.

  \<^bold>\<open>Application\<close> (\<open>src/container.rs\<close>, \<open>src/bootstrap/app.rs\<close>, \<open>src/app.rs\<close>). \<open>App_Container\<close>: the shared
  container, setup, start, and the steps of the jobs. \<open>App_Properties\<close>: in every reachable state all
  services show the same swarms, memory agrees with the database where the configuration uses it, and
  only admitted announces and the cleanup job change the swarms.

  \<^bold>\<open>Concurrency.\<close> Operations of the core are atomic steps, in any order. The interleavings inside an
  operation that are modelled are the tasks of the UDP loop and the race of an announce with the cleanup
  of torrents without peers (\<open>Repository_Properties\<close>). The histories of the core and the steps of the
  application take each operation as a whole and do not show the effects of that race.

  \<^bold>\<open>Bounds and fuel.\<close> The bencode decoder takes fuel; \<open>BencodeRef_decode\<close> gives twice the length of
  the input and one, which suffices since a value and a turn of a loop take one call each and read at
  least one byte together; that it returns is proved for every input. All other functions are total without fuel. Sizes in the statements are those of
  machine integers: keys with expirations below \<open>2 ^ 63\<close> seconds, which is the range of the column;
  counters of 32 and 64 bits wrap around.

  \<^bold>\<open>Not modelled.\<close> Sockets, TLS, the start and stop of servers, signals, logging and the health check API,
  which are input, output and calls into the runtime; the channel to the listeners of the statistics,
  beyond its order; poisoned locks; the creation of tables, which is a matter of the database engine;
  serialization to JSON and TOML by libraries; the packet format of the UDP protocol, which is that of a
  library; the network clients and the console programs, which print what they receive; code for tests
  and benchmarks. At setup, reading the configuration, the check of the seed and opening the database are
  left out. Third-party crates are parameters, as described above.
\<close>

end
